(* ===== verification/Prelude.thy ===== *)
theory Prelude
  imports Main "HOL-Library.While_Combinator" "HOL-Library.Word"
begin

text \<open>
  Shared vocabulary of the development: the ways a C++ function can end (\<open>outcome\<close>), the
  world-passing computations the component models are written in (\<open>prog\<close>), and the
  calculus \<open>post\<close> in which their properties are proved.

  A computation of type \<open>('E, 'w, 'v, 'a) prog\<close> takes an environment \<open>'E\<close> (the code that
  is called and that is not modelled: the hypervisor API, the Python interpreter) and a
  world, and returns an outcome and the next world. The world is the environment's own
  state \<open>'w\<close> together with the trace of the calls made so far, each with the reply it got.
  \<open>post E m Q\<close> says that from every world the run of \<open>m\<close> against \<open>E\<close> appends a trace
  \<open>tr\<close> and ends with an outcome \<open>r\<close> such that \<open>Q r tr\<close>; the collection \<open>post_intros\<close>
  reduces a goal about a whole function to one goal per path through it.
\<close>

subsection \<open>Outcomes\<close>

datatype ub =
    Null_deref    \<comment> \<open>a member call through a COM pointer that is null\<close>
  | No_return     \<comment> \<open>control flows off the end of a function that must return a value\<close>
  | Uninit_read   \<comment> \<open>an automatic variable is read before it was written\<close>

datatype exn =
    COMError "32 word"
  | RangeError    \<comment> \<open>\<open>std::range_error\<close> of the string conversions\<close>

datatype 'a outcome =
    Ret 'a
  | Throw exn
  | Undef ub
  | Hang          \<comment> \<open>a loop of the function does not terminate\<close>

record ('w, 'v) world =
  vm :: 'w
  trace :: "'v list"

type_synonym ('E, 'w, 'v, 'a) prog = "'E \<Rightarrow> ('w, 'v) world \<Rightarrow> 'a outcome \<times> ('w, 'v) world"

subsection \<open>Computations\<close>

definition ret :: "'a \<Rightarrow> ('E, 'w, 'v, 'a) prog" where
  "ret a E w = (Ret a, w)"

definition throw :: "exn \<Rightarrow> ('E, 'w, 'v, 'a) prog" where
  "throw e E w = (Throw e, w)"

definition undef :: "ub \<Rightarrow> ('E, 'w, 'v, 'a) prog" where
  "undef u E w = (Undef u, w)"

definition hang :: "('E, 'w, 'v, 'a) prog" where
  "hang E w = (Hang, w)"

definition bnd ::
  "('E, 'w, 'v, 'a) prog \<Rightarrow> ('a \<Rightarrow> ('E, 'w, 'v, 'b) prog) \<Rightarrow> ('E, 'w, 'v, 'b) prog" where
  "bnd m f E w = (case m E w of
      (Ret a, w') \<Rightarrow> f a E w'
    | (Throw e, w') \<Rightarrow> (Throw e, w')
    | (Undef u, w') \<Rightarrow> (Undef u, w')
    | (Hang, w') \<Rightarrow> (Hang, w'))"

text \<open>Statements in sequence, then the rest of the function.\<close>

fun seqs :: "('E, 'w, 'v, unit) prog list \<Rightarrow> ('E, 'w, 'v, 'a) prog \<Rightarrow> ('E, 'w, 'v, 'a) prog" where
  "seqs [] k = k"
| "seqs (m # ms) k = bnd m (\<lambda>_. seqs ms k)"

text \<open>\<open>try { m } catch (const VBox::COMError &err) { h err }\<close>: other exceptions pass.\<close>

definition try_com ::
  "('E, 'w, 'v, 'a) prog \<Rightarrow> (32 word \<Rightarrow> ('E, 'w, 'v, 'a) prog) \<Rightarrow> ('E, 'w, 'v, 'a) prog" where
  "try_com m h E w = (case m E w of
      (Throw (COMError e), w') \<Rightarrow> h e E w'
    | (r, w') \<Rightarrow> (r, w'))"

text \<open>
  \<open>while (b s) s = c s;\<close> with an effectful body. The loop is \<open>while_option\<close>: a run that
  never ends is the outcome \<open>Hang\<close>, not a value.
\<close>

definition loop ::
  "('s \<Rightarrow> bool) \<Rightarrow> ('s \<Rightarrow> ('E, 'w, 'v, 's) prog) \<Rightarrow> 's \<Rightarrow> ('E, 'w, 'v, 's) prog" where
  "loop b c s E w =
     (case while_option
             (\<lambda>(r, w'). case r of Ret s' \<Rightarrow> b s' | _ \<Rightarrow> False)
             (\<lambda>(r, w'). case r of Ret s' \<Rightarrow> c s' E w' | _ \<Rightarrow> (r, w'))
             (Ret s, w) of
        Some (r, w') \<Rightarrow> (r, w')
      | None \<Rightarrow> (Hang, w))"

text \<open>\<open>for (x : xs) s = f x s;\<close> over a finished container.\<close>

fun each :: "'x list \<Rightarrow> 's \<Rightarrow> ('x \<Rightarrow> 's \<Rightarrow> ('E, 'w, 'v, 's) prog) \<Rightarrow> ('E, 'w, 'v, 's) prog" where
  "each [] s f = ret s"
| "each (x # xs) s f = bnd (f x s) (\<lambda>s'. each xs s' f)"

fun collect :: "'x list \<Rightarrow> ('x \<Rightarrow> ('E, 'w, 'v, 'y) prog) \<Rightarrow> ('E, 'w, 'v, 'y list) prog" where
  "collect [] f = ret []"
| "collect (x # xs) f = bnd (f x) (\<lambda>y. bnd (collect xs f) (\<lambda>ys. ret (y # ys)))"

text \<open>
  A loop over a finished container whose body may \<open>return\<close> from the function: \<open>Inl\<close> is the
  state the next iteration starts from, \<open>Inr\<close> the value returned.
\<close>

fun each_until ::
  "'x list \<Rightarrow> 's \<Rightarrow> ('x \<Rightarrow> 's \<Rightarrow> ('E, 'w, 'v, 's + 'a) prog) \<Rightarrow> ('E, 'w, 'v, 's + 'a) prog" where
  "each_until [] s f = ret (Inl s)"
| "each_until (x # xs) s f =
     bnd (f x s) (\<lambda>r. case r of Inl s' \<Rightarrow> each_until xs s' f | Inr a \<Rightarrow> ret (Inr a))"

subsection \<open>The calculus\<close>

definition post ::
  "'E \<Rightarrow> ('E, 'w, 'v, 'a) prog \<Rightarrow> ('a outcome \<Rightarrow> 'v list \<Rightarrow> bool) \<Rightarrow> bool" where
  "post E m Q \<longleftrightarrow> (\<forall>w. \<exists>tr. trace (snd (m E w)) = trace w @ tr \<and> Q (fst (m E w)) tr)"

named_theorems post_intros "rules that follow a function's paths"

lemma postI:
  "(\<And>w. \<exists>tr. trace (snd (m E w)) = trace w @ tr \<and> Q (fst (m E w)) tr) \<Longrightarrow> post E m Q"
  by (simp add: post_def)

lemma postD:
  assumes "post E m Q" and "m E w = (r, w')"
  shows "\<exists>tr. trace w' = trace w @ tr \<and> Q r tr"
  using assms unfolding post_def by (metis fst_conv snd_conv)

lemma post_mono:
  assumes "post E m P" and "\<And>r tr. P r tr \<Longrightarrow> Q r tr"
  shows "post E m Q"
  using assms unfolding post_def by blast

lemma post_conj:
  assumes "post E m P" and "post E m Q"
  shows "post E m (\<lambda>r tr. P r tr \<and> Q r tr)"
  using assms unfolding post_def by (metis same_append_eq)

lemma post_ret [post_intros]: "Q (Ret a) [] \<Longrightarrow> post E (ret a) Q"
  by (auto simp: post_def ret_def)

lemma post_throw [post_intros]: "Q (Throw e) [] \<Longrightarrow> post E (throw e) Q"
  by (auto simp: post_def throw_def)

lemma post_undef [post_intros]: "Q (Undef u) [] \<Longrightarrow> post E (undef u) Q"
  by (auto simp: post_def undef_def)

lemma post_hang [post_intros]: "Q Hang [] \<Longrightarrow> post E hang Q"
  by (auto simp: post_def hang_def)

text \<open>The continuation's trace is appended to the trace of the first part.\<close>

definition then_post ::
  "'E \<Rightarrow> ('a \<Rightarrow> ('E, 'w, 'v, 'b) prog) \<Rightarrow> ('b outcome \<Rightarrow> 'v list \<Rightarrow> bool)
     \<Rightarrow> 'a outcome \<Rightarrow> 'v list \<Rightarrow> bool" where
  "then_post E f Q r tr = (case r of
      Ret a \<Rightarrow> post E (f a) (\<lambda>r' tr'. Q r' (tr @ tr'))
    | Throw e \<Rightarrow> Q (Throw e) tr
    | Undef u \<Rightarrow> Q (Undef u) tr
    | Hang \<Rightarrow> Q Hang tr)"

lemma then_post_simps [simp]:
  "then_post E f Q (Ret a) tr = post E (f a) (\<lambda>r' tr'. Q r' (tr @ tr'))"
  "then_post E f Q (Throw e) tr = Q (Throw e) tr"
  "then_post E f Q (Undef u) tr = Q (Undef u) tr"
  "then_post E f Q Hang tr = Q Hang tr"
  by (simp_all add: then_post_def)

lemma then_post_intros [post_intros]:
  "post E (f a) (\<lambda>r' tr'. Q r' (tr @ tr')) \<Longrightarrow> then_post E f Q (Ret a) tr"
  "Q (Throw e) tr \<Longrightarrow> then_post E f Q (Throw e) tr"
  "Q (Undef u) tr \<Longrightarrow> then_post E f Q (Undef u) tr"
  "Q Hang tr \<Longrightarrow> then_post E f Q Hang tr"
  by simp_all

lemma post_bnd [post_intros]:
  assumes "post E m (then_post E f Q)"
  shows "post E (bnd m f) Q"
proof (rule postI)
  fix w
  obtain r w1 where m: "m E w = (r, w1)" by force
  from postD [OF assms m] obtain tr where
    tr: "trace w1 = trace w @ tr" and q: "then_post E f Q r tr" by blast
  show "\<exists>tr. trace (snd (bnd m f E w)) = trace w @ tr \<and> Q (fst (bnd m f E w)) tr"
  proof (cases r)
    case (Ret a)
    with q have "post E (f a) (\<lambda>r' tr'. Q r' (tr @ tr'))" by simp
    then obtain tr' where "trace (snd (f a E w1)) = trace w1 @ tr'" "Q (fst (f a E w1)) (tr @ tr')"
      unfolding post_def by blast
    with m tr Ret show ?thesis by (auto simp: bnd_def)
  qed (use m tr q in \<open>auto simp: bnd_def\<close>)
qed

lemma post_seqs_Nil [post_intros]: "post E k Q \<Longrightarrow> post E (seqs [] k) Q"
  by simp

lemma post_seqs_Cons [post_intros]:
  "post E m (then_post E (\<lambda>_. seqs ms k) Q) \<Longrightarrow> post E (seqs (m # ms) k) Q"
  by (simp add: post_bnd)

text \<open>What the handler of a \<open>try\<close> block sees.\<close>

definition catch_post ::
  "'E \<Rightarrow> (32 word \<Rightarrow> ('E, 'w, 'v, 'a) prog) \<Rightarrow> ('a outcome \<Rightarrow> 'v list \<Rightarrow> bool)
     \<Rightarrow> 'a outcome \<Rightarrow> 'v list \<Rightarrow> bool" where
  "catch_post E h Q r tr = (case r of
      Throw (COMError e) \<Rightarrow> post E (h e) (\<lambda>r' tr'. Q r' (tr @ tr'))
    | _ \<Rightarrow> Q r tr)"

lemma catch_post_simps [simp]:
  "catch_post E h Q (Throw (COMError e)) tr = post E (h e) (\<lambda>r' tr'. Q r' (tr @ tr'))"
  "catch_post E h Q (Throw RangeError) tr = Q (Throw RangeError) tr"
  "catch_post E h Q (Ret a) tr = Q (Ret a) tr"
  "catch_post E h Q (Undef u) tr = Q (Undef u) tr"
  "catch_post E h Q Hang tr = Q Hang tr"
  by (simp_all add: catch_post_def)

lemma catch_post_intros [post_intros]:
  "post E (h e) (\<lambda>r' tr'. Q r' (tr @ tr')) \<Longrightarrow> catch_post E h Q (Throw (COMError e)) tr"
  "Q (Throw RangeError) tr \<Longrightarrow> catch_post E h Q (Throw RangeError) tr"
  "Q (Ret a) tr \<Longrightarrow> catch_post E h Q (Ret a) tr"
  "Q (Undef u) tr \<Longrightarrow> catch_post E h Q (Undef u) tr"
  "Q Hang tr \<Longrightarrow> catch_post E h Q Hang tr"
  by simp_all

lemma post_try_com [post_intros]:
  assumes "post E m (catch_post E h Q)"
  shows "post E (try_com m h) Q"
proof (rule postI)
  fix w
  obtain r w1 where m: "m E w = (r, w1)" by force
  from postD [OF assms m] obtain tr where
    tr: "trace w1 = trace w @ tr" and q: "catch_post E h Q r tr" by blast
  show "\<exists>tr. trace (snd (try_com m h E w)) = trace w @ tr \<and> Q (fst (try_com m h E w)) tr"
  proof (cases "\<exists>e. r = Throw (COMError e)")
    case True
    then obtain e where r: "r = Throw (COMError e)" by blast
    with q have "post E (h e) (\<lambda>r' tr'. Q r' (tr @ tr'))" by simp
    then obtain tr' where "trace (snd (h e E w1)) = trace w1 @ tr'" "Q (fst (h e E w1)) (tr @ tr')"
      unfolding post_def by blast
    with m tr r show ?thesis by (auto simp: try_com_def)
  next
    case False
    then have "try_com m h E w = (r, w1)" and "Q r tr"
      using m q by (cases r; auto simp: try_com_def catch_post_def split: exn.splits)+
    with tr show ?thesis by simp
  qed
qed

text \<open>
  A loop keeps an invariant over the outcome of the last iteration and the trace since the
  loop was entered. Divergence is a case of its own.
\<close>

lemma post_loop:
  fixes c :: "'s \<Rightarrow> ('E, 'w, 'v, 's) prog"
  assumes init: "I (Ret s) []"
    and step: "\<And>s' tr. I (Ret s') tr \<Longrightarrow> b s' \<Longrightarrow> post E (c s') (\<lambda>r tr'. I r (tr @ tr'))"
    and fin: "\<And>r tr. I r tr \<Longrightarrow> (\<And>s'. r = Ret s' \<Longrightarrow> \<not> b s') \<Longrightarrow> Q r tr"
    and diverge: "Q Hang []"
  shows "post E (loop b c s) Q"
proof (rule postI)
  fix w :: "('w, 'v) world"
  let ?b = "\<lambda>(r, w'). case r of Ret s' \<Rightarrow> b s' | _ \<Rightarrow> False"
  let ?c = "\<lambda>(r, w'). case r of Ret s' \<Rightarrow> c s' E w' | _ \<Rightarrow> (r, w')"
  let ?P = "\<lambda>(r, w' :: ('w, 'v) world). \<exists>tr. trace w' = trace w @ tr \<and> I r tr"
  show "\<exists>tr. trace (snd (loop b c s E w)) = trace w @ tr \<and> Q (fst (loop b c s E w)) tr"
  proof (cases "while_option ?b ?c (Ret s, w)")
    case None
    then show ?thesis using diverge by (simp add: loop_def)
  next
    case (Some x)
    obtain r w' where x: "x = (r, w')" by force
    have "?P x"
    proof (rule while_option_rule [OF _ Some])
      show "?P (Ret s, w)" using init by auto
    next
      fix y assume P: "?P y" and g: "?b y"
      obtain r1 w1 where y: "y = (r1, w1)" by force
      from g y obtain s1 where r1: "r1 = Ret s1" and b: "b s1" by (auto split: outcome.splits)
      from P y r1 obtain tr where tr: "trace w1 = trace w @ tr" and I: "I (Ret s1) tr" by auto
      obtain r2 w2 where c: "c s1 E w1 = (r2, w2)" by force
      from postD [OF step [OF I b] c] tr show "?P (?c y)"
        by (auto simp: y r1 c)
    qed
    then obtain tr where tr: "trace w' = trace w @ tr" and I: "I r tr" by (auto simp: x)
    have "\<not> ?b x" by (rule while_option_stop [OF Some])
    then have "\<not> b s'" if "r = Ret s'" for s' using that by (simp add: x)
    then have "Q r tr" by (rule fin [OF I])
    with Some tr show ?thesis by (simp add: loop_def x)
  qed
qed

lemma post_each:
  assumes nil: "I [] s []"
    and step: "\<And>x zs s tr. x \<in> set xs \<Longrightarrow> I zs s tr \<Longrightarrow>
                 post E (f x s) (\<lambda>r tr'. case r of Ret s' \<Rightarrow> I (zs @ [x]) s' (tr @ tr') | _ \<Rightarrow> Q r (tr @ tr'))"
    and fin: "\<And>s tr. I xs s tr \<Longrightarrow> Q (Ret s) tr"
  shows "post E (each xs s f) Q"
proof -
  have "I zs s' tr0 \<Longrightarrow> zs @ ys = xs \<Longrightarrow> post E (each ys s' f) (\<lambda>r tr. Q r (tr0 @ tr))"
    for ys zs s' tr0
  proof (induction ys arbitrary: zs s' tr0)
    case Nil
    then show ?case by (auto intro!: post_ret fin)
  next
    case (Cons y ys)
    have "then_post E (\<lambda>s'. each ys s' f) (\<lambda>r tr. Q r (tr0 @ tr)) r tr'"
      if "case r of Ret s' \<Rightarrow> I (zs @ [y]) s' (tr0 @ tr') | _ \<Rightarrow> Q r (tr0 @ tr')" for r tr'
      using that Cons.IH [of "zs @ [y]" _ "tr0 @ tr'"] Cons.prems by (cases r) auto
    then have "post E (f y s') (then_post E (\<lambda>s'. each ys s' f) (\<lambda>r tr. Q r (tr0 @ tr)))"
      using Cons.prems by (intro post_mono [OF step [of y zs s' tr0]]) auto
    then show ?case by (simp add: post_bnd)
  qed
  from this [of "[]" s "[]" xs] nil show ?thesis by simp
qed

lemma post_collect:
  assumes nil: "I [] [] []"
    and step: "\<And>x xs ys tr. I xs ys tr \<Longrightarrow>
                 post E (f x) (\<lambda>r tr'. case r of Ret y \<Rightarrow> I (xs @ [x]) (ys @ [y]) (tr @ tr')
                    | Throw e \<Rightarrow> Q (Throw e) (tr @ tr') | Undef u \<Rightarrow> Q (Undef u) (tr @ tr')
                    | Hang \<Rightarrow> Q Hang (tr @ tr'))"
    and fin: "\<And>ys tr. I xs ys tr \<Longrightarrow> Q (Ret ys) tr"
  shows "post E (collect xs f) Q"
proof -
  have "I zs ys0 tr0 \<Longrightarrow> zs @ ws = xs \<Longrightarrow>
      post E (collect ws f) (\<lambda>r tr. case r of Ret ys \<Rightarrow> Q (Ret (ys0 @ ys)) (tr0 @ tr)
        | Throw e \<Rightarrow> Q (Throw e) (tr0 @ tr) | Undef u \<Rightarrow> Q (Undef u) (tr0 @ tr)
        | Hang \<Rightarrow> Q Hang (tr0 @ tr))" for ws zs ys0 tr0
  proof (induction ws arbitrary: zs ys0 tr0)
    case Nil
    then show ?case by (auto intro!: post_ret fin)
  next
    case (Cons w ws)
    let ?P = "\<lambda>r tr. case r of Ret ys \<Rightarrow> Q (Ret (ys0 @ ys)) (tr0 @ tr)
        | Throw e \<Rightarrow> Q (Throw e) (tr0 @ tr) | Undef u \<Rightarrow> Q (Undef u) (tr0 @ tr)
        | Hang \<Rightarrow> Q Hang (tr0 @ tr)"
    have rest: "then_post E (\<lambda>ys. ret (y # ys)) (\<lambda>r' tr'. ?P r' (tr1 @ tr')) r tr"
      if "case r of Ret ys \<Rightarrow> Q (Ret ((ys0 @ [y]) @ ys)) ((tr0 @ tr1) @ tr)
        | Throw e \<Rightarrow> Q (Throw e) ((tr0 @ tr1) @ tr) | Undef u \<Rightarrow> Q (Undef u) ((tr0 @ tr1) @ tr)
        | Hang \<Rightarrow> Q Hang ((tr0 @ tr1) @ tr)" for r tr tr1 y
      using that by (cases r) (auto intro!: post_ret)
    have "then_post E (\<lambda>y. bnd (collect ws f) (\<lambda>ys. ret (y # ys))) ?P r tr1"
      if "case r of Ret y \<Rightarrow> I (zs @ [w]) (ys0 @ [y]) (tr0 @ tr1)
                    | Throw e \<Rightarrow> Q (Throw e) (tr0 @ tr1) | Undef u \<Rightarrow> Q (Undef u) (tr0 @ tr1)
                    | Hang \<Rightarrow> Q Hang (tr0 @ tr1)" for r tr1
    proof (cases r)
      case (Ret y)
      with that have "I (zs @ [w]) (ys0 @ [y]) (tr0 @ tr1)" by simp
      from Cons.IH [OF this] Cons.prems(2) rest show ?thesis
        by (auto simp: Ret intro!: post_bnd elim!: post_mono)
    qed (use that in auto)
    then show ?case
      using step [OF Cons.prems(1), of w] by (auto intro!: post_bnd elim!: post_mono)
  qed
  from this [OF nil, of xs] show ?thesis
    by (rule post_mono) (simp_all split: outcome.splits)
qed

lemma post_each_until:
  assumes nil: "I s []"
    and step: "\<And>x s tr. x \<in> set xs \<Longrightarrow> I s tr \<Longrightarrow>
                 post E (f x s) (\<lambda>r tr'. case r of Ret (Inl s') \<Rightarrow> I s' (tr @ tr') | _ \<Rightarrow> Q r (tr @ tr'))"
    and fin: "\<And>s tr. I s tr \<Longrightarrow> Q (Ret (Inl s)) tr"
  shows "post E (each_until xs s f) Q"
proof -
  have "I s' tr0 \<Longrightarrow> set ys \<subseteq> set xs \<Longrightarrow> post E (each_until ys s' f) (\<lambda>r tr. Q r (tr0 @ tr))"
    for ys s' tr0
  proof (induction ys arbitrary: s' tr0)
    case Nil
    then show ?case by (auto intro!: post_ret fin)
  next
    case (Cons y ys)
    let ?k = "\<lambda>r. case r of Inl s' \<Rightarrow> each_until ys s' f | Inr a \<Rightarrow> ret (Inr a)"
    have "then_post E ?k (\<lambda>r tr. Q r (tr0 @ tr)) r tr'"
      if "case r of Ret (Inl s') \<Rightarrow> I s' (tr0 @ tr') | _ \<Rightarrow> Q r (tr0 @ tr')" for r tr'
    proof (cases r)
      case (Ret v)
      with that Cons.IH [of _ "tr0 @ tr'"] Cons.prems show ?thesis
        by (cases v) (auto intro!: post_ret)
    qed (use that in auto)
    then have "post E (f y s') (then_post E ?k (\<lambda>r tr. Q r (tr0 @ tr)))"
      using Cons.prems by (intro post_mono [OF step [of y s' tr0]]) auto
    then show ?case by (simp add: post_bnd)
  qed
  from this [of s "[]" xs] nil show ?thesis by simp
qed

text \<open>A case distinction on a value that is already known.\<close>

lemma post_cases [post_intros]:
  "post E (f a) Q \<Longrightarrow> post E (case Inl a of Inl x \<Rightarrow> f x | Inr y \<Rightarrow> g y) Q"
  "post E (g b) Q \<Longrightarrow> post E (case Inr b of Inl x \<Rightarrow> f x | Inr y \<Rightarrow> g y) Q"
  "post E m Q \<Longrightarrow> post E (case None of None \<Rightarrow> m | Some z \<Rightarrow> h z) Q"
  "post E (h c) Q \<Longrightarrow> post E (case Some c of None \<Rightarrow> m | Some z \<Rightarrow> h z) Q"
  "post E (k a' b') Q \<Longrightarrow> post E (case (a', b') of (u, v) \<Rightarrow> k u v) Q"
  by simp_all

lemma post_if [post_intros]:
  "(c \<Longrightarrow> post E m Q) \<Longrightarrow> (\<not> c \<Longrightarrow> post E n Q) \<Longrightarrow> post E (if c then m else n) Q"
  by simp

text \<open>Two generic consequences used by the components.\<close>

lemma post_run:
  assumes "post E m Q" and "m E w = (r, w')" and "trace w = []"
  shows "Q r (trace w')"
  using postD [OF assms(1,2)] assms(3) by auto

subsection \<open>Total runs\<close>

text \<open>
  \<open>sure E m P\<close>: from every world \<open>m\<close> returns, with a value in \<open>P\<close>. It states that an
  operation succeeds when the environment does its part.
\<close>

definition sure :: "'E \<Rightarrow> ('E, 'w, 'v, 'a) prog \<Rightarrow> ('a \<Rightarrow> bool) \<Rightarrow> bool" where
  "sure E m P \<longleftrightarrow> (\<forall>w. \<exists>a w'. m E w = (Ret a, w') \<and> P a)"

named_theorems sure_intros "rules for runs that return"

lemma sureD: "sure E m P \<Longrightarrow> \<exists>a w'. m E w = (Ret a, w') \<and> P a"
  by (simp add: sure_def)

lemma sure_ret [sure_intros]: "P a \<Longrightarrow> sure E (ret a) P"
  by (simp add: sure_def ret_def)

lemma sure_bnd [sure_intros]: "sure E m (\<lambda>a. sure E (f a) P) \<Longrightarrow> sure E (bnd m f) P"
  unfolding sure_def
proof
  fix w :: "('b, 'c) world"
  assume "\<forall>w. \<exists>a w'. m E w = (Ret a, w') \<and> (\<forall>w. \<exists>b w'. f a E w = (Ret b, w') \<and> P b)"
  then obtain a w1 where "m E w = (Ret a, w1)" "\<forall>w. \<exists>b w'. f a E w = (Ret b, w') \<and> P b" by blast
  then show "\<exists>b w'. bnd m f E w = (Ret b, w') \<and> P b" by (simp add: bnd_def)
qed

lemma sure_seqs [sure_intros]:
  "sure E k P \<Longrightarrow> sure E (seqs [] k) P"
  "sure E m (\<lambda>_. sure E (seqs ms k) P) \<Longrightarrow> sure E (seqs (m # ms) k) P"
  by (simp_all add: sure_bnd)

lemma sure_if [sure_intros]:
  "(c \<Longrightarrow> sure E m P) \<Longrightarrow> (\<not> c \<Longrightarrow> sure E n P) \<Longrightarrow> sure E (if c then m else n) P"
  by simp

lemma sure_try_com [sure_intros]: "sure E m P \<Longrightarrow> sure E (try_com m h) P"
  unfolding sure_def
proof
  fix w :: "('b, 'c) world"
  assume "\<forall>w. \<exists>a w'. m E w = (Ret a, w') \<and> P a"
  then obtain a w1 where "m E w = (Ret a, w1)" "P a" by blast
  then show "\<exists>a w'. try_com m h E w = (Ret a, w') \<and> P a" by (simp add: try_com_def)
qed

text \<open>The same for a run that ends in another way than by returning.\<close>

definition ends :: "'E \<Rightarrow> ('E, 'w, 'v, 'a) prog \<Rightarrow> 'a outcome \<Rightarrow> bool" where
  "ends E m r \<longleftrightarrow> (\<forall>w. fst (m E w) = r)"

lemma endsD: "ends E m r \<Longrightarrow> fst (m E w) = r"
  by (simp add: ends_def)

lemma ends_undef [sure_intros]: "ends E (undef u) (Undef u)"
  by (simp add: ends_def undef_def)

lemma ends_bnd [sure_intros]: "sure E m (\<lambda>a. ends E (f a) r) \<Longrightarrow> ends E (bnd m f) r"
  unfolding ends_def
proof
  fix w :: "('b, 'c) world"
  assume "sure E m (\<lambda>a. \<forall>w. fst (f a E w) = r)"
  then obtain a w1 where "m E w = (Ret a, w1)" "\<forall>w. fst (f a E w) = r"
    unfolding sure_def by blast
  then show "fst (bnd m f E w) = r" by (simp add: bnd_def)
qed

lemma ends_seqs [sure_intros]:
  "ends E k r \<Longrightarrow> ends E (seqs [] k) r"
  "sure E m (\<lambda>_. ends E (seqs ms k) r) \<Longrightarrow> ends E (seqs (m # ms) k) r"
  by (simp_all add: ends_bnd)

lemma ends_if [sure_intros]:
  "(c \<Longrightarrow> ends E m r) \<Longrightarrow> (\<not> c \<Longrightarrow> ends E n r) \<Longrightarrow> ends E (if c then m else n) r"
  by simp

lemma ends_sure: "sure E m (\<lambda>a. a = b) \<Longrightarrow> ends E m (Ret b)"
  unfolding sure_def ends_def by (metis fst_conv)

lemma bnd_ret_left [simp]: "bnd (ret a) f = f a"
  by (rule ext, rule ext) (simp add: bnd_def ret_def)

lemma bnd_undef_left [simp]: "bnd (undef u) f = undef u"
  by (rule ext, rule ext) (simp add: bnd_def undef_def)

lemma bnd_throw_left [simp]: "bnd (throw e) f = throw e"
  by (rule ext, rule ext) (simp add: bnd_def throw_def)

lemma bnd_ret_right [simp]: "bnd m ret = m"
  by (rule ext, rule ext) (auto simp: bnd_def ret_def split: prod.splits outcome.splits)

lemma bnd_assoc: "bnd (bnd m f) g = bnd m (\<lambda>x. bnd (f x) g)"
  by (rule ext, rule ext) (simp add: bnd_def split: prod.splits outcome.splits)

end
