(* ===== verification/Text_Code.thy ===== *)
theory Text_Code
  imports Prelude
begin

text \<open>
  The string conversions of \<open>vca_toCode\<close> (source/vca_toCode.cpp): UTF-8 byte strings to
  and from UTF-16 and UTF-32 by way of code points. \<open>std::wstring_convert\<close> without an
  error string throws \<open>std::range_error\<close> on malformed input; here that is \<open>None\<close>. Byte
  strings are \<open>string\<close> (a \<open>char\<close> is a byte), UTF-16 strings are lists of 16-bit words,
  UTF-32 strings lists of 32-bit words. The lemmas show that each pair of conversions
  round-trips and that \<open>to_utf16\<close> is injective, so no two machine names are confused.
\<close>

type_synonym u16string = "16 word list"
type_synonym u32string = "32 word list"

subsection \<open>Code points\<close>

definition scalar :: "nat \<Rightarrow> bool" where
  \<comment> \<open>a Unicode scalar value\<close>
  "scalar c \<longleftrightarrow> c < 55296 \<or> (57344 \<le> c \<and> c < 1114112)"

definition cont :: "nat \<Rightarrow> bool" where
  "cont b \<longleftrightarrow> 128 \<le> b \<and> b < 192"

definition add6 :: "nat \<Rightarrow> nat \<Rightarrow> nat" where
  \<comment> \<open>a continuation byte contributes its six low bits\<close>
  "add6 x b = x * 64 + (b - 128)"

definition utf8_next :: "nat list \<Rightarrow> (nat \<times> nat list) option" where
  \<comment> \<open>the first code point of a byte sequence, and the bytes after it\<close>
  "utf8_next bs = (case bs of
      [] \<Rightarrow> None
    | a # r \<Rightarrow>
       if a < 128 then Some (a, r)
       else if a < 194 then None
       else if a < 224 then
         (case r of b # r1 \<Rightarrow>
              if cont b then Some (add6 (a - 192) b, r1) else None
          | _ \<Rightarrow> None)
       else if a < 240 then
         (case r of b # c # r2 \<Rightarrow>
              let x = add6 (add6 (a - 224) b) c in
              if cont b \<and> cont c \<and> 2048 \<le> x \<and> scalar x then Some (x, r2) else None
          | _ \<Rightarrow> None)
       else if a < 245 then
         (case r of b # c # d # r3 \<Rightarrow>
              let x = add6 (add6 (add6 (a - 240) b) c) d in
              if cont b \<and> cont c \<and> cont d \<and> 65536 \<le> x \<and> scalar x then Some (x, r3) else None
          | _ \<Rightarrow> None)
       else None)"

lemma utf8_next_shorter: "utf8_next bs = Some (x, r) \<Longrightarrow> length r < length bs"
  by (auto simp: utf8_next_def Let_def split: list.splits if_splits)

function utf8_decode :: "nat list \<Rightarrow> nat list option" where
  "utf8_decode bs =
     (if bs = [] then Some []
      else (case utf8_next bs of
              None \<Rightarrow> None
            | Some (x, r) \<Rightarrow> map_option ((#) x) (utf8_decode r)))"
  by pat_completeness auto
termination
  by (relation "measure length") (auto dest: utf8_next_shorter)

declare utf8_decode.simps [simp del]

definition utf8_encode1 :: "nat \<Rightarrow> nat list" where
  "utf8_encode1 x =
     (if x < 128 then [x]
      else if x < 2048 then [192 + x div 64, 128 + x mod 64]
      else if x < 65536 then [224 + x div 64 div 64, 128 + x div 64 mod 64, 128 + x mod 64]
      else [240 + x div 64 div 64 div 64, 128 + x div 64 div 64 mod 64, 128 + x div 64 mod 64, 128 + x mod 64])"

definition utf8_encode :: "nat list \<Rightarrow> nat list" where
  "utf8_encode xs = concat (map utf8_encode1 xs)"

definition utf16_encode1 :: "nat \<Rightarrow> nat list" where
  "utf16_encode1 x =
     (if x < 65536 then [x]
      else [55296 + (x - 65536) div 1024, 56320 + (x - 65536) mod 1024])"

definition utf16_encode :: "nat list \<Rightarrow> nat list" where
  "utf16_encode xs = concat (map utf16_encode1 xs)"

fun utf16_decode :: "nat list \<Rightarrow> nat list option" where
  "utf16_decode [] = Some []"
| "utf16_decode (a # us) =
     (if scalar a then map_option ((#) a) (utf16_decode us)
      else if a < 56320 then
        (case us of b # r \<Rightarrow>
             if 56320 \<le> b \<and> b < 57344
             then map_option ((#) (65536 + (a - 55296) * 1024 + (b - 56320))) (utf16_decode r)
             else None
         | _ \<Rightarrow> None)
      else None)"

subsection \<open>The conversions of the class\<close>

definition bytes :: "string \<Rightarrow> nat list" where
  "bytes s = map of_char s"

definition chars :: "nat list \<Rightarrow> string" where
  "chars bs = map char_of bs"

definition to_utf16 :: "string \<Rightarrow> u16string option" where
  "to_utf16 s = map_option (\<lambda>xs. map of_nat (utf16_encode xs)) (utf8_decode (bytes s))"

definition to_utf8 :: "u16string \<Rightarrow> string option" where
  "to_utf8 u = map_option (\<lambda>xs. chars (utf8_encode xs)) (utf16_decode (map unat u))"

definition to_utf32 :: "string \<Rightarrow> u32string option" where
  "to_utf32 s = map_option (map of_nat) (utf8_decode (bytes s))"

definition utf32_to_utf8 :: "u32string \<Rightarrow> string option" where
  "utf32_to_utf8 u =
     (if list_all (\<lambda>x. scalar (unat x)) u then Some (chars (utf8_encode (map unat u))) else None)"

text \<open>
  \<open>to_wchar_t\<close> and \<open>to_utf8(std::wstring)\<close>: \<open>wchar_t\<close> has 32 bits on the platforms the
  build supports, so they are the UTF-32 conversions at another type.
\<close>

definition to_wchar_t :: "string \<Rightarrow> u32string option" where
  "to_wchar_t s = map_option (map of_nat) (utf8_decode (bytes s))"

definition wide_to_utf8 :: "u32string \<Rightarrow> string option" where
  "wide_to_utf8 w = utf32_to_utf8 w"

text \<open>
  \<open>VBox::utf16ToWide\<close> and \<open>VBox::wideToUtf16\<close> of libvbox, which never fail: the first
  substitutes U+FFFD for what it cannot pair, the second splits a value into two units
  without subtracting 0x10000 first.
\<close>

fun utf16_to_wide :: "nat list \<Rightarrow> nat list" where
  "utf16_to_wide [] = []"
| "utf16_to_wide [a] = (if 55296 \<le> a \<and> a < 57344 then [65533] else [a])"
| "utf16_to_wide (a # b # r) =
     (if 55296 \<le> a \<and> a < 56320 then
        (if 56320 \<le> b \<and> b < 57344 then 65536 + a mod 1024 * 1024 + b mod 1024 else 65533)
          # utf16_to_wide r
      else if 56320 \<le> a \<and> a < 57344 then
        (if 55296 \<le> b \<and> b < 56320 then 65536 + a mod 1024 + b mod 1024 * 1024 else 65533)
          # utf16_to_wide r
      else a # utf16_to_wide (b # r))"

definition utf16ToWide :: "u16string \<Rightarrow> u32string" where
  "utf16ToWide u = map of_nat (utf16_to_wide (map unat u))"

definition wide_unit :: "nat \<Rightarrow> nat list" where
  "wide_unit x =
     (if x < 65536 then [x] else [55296 + x div 1024 mod 1024, 56320 + x mod 1024])"

definition wideToUtf16 :: "u32string \<Rightarrow> u16string" where
  "wideToUtf16 w = map of_nat (concat (map (\<lambda>x. wide_unit (unat x)) w))"

text \<open>A UTF-16 literal \<open>u"..."\<close> of ASCII characters.\<close>

definition u16 :: "string \<Rightarrow> u16string" where
  "u16 s = map of_char s"

subsection \<open>Decoding inverts encoding and back\<close>

lemma scalar_lt: "scalar x \<Longrightarrow> x < 1114112"
  by (auto simp: scalar_def)

lemma utf16_decode_encode1:
  "scalar x \<Longrightarrow> utf16_decode (utf16_encode1 x @ us) = map_option ((#) x) (utf16_decode us)"
  by (auto simp: utf16_encode1_def scalar_def)

lemma utf16_decode_encode:
  "list_all scalar xs \<Longrightarrow> utf16_decode (utf16_encode xs) = Some xs"
  by (induction xs) (simp_all add: utf16_encode_def utf16_decode_encode1)

lemma utf16_decode_scalar:
  "utf16_decode us = Some xs \<Longrightarrow> (\<And>u. u \<in> set us \<Longrightarrow> u < 65536) \<Longrightarrow> list_all scalar xs"
proof (induction us arbitrary: xs rule: utf16_decode.induct)
  case (2 a us)
  then show ?case
    by (auto simp: scalar_def split: if_splits list.splits)
qed simp

lemma utf16_encode_bounded:
  "list_all scalar xs \<Longrightarrow> u \<in> set (utf16_encode xs) \<Longrightarrow> u < 65536"
  by (induction xs)
     (auto simp: utf16_encode_def utf16_encode1_def scalar_def split: if_splits)

text \<open>The encoder reproduces exactly the bytes the decoder consumed.\<close>

lemma cont_obtain:
  assumes "cont b"
  obtains j where "b = 128 + j" and "j < 64"
proof (rule that [of "b - 128"])
  show "b = 128 + (b - 128)" and "b - 128 < 64" using assms by (auto simp: cont_def)
qed

lemma from_obtain:
  assumes "(k::nat) \<le> a"
  obtains i where "a = k + i"
  using assms nat_le_iff_add by auto

lemma digits64 [simp]:
  fixes i j :: nat
  assumes "j < 64"
  shows "(i * 64 + j) div 64 = i" and "(i * 64 + j) mod 64 = j"
proof -
  have "(i * 64 + j) div 64 = i + j div 64" by simp
  then show "(i * 64 + j) div 64 = i" using assms by simp
  have "(i * 64 + j) mod 64 = j mod 64" by simp
  then show "(i * 64 + j) mod 64 = j" using assms by simp
qed

lemma encode_two:
  assumes a: "194 \<le> a" "a < 224" and b: "cont b"
  shows "utf8_encode1 (add6 (a - 192) b) = [a, b]"
proof -
  from a have "192 \<le> a" by simp
  then obtain i where i: "a = 192 + i" by (rule from_obtain)
  obtain j where j: "b = 128 + j" "j < 64" using b by (rule cont_obtain)
  have "\<not> i * 64 + j < 128" and "i * 64 + j < 2048" using a i j by simp_all
  then have "utf8_encode1 (i * 64 + j) = [192 + (i * 64 + j) div 64, 128 + (i * 64 + j) mod 64]"
    unfolding utf8_encode1_def by simp
  then show ?thesis using i j by (simp add: add6_def)
qed

lemma encode_three:
  assumes a: "224 \<le> a" "a < 240" and b: "cont b" and c: "cont c"
    and x: "2048 \<le> add6 (add6 (a - 224) b) c"
  shows "utf8_encode1 (add6 (add6 (a - 224) b) c) = [a, b, c]"
proof -
  obtain i where i: "a = 224 + i" using a(1) by (rule from_obtain)
  obtain j where j: "b = 128 + j" "j < 64" using b by (rule cont_obtain)
  obtain k where k: "c = 128 + k" "k < 64" using c by (rule cont_obtain)
  define x where "x = (i * 64 + j) * 64 + k"
  have "x div 64 = i * 64 + j" "x mod 64 = k" unfolding x_def by (rule digits64 [OF k(2)])+
  moreover have "2048 \<le> x" "x < 65536" using a i j k x by (simp_all add: x_def add6_def)
  ultimately have "utf8_encode1 x = [224 + i, 128 + j, 128 + k]"
    using j unfolding utf8_encode1_def by (simp only: digits64) simp
  then show ?thesis using i j k by (simp add: x_def add6_def)
qed

lemma encode_four:
  assumes a: "240 \<le> a" and b: "cont b" and c: "cont c" and d: "cont d"
    and x: "65536 \<le> add6 (add6 (add6 (a - 240) b) c) d"
  shows "utf8_encode1 (add6 (add6 (add6 (a - 240) b) c) d) = [a, b, c, d]"
proof -
  obtain i where i: "a = 240 + i" using a(1) by (rule from_obtain)
  obtain j where j: "b = 128 + j" "j < 64" using b by (rule cont_obtain)
  obtain k where k: "c = 128 + k" "k < 64" using c by (rule cont_obtain)
  obtain l where l: "d = 128 + l" "l < 64" using d by (rule cont_obtain)
  define y where "y = (i * 64 + j) * 64 + k"
  define x where "x = y * 64 + l"
  have xy: "x div 64 = y" "x mod 64 = l" unfolding x_def by (rule digits64 [OF l(2)])+
  have yi: "y div 64 = i * 64 + j" "y mod 64 = k" unfolding y_def by (rule digits64 [OF k(2)])+
  have "65536 \<le> x" using i j k l assms(5) by (simp add: x_def y_def add6_def)
  then have "utf8_encode1 x = [240 + i, 128 + j, 128 + k, 128 + l]"
    using j unfolding utf8_encode1_def by (simp only: xy yi digits64) simp
  then show ?thesis using i j k l by (simp add: x_def y_def add6_def)
qed

lemma utf8_encode_ascii: "a < 128 \<Longrightarrow> utf8_encode1 a = [a]"
  by (simp add: utf8_encode1_def)

lemma utf8_next_encode1:
  assumes "utf8_next bs = Some (x, r)"
  shows "utf8_encode1 x @ r = bs"
  using assms
  by (auto simp: utf8_next_def Let_def utf8_encode_ascii encode_two encode_three encode_four
           split: list.splits if_splits)

lemma utf8_next_scalar:
  assumes "utf8_next bs = Some (x, r)"
  shows "scalar x"
proof -
  have two: "scalar (add6 (a - 192) b)" if "a < 224" "cont b" for a b :: nat
  proof -
    from that have "(a - 192) * 64 \<le> 31 * 64" "b - 128 < 64" by (auto simp: cont_def)
    then have "(a - 192) * 64 + (b - 128) < 55296" by linarith
    then show ?thesis by (simp add: scalar_def add6_def)
  qed
  have one: "scalar a" if "a < 128" for a using that by (simp add: scalar_def)
  show ?thesis using assms
    by (auto simp: utf8_next_def Let_def one two split: list.splits if_splits)
qed

lemma utf8_encode_decode:
  "utf8_decode bs = Some xs \<Longrightarrow> utf8_encode xs = bs \<and> list_all scalar xs"
proof (induction bs arbitrary: xs rule: utf8_decode.induct)
  case (1 bs)
  show ?case
  proof (cases "bs = []")
    case True
    with "1.prems" show ?thesis by (simp add: utf8_decode.simps [of "[]"] utf8_encode_def)
  next
    case False
    with "1.prems" obtain x r ys where n: "utf8_next bs = Some (x, r)"
        and d: "utf8_decode r = Some ys" and xs: "xs = x # ys"
      by (auto simp: utf8_decode.simps [of bs] split: option.splits)
    from "1.IH" [OF False n refl d] have "utf8_encode ys = r \<and> list_all scalar ys" .
    with utf8_next_encode1 [OF n] utf8_next_scalar [OF n] xs show ?thesis
      by (simp add: utf8_encode_def)
  qed
qed

subsection \<open>Round trips\<close>

lemma chars_bytes [simp]: "chars (bytes s) = s"
  by (simp add: chars_def bytes_def o_def)

lemma map_unat_of_nat16:
  "(\<And>u. u \<in> set us \<Longrightarrow> u < 65536) \<Longrightarrow> map unat (map of_nat us :: u16string) = us"
  by (induction us) (auto simp: unat_of_nat take_bit_nat_eq_self)

lemma utf16_roundtrip: "to_utf16 s = Some u \<Longrightarrow> to_utf8 u = Some s"
proof -
  assume "to_utf16 s = Some u"
  then obtain xs where xs: "utf8_decode (bytes s) = Some xs"
      and u: "u = map of_nat (utf16_encode xs)" by (auto simp: to_utf16_def)
  from utf8_encode_decode [OF xs] have e: "utf8_encode xs = bytes s" and sc: "list_all scalar xs"
    by simp_all
  have "map unat u = utf16_encode xs"
    unfolding u by (rule map_unat_of_nat16) (use sc utf16_encode_bounded in blast)
  with sc e show ?thesis by (simp add: to_utf8_def utf16_decode_encode)
qed

text \<open>Well-formed UTF-16 texts can be put together before they are converted.\<close>

lemma utf16_decode_append:
  "utf16_decode us = Some xs \<Longrightarrow> utf16_decode vs = Some ys \<Longrightarrow> utf16_decode (us @ vs) = Some (xs @ ys)"
  by (induction us arbitrary: xs rule: utf16_decode.induct) (auto split: if_splits list.splits)

lemma to_utf8_append:
  "to_utf8 u = Some s \<Longrightarrow> to_utf8 v = Some t \<Longrightarrow> to_utf8 (u @ v) = Some (s @ t)"
  by (auto simp: to_utf8_def utf16_decode_append utf8_encode_def chars_def)

text \<open>ASCII strings are converted unit by unit.\<close>

lemma utf8_decode_ascii: "list_all (\<lambda>b. b < 128) bs \<Longrightarrow> utf8_decode bs = Some bs"
  by (induction bs) (simp_all add: utf8_decode.simps utf8_next_def)

lemma to_utf16_ascii:
  assumes "list_all (\<lambda>c. (of_char c :: nat) < 128) s"
  shows "to_utf16 s = Some (u16 s)"
proof -
  have "utf8_decode (bytes s) = Some (bytes s)"
    using assms by (intro utf8_decode_ascii) (simp add: bytes_def list.pred_map o_def)
  moreover have "utf16_encode (bytes s) = bytes s"
    using assms by (induction s) (simp_all add: bytes_def utf16_encode_def utf16_encode1_def)
  ultimately show ?thesis by (simp add: to_utf16_def u16_def bytes_def of_nat_of_char)
qed

lemma to_utf8_ascii: "list_all (\<lambda>c. (of_char c :: nat) < 128) s \<Longrightarrow> to_utf8 (u16 s) = Some s"
  by (rule utf16_roundtrip [OF to_utf16_ascii])

lemma utf32_roundtrip: "to_utf32 s = Some u \<Longrightarrow> utf32_to_utf8 u = Some s"
proof -
  assume "to_utf32 s = Some u"
  then obtain xs where xs: "utf8_decode (bytes s) = Some xs" and u: "u = map of_nat xs"
    by (auto simp: to_utf32_def)
  from utf8_encode_decode [OF xs] have e: "utf8_encode xs = bytes s" and sc: "list_all scalar xs"
    by simp_all
  have "unat (of_nat x :: 32 word) = x" if "x \<in> set xs" for x
    using that sc by (auto simp: list_all_iff unat_of_nat take_bit_nat_eq_self dest!: scalar_lt bspec)
  then have "map unat u = xs" and "list_all (\<lambda>x. scalar (unat x)) u"
    using sc by (auto simp: u list_all_iff map_idI)
  with e show ?thesis by (simp add: utf32_to_utf8_def)
qed

lemma utf16_to_wide_decode:
  "utf16_decode us = Some xs \<Longrightarrow> (\<And>u. u \<in> set us \<Longrightarrow> u < 65536) \<Longrightarrow> utf16_to_wide us = xs"
proof (induction us arbitrary: xs rule: utf16_to_wide.induct)
  case (2 a)
  then show ?case by (auto simp: scalar_def split: if_splits)
next
  case (3 a b r)
  have shift: "(j + k * 1024) mod 1024 = j" if "j < 1024" for j k :: nat
    using that by simp
  have m: "x mod 1024 = x - 55296" if "55296 \<le> x" "x < 56320" for x :: nat
    using that shift [of "x - 55296" 54] by simp
  have n: "x mod 1024 = x - 56320" if "56320 \<le> x" "x < 57344" for x :: nat
    using that shift [of "x - 56320" 55] by simp
  from 3 show ?case
    by (auto simp: scalar_def m n split: if_splits)
qed simp

text \<open>On well-formed names the wide conversion loses nothing.\<close>

lemma wide_to_utf8_of_utf16:
  assumes "to_utf8 u = Some s"
  shows "wide_to_utf8 (utf16ToWide u) = Some s"
proof -
  from assms obtain xs where xs: "utf16_decode (map unat u) = Some xs"
      and s: "s = chars (utf8_encode xs)" by (auto simp: to_utf8_def)
  have lt: "unat x < 65536" for x :: "16 word" using unsigned_less [of x, where 'a = nat] by simp
  then have wide: "utf16_to_wide (map unat u) = xs"
    by (intro utf16_to_wide_decode [OF xs]) (auto simp: lt)
  have sc: "list_all scalar xs" by (rule utf16_decode_scalar [OF xs]) (auto simp: lt)
  have w32: "unat (of_nat x :: 32 word) = x" if "x \<in> set xs" for x
    using that sc by (auto simp: list_all_iff unat_of_nat take_bit_nat_eq_self dest!: scalar_lt bspec)
  then have "map unat (utf16ToWide u) = xs"
    by (simp add: utf16ToWide_def wide map_idI w32)
  moreover have "list_all (\<lambda>x. scalar (unat x)) (utf16ToWide u)"
    using sc by (simp add: utf16ToWide_def wide list_all_iff w32)
  ultimately show ?thesis by (simp add: wide_to_utf8_def utf32_to_utf8_def s)
qed

text \<open>\<open>wideToUtf16\<close> is not an inverse of \<open>utf16ToWide\<close> beyond the basic plane.\<close>

lemma wideToUtf16_wrong:
  "utf16ToWide (wideToUtf16 [65536]) = [131072]"
  by (simp add: utf16ToWide_def wideToUtf16_def wide_unit_def)

subsection \<open>The contract of a pair of conversions\<close>

locale text_codec =
  fixes enc :: "string \<Rightarrow> 'u option" and dec :: "'u \<Rightarrow> string option"
  assumes round: "enc s = Some u \<Longrightarrow> dec u = Some s"
begin

lemma enc_inj:
  assumes "enc s = Some u" and "enc t = Some u"
  shows "s = t"
  using round [OF assms(1)] round [OF assms(2)] by simp

lemma enc_total_dec: "enc s \<noteq> None \<Longrightarrow> Option.bind (enc s) dec = Some s"
  by (auto dest: round)

end

interpretation utf16: text_codec to_utf16 to_utf8
  by unfold_locales (rule utf16_roundtrip)

interpretation utf32: text_codec to_utf32 utf32_to_utf8
  by unfold_locales (rule utf32_roundtrip)

interpretation wide: text_codec to_wchar_t wide_to_utf8
  by unfold_locales (simp add: to_wchar_t_def wide_to_utf8_def utf32.round to_utf32_def)

subsection \<open>C strings\<close>

definition c_str :: "string \<Rightarrow> string" where
  \<comment> \<open>what \<open>strcmp\<close> sees of a \<open>std::string\<close>\<close>
  "c_str s = takeWhile (\<lambda>c. c \<noteq> CHR 0x00) s"

definition strcmp_eq :: "string \<Rightarrow> string \<Rightarrow> bool" where
  "strcmp_eq a b \<longleftrightarrow> c_str a = c_str b"

subsection \<open>Properties\<close>

text \<open>C36. A byte string that \<open>to_utf16\<close> accepts is recovered by \<open>to_utf8\<close>, and two byte strings
  with the same UTF-16 form are equal: no two machine names are confused on the way to the
  hypervisor.\<close>

theorem names_not_confused:
  assumes "to_utf16 s = Some u"
  shows "to_utf8 u = Some s \<and> (to_utf16 t = Some u \<longrightarrow> t = s)"
  using assms utf16_roundtrip [OF assms] utf16_roundtrip [of t u] by auto

theorem names_not_confused_witness: "to_utf8 (u16 ''vm'') = Some ''vm''"
  using names_not_confused [OF to_utf16_ascii, of "''vm''"] by simp

text \<open>C37. The two routes from the hypervisor's text to UTF-8 agree on every name the code can have
  set: through wide characters, as \<open>listVMs\<close> reads names, and directly, as \<open>getVmInfo\<close> does.\<close>

theorem wide_detour:
  assumes "to_utf16 s = Some u"
  shows "wide_to_utf8 (utf16ToWide u) = to_utf8 u"
  using utf16_roundtrip [OF assms] wide_to_utf8_of_utf16 [of u s] by simp

theorem wide_detour_witness: "wide_to_utf8 (utf16ToWide (u16 ''vm'')) = to_utf8 (u16 ''vm'')"
  by (rule wide_detour [OF to_utf16_ascii, of "''vm''"]) simp

end
