(* ===== verification/Com_Error.thy ===== *)
theory Com_Error
  imports Text_Code
begin

text \<open>
  How libvbox turns the result code of a COM call into an exception (libvbox_errors.h,
  lib/errorwrap.cpp, \<open>COM_ERROR_CHECK\<close> of lib/libvbox_p.h): a code with its top bit set is
  thrown, as a class of its own when it is one of the listed codes. All classes derive from
  \<open>COMError\<close> and differ in the text of \<open>what()\<close> only, so a model throws the code; the text
  is computed here. The lemmas show that the text is never cut off by its buffer and that
  the code can be read back from it.
\<close>

definition com_failed :: "32 word \<Rightarrow> bool" where
  \<comment> \<open>\<open>NS_FAILED(rc)\<close>\<close>
  "com_failed rc \<longleftrightarrow> bit rc 31"

definition COM_ERROR_CHECK :: "32 word \<Rightarrow> 32 word option" where
  \<comment> \<open>the code of the exception thrown; \<open>None\<close> goes on\<close>
  "COM_ERROR_CHECK rc = (if com_failed rc then Some rc else None)"

definition com_errors :: "(nat \<times> string) list" where
  "com_errors =
     [(0x80004001, ''E_NOTIMPL''), (0x80004003, ''E_POINTER''), (0x80004004, ''E_ABORT''),
      (0x80004005, ''E_FAIL''), (0x80070005, ''E_ACCESSDENIED''), (0x8007000E, ''E_OUTOFMEMORY''),
      (0x80070057, ''E_INVALIDARG''), (0x8000FFFF, ''E_UNEXPECTED''),
      (0x80BB0001, ''E_OBJECT_NOT_FOUND''), (0x80BB0002, ''E_INVALID_VM_STATE''),
      (0x80BB0003, ''E_VM_ERROR''), (0x80BB0004, ''E_FILE_ERROR''), (0x80BB0005, ''E_IPRT_ERROR''),
      (0x80BB0006, ''E_PDM_ERROR''), (0x80BB0007, ''E_INVALID_OBJECT_STATE''),
      (0x80BB0008, ''E_HOST_ERROR''), (0x80BB0009, ''E_NOT_SUPPORTED''), (0x80BB000A, ''E_XML_ERROR''),
      (0x80BB000B, ''E_INVALID_SESSION_STATE''), (0x80BB000C, ''E_OBJECT_IN_USE''),
      (0x80BB000D, ''E_PASSWORD_INCORRECT''), (0x80BB000E, ''E_MAXIMUM_REACHED''),
      (0x80BB000F, ''E_GSTCTL_GUEST_ERROR''), (0x80BB0010, ''E_TIMEOUT'')]"

subsection \<open>The text of an exception\<close>

definition hex_digits :: string where
  "hex_digits = ''0123456789abcdef''"

fun hex :: "nat \<Rightarrow> string" where
  "hex n = (if n < 16 then [hex_digits ! n] else hex (n div 16) @ [hex_digits ! (n mod 16)])"

declare hex.simps [simp del]

definition alt_hex :: "nat \<Rightarrow> string" where
  \<comment> \<open>\<open>%#x\<close>: zero has no prefix\<close>
  "alt_hex n = (if n = 0 then ''0'' else ''0x'' @ hex n)"

definition snprintf_into :: "nat \<Rightarrow> string \<Rightarrow> string" where
  \<comment> \<open>what a buffer of \<open>k\<close> characters holds before its terminating null\<close>
  "snprintf_into k s = take (k - 1) s"

definition error_message :: "32 word \<Rightarrow> string option \<Rightarrow> string" where
  "error_message rc name = snprintf_into 64
     (case name of
        Some n \<Rightarrow> ''COM Error '' @ alt_hex (unat rc) @ '': '' @ n
      | None \<Rightarrow> ''COM Error '' @ alt_hex (unat rc))"

definition err_what :: "32 word \<Rightarrow> string" where
  \<comment> \<open>\<open>what()\<close> of the exception that \<open>COMError::raise\<close> throws\<close>
  "err_what rc = error_message rc (map_of com_errors (unat rc))"

subsection \<open>The text and its code\<close>

definition full_text :: "32 word \<Rightarrow> string" where
  "full_text rc = ''COM Error '' @ alt_hex (unat rc)
     @ (case map_of com_errors (unat rc) of Some n \<Rightarrow> '': '' @ n | None \<Rightarrow> '''')"

definition unhex_digit :: "char \<Rightarrow> nat" where
  "unhex_digit c = length (takeWhile (\<lambda>d. d \<noteq> c) hex_digits)"

fun unhex :: "string \<Rightarrow> nat \<Rightarrow> nat" where
  "unhex [] acc = acc"
| "unhex (c # cs) acc = unhex cs (acc * 16 + unhex_digit c)"

definition code_of :: "string \<Rightarrow> nat" where
  \<comment> \<open>the code in an error text, up to the colon or the end\<close>
  "code_of s = (let t = takeWhile (\<lambda>c. c \<noteq> CHR '':'') (drop 10 s) in
     if t = ''0'' then 0 else unhex (drop 2 t) 0)"

lemma unhex_append: "unhex (xs @ ys) acc = unhex ys (unhex xs acc)"
  by (induction xs arbitrary: acc) simp_all

lemma hex_digit: "n < 16 \<Longrightarrow> unhex_digit (hex_digits ! n) = n \<and> hex_digits ! n \<noteq> CHR '':''"
  by (auto simp: unhex_digit_def hex_digits_def less_Suc_eq numeral_eq_Suc)

lemma unhex_hex: "unhex (hex n) 0 = n"
proof (induction n rule: hex.induct)
  case (1 n)
  then show ?case by (subst hex.simps) (simp add: unhex_append hex_digit)
qed

lemma hex_no_colon: "CHR '':'' \<notin> set (hex n)"
proof (induction n rule: hex.induct)
  case (1 n)
  have "CHR '':'' \<noteq> hex_digits ! d" if "d < 16" for d
    using hex_digit [OF that] by metis
  with 1 show ?case by (subst hex.simps) auto
qed

lemma hex_length: "n < 16 ^ Suc k \<Longrightarrow> length (hex n) \<le> Suc k"
proof (induction n arbitrary: k rule: hex.induct)
  case (1 n)
  show ?case
  proof (cases "n < 16")
    case False
    with "1.prems" obtain j where j: "k = Suc j" by (cases k) auto
    with "1.prems" have "n div 16 < 16 ^ Suc j" by (simp add: div_less_iff_less_mult mult.commute)
    from "1.IH" [OF False this] False j show ?thesis by (subst hex.simps) simp
  qed (simp add: hex.simps)
qed

lemma error_name_length: "map_of com_errors c = Some n \<Longrightarrow> length n \<le> 23"
  by (drule map_of_SomeD) (auto simp: com_errors_def)

lemma full_text_length: "length (full_text rc) \<le> 45"
proof -
  have "unat rc < 16 ^ Suc 7" using unsigned_less [of rc, where 'a = nat] by simp
  then have "length (hex (unat rc)) \<le> 8" using hex_length [of "unat rc" 7] by simp
  then show ?thesis
    by (auto simp: full_text_def alt_hex_def dest: error_name_length split: option.split)
qed

lemma err_what_full: "err_what rc = full_text rc"
proof -
  have "err_what rc = take 63 (full_text rc)"
    by (simp add: err_what_def error_message_def snprintf_into_def full_text_def split: option.split)
  then show ?thesis using full_text_length [of rc] by simp
qed

lemma code_of_text: "code_of (full_text rc) = unat rc"
proof -
  let ?n = "unat rc"
  have "takeWhile (\<lambda>c. c \<noteq> CHR '':'') (hex ?n @ ys) = hex ?n" if "ys = [] \<or> hd ys = CHR '':''" for ys
    using that hex_no_colon [of ?n]
    by (subst takeWhile_append2) (auto simp: takeWhile_eq_Nil_iff)
  then show ?thesis
    using unhex_hex [of ?n] by (auto simp: code_of_def full_text_def alt_hex_def Let_def split: option.split)
qed

subsection \<open>Properties\<close>

text \<open>C39. The text of a COM error fits the 64 characters it is formatted in, whatever the code, so it
  is never cut off, and the code can be read back from it: no two codes have the same text.\<close>

theorem error_text: "err_what rc = full_text rc \<and> length (err_what rc) < 64 \<and> code_of (err_what rc) = unat rc"
  using full_text_length [of rc] by (simp add: err_what_full code_of_text)

end
