(* ===== verification/Vbox_Api.thy ===== *)
theory Vbox_Api
  imports Com_Error
begin

text \<open>
  The VirtualBox interface as the code sees it through libvbox: interface pointers, the
  enumerations, and one request for each method or property the code uses. The hypervisor
  behind it is not part of the repository: it is the environment record \<open>vbox\<close>, a
  parameter of every model, with one handler per kind of reply. A handler answers a
  request with a COM error or a value and its own next state; libvbox turns an error into
  a thrown \<open>COMError\<close>. The trace records every request with its reply, and every explicit
  \<open>Release()\<close>. A method called through a null pointer is \<open>Undef Null_deref\<close>.
\<close>

type_synonym ref = nat              \<comment> \<open>an interface pointer that is not null\<close>
type_synonym ptr = "ref option"     \<comment> \<open>a \<open>COMPtr\<close>; \<open>None\<close> is the null pointer\<close>
type_synonym com_err = "32 word"
type_synonym u32 = "32 word"

subsection \<open>Enumerations\<close>

datatype (plugins only: code) machine_state =
    NullState | PoweredOff | Saved | Teleported | Aborted | Running | Paused | Stuck
  | Teleporting | LiveSnapshotting | Starting | Stopping | Saving | Restoring
  | TeleportingPausedVM | TeleportingIn | FaultTolerantSyncing | DeletingSnapshotOnline
  | DeletingSnapshotPaused | OnlineSnapshotting | RestoringSnapshot | DeletingSnapshot
  | SettingUp | Snapshotting

definition all_states :: "machine_state list" where
  "all_states = [NullState, PoweredOff, Saved, Teleported, Aborted, Running, Paused, Stuck,
     Teleporting, LiveSnapshotting, Starting, Stopping, Saving, Restoring,
     TeleportingPausedVM, TeleportingIn, FaultTolerantSyncing, DeletingSnapshotOnline,
     DeletingSnapshotPaused, OnlineSnapshotting, RestoringSnapshot, DeletingSnapshot,
     SettingUp, Snapshotting]"

text \<open>The enumerator a raw value names; \<open>None\<close> when it names none.\<close>

definition state_of :: "int \<Rightarrow> machine_state option" where
  "state_of i = (if 0 \<le> i \<and> i < 24 then Some (all_states ! nat i) else None)"

text \<open>
  The raw value of an enumerator, the inverse reading. The states are a finite type, listed by
  \<open>all_states\<close>, and ordered by their raw values: the SDK's ranges \<open>FirstOnline\<close> to \<open>LastOnline\<close>
  and \<open>FirstTransient\<close> to \<open>LastTransient\<close> are intervals of this order.
\<close>

primrec position :: "'a \<Rightarrow> 'a list \<Rightarrow> nat" where
  "position x [] = 0"
| "position x (y # ys) = (if x = y then 0 else Suc (position x ys))"

definition state_code :: "machine_state \<Rightarrow> int" where
  "state_code s = int (position s all_states)"

instantiation machine_state :: enum
begin

definition enum_machine_state :: "machine_state list" where
  "enum_machine_state = all_states"

definition enum_all_machine_state :: "(machine_state \<Rightarrow> bool) \<Rightarrow> bool" where
  "enum_all_machine_state P \<longleftrightarrow> list_all P all_states"

definition enum_ex_machine_state :: "(machine_state \<Rightarrow> bool) \<Rightarrow> bool" where
  "enum_ex_machine_state P \<longleftrightarrow> list_ex P all_states"

instance proof
  have all: "s \<in> set all_states" for s by (cases s) (simp_all add: all_states_def)
  then show "(UNIV :: machine_state set) = set enum_class.enum" by (auto simp: enum_machine_state_def)
  show "distinct (enum_class.enum :: machine_state list)"
    by (simp add: enum_machine_state_def all_states_def)
  show "enum_class.enum_all P \<longleftrightarrow> Ball UNIV P" for P :: "machine_state \<Rightarrow> bool"
    using all by (auto simp: enum_all_machine_state_def list_all_iff)
  show "enum_class.enum_ex P \<longleftrightarrow> Bex UNIV P" for P :: "machine_state \<Rightarrow> bool"
    using all by (auto simp: enum_ex_machine_state_def list_ex_iff)
qed

end

lemma state_of_code [simp]: "state_of (state_code s) = Some s"
  by (cases s) (simp_all add: state_of_def state_code_def all_states_def)

lemma state_code_inject [simp]: "state_code s = state_code t \<longleftrightarrow> s = t"
  by (metis state_of_code option.inject)

instantiation machine_state :: linorder
begin

definition less_eq_machine_state :: "machine_state \<Rightarrow> machine_state \<Rightarrow> bool" where
  "s \<le> t \<longleftrightarrow> state_code s \<le> state_code t"

definition less_machine_state :: "machine_state \<Rightarrow> machine_state \<Rightarrow> bool" where
  "s < t \<longleftrightarrow> state_code s < state_code t"

instance by standard (auto simp: less_eq_machine_state_def less_machine_state_def)

end

lemma online_states:
  "s \<in> {Running..OnlineSnapshotting} \<longleftrightarrow> 5 \<le> state_code s \<and> state_code s \<le> 19"
  "s \<in> {Teleporting..Snapshotting} \<longleftrightarrow> 8 \<le> state_code s \<and> state_code s \<le> 23"
  by (simp_all add: less_eq_machine_state_def state_code_def all_states_def)

text \<open>The other enumerations that the code uses. An enumerator whose name is taken by another
  enumeration is told apart by a prefix or suffix.\<close>

datatype lock_type = Lock_Null | Shared | Write | Lock_VM

datatype device_type =
    Device_Null | Floppy_Disk | DVD | HardDisk | Network_Card | USB_Device | Shared_Folder | Graphics3D

datatype access_mode = ReadOnly | ReadWrite

datatype storage_bus = Bus_Null | IDE | SATA | SCSI | Floppy | SAS | USB | PCIe

datatype medium_variant =
    Standard | VmdkSplit2G | VmdkRawDisk | VmdkStreamOptimized | VmdkESX | VdiZeroExpand | Fixed
  | Diff | Formatted | NoCreateDir

datatype clone_mode = MachineStateOnly | MachineAndChildStates | AllStates

datatype clone_option = Link | KeepAllMACs | KeepNATMACs | KeepDiskNames | KeepHwUUIDs

datatype cleanup_mode = UnregisterOnly | DetachAllReturnNone | DetachAllReturnHardDisksOnly | Full

datatype attachment_type =
    Attachment_Null | NAT | Bridged | Internal | HostOnly | Generic | NATNetwork

datatype graphics_type = Graphics_Null | VBoxVGA | VMSVGA | VBoxSVGA

datatype usb_type = USB_Null | OHCI | EHCI | XHCI | USB_Last

datatype export_option = CreateManifest | ExportDVDImages | StripAllMACs | StripAllNonNATMACs

datatype import_option = ImportKeepAllMACs | ImportKeepNATMACs | ImportToVDI

subsection \<open>Requests\<close>

text \<open>Property setters (\<open>set_X(v)\<close>, and the setter-like methods of the settings objects).\<close>

datatype (plugins only: code) setting =
    CPUCount u32 | MemorySize u32 | OSTypeId u16string | NestedPaging bool
  | VRAMSize u32 | MonitorCount u32 | Accelerate3D bool | Accelerate2DVideo bool
  | GraphicsController graphics_type
  | BridgedInterface u16string | AttachmentType attachment_type | AdapterEnabled bool
  | MACAddress u16string
  | VRDEEnabled bool | AllowMultiConnection bool | ReuseSingleConnection bool
  | AuthTimeout u32 | VRDEProperty u16string u16string
  | RecordingEnabled bool | ScreenEnabled bool | DestinationFile | Filename u16string
  | VideoWidth u32 | VideoHeight u32 | VideoFPS u32 | VideoRate u32 | VideoCodecAV1
  | AudioHz u32 | AudioBits u32 | AudioChannels u32 | AudioCodecWavPCM
  | AudioControllerAC97 | AudioDriverALSA | AudioEnabledIn bool | AudioEnabledOut bool
  | AudioEnabled bool
  | SerialEnabled bool
  | BootOrder u32 device_type

datatype (plugins only: code) cmd =
    LockMachine ref ptr lock_type | UnlockMachine ref
  | PowerButton ref | PowerDown ref | PauseVM ref | ResumeVM ref | ResetVM ref
  | WaitForCompletion ref int
  | SaveSettings ref | RegisterMachine ptr
  | Put ref setting
  | AttachDevice ref u16string int int device_type ptr
  | DetachDevice ref u16string int int
  | SetHotPluggable ref u16string int int bool
  | MountMedium ref u16string int int ptr bool
  | AddSharedFolder ref u16string u16string bool bool u16string
  | RemoveSharedFolder ref u16string
  | RemoveUSBController ref u16string
  | RefreshState ref
  | Interpret ref
  | SetFinalValues ref "bool list" "u16string list" "u16string list"

text \<open>Methods and properties that return an interface pointer.\<close>

datatype (plugins only: code) ref_req =
    VirtualBoxClient | VirtualBoxOf ref | FindMachine u16string | NewSession
  | LaunchVMProcess ref ptr u16string u16string
  | ConsoleOf ref | SessionMachine ref | SaveState ref
  | CreateMedium u16string u16string access_mode device_type
  | OpenMedium u16string device_type access_mode bool
  | CreateBaseStorage ref int "medium_variant list"
  | DeleteStorage ref
  | StorageControllerByName ref u16string
  | AddStorageController ref u16string storage_bus
  | TakeSnapshot ref u16string u16string bool
  | FindSnapshot ref u16string | RestoreSnapshot ref ptr | DeleteSnapshot ref u16string
  | CurrentSnapshot ref | SnapshotParent ref | SnapshotMachine ref
  | CreateMachine u16string u16string u16string
  | CloneTo ref ptr clone_mode "clone_option list"
  | DeleteConfig ref "ref list"
  | CreateAppliance | ExportTo ref ptr u16string
  | WriteAppliance ref u16string "export_option list" u16string
  | ReadAppliance ref u16string | ImportMachines ref "import_option list"
  | NetworkAdapter ref u32 | VRDEServerOf ref | VRDEServerInfoOf ref
  | RecordingSettingsOf ref | ScreenSettings ref u32
  | AudioAdapterOf ref | SerialPort ref u32
  | AddUSBController ref u16string usb_type
  | AttachmentMedium ref | MediumParent ref
  | CurrentError | QueryErrorInfo ref | NextError ref

datatype (plugins only: code) int_prop =
    MachineStateP | ResultCodeP | SnapshotCountP | CPUCountP | MemorySizeP | VRAMSizeP
  | MonitorCountP | PortP | LogicalSizeP | SizeP | AttachmentTypeP
  | VRDEPortP | NumberOfClientsP | ClientVersionP | EncryptionStyleP | BeginTimeP | EndTimeP
  | BytesSentP | BytesSentTotalP | BytesReceivedP | BytesReceivedTotalP

datatype (plugins only: code) str_req =
    MachineName ref | MachineId ref | OSTypeOf ref | HardwareUUID ref | SnapshotFolder ref
  | SnapshotName ref | SnapshotId ref
  | MediumId ref | MediumName ref | MediumFormat ref
  | ControllerName ref | AttachmentController ref
  | BridgedInterfaceOf ref | MACAddressOf ref
  | ClientIP ref | UserOf ref | DomainOf ref | ClientNameOf ref
  | ComposeMachineFilename u16string u16string u16string u16string
  | ErrorText ref

datatype bool_prop =
    CompletedP | HotPluggableP | AdapterEnabledP | Accelerate3DP | ActiveP

datatype refs_req =
    Machines | HardDisks | MediumAttachments ref u16string | Unregister ref cleanup_mode
  | VirtualSystemDescriptions ref

datatype (plugins only: code) event =
    ECmd cmd "com_err option"
  | ERef ref_req "com_err + ptr"
  | EInt ref int_prop "com_err + int"
  | EStr str_req "com_err + u16string"
  | EBool ref bool_prop "com_err + bool"
  | ERefs refs_req "com_err + ref list"
  | EStates "ref list" "com_err option"   \<comment> \<open>\<open>getMachineStates\<close>, its result unused\<close>
  | EWarnings ref "com_err + u16string list"
  | ERelease ref
  | ETime int

subsection \<open>The environment\<close>

text \<open>
  Beside the hypervisor the environment holds the pure library functions the code calls:
  jsoncpp's two serialisers over the values the code builds.
\<close>

datatype json =
    JStr string
  | JInt int
  | JObj "(string \<times> json) list"   \<comment> \<open>an object, its members ordered by key\<close>
  | JArr "json list"
  | JNull

record 'w vbox =
  on_cmd :: "cmd \<Rightarrow> 'w \<Rightarrow> com_err option \<times> 'w"
  on_ref :: "ref_req \<Rightarrow> 'w \<Rightarrow> (com_err + ptr) \<times> 'w"
  on_int :: "ref \<Rightarrow> int_prop \<Rightarrow> 'w \<Rightarrow> (com_err + int) \<times> 'w"
  on_str :: "str_req \<Rightarrow> 'w \<Rightarrow> (com_err + u16string) \<times> 'w"
  on_bool :: "ref \<Rightarrow> bool_prop \<Rightarrow> 'w \<Rightarrow> (com_err + bool) \<times> 'w"
  on_refs :: "refs_req \<Rightarrow> 'w \<Rightarrow> (com_err + ref list) \<times> 'w"
  on_states :: "ref list \<Rightarrow> 'w \<Rightarrow> com_err option \<times> 'w"
  on_warnings :: "ref \<Rightarrow> 'w \<Rightarrow> (com_err + u16string list) \<times> 'w"
  on_release :: "ref \<Rightarrow> 'w \<Rightarrow> 'w"
  on_time :: "'w \<Rightarrow> int \<times> 'w"
  styled :: "json \<Rightarrow> string"
  fast_write :: "json \<Rightarrow> string"

type_synonym ('w, 'a) io = "('w vbox, 'w, event, 'a) prog"

end
