(* ===== verification/Vbox_Calls.thy ===== *)
theory Vbox_Calls
  imports Vbox_Api
begin

text \<open>
  The calls the components are made of: a request to the hypervisor, a member call through
  a \<open>COMPtr\<close>, the string conversions as they raise inside a function, the error report of
  the \<open>catch\<close> handlers and the polling loop on a progress object. Each has one rule in
  \<open>post_intros\<close> that lists its replies, so that a function's paths are followed without
  opening the definitions below.
\<close>

subsection \<open>Requests\<close>

definition perform :: "cmd \<Rightarrow> ('w, unit) io" where
  "perform c E w =
     (let (e, v) = on_cmd E c (vm w) in
      (case e of None \<Rightarrow> Ret () | Some x \<Rightarrow> Throw (COMError x),
       w\<lparr>vm := v, trace := trace w @ [ECmd c e]\<rparr>))"

definition answer :: "com_err + 'a \<Rightarrow> 'a outcome" where
  "answer r = (case r of Inl e \<Rightarrow> Throw (COMError e) | Inr a \<Rightarrow> Ret a)"

definition ask ::
  "('w vbox \<Rightarrow> 'w \<Rightarrow> (com_err + 'a) \<times> 'w) \<Rightarrow> (com_err + 'a \<Rightarrow> event) \<Rightarrow> ('w, 'a) io" where
  "ask h ev E w =
     (let (r, v) = h E (vm w) in (answer r, w\<lparr>vm := v, trace := trace w @ [ev r]\<rparr>))"

definition ask_ref :: "ref_req \<Rightarrow> ('w, ptr) io" where
  "ask_ref q = ask (\<lambda>E. on_ref E q) (ERef q)"

definition ask_int :: "ref \<Rightarrow> int_prop \<Rightarrow> ('w, int) io" where
  "ask_int r p = ask (\<lambda>E. on_int E r p) (EInt r p)"

definition ask_str :: "str_req \<Rightarrow> ('w, u16string) io" where
  "ask_str q = ask (\<lambda>E. on_str E q) (EStr q)"

definition ask_bool :: "ref \<Rightarrow> bool_prop \<Rightarrow> ('w, bool) io" where
  "ask_bool r p = ask (\<lambda>E. on_bool E r p) (EBool r p)"

definition ask_refs :: "refs_req \<Rightarrow> ('w, ref list) io" where
  "ask_refs q = ask (\<lambda>E. on_refs E q) (ERefs q)"

definition ask_warnings :: "ref \<Rightarrow> ('w, u16string list) io" where
  "ask_warnings r = ask (\<lambda>E. on_warnings E r) (EWarnings r)"

definition ask_states :: "ref list \<Rightarrow> ('w, unit) io" where
  "ask_states rs E w =
     (let (e, v) = on_states E rs (vm w) in
      (case e of None \<Rightarrow> Ret () | Some x \<Rightarrow> Throw (COMError x),
       w\<lparr>vm := v, trace := trace w @ [EStates rs e]\<rparr>))"

definition ask_time :: "('w, int) io" where
  "ask_time E w =
     (let (t, v) = on_time E (vm w) in (Ret t, w\<lparr>vm := v, trace := trace w @ [ETime t]\<rparr>))"

definition env :: "('w vbox \<Rightarrow> 'a) \<Rightarrow> ('w, 'a) io" where
  \<comment> \<open>a pure library function of the environment\<close>
  "env f E w = (Ret (f E), w)"

subsection \<open>Member calls\<close>

definition deref :: "ptr \<Rightarrow> (ref \<Rightarrow> ('w, 'a) io) \<Rightarrow> ('w, 'a) io" where
  "deref p f = (case p of None \<Rightarrow> undef Null_deref | Some r \<Rightarrow> f r)"

definition call :: "ptr \<Rightarrow> (ref \<Rightarrow> cmd) \<Rightarrow> ('w, unit) io" where
  "call p c = deref p (\<lambda>r. perform (c r))"

definition get :: "ptr \<Rightarrow> (ref \<Rightarrow> ref_req) \<Rightarrow> ('w, ptr) io" where
  "get p q = deref p (\<lambda>r. ask_ref (q r))"

definition geti :: "ptr \<Rightarrow> int_prop \<Rightarrow> ('w, int) io" where
  "geti p q = deref p (\<lambda>r. ask_int r q)"

definition gets :: "ptr \<Rightarrow> (ref \<Rightarrow> str_req) \<Rightarrow> ('w, u16string) io" where
  "gets p q = deref p (\<lambda>r. ask_str (q r))"

definition getb :: "ptr \<Rightarrow> bool_prop \<Rightarrow> ('w, bool) io" where
  "getb p q = deref p (\<lambda>r. ask_bool r q)"

definition put :: "ptr \<Rightarrow> setting \<Rightarrow> ('w, unit) io" where
  "put p x = call p (\<lambda>r. Put r x)"

definition release :: "ptr \<Rightarrow> ('w, unit) io" where
  "release p E w = (case p of
      None \<Rightarrow> (Undef Null_deref, w)
    | Some r \<Rightarrow> (Ret (), w\<lparr>vm := on_release E r (vm w), trace := trace w @ [ERelease r]\<rparr>))"

definition state :: "ptr \<Rightarrow> ('w, machine_state option) io" where
  \<comment> \<open>\<open>machine->state()\<close>: the raw value, read as the enumerator it names\<close>
  "state p = bnd (geti p MachineStateP) (\<lambda>i. ret (state_of i))"

definition find_machine :: "u16string \<Rightarrow> ('w, ptr) io" where
  "find_machine name = ask_ref (FindMachine name)"

definition new_session :: "('w, ptr) io" where
  "new_session = ask_ref NewSession"

definition lock_machine :: "ptr \<Rightarrow> ptr \<Rightarrow> lock_type \<Rightarrow> ('w, unit) io" where
  "lock_machine machine session t = call machine (\<lambda>m. LockMachine m session t)"

definition unlock_machine :: "ptr \<Rightarrow> ('w, unit) io" where
  "unlock_machine session = call session UnlockMachine"

definition wait_for :: "ptr \<Rightarrow> ('w, unit) io" where
  \<comment> \<open>\<open>progress->waitForCompletion(-1)\<close>\<close>
  "wait_for progress = call progress (\<lambda>p. WaitForCompletion p (- 1))"

subsection \<open>String conversions\<close>

definition conv :: "'a option \<Rightarrow> ('w, 'a) io" where
  "conv r = (case r of None \<Rightarrow> throw RangeError | Some a \<Rightarrow> ret a)"

definition utf16 :: "string \<Rightarrow> ('w, u16string) io" where
  "utf16 s = conv (to_utf16 s)"

definition utf8 :: "u16string \<Rightarrow> ('w, string) io" where
  "utf8 s = conv (to_utf8 s)"

subsection \<open>Handlers and loops\<close>

text \<open>
  The body of the \<open>catch\<close> handlers: \<open>currentError()->QueryInterface()\<close>, then the chain of
  error texts, which are printed. The result says whether there was an error object.
\<close>

definition print_chain :: "ptr \<Rightarrow> ('w, ptr) io" where
  "print_chain = loop (\<lambda>p. p \<noteq> None) (\<lambda>p. bnd (gets p ErrorText) (\<lambda>_. get p NextError))"

definition report_errors :: "('w, bool) io" where
  "report_errors =
     bnd (ask_ref CurrentError) (\<lambda>errorInfo.
     bnd (get errorInfo QueryErrorInfo) (\<lambda>vboxError.
     if vboxError \<noteq> None then bnd (print_chain vboxError) (\<lambda>_. ret True)
     else ret False))"

text \<open>
  A handler that ends there, in a function that returns a value: control flows off the end
  of the function, which C++ leaves undefined.
\<close>

definition print_and_fall_off :: "com_err \<Rightarrow> ('w, 'a) io" where
  "print_and_fall_off err = bnd report_errors (\<lambda>_. undef No_return)"

text \<open>\<open>while (!progress->completed()) continue;\<close>\<close>

definition poll :: "ptr \<Rightarrow> ('w, unit) io" where
  "poll progress =
     bnd (getb progress CompletedP) (\<lambda>c0.
     bnd (loop Not (\<lambda>_. getb progress CompletedP) c0) (\<lambda>_. ret ()))"

subsection \<open>The rules\<close>

lemma post_perform [post_intros]:
  "Q (Ret ()) [ECmd c None] \<Longrightarrow> (\<And>e. Q (Throw (COMError e)) [ECmd c (Some e)])
     \<Longrightarrow> post E (perform c) Q"
  by (auto simp: post_def perform_def split: prod.splits option.splits)

lemma post_ask:
  "(\<And>a. Q (Ret a) [ev (Inr a)]) \<Longrightarrow> (\<And>e. Q (Throw (COMError e)) [ev (Inl e)])
     \<Longrightarrow> post E (ask h ev) Q"
  by (auto simp: post_def ask_def answer_def split: prod.splits sum.splits)

lemma post_ask_ref [post_intros]:
  "(\<And>a. Q (Ret a) [ERef q (Inr a)]) \<Longrightarrow> (\<And>e. Q (Throw (COMError e)) [ERef q (Inl e)])
     \<Longrightarrow> post E (ask_ref q) Q"
  unfolding ask_ref_def by (rule post_ask)

lemma post_ask_int [post_intros]:
  "(\<And>a. Q (Ret a) [EInt r p (Inr a)]) \<Longrightarrow> (\<And>e. Q (Throw (COMError e)) [EInt r p (Inl e)])
     \<Longrightarrow> post E (ask_int r p) Q"
  unfolding ask_int_def by (rule post_ask)

lemma post_ask_str [post_intros]:
  "(\<And>a. Q (Ret a) [EStr q (Inr a)]) \<Longrightarrow> (\<And>e. Q (Throw (COMError e)) [EStr q (Inl e)])
     \<Longrightarrow> post E (ask_str q) Q"
  unfolding ask_str_def by (rule post_ask)

lemma post_ask_bool [post_intros]:
  "(\<And>a. Q (Ret a) [EBool r p (Inr a)]) \<Longrightarrow> (\<And>e. Q (Throw (COMError e)) [EBool r p (Inl e)])
     \<Longrightarrow> post E (ask_bool r p) Q"
  unfolding ask_bool_def by (rule post_ask)

lemma post_ask_refs [post_intros]:
  "(\<And>a. Q (Ret a) [ERefs q (Inr a)]) \<Longrightarrow> (\<And>e. Q (Throw (COMError e)) [ERefs q (Inl e)])
     \<Longrightarrow> post E (ask_refs q) Q"
  unfolding ask_refs_def by (rule post_ask)

lemma post_ask_warnings [post_intros]:
  "(\<And>a. Q (Ret a) [EWarnings r (Inr a)]) \<Longrightarrow> (\<And>e. Q (Throw (COMError e)) [EWarnings r (Inl e)])
     \<Longrightarrow> post E (ask_warnings r) Q"
  unfolding ask_warnings_def by (rule post_ask)

lemma post_ask_states [post_intros]:
  "Q (Ret ()) [EStates rs None] \<Longrightarrow> (\<And>e. Q (Throw (COMError e)) [EStates rs (Some e)])
     \<Longrightarrow> post E (ask_states rs) Q"
  by (auto simp: post_def ask_states_def split: prod.splits option.splits)

lemma post_ask_time [post_intros]: "(\<And>t. Q (Ret t) [ETime t]) \<Longrightarrow> post E ask_time Q"
  by (auto simp: post_def ask_time_def split: prod.splits)

lemma post_env [post_intros]: "Q (Ret (f E)) [] \<Longrightarrow> post E (env f) Q"
  by (auto simp: post_def env_def)

lemma post_deref [post_intros]:
  "(p = None \<Longrightarrow> Q (Undef Null_deref) []) \<Longrightarrow> (\<And>r. p = Some r \<Longrightarrow> post E (f r) Q)
     \<Longrightarrow> post E (deref p f) Q"
  by (auto simp: deref_def post_undef split: option.splits)

lemma post_call [post_intros]:
  "(p = None \<Longrightarrow> Q (Undef Null_deref) []) \<Longrightarrow> (\<And>r. p = Some r \<Longrightarrow> post E (perform (c r)) Q)
     \<Longrightarrow> post E (call p c) Q"
  unfolding call_def by (rule post_deref)

lemma post_get [post_intros]:
  "(p = None \<Longrightarrow> Q (Undef Null_deref) []) \<Longrightarrow> (\<And>r. p = Some r \<Longrightarrow> post E (ask_ref (q r)) Q)
     \<Longrightarrow> post E (get p q) Q"
  unfolding get_def by (rule post_deref)

lemma post_geti [post_intros]:
  "(p = None \<Longrightarrow> Q (Undef Null_deref) []) \<Longrightarrow> (\<And>r. p = Some r \<Longrightarrow> post E (ask_int r q) Q)
     \<Longrightarrow> post E (geti p q) Q"
  unfolding geti_def by (rule post_deref)

lemma post_gets [post_intros]:
  "(p = None \<Longrightarrow> Q (Undef Null_deref) []) \<Longrightarrow> (\<And>r. p = Some r \<Longrightarrow> post E (ask_str (q r)) Q)
     \<Longrightarrow> post E (gets p q) Q"
  unfolding gets_def by (rule post_deref)

lemma post_getb [post_intros]:
  "(p = None \<Longrightarrow> Q (Undef Null_deref) []) \<Longrightarrow> (\<And>r. p = Some r \<Longrightarrow> post E (ask_bool r q) Q)
     \<Longrightarrow> post E (getb p q) Q"
  unfolding getb_def by (rule post_deref)

lemma post_put [post_intros]:
  "(p = None \<Longrightarrow> Q (Undef Null_deref) []) \<Longrightarrow> (\<And>r. p = Some r \<Longrightarrow> post E (perform (Put r x)) Q)
     \<Longrightarrow> post E (put p x) Q"
  unfolding put_def by (rule post_call)

lemma post_release [post_intros]:
  "(p = None \<Longrightarrow> Q (Undef Null_deref) []) \<Longrightarrow> (\<And>r. p = Some r \<Longrightarrow> Q (Ret ()) [ERelease r])
     \<Longrightarrow> post E (release p) Q"
  by (auto simp: post_def release_def split: option.splits)

lemma post_state [post_intros]:
  assumes "p = None \<Longrightarrow> Q (Undef Null_deref) []"
    and "\<And>r i. p = Some r \<Longrightarrow> Q (Ret (state_of i)) [EInt r MachineStateP (Inr i)]"
    and "\<And>r e. p = Some r \<Longrightarrow> Q (Throw (COMError e)) [EInt r MachineStateP (Inl e)]"
  shows "post E (state p) Q"
  unfolding state_def using assms by (auto intro!: post_intros)

lemma post_find_machine [post_intros]:
  "(\<And>a. Q (Ret a) [ERef (FindMachine n) (Inr a)])
     \<Longrightarrow> (\<And>e. Q (Throw (COMError e)) [ERef (FindMachine n) (Inl e)]) \<Longrightarrow> post E (find_machine n) Q"
  unfolding find_machine_def by (rule post_ask_ref)

lemma post_new_session [post_intros]:
  "(\<And>a. Q (Ret a) [ERef NewSession (Inr a)])
     \<Longrightarrow> (\<And>e. Q (Throw (COMError e)) [ERef NewSession (Inl e)]) \<Longrightarrow> post E new_session Q"
  unfolding new_session_def by (rule post_ask_ref)

lemma post_lock_machine [post_intros]:
  "(p = None \<Longrightarrow> Q (Undef Null_deref) [])
     \<Longrightarrow> (\<And>r. p = Some r \<Longrightarrow> post E (perform (LockMachine r s t)) Q) \<Longrightarrow> post E (lock_machine p s t) Q"
  unfolding lock_machine_def by (rule post_call)

lemma post_unlock_machine [post_intros]:
  "(p = None \<Longrightarrow> Q (Undef Null_deref) [])
     \<Longrightarrow> (\<And>r. p = Some r \<Longrightarrow> post E (perform (UnlockMachine r)) Q) \<Longrightarrow> post E (unlock_machine p) Q"
  unfolding unlock_machine_def by (rule post_call)

lemma post_wait_for [post_intros]:
  "(p = None \<Longrightarrow> Q (Undef Null_deref) [])
     \<Longrightarrow> (\<And>r. p = Some r \<Longrightarrow> post E (perform (WaitForCompletion r (- 1))) Q) \<Longrightarrow> post E (wait_for p) Q"
  unfolding wait_for_def by (rule post_call)

lemma post_conv [post_intros]:
  "(r = None \<Longrightarrow> Q (Throw RangeError) []) \<Longrightarrow> (\<And>a. r = Some a \<Longrightarrow> Q (Ret a) [])
     \<Longrightarrow> post E (conv r) Q"
  by (auto simp: conv_def intro: post_throw post_ret split: option.splits)

lemma post_utf16 [post_intros]:
  "(to_utf16 s = None \<Longrightarrow> Q (Throw RangeError) []) \<Longrightarrow> (\<And>a. to_utf16 s = Some a \<Longrightarrow> Q (Ret a) [])
     \<Longrightarrow> post E (utf16 s) Q"
  unfolding utf16_def by (rule post_conv)

lemma post_utf8 [post_intros]:
  "(to_utf8 s = None \<Longrightarrow> Q (Throw RangeError) []) \<Longrightarrow> (\<And>a. to_utf8 s = Some a \<Longrightarrow> Q (Ret a) [])
     \<Longrightarrow> post E (utf8 s) Q"
  unfolding utf8_def by (rule post_conv)

text \<open>
  The error report and the polling loop make only calls that change nothing in the
  hypervisor; the rules leave their number open.
\<close>

fun error_report :: "event \<Rightarrow> bool" where
  "error_report (ERef q _) \<longleftrightarrow> (case q of CurrentError \<Rightarrow> True | QueryErrorInfo _ \<Rightarrow> True
                                     | NextError _ \<Rightarrow> True | _ \<Rightarrow> False)"
| "error_report (EStr q _) \<longleftrightarrow> (case q of ErrorText _ \<Rightarrow> True | _ \<Rightarrow> False)"
| "error_report _ \<longleftrightarrow> False"

fun polling :: "event \<Rightarrow> bool" where
  "polling (EBool _ q _) \<longleftrightarrow> q = CompletedP"
| "polling _ \<longleftrightarrow> False"

definition reported :: "'a outcome \<Rightarrow> event list \<Rightarrow> bool" where
  "reported r tr \<longleftrightarrow> list_all error_report tr \<and> r \<noteq> Throw RangeError
     \<and> (\<forall>u. r = Undef u \<longrightarrow> u = Null_deref)"

lemma post_print_chain: "post E (print_chain v) reported"
  unfolding print_chain_def
  by (rule post_loop [where I = reported]) (auto simp: reported_def intro!: post_intros)

lemma reported_cases:
  assumes "reported r tr"
  obtains a where "r = Ret a" "list_all error_report tr"
  | e where "r = Throw (COMError e)" "list_all error_report tr"
  | "r = Undef Null_deref" "list_all error_report tr"
  | "r = Hang" "list_all error_report tr"
proof (cases r)
  case (Throw e)
  with assms that show ?thesis by (cases e) (auto simp: reported_def)
qed (use assms that in \<open>auto simp: reported_def\<close>)

lemma post_report_errors [post_intros]:
  assumes "\<And>b tr. list_all error_report tr \<Longrightarrow> Q (Ret b) tr"
    and "\<And>e tr. list_all error_report tr \<Longrightarrow> Q (Throw (COMError e)) tr"
    and "\<And>tr. list_all error_report tr \<Longrightarrow> Q (Undef Null_deref) tr"
    and "\<And>tr. list_all error_report tr \<Longrightarrow> Q Hang tr"
  shows "post E report_errors Q"
proof -
  have rest: "then_post E (\<lambda>_. ret True) (\<lambda>r' tr'. Q r' (a # b # tr')) r tr"
    if "reported r tr" "error_report a" "error_report b" for r :: "ptr outcome" and tr a b
    using that(1) by (cases rule: reported_cases) (auto intro!: post_intros assms that(2,3))
  show ?thesis
    unfolding report_errors_def
    by (intro post_intros) (auto intro!: post_intros assms rest post_mono [OF post_print_chain])
qed

lemma post_print_and_fall_off [post_intros]:
  assumes "\<And>e tr. list_all error_report tr \<Longrightarrow> Q (Throw (COMError e)) tr"
    and "\<And>tr. list_all error_report tr \<Longrightarrow> Q (Undef Null_deref) tr"
    and "\<And>tr. list_all error_report tr \<Longrightarrow> Q (Undef No_return) tr"
    and "\<And>tr. list_all error_report tr \<Longrightarrow> Q Hang tr"
  shows "post E (print_and_fall_off err) Q"
  unfolding print_and_fall_off_def using assms by (auto intro!: post_intros)

text \<open>
  A \<open>try\<close> block with that handler: it is enough to follow the paths of the block when the
  contract survives an error report after a COM error.
\<close>

lemma post_handled:
  assumes "post E m C"
    and "\<And>e tr rp. C (Throw (COMError e)) tr \<Longrightarrow> list_all error_report rp \<Longrightarrow>
           C (Undef No_return) (tr @ rp) \<and> C (Undef Null_deref) (tr @ rp) \<and> C Hang (tr @ rp)
           \<and> (\<forall>e'. C (Throw (COMError e')) (tr @ rp))"
  shows "post E (try_com m print_and_fall_off) C"
proof (rule post_try_com, rule post_mono [OF assms(1)])
  fix r :: "'b outcome" and tr
  assume m: "C r tr"
  show "catch_post E print_and_fall_off C r tr"
  proof (cases "\<exists>e. r = Throw (COMError e)")
    case True
    with m assms(2) show ?thesis by (auto intro!: post_print_and_fall_off)
  next
    case False
    with m show ?thesis by (auto simp: catch_post_def split: outcome.splits exn.splits)
  qed
qed

text \<open>The replies that are COM errors.\<close>

fun failed :: "event \<Rightarrow> bool" where
  "failed (ECmd _ e) \<longleftrightarrow> e \<noteq> None"
| "failed (ERef _ r) \<longleftrightarrow> isl r"
| "failed (EInt _ _ r) \<longleftrightarrow> isl r"
| "failed (EStr _ r) \<longleftrightarrow> isl r"
| "failed (EBool _ _ r) \<longleftrightarrow> isl r"
| "failed (ERefs _ r) \<longleftrightarrow> isl r"
| "failed (EStates _ e) \<longleftrightarrow> e \<noteq> None"
| "failed (EWarnings _ r) \<longleftrightarrow> isl r"
| "failed _ \<longleftrightarrow> False"

lemma post_poll [post_intros]:
  assumes "\<And>r tr. p = Some r \<Longrightarrow> list_all polling tr \<Longrightarrow> Q (Ret ()) tr"
    and "\<And>e tr. list_all polling tr \<Longrightarrow> list_ex failed tr \<Longrightarrow> Q (Throw (COMError e)) tr"
    and "p = None \<Longrightarrow> Q (Undef Null_deref) []"
    and "\<And>tr. list_all polling tr \<Longrightarrow> Q Hang tr"
  shows "post E (poll p) Q"
proof (cases p)
  case None
  with assms(3) show ?thesis by (auto simp: poll_def intro!: post_intros)
next
  case (Some r)
  let ?I = "\<lambda>(o' :: bool outcome) tr. list_all polling tr \<and> o' \<noteq> Throw RangeError
      \<and> (\<forall>u. o' \<noteq> Undef u) \<and> (\<forall>e. o' = Throw e \<longrightarrow> list_ex failed tr)"
  have wait: "post E (loop Not (\<lambda>_. getb (Some r) CompletedP) c) ?I" for c
    by (rule post_loop [where I = ?I]) (auto intro!: post_intros)
  have done': "then_post E (\<lambda>_. ret ()) Q' o' tr"
    if "?I o' tr" "Q' (Ret ()) tr" "\<And>e. list_ex failed tr \<Longrightarrow> Q' (Throw (COMError e)) tr" "Q' Hang tr" for o' tr Q'
  proof (cases o')
    case (Throw e)
    with that show ?thesis by (cases e) auto
  qed (use that in \<open>auto intro!: post_intros\<close>)
  show ?thesis
    unfolding poll_def Some
    by (intro post_intros post_mono [OF wait])
      (auto intro!: post_intros post_mono [OF wait] done' assms(1) [OF Some] assms(2-4))
qed

text \<open>
  The rules for a pointer that is known not to be null. Used before \<open>post_intros\<close>, with the
  equations of earlier calls substituted, they keep the number of paths linear.
\<close>

lemma post_known:
  "post E (f r) Q \<Longrightarrow> post E (deref (Some r) f) Q"
  "post E (perform (c r)) Q1 \<Longrightarrow> post E (call (Some r) c) Q1"
  "post E (ask_ref (q r)) Q2 \<Longrightarrow> post E (get (Some r) q) Q2"
  "post E (ask_int r i) Q3 \<Longrightarrow> post E (geti (Some r) i) Q3"
  "post E (ask_str (g r)) Q4 \<Longrightarrow> post E (gets (Some r) g) Q4"
  "post E (ask_bool r b) Q5 \<Longrightarrow> post E (getb (Some r) b) Q5"
  "post E (perform (Put r x)) Q1 \<Longrightarrow> post E (put (Some r) x) Q1"
  "Q1 (Ret ()) [ERelease r] \<Longrightarrow> post E (release (Some r)) Q1"
  "post E (perform (LockMachine r s t)) Q1 \<Longrightarrow> post E (lock_machine (Some r) s t) Q1"
  "post E (perform (UnlockMachine r)) Q1 \<Longrightarrow> post E (unlock_machine (Some r)) Q1"
  "post E (perform (WaitForCompletion r (- 1))) Q1 \<Longrightarrow> post E (wait_for (Some r)) Q1"
  "post E m Q \<Longrightarrow> post E (if Some r \<noteq> None then m else n) Q"
  "post E n Q \<Longrightarrow> post E (if None \<noteq> None then m else n) Q"
  by (auto intro!: post_intros)

subsection \<open>An obliging hypervisor\<close>

text \<open>
  The hypothesis of the success theorems: no call fails, no returned interface is null, a
  progress object is complete when it is first polled and a machine's state always reads as
  \<open>i\<close>. Strings, lists and the other numbers are left open.
\<close>

definition obliging :: "'w vbox \<Rightarrow> int \<Rightarrow> bool" where
  "obliging E i \<longleftrightarrow>
     (\<forall>c v. fst (on_cmd E c v) = None) \<and>
     (\<forall>q v. \<exists>r. fst (on_ref E q v) = Inr (Some r)) \<and>
     (\<forall>r q v. \<exists>j. fst (on_int E r q v) = Inr j) \<and>
     (\<forall>r v. fst (on_int E r MachineStateP v) = Inr i) \<and>
     (\<forall>q v. \<exists>s. fst (on_str E q v) = Inr s) \<and>
     (\<forall>r q v. \<exists>b. fst (on_bool E r q v) = Inr b) \<and>
     (\<forall>r v. fst (on_bool E r CompletedP v) = Inr True) \<and>
     (\<forall>q v. \<exists>rs. fst (on_refs E q v) = Inr rs)"

lemma sure_perform:
  "obliging E i \<Longrightarrow> P () \<Longrightarrow> sure E (perform c) P"
  by (auto simp: sure_def perform_def obliging_def Let_def split: prod.splits) (metis fst_conv option.simps(4))

lemma sure_ask:
  "(\<And>v. \<exists>a. fst (h E v) = Inr a \<and> P a) \<Longrightarrow> sure E (ask h ev) P"
  unfolding sure_def
proof
  fix w :: "('a, event) world"
  assume "\<And>v. \<exists>a. fst (h E v) = Inr a \<and> P a"
  then obtain a where "fst (h E (vm w)) = Inr a" "P a" by blast
  then show "\<exists>a w'. ask h ev E w = (Ret a, w') \<and> P a"
    by (cases "h E (vm w)") (auto simp: ask_def answer_def)
qed

lemma sure_ask_ref:
  "obliging E i \<Longrightarrow> (\<And>r. P (Some r)) \<Longrightarrow> sure E (ask_ref q) P"
  unfolding ask_ref_def obliging_def by (rule sure_ask) meson

lemma sure_ask_state:
  "obliging E i \<Longrightarrow> P i \<Longrightarrow> sure E (ask_int r MachineStateP) P"
  unfolding ask_int_def obliging_def by (rule sure_ask) blast

lemma sure_ask_str:
  "obliging E i \<Longrightarrow> (\<And>s. P s) \<Longrightarrow> sure E (ask_str q) P"
  unfolding ask_str_def obliging_def by (rule sure_ask) meson

lemma sure_completed:
  "obliging E i \<Longrightarrow> P True \<Longrightarrow> sure E (ask_bool r CompletedP) P"
  unfolding ask_bool_def obliging_def by (rule sure_ask) blast

lemma sure_release:
  "P () \<Longrightarrow> sure E (release (Some r)) P"
  by (simp add: sure_def release_def)

lemma sure_utf16: "to_utf16 s = Some u \<Longrightarrow> P u \<Longrightarrow> sure E (utf16 s) P"
  by (simp add: sure_def utf16_def conv_def ret_def)

lemma loop_false: "\<not> b s \<Longrightarrow> loop b c s = ret s"
  by (rule ext, rule ext) (simp add: loop_def ret_def while_option_unfold)

lemma sure_poll:
  "obliging E i \<Longrightarrow> P () \<Longrightarrow> sure E (poll (Some r)) P"
  unfolding poll_def getb_def deref_def
  by (simp, rule sure_bnd, rule sure_completed, assumption) (simp add: loop_false sure_ret)

text \<open>The rules together, for a hypervisor known to be obliging.\<close>

lemma sure_calls:
  assumes "obliging E i"
  shows
    "P () \<Longrightarrow> sure E (call (Some r) c) P"
    "P () \<Longrightarrow> sure E (put (Some r) x) P"
    "P () \<Longrightarrow> sure E (lock_machine (Some r) s t) P"
    "P () \<Longrightarrow> sure E (unlock_machine (Some r)) P"
    "P () \<Longrightarrow> sure E (wait_for (Some r)) P"
    "P () \<Longrightarrow> sure E (poll (Some r)) P"
    "(\<And>a. R (Some a)) \<Longrightarrow> sure E (get (Some r) q) R"
    "(\<And>a. R (Some a)) \<Longrightarrow> sure E (find_machine n) R"
    "(\<And>a. R (Some a)) \<Longrightarrow> sure E new_session R"
    "(\<And>a. R (Some a)) \<Longrightarrow> sure E (ask_ref q0) R"
    "(\<And>a. S a) \<Longrightarrow> sure E (gets (Some r) g) S"
    "T (state_of i) \<Longrightarrow> sure E (state (Some r)) T"
  unfolding call_def put_def lock_machine_def unlock_machine_def wait_for_def get_def gets_def
    find_machine_def new_session_def state_def geti_def deref_def
  by (auto intro!: sure_perform sure_ask_ref sure_ask_str sure_bnd sure_ask_state sure_ret sure_poll
      assms)

lemma sure_release' [sure_intros]: "p \<noteq> None \<Longrightarrow> P () \<Longrightarrow> sure E (release p) P"
  by (auto simp: sure_release)

end
