(* ===== verification/Session_Protocol.thy ===== *)
theory Session_Protocol
  imports Vbox_Calls
begin

text \<open>
  The abstract specification every operation on a virtual machine is held against: the
  discipline VirtualBox asks of its clients. A client locks a machine with a session,
  reaches the mutable machine, the console and the settings objects through that session
  only, saves the settings it changed and unlocks the session. The specification is an
  automaton that reads the trace of calls: \<open>run\<close> is \<open>None\<close> as soon as a call breaks the
  discipline, and the state it ends in says what the operation left behind.
  \<open>guarded\<close> is the second half: no call changes the hypervisor unless the last reading of
  the machine's state allowed it.
\<close>

subsection \<open>The automaton\<close>

record proto =
  locked :: "ref list"               \<comment> \<open>sessions that hold a lock\<close>
  owned :: "(ref \<times> ref) list"        \<comment> \<open>objects reached through a session, with the session\<close>
  fresh :: "ref list"                \<comment> \<open>machines created and not yet registered\<close>
  unsaved :: bool                    \<comment> \<open>settings changed since the last \<open>saveSettings\<close>\<close>

definition start :: proto where
  "start = \<lparr>locked = [], owned = [], fresh = [], unsaved = False\<rparr>"

text \<open>The object a returned settings object belongs to.\<close>

fun parent :: "ref_req \<Rightarrow> ref option" where
  "parent (NetworkAdapter m _) = Some m"
| "parent (VRDEServerOf m) = Some m"
| "parent (RecordingSettingsOf m) = Some m"
| "parent (ScreenSettings r _) = Some r"
| "parent (AudioAdapterOf m) = Some m"
| "parent (SerialPort m _) = Some m"
| "parent _ = None"

definition reachable_in :: "ref \<Rightarrow> proto \<Rightarrow> bool" where
  "reachable_in r p \<longleftrightarrow> r \<in> set (map fst (owned p))"

definition editable :: "ref \<Rightarrow> proto \<Rightarrow> bool" where
  "editable r p \<longleftrightarrow> reachable_in r p \<or> r \<in> set (fresh p)"

text \<open>Which calls the discipline allows in a state.\<close>

fun legal_cmd :: "cmd \<Rightarrow> proto \<Rightarrow> bool" where
  "legal_cmd (LockMachine _ s _) p \<longleftrightarrow> (case s of None \<Rightarrow> True | Some s' \<Rightarrow> s' \<notin> set (locked p))"
| "legal_cmd (UnlockMachine s) p \<longleftrightarrow> s \<in> set (locked p)"
| "legal_cmd (PowerButton c) p \<longleftrightarrow> reachable_in c p"
| "legal_cmd (PowerDown c) p \<longleftrightarrow> reachable_in c p"
| "legal_cmd (PauseVM c) p \<longleftrightarrow> reachable_in c p"
| "legal_cmd (ResumeVM c) p \<longleftrightarrow> reachable_in c p"
| "legal_cmd (ResetVM c) p \<longleftrightarrow> reachable_in c p"
| "legal_cmd (Put r _) p \<longleftrightarrow> editable r p"
| "legal_cmd (SaveSettings r) p \<longleftrightarrow> editable r p"
| "legal_cmd (RegisterMachine m) p \<longleftrightarrow>
     (case m of None \<Rightarrow> True | Some r \<Rightarrow> r \<in> set (fresh p))"
| "legal_cmd (AttachDevice r _ _ _ _ _) p \<longleftrightarrow> reachable_in r p"
| "legal_cmd (DetachDevice r _ _ _) p \<longleftrightarrow> reachable_in r p"
| "legal_cmd (SetHotPluggable r _ _ _ _) p \<longleftrightarrow> reachable_in r p"
| "legal_cmd (MountMedium r _ _ _ _ _) p \<longleftrightarrow> reachable_in r p"
| "legal_cmd (AddSharedFolder r _ _ _ _ _) p \<longleftrightarrow> reachable_in r p"
| "legal_cmd (RemoveSharedFolder r _) p \<longleftrightarrow> reachable_in r p"
| "legal_cmd (RemoveUSBController r _) p \<longleftrightarrow> reachable_in r p"
| "legal_cmd _ p \<longleftrightarrow> True"

fun legal_ref :: "ref_req \<Rightarrow> proto \<Rightarrow> bool" where
  "legal_ref (SaveState r) p \<longleftrightarrow> reachable_in r p"
| "legal_ref (TakeSnapshot r _ _ _) p \<longleftrightarrow> reachable_in r p"
| "legal_ref (RestoreSnapshot r _) p \<longleftrightarrow> reachable_in r p"
| "legal_ref (DeleteSnapshot r _) p \<longleftrightarrow> reachable_in r p"
| "legal_ref (AddStorageController r _ _) p \<longleftrightarrow> reachable_in r p"
| "legal_ref (AddUSBController r _ _) p \<longleftrightarrow> reachable_in r p"
| "legal_ref _ p \<longleftrightarrow> True"

fun legal :: "event \<Rightarrow> proto \<Rightarrow> bool" where
  "legal (ECmd c _) p = legal_cmd c p"
| "legal (ERef q _) p = legal_ref q p"
| "legal _ p = True"

text \<open>What a successful call does.\<close>

fun after_cmd :: "cmd \<Rightarrow> proto \<Rightarrow> proto" where
  "after_cmd (LockMachine _ s _) p =
     (case s of None \<Rightarrow> p | Some s' \<Rightarrow> p\<lparr>locked := s' # locked p\<rparr>)"
| "after_cmd (UnlockMachine s) p =
     p\<lparr>locked := remove1 s (locked p), owned := filter (\<lambda>x. snd x \<noteq> s) (owned p)\<rparr>"
| "after_cmd (Put r _) p = (if r \<in> set (fresh p) then p else p\<lparr>unsaved := True\<rparr>)"
| "after_cmd (SaveSettings r) p = (if r \<in> set (fresh p) then p else p\<lparr>unsaved := False\<rparr>)"
| "after_cmd (RegisterMachine m) p =
     (case m of None \<Rightarrow> p | Some r \<Rightarrow> p\<lparr>fresh := removeAll r (fresh p)\<rparr>)"
| "after_cmd (AttachDevice _ _ _ _ _ _) p = p\<lparr>unsaved := True\<rparr>"
| "after_cmd (DetachDevice _ _ _ _) p = p\<lparr>unsaved := True\<rparr>"
| "after_cmd (SetHotPluggable _ _ _ _ _) p = p\<lparr>unsaved := True\<rparr>"
| "after_cmd (MountMedium _ _ _ _ _ _) p = p\<lparr>unsaved := True\<rparr>"
| "after_cmd (AddSharedFolder _ _ _ _ _ _) p = p\<lparr>unsaved := True\<rparr>"
| "after_cmd (RemoveSharedFolder _ _) p = p\<lparr>unsaved := True\<rparr>"
| "after_cmd (RemoveUSBController _ _) p = p\<lparr>unsaved := True\<rparr>"
| "after_cmd _ p = p"

definition own :: "ptr \<Rightarrow> ref \<Rightarrow> proto \<Rightarrow> proto" where
  "own x s p = (case x of None \<Rightarrow> p | Some a \<Rightarrow> p\<lparr>owned := (a, s) # owned p\<rparr>)"

definition inherit :: "ref_req \<Rightarrow> ptr \<Rightarrow> proto \<Rightarrow> proto" where
  \<comment> \<open>an object of an owned object is owned by the same session\<close>
  "inherit q x p = (case parent q of None \<Rightarrow> p | Some r \<Rightarrow>
     (case map_of (owned p) r of None \<Rightarrow> p | Some s \<Rightarrow> own x s p))"

fun after_ref :: "ref_req \<Rightarrow> ptr \<Rightarrow> proto \<Rightarrow> proto" where
  "after_ref (SessionMachine s) x p = (if s \<in> set (locked p) then own x s p else p)"
| "after_ref (ConsoleOf s) x p = (if s \<in> set (locked p) then own x s p else p)"
| "after_ref (CreateMachine _ _ _) x p =
     (case x of None \<Rightarrow> p | Some a \<Rightarrow> p\<lparr>fresh := a # fresh p\<rparr>)"
| "after_ref (LaunchVMProcess _ s _ _) x p =  \<comment> \<open>a successful launch leaves the session locked\<close>
     (case s of None \<Rightarrow> p | Some s' \<Rightarrow> p\<lparr>locked := s' # locked p\<rparr>)"
| "after_ref (AddStorageController _ _ _) x p = p\<lparr>unsaved := True\<rparr>"
| "after_ref (AddUSBController _ _ _) x p = p\<lparr>unsaved := True\<rparr>"
| "after_ref q x p = inherit q x p"

fun after :: "event \<Rightarrow> proto \<Rightarrow> proto" where
  "after (ECmd c e) p = (if e = None then after_cmd c p else p)"
| "after (ERef q r) p = (case r of Inl _ \<Rightarrow> p | Inr x \<Rightarrow> after_ref q x p)"
| "after _ p = p"

fun run :: "event list \<Rightarrow> proto \<Rightarrow> proto option" where
  "run [] p = Some p"
| "run (e # es) p = (if legal e p then run es (after e p) else None)"

subsection \<open>What operations owe\<close>

definition returns :: "'a outcome \<Rightarrow> bool" where
  "returns r \<longleftrightarrow> (case r of Ret _ \<Rightarrow> True | _ \<Rightarrow> False)"

definition conforms :: "'a outcome \<Rightarrow> event list \<Rightarrow> bool" where
  \<comment> \<open>the discipline is kept on every path, and a return leaves nothing behind\<close>
  "conforms r tr \<longleftrightarrow> (\<exists>p. run tr start = Some p \<and> (returns r \<longrightarrow> p = start))"

definition disciplined :: "event list \<Rightarrow> bool" where
  "disciplined tr \<longleftrightarrow> run tr start \<noteq> None"

definition held :: "event list \<Rightarrow> ref list" where
  "held tr = (case run tr start of None \<Rightarrow> [] | Some p \<Rightarrow> locked p)"

fun changing_ref :: "ref_req \<Rightarrow> bool" where
  "changing_ref (LaunchVMProcess _ _ _ _) \<longleftrightarrow> True"
| "changing_ref (SaveState _) \<longleftrightarrow> True"
| "changing_ref (CreateMedium _ _ _ _) \<longleftrightarrow> True"
| "changing_ref (CreateBaseStorage _ _ _) \<longleftrightarrow> True"
| "changing_ref (DeleteStorage _) \<longleftrightarrow> True"
| "changing_ref (AddStorageController _ _ _) \<longleftrightarrow> True"
| "changing_ref (TakeSnapshot _ _ _ _) \<longleftrightarrow> True"
| "changing_ref (RestoreSnapshot _ _) \<longleftrightarrow> True"
| "changing_ref (DeleteSnapshot _ _) \<longleftrightarrow> True"
| "changing_ref (CreateMachine _ _ _) \<longleftrightarrow> True"
| "changing_ref (CloneTo _ _ _ _) \<longleftrightarrow> True"
| "changing_ref (DeleteConfig _ _) \<longleftrightarrow> True"
| "changing_ref (ExportTo _ _ _) \<longleftrightarrow> True"
| "changing_ref (WriteAppliance _ _ _ _) \<longleftrightarrow> True"
| "changing_ref (ImportMachines _ _) \<longleftrightarrow> True"
| "changing_ref (AddUSBController _ _ _) \<longleftrightarrow> True"
| "changing_ref _ \<longleftrightarrow> False"

fun changing :: "event \<Rightarrow> bool" where
  "changing (ECmd c _) = (case c of WaitForCompletion _ _ \<Rightarrow> False | RefreshState _ \<Rightarrow> False | _ \<Rightarrow> True)"
| "changing (ERef q _) = changing_ref q"
| "changing (ERefs q _) = (case q of Unregister _ _ \<Rightarrow> True | _ \<Rightarrow> False)"
| "changing _ = False"

definition inert :: "event list \<Rightarrow> bool" where
  "inert tr \<longleftrightarrow> list_all (\<lambda>e. \<not> changing e) tr"

fun reading :: "event \<Rightarrow> machine_state option option" where
  "reading (EInt _ q r) = (case r of Inl _ \<Rightarrow> None
      | Inr i \<Rightarrow> if q = MachineStateP then Some (state_of i) else None)"
| "reading _ = None"

fun guarded :: "(machine_state option \<Rightarrow> bool) \<Rightarrow> bool \<Rightarrow> event list \<Rightarrow> bool" where
  "guarded S armed [] = True"
| "guarded S armed (e # es) =
     ((changing e \<longrightarrow> armed)
      \<and> guarded S (case reading e of None \<Rightarrow> armed | Some st \<Rightarrow> S st) es)"

text \<open>The case labels of a \<open>switch\<close> on a machine's state.\<close>

definition isin :: "machine_state list \<Rightarrow> machine_state option \<Rightarrow> bool" where
  "isin xs st \<longleftrightarrow> st \<in> set (map Some xs)"

lemma isin_weaken: "isin xs st \<Longrightarrow> set xs \<subseteq> set ys \<Longrightarrow> isin ys st"
  by (auto simp: isin_def)

lemma isin_disjoint: "isin xs st \<Longrightarrow> isin ys st \<Longrightarrow> set xs \<inter> set ys \<noteq> {}"
  by (auto simp: isin_def)

subsection \<open>Facts for the component proofs\<close>

named_theorems protocol_simps "evaluation of the automaton on a trace"

declare start_def [protocol_simps] reachable_in_def [protocol_simps]
  editable_def [protocol_simps] own_def [protocol_simps] inherit_def [protocol_simps]
  returns_def [protocol_simps] inert_def [protocol_simps]

lemma run_append: "run (xs @ ys) p = Option.bind (run xs p) (run ys)"
  by (induction xs arbitrary: p) simp_all

lemma run_skip:
  assumes "list_all (\<lambda>e. \<forall>p. legal e p \<and> after e p = p) tr"
  shows "run tr p = Some p" and "run (tr @ ys) p = run ys p"
  using assms by (induction tr) auto

lemma error_report_idle: "error_report e \<Longrightarrow> legal e p \<and> after e p = p"
proof (cases e)
  case (ERef q r)
  then show "error_report e \<Longrightarrow> legal e p \<and> after e p = p"
    by (cases q; cases r)
      (simp_all add: inherit_def)
qed simp_all

lemma polling_idle: "polling e \<Longrightarrow> legal e p \<and> after e p = p"
  by (cases e) auto

lemma run_report [simp]:
  "list_all error_report tr \<Longrightarrow> run tr p = Some p"
  "list_all error_report tr \<Longrightarrow> run (tr @ ys) p = run ys p"
  by (rule run_skip, erule list.pred_mono_strong, simp add: error_report_idle)+

lemma run_polling [simp]:
  "list_all polling tr \<Longrightarrow> run tr p = Some p"
  "list_all polling tr \<Longrightarrow> run (tr @ ys) p = run ys p"
  by (rule run_skip, erule list.pred_mono_strong, simp add: polling_idle)+

lemma guarded_skip:
  assumes "list_all (\<lambda>e. \<not> changing e \<and> reading e = None) tr"
  shows "guarded S b tr" and "guarded S b (tr @ ys) = guarded S b ys"
  using assms by (induction tr) auto

lemma error_report_inert: "error_report e \<Longrightarrow> \<not> changing e \<and> reading e = None"
proof (cases e)
  case (ERef q r)
  then show "error_report e \<Longrightarrow> \<not> changing e \<and> reading e = None"
    by (cases q) simp_all
qed simp_all

lemma polling_inert: "polling e \<Longrightarrow> \<not> changing e \<and> reading e = None"
  by (cases e) auto

lemma guarded_report [simp]:
  "list_all error_report tr \<Longrightarrow> guarded S b tr"
  "list_all error_report tr \<Longrightarrow> guarded S b (tr @ ys) = guarded S b ys"
  by (rule guarded_skip, erule list.pred_mono_strong, simp add: error_report_inert)+

lemma guarded_polling [simp]:
  "list_all polling tr \<Longrightarrow> guarded S b tr"
  "list_all polling tr \<Longrightarrow> guarded S b (tr @ ys) = guarded S b ys"
  by (rule guarded_skip, erule list.pred_mono_strong, simp add: polling_inert)+

lemma inert_quiet [simp]:
  "list_all error_report tr \<Longrightarrow> list_all (\<lambda>e. \<not> changing e) tr"
  "list_all polling tr \<Longrightarrow> list_all (\<lambda>e. \<not> changing e) tr"
  by (erule list.pred_mono_strong, simp add: error_report_inert polling_inert)+

text \<open>A guard that never opens is a run that changes nothing.\<close>

lemma guarded_never: "guarded (\<lambda>_. False) False tr \<longleftrightarrow> inert tr"
proof -
  have "guarded (\<lambda>_. False) False tr = inert tr" if "inert tr \<or> guarded (\<lambda>_. False) False tr" for tr
    using that
    by (induction tr) (auto simp: inert_def split: option.splits)
  then show ?thesis by blast
qed

lemma conformsD: "conforms r tr \<Longrightarrow> disciplined tr"
  by (auto simp: conforms_def disciplined_def)

lemma conforms_held: "conforms r tr \<Longrightarrow> returns r \<Longrightarrow> held tr = []"
  by (auto simp: conforms_def held_def start_def)

subsection \<open>Operations in sequence\<close>

text \<open>
  The contract of an operation that always cleans up, and what its clients get from it: any
  sequence of such operations keeps the discipline from the first call to the last, and
  between two of them no session is held.
\<close>

locale tidy_operation =
  fixes op_run :: "'x \<Rightarrow> ('w, 'a) io"
  assumes tidy: "post E (op_run x) conforms"
begin

lemma tidy_session: "post E (collect xs op_run) conforms"
proof (induction xs)
  case Nil
  show ?case by (auto intro!: post_intros simp: conforms_def)
next
  case (Cons x xs)
  have "then_post E (\<lambda>y. bnd (collect xs op_run) (\<lambda>ys. ret (y # ys))) conforms r tr"
    if c: "conforms r tr" for r tr
  proof (cases r)
    case (Ret a)
    with c have run: "run tr start = Some start" by (auto simp: conforms_def returns_def)
    have "then_post E (\<lambda>ys. ret (a # ys)) (\<lambda>r' tr'. conforms r' (tr @ tr')) r1 tr1"
      if "conforms r1 tr1" for r1 tr1
      using that by (cases r1) (auto simp: conforms_def run_append run returns_def intro!: post_intros)
    then show ?thesis
      by (auto simp: Ret intro!: post_bnd post_mono [OF Cons.IH])
  qed (use c in \<open>auto simp: conforms_def returns_def\<close>)
  then show ?case by (auto intro!: post_bnd post_mono [OF tidy])
qed

lemma tidy_run:
  assumes "collect xs op_run E w = (r, w')"
  shows "\<exists>tr. trace w' = trace w @ tr \<and> disciplined tr \<and> (returns r \<longrightarrow> held tr = [])"
  using postD [OF tidy_session assms] conformsD conforms_held by blast

end

end
