(* ===== verification/Sample_Host.thy ===== *)
theory Sample_Host
  imports Session_Protocol
begin

text \<open>
  A concrete hypervisor on which the models are evaluated: every call succeeds, each kind of
  request returns one fixed interface, and the machine's state always reads as \<open>i\<close>. It is
  obliging, so the hypotheses of the success theorems can be met.
\<close>

definition host_ref :: "ref_req \<Rightarrow> ref" where
  "host_ref q = (case q of
      FindMachine _ \<Rightarrow> 10 | NewSession \<Rightarrow> 20 | SessionMachine _ \<Rightarrow> 11 | ConsoleOf _ \<Rightarrow> 30
    | _ \<Rightarrow> 40)"

definition host :: "int \<Rightarrow> unit vbox" where
  "host i = \<lparr>
     on_cmd = \<lambda>c v. (None, v),
     on_ref = \<lambda>q v. (Inr (Some (host_ref q)), v),
     on_int = \<lambda>r q v. (Inr (if q = MachineStateP then i else 0), v),
     on_str = \<lambda>q v. (Inr (u16 ''x''), v),
     on_bool = \<lambda>r q v. (Inr True, v),
     on_refs = \<lambda>q v. (Inr [], v),
     on_states = \<lambda>rs v. (None, v),
     on_warnings = \<lambda>r v. (Inr [], v),
     on_release = \<lambda>r v. v,
     on_time = \<lambda>v. (0, v),
     styled = \<lambda>j. ''{}'',
     fast_write = \<lambda>j. ''[]''\<rparr>"

definition world0 :: "(unit, event) world" where
  "world0 = \<lparr>vm = (), trace = []\<rparr>"

lemma obliging_host: "obliging (host i) i"
  by (auto simp: obliging_def host_def)

lemma utf16_vm: "to_utf16 ''vm'' = Some (u16 ''vm'')"
  by (rule to_utf16_ascii) simp

text \<open>The definitions by which the simplifier runs a model on a concrete hypervisor.\<close>

lemmas eval_simps = bnd_def ret_def throw_def undef_def try_com_def Let_def
  perform_def ask_def answer_def ask_ref_def ask_int_def ask_str_def ask_bool_def ask_refs_def
  ask_states_def ask_warnings_def env_def deref_def call_def get_def geti_def gets_def getb_def put_def
  release_def state_def find_machine_def new_session_def lock_machine_def unlock_machine_def
  wait_for_def conv_def utf16_def utf8_def report_errors_def print_and_fall_off_def
  host_def host_ref_def world0_def state_of_def all_states_def isin_def

end
