(* ===== verification/Core_Power.thy ===== *)
theory Core_Power
  imports Sample_Host
begin

text \<open>
  The power operations of \<open>QiVCA\<close> (source/vca_core.cpp): constructor, \<open>startUp\<close>,
  \<open>shutDown\<close>, \<open>powerOff\<close>, \<open>pause\<close>, \<open>resume\<close>, \<open>vmSleep\<close>, \<open>restart\<close>. An operation takes
  the string the caller passed as \<open>callbackdata\<close> and returns the C++ result with the
  string's final value. The \<open>_post\<close> lemmas follow every path of an operation once; the
  properties are read off them.
\<close>

subsection \<open>The operations\<close>

definition QiVCA :: "('w, ref list) io" where
  "QiVCA =
     bnd (ask_ref VirtualBoxClient) (\<lambda>vboxClient.
     bnd (get vboxClient VirtualBoxOf) (\<lambda>vbox.
     deref vbox (\<lambda>_. ask_refs Machines)))"

definition startUp ::
  "string \<Rightarrow> string \<Rightarrow> int option \<Rightarrow> string \<Rightarrow> ('w, int option \<times> string) io" where
  "startUp vmname ui data message =
     try_com
       (bnd (utf16 vmname) (\<lambda>name.
        bnd (utf16 ui) (\<lambda>ui_type.
        bnd (find_machine name) (\<lambda>machine.
        if machine \<noteq> None then
          bnd (state machine) (\<lambda>st.
          if isin [PoweredOff, Aborted, Saved] st then
            bnd new_session (\<lambda>session.
            bnd (get machine (\<lambda>m. LaunchVMProcess m session ui_type [])) (\<lambda>progress.
            seqs [wait_for progress, unlock_machine session, release machine]
              (ret (Some 1, message))))
          else
            seqs [release machine]
              (ret (Some 0, ''Virtual machine state is not poweroff or saved or aborted!'')))
        else
          seqs [release machine] (ret (Some 0, ''Virtual machine does not exist!''))))))
       (\<lambda>err. bnd report_errors (\<lambda>_. ret (data, message)))"

definition shutDown :: "string \<Rightarrow> string \<Rightarrow> ('w, bool \<times> string) io" where
  "shutDown vmname callbackdata =
     bnd (utf16 vmname) (\<lambda>name.
     bnd (find_machine name) (\<lambda>machine.
     if machine \<noteq> None then
       bnd (state machine) (\<lambda>st.
       if isin [Running] st then
         bnd new_session (\<lambda>session.
         seqs [lock_machine machine session Shared]
         (bnd (get session ConsoleOf) (\<lambda>console.
          seqs [call console PowerButton, unlock_machine session, release machine]
            (ret (True, callbackdata)))))
       else
         seqs [release machine] (ret (False, ''Virtual machine state is not running!'')))
     else
       seqs [release machine] (ret (False, ''Virtual machine does not exist!''))))"

definition powerOff :: "string \<Rightarrow> string \<Rightarrow> ('w, bool \<times> string) io" where
  "powerOff vmname callbackdata =
     bnd (utf16 vmname) (\<lambda>name.
     bnd (find_machine name) (\<lambda>machine.
     if machine \<noteq> None then
       bnd (state machine) (\<lambda>st.
       if isin [Saving, Restoring, Saved, Aborted, PoweredOff, Snapshotting, RestoringSnapshot,
                DeletingSnapshot] st then
         seqs [release machine] (undef No_return)
       else
         bnd new_session (\<lambda>session.
         seqs [lock_machine machine session Shared]
         (bnd (get session ConsoleOf) (\<lambda>console.
          seqs [call console PowerDown, unlock_machine session, release machine]
            (ret (True, callbackdata))))))
     else
       seqs [release machine] (ret (False, ''Virtual machine does not exist!''))))"

definition pause :: "string \<Rightarrow> string \<Rightarrow> ('w, bool \<times> string) io" where
  "pause vmname callbackdata =
     bnd (utf16 vmname) (\<lambda>name.
     bnd (find_machine name) (\<lambda>machine.
     if machine \<noteq> None then
       bnd (state machine) (\<lambda>st.
       if isin [Running, Starting, Stopping] st then
         bnd new_session (\<lambda>session.
         seqs [lock_machine machine session Shared]
         (bnd (get session ConsoleOf) (\<lambda>console.
          seqs [call console PauseVM, unlock_machine session, release machine]
            (ret (True, callbackdata)))))
       else
         seqs [release machine]
           (ret (False, ''Virtual machine state is not running or starting or stoping!'')))
     else
       seqs [release machine] (ret (False, ''Virtual machine does not exist!''))))"

definition resume :: "string \<Rightarrow> string \<Rightarrow> ('w, bool \<times> string) io" where
  "resume vmname callbackdata =
     bnd (utf16 vmname) (\<lambda>name.
     bnd (find_machine name) (\<lambda>machine.
     if machine \<noteq> None then
       bnd (state machine) (\<lambda>st.
       if isin [Paused] st then
         bnd new_session (\<lambda>session.
         seqs [lock_machine machine session Shared]
         (bnd (get session ConsoleOf) (\<lambda>console.
          seqs [call console ResumeVM, unlock_machine session, release machine]
            (ret (True, callbackdata)))))
       else
         seqs [release machine] (ret (False, ''Virtual machine state is not Paused!'')))
     else
       seqs [release machine] (ret (False, ''Virtual machine does not exist!''))))"

definition vmSleep :: "string \<Rightarrow> string \<Rightarrow> ('w, bool \<times> string) io" where
  "vmSleep vmname callbackdata =
     bnd (utf16 vmname) (\<lambda>name.
     bnd (find_machine name) (\<lambda>machine.
     if machine \<noteq> None then
       bnd (state machine) (\<lambda>st.
       if isin [Running, Paused] st then
         bnd new_session (\<lambda>session.
         seqs [lock_machine machine session Shared]
         (bnd (get session SessionMachine) (\<lambda>mutablemachine.
          seqs
            [if mutablemachine \<noteq> None
             then bnd (get mutablemachine SaveState) (\<lambda>progress. wait_for progress)
             else ret (),
             unlock_machine session, release machine]
            (ret (True, callbackdata)))))
       else
         seqs [release machine]
           (ret (False, ''Virtual machine state is not Paused or running!'')))
     else
       seqs [release machine] (ret (False, ''Virtual machine does not exist!''))))"

definition restart :: "string \<Rightarrow> string \<Rightarrow> ('w, bool \<times> string) io" where
  "restart vmname callbackdata =
     bnd (utf16 vmname) (\<lambda>name.
     bnd (find_machine name) (\<lambda>machine.
     if machine \<noteq> None then
       bnd (state machine) (\<lambda>st.
       if isin [Running] st then
         bnd new_session (\<lambda>session.
         seqs [lock_machine machine session Shared]
         (bnd (get session ConsoleOf) (\<lambda>console.
          seqs [call console ResetVM, unlock_machine session, release machine]
            (ret (True, callbackdata)))))
       else
         seqs [release machine] (ret (False, ''Virtual machine state is not running!'')))
     else
       seqs [release machine] (ret (False, ''Virtual machine does not exist!''))))"

subsection \<open>What each operation owes\<close>

text \<open>
  The six operations on a running or sleeping machine share one shape. \<open>power_req\<close> names
  them; for each there is the set of states it acts in, the message with which it refuses
  and the exact sequence of calls of a successful run.
\<close>

datatype power_req = Shut_Down | Power_Off | Pause | Resume | Sleep | Restart

primrec power_op :: "power_req \<Rightarrow> string \<Rightarrow> string \<Rightarrow> ('w, bool \<times> string) io" where
  "power_op Shut_Down = shutDown"
| "power_op Power_Off = powerOff"
| "power_op Pause = pause"
| "power_op Resume = resume"
| "power_op Sleep = vmSleep"
| "power_op Restart = restart"

primrec acts_in :: "power_req \<Rightarrow> machine_state option \<Rightarrow> bool" where
  "acts_in Shut_Down = isin [Running]"
| "acts_in Power_Off = (\<lambda>st. \<not> isin [Saving, Restoring, Saved, Aborted, PoweredOff, Snapshotting,
                                   RestoringSnapshot, DeletingSnapshot] st)"
| "acts_in Pause = isin [Running, Starting, Stopping]"
| "acts_in Resume = isin [Paused]"
| "acts_in Sleep = isin [Running, Paused]"
| "acts_in Restart = isin [Running]"

primrec refusal :: "power_req \<Rightarrow> string option" where
  "refusal Shut_Down = Some ''Virtual machine state is not running!''"
| "refusal Power_Off = None"
| "refusal Pause = Some ''Virtual machine state is not running or starting or stoping!''"
| "refusal Resume = Some ''Virtual machine state is not Paused!''"
| "refusal Sleep = Some ''Virtual machine state is not Paused or running!''"
| "refusal Restart = Some ''Virtual machine state is not running!''"

text \<open>The calls between lock and unlock; \<open>x\<close> is the console or the mutable machine.\<close>

primrec power_calls :: "power_req \<Rightarrow> ref \<Rightarrow> ptr \<Rightarrow> ref \<Rightarrow> event list" where
  "power_calls Shut_Down s x g = ERef (ConsoleOf s) (Inr x) # [ECmd (PowerButton (the x)) None]"
| "power_calls Power_Off s x g = ERef (ConsoleOf s) (Inr x) # [ECmd (PowerDown (the x)) None]"
| "power_calls Pause s x g = ERef (ConsoleOf s) (Inr x) # [ECmd (PauseVM (the x)) None]"
| "power_calls Resume s x g = ERef (ConsoleOf s) (Inr x) # [ECmd (ResumeVM (the x)) None]"
| "power_calls Sleep s x g = ERef (SessionMachine s) (Inr x) #
     (case x of None \<Rightarrow> [] | Some m \<Rightarrow>
        [ERef (SaveState m) (Inr (Some g)), ECmd (WaitForCompletion g (- 1)) None])"
| "power_calls Restart s x g = ERef (ConsoleOf s) (Inr x) # [ECmd (ResetVM (the x)) None]"

definition power_script ::
  "power_req \<Rightarrow> u16string \<Rightarrow> ref \<Rightarrow> int \<Rightarrow> ref \<Rightarrow> ptr \<Rightarrow> ref \<Rightarrow> event list" where
  "power_script q name m i s x g =
     [ERef (FindMachine name) (Inr (Some m)), EInt m MachineStateP (Inr i),
      ERef NewSession (Inr (Some s)), ECmd (LockMachine m (Some s) Shared) None]
     @ power_calls q s x g
     @ [ECmd (UnlockMachine s) None, ERelease m]"

definition refusal_script :: "u16string \<Rightarrow> ref \<Rightarrow> int \<Rightarrow> event list" where
  "refusal_script name m i =
     [ERef (FindMachine name) (Inr (Some m)), EInt m MachineStateP (Inr i), ERelease m]"

definition power_returns ::
  "power_req \<Rightarrow> string \<Rightarrow> string \<Rightarrow> bool \<Rightarrow> string \<Rightarrow> event list \<Rightarrow> bool" where
  \<comment> \<open>success is the script, a refusal changes nothing and says why\<close>
  "power_returns q n d b d' tr \<longleftrightarrow>
     (\<exists>name m i. to_utf16 n = Some name \<and>
        (if b then acts_in q (state_of i) \<and> d' = d \<and>
            (\<exists>s x g. (x = None \<longrightarrow> q = Sleep) \<and> tr = power_script q name m i s x g)
         else \<not> acts_in q (state_of i) \<and> Some d' = refusal q \<and> tr = refusal_script name m i))"

definition power_contract ::
  "power_req \<Rightarrow> string \<Rightarrow> string \<Rightarrow> (bool \<times> string) outcome \<Rightarrow> event list \<Rightarrow> bool" where
  "power_contract q n d r tr \<longleftrightarrow>
     conforms r tr \<and> guarded (acts_in q) False tr \<and>
     (case r of Ret (b, d') \<Rightarrow> power_returns q n d b d' tr
      | Throw e \<Rightarrow> True
      | Undef u \<Rightarrow> (case u of Null_deref \<Rightarrow> True
          | No_return \<Rightarrow> q = Power_Off \<and> (\<exists>name m i. \<not> acts_in q (state_of i) \<and> tr = refusal_script name m i)
          | Uninit_read \<Rightarrow> False)
      | Hang \<Rightarrow> False)"

lemmas power_simps = power_contract_def power_returns_def power_script_def refusal_script_def
  conforms_def

lemma power_post: "post E (power_op q n d) (power_contract q n d)"
  by (cases q; simp only: power_op.simps shutDown_def powerOff_def pause_def resume_def vmSleep_def
        restart_def; intro post_intros)
    (auto simp: power_simps protocol_simps split: option.splits)

subsection \<open>Starting a machine\<close>

text \<open>
  \<open>startUp\<close> answers through two reference parameters and catches every COM error: after
  one of them it returns with both parameters as the caller left them.
\<close>

definition startable :: "machine_state option \<Rightarrow> bool" where
  "startable = isin [PoweredOff, Aborted, Saved]"

definition start_script :: "u16string \<Rightarrow> u16string \<Rightarrow> ref \<Rightarrow> int \<Rightarrow> ref \<Rightarrow> ref \<Rightarrow> event list" where
  "start_script name ui m i s g =
     [ERef (FindMachine name) (Inr (Some m)), EInt m MachineStateP (Inr i),
      ERef NewSession (Inr (Some s)),
      ERef (LaunchVMProcess m (Some s) ui []) (Inr (Some g)), ECmd (WaitForCompletion g (- 1)) None,
      ECmd (UnlockMachine s) None, ERelease m]"

definition start_returns ::
  "string \<Rightarrow> string \<Rightarrow> string \<Rightarrow> int \<Rightarrow> string \<Rightarrow> event list \<Rightarrow> bool" where
  "start_returns n ui msg k msg' tr \<longleftrightarrow>
     (\<exists>name ui' m i. to_utf16 n = Some name \<and> to_utf16 ui = Some ui' \<and>
        (if startable (state_of i)
         then k = 1 \<and> msg' = msg \<and> (\<exists>s g. tr = start_script name ui' m i s g)
         else k = 0 \<and> msg' = ''Virtual machine state is not poweroff or saved or aborted!''
                \<and> tr = refusal_script name m i))"

definition start_contract ::
  "string \<Rightarrow> string \<Rightarrow> int option \<Rightarrow> string \<Rightarrow> (int option \<times> string) outcome \<Rightarrow> event list \<Rightarrow> bool" where
  "start_contract n ui data msg r tr \<longleftrightarrow>
     disciplined tr \<and> guarded startable False tr \<and>
     (case r of Ret (data', msg') \<Rightarrow>
        if list_ex failed tr then data' = data \<and> msg' = msg
        else held tr = [] \<and> (\<exists>k. data' = Some k \<and> start_returns n ui msg k msg' tr)
      | Throw e \<Rightarrow> (case e of RangeError \<Rightarrow> tr = [] | COMError _ \<Rightarrow> list_ex failed tr)
      | Undef u \<Rightarrow> u = Null_deref
      | Hang \<Rightarrow> list_ex failed tr)"

lemma start_post: "post E (startUp n ui data msg) (start_contract n ui data msg)"
  unfolding startUp_def
  by (intro post_intros)
    (auto simp: start_contract_def start_returns_def startable_def start_script_def
      refusal_script_def disciplined_def held_def protocol_simps split: option.splits)

subsection \<open>The contract as an interface\<close>

text \<open>Every power operation is tidy, so sequences of them are.\<close>

lemma power_tidy: "post E (power_op q n d) conforms"
  by (rule post_mono [OF power_post]) (simp add: power_contract_def)

interpretation power: tidy_operation "\<lambda>(q, n, d). power_op q n d"
  by unfold_locales (auto simp: power_tidy)

subsection \<open>Runs that succeed, and the one that has no result\<close>

lemma power_sure:
  assumes "obliging E i" and "acts_in q (state_of i)" and "to_utf16 n = Some name"
  shows "sure E (power_op q n d) (\<lambda>a. a = (True, d))"
  using assms(2)
  by (cases q; simp only: power_op.simps shutDown_def powerOff_def pause_def resume_def
        vmSleep_def restart_def)
    (intro sure_intros sure_utf16 [OF assms(3)] sure_calls [OF assms(1)]; simp)+

lemma powerOff_ends:
  assumes "obliging E i" and "\<not> acts_in Power_Off (state_of i)" and "to_utf16 n = Some name"
  shows "ends E (powerOff n d) (Undef No_return)"
  using assms(2) unfolding powerOff_def
  by (intro sure_intros sure_utf16 [OF assms(3)] sure_calls [OF assms(1)]; simp)

text \<open>C2. The six power operations: whatever the hypervisor answers, an operation keeps the
  session discipline, changes nothing unless the state it just read allows it, returns true
  exactly after its script of calls, returns false only with its refusal message and
  without changing anything, and leaves no session locked when it returns. A null machine
  is never reported: that branch calls through the null pointer first.\<close>

theorem power_operations: "post E (power_op q n d) (power_contract q n d)"
  by (rule power_post)

text \<open>C35. On a hypervisor that answers every call, an operation in a state it acts in returns
  true, for every name that is well-formed UTF-8.\<close>

theorem power_succeeds:
  assumes "obliging E i" and "acts_in q (state_of i)" and "to_utf16 n = Some name"
  shows "fst (power_op q n d E w) = Ret (True, d)"
  by (rule endsD [OF ends_sure [OF power_sure [OF assms]]])

theorem power_succeeds_witness:
  "fst (power_op Restart ''vm'' ''old'' (host 5) world0) = Ret (True, ''old'')"
  by (rule power_succeeds [OF obliging_host _ utf16_vm])
    (simp add: isin_def state_of_def all_states_def)

text \<open>\<open>powerOff\<close> has no return statement behind its list of inert states: on a machine
  that is already off, saved or aborted the call is undefined behaviour, not a refusal.\<close>

theorem powerOff_without_result:
  assumes "obliging E i" and "\<not> acts_in Power_Off (state_of i)" and "to_utf16 n = Some name"
  shows "fst (powerOff n d E w) = Undef No_return"
  by (rule endsD [OF powerOff_ends [OF assms]])

theorem powerOff_without_result_witness:
  "fst (powerOff ''vm'' [] (host 1) world0) = Undef No_return"
  by (rule powerOff_without_result [OF obliging_host _ utf16_vm])
    (simp add: isin_def state_of_def all_states_def)

text \<open>Any sequence of power operations, on any machines and with any answers, keeps the
  discipline from the first call to the last, and ends with no session held when it ends.\<close>

theorem power_sequences: "post E (collect reqs (\<lambda>(q, n, d). power_op q n d)) conforms"
  by (rule power.tidy_session)

text \<open>C31. \<open>startUp\<close>: it launches only a machine that read as powered off, aborted or saved,
  answers 1 exactly after the launch was waited for and the session unlocked, answers 0 with
  its message in any other state, and after a COM error returns with both output parameters
  untouched.\<close>

theorem startUp_behaviour: "post E (startUp n ui data msg) (start_contract n ui data msg)"
  by (rule start_post)

definition launch_fails :: "unit vbox" where
  "launch_fails = (host 1)\<lparr>
     on_cmd := \<lambda>c v. (case c of WaitForCompletion _ _ \<Rightarrow> Some 1 | _ \<Rightarrow> None, v),
     on_ref := \<lambda>q v. (Inr (case q of QueryErrorInfo _ \<Rightarrow> None | _ \<Rightarrow> Some (host_ref q)), v)\<rparr>"

text \<open>The \<open>catch\<close> of \<open>startUp\<close> does not unlock: when waiting for the launch fails the
  function returns normally with the session still locked and no answer given.\<close>

theorem startUp_leaves_session_locked:
  "\<exists>(E :: unit vbox) w w'. startUp ''vm'' ''vm'' None [] E w = (Ret (None, []), w') \<and> held (trace w') \<noteq> []"
proof (intro exI)
  show "startUp ''vm'' ''vm'' None [] launch_fails world0 = (Ret (None, []), snd (startUp ''vm'' ''vm'' None [] launch_fails world0))
      \<and> held (trace (snd (startUp ''vm'' ''vm'' None [] launch_fails world0))) \<noteq> []"
    by (simp add: startUp_def launch_fails_def eval_simps utf16_vm held_def protocol_simps)
qed

end
