(* ===== verification/Core_Snapshot.thy ===== *)
theory Core_Snapshot
  imports Core_Power
begin

text \<open>
  The snapshot operations of \<open>QiVCA\<close> (source/vca_core.cpp): \<open>takeSnapshot\<close>,
  \<open>restoreSnapshot\<close>, which calls \<open>vmSleep\<close> on a machine that is not stopped, and
  \<open>deleteSnapshot\<close>.
\<close>

definition takeSnapshot :: "string \<Rightarrow> string \<Rightarrow> string \<Rightarrow> ('w, bool \<times> string) io" where
  "takeSnapshot vmname snapname callbackdata =
     bnd (utf16 vmname) (\<lambda>name.
     bnd (utf16 snapname) (\<lambda>snap_name.
     bnd (find_machine name) (\<lambda>machine.
     if machine \<noteq> None then
       bnd new_session (\<lambda>session.
       bnd (state machine) (\<lambda>st.
       if isin [Running] st then
         seqs [lock_machine machine session Shared]
         (bnd (get session SessionMachine) (\<lambda>mutabmachine.
          if mutabmachine \<noteq> None then
            bnd (gets mutabmachine MachineId) (\<lambda>i.
            bnd (get mutabmachine (\<lambda>m. TakeSnapshot m snap_name (u16 ''vca core!'') False)) (\<lambda>progress.
            seqs [wait_for progress, unlock_machine session, release machine]
              (ret (True, callbackdata))))
          else
            seqs [unlock_machine session, release machine]
              (ret (False, '' Failed to get virtual machine variable object !''))))
       else
         seqs [release machine] (ret (False, '' Virtual state should be running!''))))
     else
       seqs [release machine] (ret (False, '' Virtual machine does not exist !'')))))"

definition restoreSnapshot :: "string \<Rightarrow> string \<Rightarrow> string \<Rightarrow> ('w, bool \<times> string) io" where
  "restoreSnapshot vmname snapname callbackdata =
     try_com
       (bnd (utf16 vmname) (\<lambda>name.
        bnd (utf16 snapname) (\<lambda>snap_name.
        bnd (find_machine name) (\<lambda>machine.
        if machine \<noteq> None then
          bnd (state machine) (\<lambda>st.
          if isin [Starting, Stopping, Paused, Saving, Running] st then
            bnd (vmSleep vmname []) (\<lambda>(b, data).
            if \<not> b then ret (False, data) else ret (True, callbackdata))
          else if isin [PoweredOff, Saved] st then
            bnd new_session (\<lambda>session.
            seqs [lock_machine machine session Shared]
            (bnd (get session SessionMachine) (\<lambda>mutabmachine.
             if mutabmachine \<noteq> None then
               bnd (get mutabmachine (\<lambda>m. FindSnapshot m snap_name)) (\<lambda>snap.
               if snap \<noteq> None then
                 bnd (get mutabmachine (\<lambda>m. RestoreSnapshot m snap)) (\<lambda>progress.
                 seqs [wait_for progress, unlock_machine session, release machine]
                   (ret (True, callbackdata)))
               else
                 seqs [unlock_machine session, release machine]
                   (ret (False, ''Virtual machine snapshot does not exist !'')))
             else
               seqs [unlock_machine session, release machine]
                 (ret (False, '' Failed to get virtual machine variable object !'')))))
          else
            seqs [release machine]
              (ret (False, ''Virtual machine state is not PoweredOff or saved, and powerOff failed!'')))
        else
          seqs [release machine] (ret (False, ''Virtual machine does not exist !''))))))
       print_and_fall_off"

definition deleteSnapshot :: "string \<Rightarrow> string \<Rightarrow> string \<Rightarrow> ('w, bool \<times> string) io" where
  "deleteSnapshot vmname snapname callbackdata =
     bnd (utf16 vmname) (\<lambda>name.
     bnd (utf16 snapname) (\<lambda>snap_name.
     bnd (find_machine name) (\<lambda>machine.
     if machine \<noteq> None then
       bnd (state machine) (\<lambda>st.
       if isin [PoweredOff, Running, Saved] st then
         bnd new_session (\<lambda>session.
         seqs [lock_machine machine session Shared]
         (bnd (get session SessionMachine) (\<lambda>mutabmachine.
          if mutabmachine \<noteq> None then
            bnd (get mutabmachine (\<lambda>m. FindSnapshot m snap_name)) (\<lambda>snap.
            if snap \<noteq> None then
              bnd (gets snap SnapshotId) (\<lambda>i.
              bnd (get mutabmachine (\<lambda>m. DeleteSnapshot m i)) (\<lambda>progress.
              seqs [wait_for progress, unlock_machine session, release machine]
                (ret (True, callbackdata))))
            else
              seqs [unlock_machine session, release machine]
                (ret (False, ''Virtual machine snapshot does not exist !'')))
          else
            seqs [unlock_machine session, release machine]
              (ret (False, '' Failed to get virtual machine variable object !'')))))
       else
         seqs [release machine]
           (ret (False, ''Virtual machine state is not PoweredOff or saved or running!'')))
     else
       seqs [release machine] (ret (False, ''Virtual machine does not exist !'')))))"

subsection \<open>Contracts\<close>

text \<open>The snapshot calls of a run, in order: what was taken, restored and deleted.\<close>

datatype snap_call = Took u16string | Restored ptr | Deleted u16string

fun snap_calls :: "event list \<Rightarrow> snap_call list" where
  "snap_calls [] = []"
| "snap_calls (e # es) = (case e of
      ERef q r \<Rightarrow> (case r of Inl _ \<Rightarrow> [] | Inr _ \<Rightarrow>
        (case q of TakeSnapshot _ n _ _ \<Rightarrow> [Took n] | RestoreSnapshot _ s \<Rightarrow> [Restored s]
         | DeleteSnapshot _ i \<Rightarrow> [Deleted i] | _ \<Rightarrow> []))
    | _ \<Rightarrow> []) @ snap_calls es"

lemma snap_calls_append [simp]: "snap_calls (xs @ ys) = snap_calls xs @ snap_calls ys"
  by (induction xs) simp_all

lemma snap_calls_report [simp]: "list_all error_report tr \<Longrightarrow> snap_calls tr = []"
proof (induction tr)
  case (Cons e tr)
  then show ?case
    by (cases e) (auto split: sum.split ref_req.splits)
qed simp

definition found_snapshot :: "u16string \<Rightarrow> ref \<Rightarrow> event list \<Rightarrow> bool" where
  "found_snapshot n s tr \<longleftrightarrow> (\<exists>m. ERef (FindSnapshot m n) (Inr (Some s)) \<in> set tr)"

definition take_contract ::
  "string \<Rightarrow> string \<Rightarrow> (bool \<times> string) outcome \<Rightarrow> event list \<Rightarrow> bool" where
  "take_contract sn d r tr \<longleftrightarrow>
     conforms r tr \<and> guarded (isin [Running]) False tr \<and>
     (case r of Ret (b, d') \<Rightarrow>
        (if b then \<exists>s. to_utf16 sn = Some s \<and> snap_calls tr = [Took s] \<and> d' = d
         else snap_calls tr = [])
      | Throw _ \<Rightarrow> True | Undef u \<Rightarrow> u = Null_deref | Hang \<Rightarrow> False)"

lemma take_post: "post E (takeSnapshot n sn d) (take_contract sn d)"
  unfolding takeSnapshot_def
  by (intro post_intros) (auto simp: take_contract_def conforms_def protocol_simps split: option.splits)

definition delete_contract ::
  "string \<Rightarrow> string \<Rightarrow> (bool \<times> string) outcome \<Rightarrow> event list \<Rightarrow> bool" where
  "delete_contract sn d r tr \<longleftrightarrow>
     conforms r tr \<and> guarded (isin [PoweredOff, Running, Saved]) False tr \<and>
     (case r of Ret (b, d') \<Rightarrow>
        (if b then \<exists>name s i. to_utf16 sn = Some name \<and> found_snapshot name s tr
                \<and> EStr (SnapshotId s) (Inr i) \<in> set tr \<and> snap_calls tr = [Deleted i] \<and> d' = d
         else snap_calls tr = [])
      | Throw _ \<Rightarrow> True | Undef u \<Rightarrow> u = Null_deref | Hang \<Rightarrow> False)"

lemma delete_post: "post E (deleteSnapshot n sn d) (delete_contract sn d)"
  unfolding deleteSnapshot_def
  by (intro post_intros)
    (auto simp: delete_contract_def found_snapshot_def conforms_def protocol_simps split: option.splits)

text \<open>
  Restoring: a stopped machine gets the named snapshot back; a machine that is not stopped
  is put to sleep, and the operation then returns true although nothing was restored.
\<close>

definition stopped :: "machine_state option \<Rightarrow> bool" where
  "stopped = isin [PoweredOff, Saved]"

definition first_state :: "event list \<Rightarrow> machine_state option option" where
  "first_state tr = (case filter (\<lambda>e. reading e \<noteq> None) tr of [] \<Rightarrow> None | e # _ \<Rightarrow> reading e)"

definition restore_contract ::
  "string \<Rightarrow> string \<Rightarrow> (bool \<times> string) outcome \<Rightarrow> event list \<Rightarrow> bool" where
  "restore_contract sn d r tr \<longleftrightarrow>
     conforms r tr \<and> guarded (isin [PoweredOff, Saved, Running, Paused]) False tr \<and>
     (case r of Ret (b, d') \<Rightarrow> (case first_state tr of None \<Rightarrow> False | Some st \<Rightarrow>
        (if b \<and> stopped st
         then \<exists>name s. to_utf16 sn = Some name \<and> found_snapshot name s tr
                 \<and> snap_calls tr = [Restored (Some s)]
         else snap_calls tr = []) \<and>
        (b \<longrightarrow> d' = d \<and> isin [PoweredOff, Saved, Starting, Stopping, Paused, Saving, Running] st))
      | Throw e \<Rightarrow> e = RangeError \<or> list_ex failed tr
      | Undef u \<Rightarrow> (u = No_return \<longrightarrow> list_ex failed tr) \<and> u \<noteq> Uninit_read
      | Hang \<Rightarrow> list_ex failed tr)"

lemma restore_post: "post E (restoreSnapshot n sn d) (restore_contract sn d)"
  unfolding restoreSnapshot_def vmSleep_def
  by (intro post_intros)
    (auto simp: restore_contract_def found_snapshot_def stopped_def first_state_def conforms_def
      protocol_simps intro: isin_weaken dest: isin_disjoint split: option.splits)

subsection \<open>Properties\<close>

text \<open>C29. \<open>takeSnapshot\<close> acts on a running machine only, takes exactly one snapshot, with the
  name it was given, when it returns true and none when it returns false.
  \<open>deleteSnapshot\<close> deletes exactly the snapshot that was found under the given name, by
  its id, when it returns true, and none otherwise. Neither leaves a session locked when it
  returns.\<close>

theorem snapshots_taken_and_deleted:
  "post E (takeSnapshot n sn d) (take_contract sn d)
   \<and> post E (deleteSnapshot n sn d) (delete_contract sn d)"
  by (rule conjI [OF take_post delete_post])

text \<open>C6. \<open>restoreSnapshot\<close>: on a machine that read as powered off or saved, true means that
  exactly the named snapshot was restored. On a running, paused, starting, stopping or
  saving machine it only puts the machine to sleep and returns true with no snapshot
  restored. A COM error makes it run off its end.\<close>

theorem restore_snapshot: "post E (restoreSnapshot n sn d) (restore_contract sn d)"
  by (rule restore_post)

end
