(* ===== verification/Core_Clone.thy ===== *)
theory Core_Clone
  imports Sample_Host
begin

text \<open>
  The cloning operations of \<open>QiVCA\<close> (source/vca_core.cpp): \<open>cloneFullVM\<close> and
  \<open>cloneLinkVM\<close>. The \<open>switch\<close> of both lists every enumerator and has no default label, so a
  raw state that names none leaves it with the progress pointer still null.
\<close>

definition cloneFullVM ::
  "string \<Rightarrow> string \<Rightarrow> string \<Rightarrow> bool \<Rightarrow> bool \<Rightarrow> bool \<Rightarrow> string \<Rightarrow> ('w, bool \<times> string) io" where
  "cloneFullVM vmname basefolder target_vmname keepmacs keephwuuids keepdiskname callbackdata =
     bnd (utf16 vmname) (\<lambda>name.
     bnd (utf16 target_vmname) (\<lambda>target_name.
     bnd (utf16 basefolder) (\<lambda>base_folder.
     bnd (find_machine name) (\<lambda>machine.
     if machine \<noteq> None then
       bnd (bnd (gets machine MachineId) utf8) (\<lambda>callbackdata.
       bnd (state machine) (\<lambda>st.
       if isin [PoweredOff, Saved] st then
         bnd (ask_str (ComposeMachineFilename target_name [] [] base_folder)) (\<lambda>p.
         bnd (gets machine OSTypeOf) (\<lambda>os.
         bnd (ask_ref (CreateMachine p target_name os)) (\<lambda>targetmachine.
         if targetmachine \<noteq> None then
           seqs [call targetmachine SaveSettings]
           (let options = (if keepmacs then [KeepAllMACs] else []) @
                          (if keephwuuids then [KeepHwUUIDs] else []) @
                          (if keepdiskname then [KeepDiskNames] else []) in
            bnd (get machine (\<lambda>m. CloneTo m targetmachine AllStates options)) (\<lambda>progress.
            seqs [poll progress, perform (RegisterMachine targetmachine), release machine]
            (bnd (geti progress ResultCodeP) (\<lambda>rc. ret (0 = rc, callbackdata)))))
         else
           seqs [release machine] (ret (False, ''Virtual machine creation failed !'')))))
       else if st = None then
         bnd (geti None ResultCodeP) (\<lambda>rc. ret (0 = rc, callbackdata))
       else
         seqs [release machine]
           (ret (False, '' Virtual machine state does not allow cloning !''))))
     else
       seqs [release machine] (ret (False, '' Virtual machine not exists !''))))))"

definition link_snapshot :: u16string where
  "link_snapshot = u16 ''vca_clone_link_2019_12_18''"

definition cloneLinkVM :: "string \<Rightarrow> string \<Rightarrow> string \<Rightarrow> string \<Rightarrow> ('w, bool \<times> string) io" where
  "cloneLinkVM vmname basefolder target_vmname callbackdata =
     try_com
       (bnd (utf16 vmname) (\<lambda>name.
        bnd (utf16 target_vmname) (\<lambda>target_name.
        bnd (utf16 basefolder) (\<lambda>base_folder.
        bnd (find_machine name) (\<lambda>machine.
        if machine \<noteq> None then
          bnd (bnd (gets machine MachineId) utf8) (\<lambda>callbackdata.
          bnd (state machine) (\<lambda>st.
          if isin [PoweredOff, Saved] st then
            bnd new_session (\<lambda>session.
            seqs [lock_machine machine session Shared]
            (bnd (get session SessionMachine) (\<lambda>mutabmachine.
             seqs
               [if mutabmachine \<noteq> None then
                  bnd (gets mutabmachine MachineId) (\<lambda>i.
                  bnd (get mutabmachine (\<lambda>m. TakeSnapshot m link_snapshot (u16 ''vca clone link!'') False))
                    (\<lambda>progress.
                  seqs [wait_for progress] (put mutabmachine (NestedPaging True))))
                else ret (),
                unlock_machine session]
             (bnd (ask_str (ComposeMachineFilename target_name [] [] base_folder)) (\<lambda>p.
              bnd (gets machine OSTypeOf) (\<lambda>os.
              bnd (ask_ref (CreateMachine p target_name os)) (\<lambda>targetmachine.
              bnd (if targetmachine \<noteq> None then
                     seqs [call targetmachine SaveSettings]
                     (bnd (get machine (\<lambda>m. FindSnapshot m link_snapshot)) (\<lambda>snap.
                      bnd (get snap SnapshotMachine) (\<lambda>snapmachine.
                      bnd (get snapmachine (\<lambda>m. CloneTo m targetmachine MachineStateOnly [Link]))
                        (\<lambda>cloneprogress.
                      seqs [poll cloneprogress, perform (RegisterMachine targetmachine), release machine]
                        (ret cloneprogress)))))
                   else ret None) (\<lambda>cloneprogress.
              bnd (geti cloneprogress ResultCodeP) (\<lambda>rc. ret (0 = rc, callbackdata))))))))))
          else if st = None then
            bnd (geti None ResultCodeP) (\<lambda>rc. ret (0 = rc, callbackdata))
          else
            seqs [release machine]
              (ret (False, '' Virtual machine state does not allow cloning !''))))
        else
          seqs [release machine] (ret (False, ''Virtual machine not exists !'')))))))
       print_and_fall_off"

subsection \<open>Contracts\<close>

text \<open>
  A full clone that returns made exactly these calls: the target is created with the
  source's OS type, saved, filled by \<open>cloneTo\<close> with the options the flags ask for, and only
  registered once the progress object reported completion.
\<close>

definition clone_options :: "bool \<Rightarrow> bool \<Rightarrow> bool \<Rightarrow> clone_option list" where
  "clone_options macs uuids disks =
     (if macs then [KeepAllMACs] else []) @ (if uuids then [KeepHwUUIDs] else []) @
     (if disks then [KeepDiskNames] else [])"

definition full_script ::
  "u16string \<Rightarrow> u16string \<Rightarrow> u16string \<Rightarrow> clone_option list \<Rightarrow> ref \<Rightarrow> u16string \<Rightarrow> int \<Rightarrow> u16string
     \<Rightarrow> u16string \<Rightarrow> ref \<Rightarrow> ref \<Rightarrow> event list \<Rightarrow> int \<Rightarrow> event list" where
  "full_script name target base opts m uuid i p os t g polls rc =
     [ERef (FindMachine name) (Inr (Some m)), EStr (MachineId m) (Inr uuid),
      EInt m MachineStateP (Inr i),
      EStr (ComposeMachineFilename target [] [] base) (Inr p), EStr (OSTypeOf m) (Inr os),
      ERef (CreateMachine p target os) (Inr (Some t)), ECmd (SaveSettings t) None,
      ERef (CloneTo m (Some t) AllStates opts) (Inr (Some g))]
     @ polls @
     [ECmd (RegisterMachine (Some t)) None, ERelease m, EInt g ResultCodeP (Inr rc)]"

definition full_contract ::
  "string \<Rightarrow> string \<Rightarrow> string \<Rightarrow> clone_option list \<Rightarrow> (bool \<times> string) outcome \<Rightarrow> event list \<Rightarrow> bool" where
  "full_contract n base target opts r tr \<longleftrightarrow>
     disciplined tr \<and> guarded (isin [PoweredOff, Saved]) False tr \<and>
     (case r of Ret (b, d') \<Rightarrow>
        if inert tr then \<not> b \<and> d' = '' Virtual machine state does not allow cloning !''
        else
          d' = ''Virtual machine creation failed !'' \<and> \<not> b \<or>
          (\<exists>name tn bf m uuid i p os t g polls rc.
             to_utf16 n = Some name \<and> to_utf16 target = Some tn \<and> to_utf16 base = Some bf
             \<and> to_utf8 uuid = Some d' \<and> list_all polling polls \<and> (b \<longleftrightarrow> rc = 0)
             \<and> tr = full_script name tn bf opts m uuid i p os t g polls rc)
      | Throw _ \<Rightarrow> True | Undef u \<Rightarrow> u = Null_deref | Hang \<Rightarrow> \<not> inert tr)"

lemma full_post:
  "post E (cloneFullVM n base target macs uuids disks d)
     (full_contract n base target (clone_options macs uuids disks))"
  unfolding cloneFullVM_def clone_options_def [symmetric] Let_def
  by (intro post_intros)
    (auto simp: full_contract_def full_script_def disciplined_def protocol_simps split: option.splits)

text \<open>
  A linked clone that returns made exactly these calls: under a shared lock it took its own
  snapshot through the mutable machine \<open>x\<close> and set the nested-paging flag there, unlocked,
  created and saved the target, looked its snapshot up by name, cloned the machine of that
  snapshot with the link option, and registered the target after the last poll. The flag is
  never saved: no path calls \<open>saveSettings\<close> on the machine it was put on. Where \<open>x\<close> is null no
  snapshot is taken and one of an earlier clone is used.
\<close>

fun own_snapshot :: "ptr \<Rightarrow> u16string \<Rightarrow> ref \<Rightarrow> event list" where
  "own_snapshot None i g = []"
| "own_snapshot (Some mm) i g =
     [EStr (MachineId mm) (Inr i),
      ERef (TakeSnapshot mm link_snapshot (u16 ''vca clone link!'') False) (Inr (Some g)),
      ECmd (WaitForCompletion g (- 1)) None, ECmd (Put mm (NestedPaging True)) None]"

definition link_entry ::
  "u16string \<Rightarrow> ref \<Rightarrow> u16string \<Rightarrow> int \<Rightarrow> ref \<Rightarrow> ptr \<Rightarrow> u16string \<Rightarrow> ref \<Rightarrow> event list" where
  "link_entry name m uuid i s x mi sg =
     [ERef (FindMachine name) (Inr (Some m)), EStr (MachineId m) (Inr uuid), EInt m MachineStateP (Inr i),
      ERef NewSession (Inr (Some s)), ECmd (LockMachine m (Some s) Shared) None,
      ERef (SessionMachine s) (Inr x)]
     @ own_snapshot x mi sg @ [ECmd (UnlockMachine s) None]"

definition link_cloning ::
  "u16string \<Rightarrow> u16string \<Rightarrow> ref \<Rightarrow> u16string \<Rightarrow> u16string \<Rightarrow> ref \<Rightarrow> ref \<Rightarrow> ref \<Rightarrow> ref \<Rightarrow> event list \<Rightarrow> int
     \<Rightarrow> event list" where
  "link_cloning target base m p os t sn sm g polls rc =
     [EStr (ComposeMachineFilename target [] [] base) (Inr p), EStr (OSTypeOf m) (Inr os),
      ERef (CreateMachine p target os) (Inr (Some t)), ECmd (SaveSettings t) None,
      ERef (FindSnapshot m link_snapshot) (Inr (Some sn)), ERef (SnapshotMachine sn) (Inr (Some sm)),
      ERef (CloneTo sm (Some t) MachineStateOnly [Link]) (Inr (Some g))]
     @ polls @ [ECmd (RegisterMachine (Some t)) None, ERelease m, EInt g ResultCodeP (Inr rc)]"

fun nested_put :: "event \<Rightarrow> bool" where
  "nested_put (ECmd c r) \<longleftrightarrow> (case c of Put _ x \<Rightarrow> x = NestedPaging True \<and> r = None | _ \<Rightarrow> False)"
| "nested_put _ \<longleftrightarrow> False"

definition link_contract ::
  "string \<Rightarrow> string \<Rightarrow> string \<Rightarrow> (bool \<times> string) outcome \<Rightarrow> event list \<Rightarrow> bool" where
  "link_contract n base target r tr \<longleftrightarrow>
     guarded (isin [PoweredOff, Saved]) False tr \<and>
     (case run tr start of None \<Rightarrow> False | Some p \<Rightarrow>
        (returns r \<longrightarrow> locked p = []) \<and> (unsaved p \<longleftrightarrow> list_ex nested_put tr)) \<and>
     (case r of Ret (b, d') \<Rightarrow>
        if inert tr then \<not> b \<and> d' = '' Virtual machine state does not allow cloning !''
        else \<exists>name tn bf m uuid i s x mi sg p os t sn sm g polls rc.
               to_utf16 n = Some name \<and> to_utf16 target = Some tn \<and> to_utf16 base = Some bf
               \<and> to_utf8 uuid = Some d' \<and> list_all polling polls \<and> (b \<longleftrightarrow> rc = 0)
               \<and> tr = link_entry name m uuid i s x mi sg @ link_cloning tn bf m p os t sn sm g polls rc
      | Throw e \<Rightarrow> e = RangeError \<or> list_ex failed tr
      | Undef u \<Rightarrow> (u = No_return \<longrightarrow> list_ex failed tr) \<and> u \<noteq> Uninit_read
      | Hang \<Rightarrow> \<not> inert tr \<or> list_ex failed tr)"

lemma nested_put_quiet [simp]:
  "list_all error_report tr \<Longrightarrow> \<not> list_ex nested_put tr"
  "list_all polling tr \<Longrightarrow> \<not> list_ex nested_put tr"
proof -
  have "error_report e \<or> polling e \<Longrightarrow> \<not> nested_put e" for e
    by (cases e) simp_all
  then show "list_all error_report tr \<Longrightarrow> \<not> list_ex nested_put tr"
    "list_all polling tr \<Longrightarrow> \<not> list_ex nested_put tr" by (auto simp: list_all_iff list_ex_iff)
qed

lemma link_post: "post E (cloneLinkVM n base target d) (link_contract n base target)"
  unfolding cloneLinkVM_def
  by (intro post_intros)
    (auto simp: link_contract_def link_entry_def link_cloning_def protocol_simps split: option.splits)

subsection \<open>Properties\<close>

text \<open>C11. \<open>cloneFullVM\<close> clones a powered-off or saved machine only. A run that returns made
  exactly the calls of its script, with the clone options its flags name, registered the
  target after the clone was complete, and its result is that the clone's result code is 0.\<close>

theorem full_clone:
  "post E (cloneFullVM n base target macs uuids disks d)
     (full_contract n base target (clone_options macs uuids disks))"
  by (rule full_post)

text \<open>C34. \<open>cloneLinkVM\<close> works on a powered-off or saved machine only. A run that returns true or
  false after a change made exactly the calls of its script: it took its own snapshot (when
  the session gave it a mutable machine), unlocked, cloned the machine of the snapshot found
  under that name with the link option, registered the target after the clone was complete,
  and its result is that the clone's result code is 0. The nested-paging flag it sets on the
  source machine is never saved.\<close>

theorem link_clone: "post E (cloneLinkVM n base target d) (link_contract n base target)"
  by (rule link_post)

end
