(* ===== verification/Json_Text.thy ===== *)
theory Json_Text
  imports Sample_Host
begin

text \<open>
  What the code builds its answers from: \<open>std::map\<close> keyed by strings, \<open>std::to_string\<close> and
  the JSON values handed to jsoncpp (\<open>vca_toCode::mapTojsonstr\<close>). A map is the list of its
  pairs in key order; \<open>insert\<close> keeps the first value of a key. The lemmas show that the list
  stays strictly sorted and that lookup is that of a finite map.
\<close>

subsection \<open>Maps\<close>

fun str_less :: "string \<Rightarrow> string \<Rightarrow> bool" where
  "str_less _ [] \<longleftrightarrow> False"
| "str_less [] (_ # _) \<longleftrightarrow> True"
| "str_less (a # as) (b # bs) \<longleftrightarrow>
     (of_char a :: nat) < of_char b \<or> (a = b \<and> str_less as bs)"

type_synonym 'v smap = "(string \<times> 'v) list"

fun map_insert :: "string \<Rightarrow> 'v \<Rightarrow> 'v smap \<Rightarrow> 'v smap" where
  "map_insert k v [] = [(k, v)]"
| "map_insert k v ((k', v') # m) =
     (if k = k' then (k', v') # m
      else if str_less k k' then (k, v) # (k', v') # m
      else (k', v') # map_insert k v m)"

definition map_build :: "(string \<times> 'v) list \<Rightarrow> 'v smap" where
  \<comment> \<open>a map after inserting the pairs in order\<close>
  "map_build kvs = fold (\<lambda>(k, v). map_insert k v) kvs []"

fun ordered :: "'v smap \<Rightarrow> bool" where
  "ordered [] \<longleftrightarrow> True"
| "ordered [_] \<longleftrightarrow> True"
| "ordered ((k, _) # (k', v') # m) \<longleftrightarrow> str_less k k' \<and> ordered ((k', v') # m)"

lemma str_less_irrefl [simp]: "\<not> str_less a a"
  by (induction a) auto

lemma str_less_trans: "str_less a b \<Longrightarrow> str_less b c \<Longrightarrow> str_less a c"
  by (induction a b arbitrary: c rule: str_less.induct; case_tac c) auto

lemma str_less_total: "str_less a b \<or> a = b \<or> str_less b a"
proof (induction a b rule: str_less.induct)
  case (3 a as b bs)
  have "(of_char a :: nat) = of_char b \<longleftrightarrow> a = b" by simp
  with 3 show ?case by auto
qed (auto simp: neq_Nil_conv, metis list.exhaust str_less.simps(2))

lemma ordered_Cons:
  "ordered ((k, v) # m) \<longleftrightarrow> (\<forall>k' \<in> fst ` set m. str_less k k') \<and> ordered m"
proof (induction m arbitrary: k v)
  case (Cons p m)
  then show ?case by (cases p) (auto dest: str_less_trans)
qed simp

lemma map_insert_keys: "fst ` set (map_insert k v m) = insert k (fst ` set m)"
  by (induction k v m rule: map_insert.induct) auto

lemma ordered_insert: "ordered m \<Longrightarrow> ordered (map_insert k v m)"
proof (induction k v m rule: map_insert.induct)
  case (2 k v k' v' m)
  then show ?case
    using str_less_total [of k k'] by (auto simp: ordered_Cons map_insert_keys dest: str_less_trans)
qed simp

lemma map_of_insert:
  "map_of (map_insert k v m) k' = (if k' = k \<and> k \<notin> fst ` set m then Some v else map_of m k')"
  if "ordered m"
  using that
proof (induction k v m rule: map_insert.induct)
  case (2 k v a b m)
  have "k \<notin> fst ` set m" if "str_less k a"
    using 2(2) that str_less_trans str_less_irrefl by (metis ordered_Cons)
  with 2 show ?case by (auto simp: ordered_Cons)
qed simp

text \<open>The map as an interface: what the code relies on when it fills one and reads it back.\<close>

locale first_wins_map =
  fixes empty :: 'm
    and insert :: "string \<Rightarrow> 'v \<Rightarrow> 'm \<Rightarrow> 'm"
    and lookup :: "'m \<Rightarrow> string \<Rightarrow> 'v option"
    and inv :: "'m \<Rightarrow> bool"
  assumes inv_empty: "inv empty"
    and lookup_empty: "lookup empty k = None"
    and inv_insert: "inv m \<Longrightarrow> inv (insert k v m)"
    and lookup_insert: "inv m \<Longrightarrow> lookup (insert k v m) k' =
          (if k' = k \<and> lookup m k' = None then Some v else lookup m k')"
begin

lemma lookup_fill:
  "inv (fold (\<lambda>(k, v). insert k v) kvs empty)"
  "lookup (fold (\<lambda>(k, v). insert k v) kvs empty) k = map_of kvs k"
proof -
  let ?fill = "fold (\<lambda>(k, v). insert k v)"
  have fill: "inv m \<Longrightarrow> inv (?fill kvs m)
      \<and> lookup (?fill kvs m) k = (if lookup m k = None then map_of kvs k else lookup m k)" for m
  proof (induction kvs arbitrary: m)
    case (Cons p kvs)
    obtain a b where p: "p = (a, b)" by force
    from Cons.IH [OF inv_insert [OF Cons.prems, of a b]] show ?case
      by (cases "k = a"; cases "lookup m k") (simp_all add: p lookup_insert [OF Cons.prems])
  qed simp
  show "inv (?fill kvs empty)" "lookup (?fill kvs empty) k = map_of kvs k"
    using fill [OF inv_empty] by (simp_all add: lookup_empty)
qed

end

interpretation smap: first_wins_map "[]" map_insert map_of ordered
  by unfold_locales (auto simp: ordered_insert map_of_insert map_of_eq_None_iff)

lemma ordered_build: "ordered (map_build kvs)"
  unfolding map_build_def by (rule smap.lookup_fill(1))

lemma map_of_build: "map_of (map_build kvs) k = map_of kvs k"
  unfolding map_build_def by (rule smap.lookup_fill(2))

subsection \<open>Numbers\<close>

fun dec :: "nat \<Rightarrow> string" where
  "dec n = (if n < 10 then [char_of (48 + n)] else dec (n div 10) @ [char_of (48 + n mod 10)])"

declare dec.simps [simp del]

definition to_string :: "int \<Rightarrow> string" where
  "to_string i = (if i < 0 then ''-'' @ dec (nat (- i)) else dec (nat i))"

definition as_int :: "int \<Rightarrow> int" where
  \<comment> \<open>\<open>static_cast<int>\<close> of a \<open>uint32_t\<close>\<close>
  "as_int x = sint (word_of_int x :: u32)"

fun undec :: "string \<Rightarrow> nat \<Rightarrow> nat" where
  "undec [] acc = acc"
| "undec (c # cs) acc = undec cs (acc * 10 + (of_char c - 48))"

lemma undec_append: "undec (xs @ ys) acc = undec ys (undec xs acc)"
  by (induction xs arbitrary: acc) simp_all

lemma undec_dec: "undec (dec n) 0 = n"
proof (induction n rule: dec.induct)
  case (1 n)
  have "of_char (char_of (48 + d) :: char) - 48 = d" if "d < 10" for d :: nat
    using that by (simp add: of_char_of)
  with 1 show ?case by (subst dec.simps) (simp add: undec_append)
qed

subsection \<open>JSON\<close>

definition mapTojson :: "('v \<Rightarrow> json) \<Rightarrow> 'v smap \<Rightarrow> json" where
  \<comment> \<open>the object \<open>mapTojsonstr\<close> fills; no member leaves it null\<close>
  "mapTojson f m = (if m = [] then JNull else JObj (map (\<lambda>(k, v). (k, f v)) m))"

definition mapTojsonstr :: "string smap \<Rightarrow> ('w, string) io" where
  "mapTojsonstr m = env (\<lambda>E. styled E (mapTojson JStr m))"

definition mapTojsonstr_int :: "int smap \<Rightarrow> ('w, string) io" where
  "mapTojsonstr_int m = env (\<lambda>E. styled E (mapTojson JInt m))"

definition json_array :: "json list \<Rightarrow> json" where
  \<comment> \<open>a \<open>Json::Value\<close> after its \<open>append\<close> calls\<close>
  "json_array xs = (if xs = [] then JNull else JArr xs)"

lemma post_mapTojsonstr [post_intros]:
  "Q (Ret (styled E (mapTojson JStr m))) [] \<Longrightarrow> post E (mapTojsonstr m) Q"
  "Q (Ret (styled E (mapTojson JInt m'))) [] \<Longrightarrow> post E (mapTojsonstr_int m') Q"
  unfolding mapTojsonstr_def mapTojsonstr_int_def by (rule post_env; assumption)+

text \<open>
  The overload for \<open>map<const char *, const int>\<close>: such a map is ordered by address, so two of
  its keys may be the same text; \<open>jObject[key] = v\<close> then overwrites, and the object, which
  jsoncpp keeps in key order, has the value of the higher address. \<open>text\<close> reads the memory.
\<close>

fun map_assign :: "string \<Rightarrow> 'v \<Rightarrow> 'v smap \<Rightarrow> 'v smap" where
  "map_assign k v [] = [(k, v)]"
| "map_assign k v ((k', v') # m) =
     (if k = k' then (k, v) # m
      else if str_less k k' then (k, v) # (k', v') # m
      else (k', v') # map_assign k v m)"

definition object_of :: "(string \<times> 'v) list \<Rightarrow> 'v smap" where
  \<comment> \<open>the members after the assignments of the loop\<close>
  "object_of kvs = fold (\<lambda>(k, v). map_assign k v) kvs []"

definition mapTojsonstr_cstr :: "(nat \<Rightarrow> string) \<Rightarrow> (nat \<times> int) list \<Rightarrow> ('w, string) io" where
  "mapTojsonstr_cstr text m =
     env (\<lambda>E. styled E (mapTojson JInt (object_of (map (\<lambda>(a, v). (text a, v)) m))))"

lemma map_assign_keys: "fst ` set (map_assign k v m) = insert k (fst ` set m)"
  by (induction k v m rule: map_assign.induct) auto

lemma ordered_assign: "ordered m \<Longrightarrow> ordered (map_assign k v m)"
proof (induction k v m rule: map_assign.induct)
  case (2 k v k' v' m)
  then show ?case
    using str_less_total [of k k'] by (auto simp: ordered_Cons map_assign_keys dest: str_less_trans)
qed simp

lemma map_of_assign: "map_of (map_assign k v m) = (map_of m)(k \<mapsto> v)"
  by (induction k v m rule: map_assign.induct) (auto simp: fun_eq_iff)

lemma fold_assign:
  "ordered m \<Longrightarrow> ordered (fold (\<lambda>(k, v). map_assign k v) kvs m)
     \<and> map_of (fold (\<lambda>(k, v). map_assign k v) kvs m) = map_of m ++ map_of (rev kvs)"
  by (induction kvs arbitrary: m)
    (auto simp: ordered_assign map_of_assign map_add_def fun_eq_iff split: option.split)

lemma assign_last: "(\<forall>k' \<in> fst ` set m. str_less k' k) \<Longrightarrow> map_assign k v m = m @ [(k, v)]"
proof (induction k v m rule: map_assign.induct)
  case (2 k v k' v' m)
  then have "str_less k' k" by simp
  then have "k \<noteq> k'" "\<not> str_less k k'" using str_less_trans str_less_irrefl by blast+
  with 2 show ?case by simp
qed simp

lemma ordered_snoc: "ordered (m @ [(k, v)]) \<longleftrightarrow> ordered m \<and> (\<forall>k' \<in> fst ` set m. str_less k' k)"
  by (induction m) (auto simp: ordered_Cons)

lemma object_of_map: "ordered m \<Longrightarrow> object_of m = m"
  unfolding object_of_def
  by (induction m rule: rev_induct) (auto simp: ordered_snoc assign_last)

subsection \<open>Properties\<close>

text \<open>The object built from a map by address is in key order and holds, for every text, the
  value of the last key with that text; a map by string is copied member by member.\<close>

theorem object_members:
  "ordered (object_of kvs) \<and> map_of (object_of kvs) = map_of (rev kvs)
   \<and> object_of (map_build kvs) = map_build kvs"
  using fold_assign [of "[]" kvs] by (simp add: object_of_def [of kvs] object_of_map ordered_build)

text \<open>A map filled by any sequence of insertions is strictly ordered by key and looks up
  the first value inserted under a key, as \<open>std::map::insert\<close> does.\<close>

theorem map_fill: "ordered (map_build kvs) \<and> map_of (map_build kvs) = map_of kvs"
  by (simp add: ordered_build map_of_build fun_eq_iff)

text \<open>The decimal text of a number reads back as the number.\<close>

theorem decimal_roundtrip: "undec (to_string (int n)) 0 = n"
  by (simp add: to_string_def undec_dec)

end
