(* ===== verification/Core_Info.thy ===== *)
theory Core_Info
  imports Json_Text
begin

text \<open>
  The queries of \<open>QiVCA\<close> (source/vca_core.cpp): \<open>listVMs\<close>, \<open>getVmInfo\<close> and
  \<open>getVmSnapshotInfo\<close>. They read the hypervisor and build a JSON text; the contracts say
  that nothing is changed on any path and what the text contains.
\<close>

subsection \<open>listVMs\<close>

text \<open>\<open>machines\<close> is the list the constructor read.\<close>

definition listVMs :: "ref list \<Rightarrow> string \<Rightarrow> string \<Rightarrow> ('w, bool \<times> string \<times> string) io" where
  "listVMs machines vms callbackdata =
     seqs [ask_states machines]
     (bnd (collect machines (\<lambda>machine.
        bnd (ask_str (MachineName machine)) (\<lambda>u. conv (wide_to_utf8 (utf16ToWide u))))) (\<lambda>vm_vector.
      bnd (each vm_vector [] (\<lambda>vmdata map.
        if vmdata \<noteq> [] then
          bnd (utf16 vmdata) (\<lambda>name.
          bnd (find_machine name) (\<lambda>m.
          bnd (geti m MachineStateP) (\<lambda>st. ret (map_insert vmdata st map))))
        else ret map)) (\<lambda>map.
      if map = [] then ret (False, vms, ''Virtual machine does not exist!'')
      else
        bnd (mapTojsonstr_int map) (\<lambda>text.
        bnd (env (\<lambda>E. fast_write E (JArr [JStr text]))) (\<lambda>vms'.
        ret (True, vms', callbackdata))))))"

subsection \<open>getVmInfo\<close>

text \<open>One medium attachment, an element of the array under the key \<open>disk\<close>.\<close>

definition medium_of :: "ref \<Rightarrow> ('w, ptr) io" where
  "medium_of attach = ask_ref (AttachmentMedium attach)"

definition medium_text :: "ref \<Rightarrow> (ref \<Rightarrow> str_req) \<Rightarrow> ('w, string) io" where
  "medium_text attach q = bnd (medium_of attach) (\<lambda>m. bnd (gets m q) utf8)"

definition medium_number :: "ref \<Rightarrow> int_prop \<Rightarrow> ('w, string) io" where
  "medium_number attach q = bnd (medium_of attach) (\<lambda>m. bnd (geti m q) (\<lambda>i. ret (to_string i)))"

definition medium_parent :: "ref \<Rightarrow> ('w, ptr) io" where
  "medium_parent attach = bnd (medium_of attach) (\<lambda>m. get m MediumParent)"

definition bool_string :: "bool \<Rightarrow> string" where
  "bool_string b = (if b then ''1'' else ''0'')"

definition disk_info :: "ref \<Rightarrow> ('w, json) io" where
  "disk_info attach =
     bnd (medium_text attach MediumName) (\<lambda>name.
     bnd (medium_text attach MediumId) (\<lambda>uuid.
     bnd (ask_int attach PortP) (\<lambda>port.
     bnd (ask_bool attach HotPluggableP) (\<lambda>hot.
     bnd (bnd (ask_str (AttachmentController attach)) utf8) (\<lambda>controller.
     bnd (medium_text attach MediumFormat) (\<lambda>format.
     bnd (medium_number attach LogicalSizeP) (\<lambda>logical.
     bnd (medium_number attach SizeP) (\<lambda>physics.
     bnd (medium_parent attach) (\<lambda>par.
     bnd (if par = None then ret [(''parent_name'', ''0'')]
          else
            bnd (bnd (medium_parent attach) (\<lambda>p. bnd (gets p MediumName) utf8)) (\<lambda>pn.
            bnd (bnd (medium_parent attach) (\<lambda>p. bnd (gets p MediumId) utf8)) (\<lambda>pid.
            ret [(''parent_name'', pn), (''parent_id'', pid)]))) (\<lambda>parents.
     bnd (mapTojsonstr (map_build ([(''name'', name), (''uuid'', uuid), (''port'', to_string port),
            (''hotplug'', bool_string hot), (''controller'', controller), (''format'', format),
            (''logical_size'', logical), (''physics_size'', physics)] @ parents))) (\<lambda>text.
     ret (JStr text))))))))))))"

text \<open>One adapter: the raw attachment type is 2 for a bridged adapter and 1 for NAT.\<close>

definition bridged_value :: int where "bridged_value = 2"
definition nat_value :: int where "nat_value = 1"

definition adapter_info :: "ptr \<Rightarrow> ('w, json list) io" where
  "adapter_info adapter =
     bnd (getb adapter AdapterEnabledP) (\<lambda>enabled.
     if enabled then
       bnd (geti adapter AttachmentTypeP) (\<lambda>t1.
       bnd (geti adapter AttachmentTypeP) (\<lambda>t2.
       bnd (bnd (gets adapter BridgedInterfaceOf) utf8) (\<lambda>vif.
       bnd (bnd (gets adapter MACAddressOf) utf8) (\<lambda>mac.
       bnd (mapTojsonstr (map_build
             ((if t1 = bridged_value then [(''nettype'', ''Bridged'')] else [])
              @ (if t2 = nat_value then [(''nettype'', ''NAT'')] else [])
              @ [(''VIF'', vif), (''MAC'', mac)]))) (\<lambda>text.
       ret [JStr text])))))
     else ret [])"

definition getVmInfo :: "string \<Rightarrow> string \<Rightarrow> string \<Rightarrow> ('w, bool \<times> string \<times> string) io" where
  "getVmInfo vmname vminfo callbackdata =
     bnd (utf16 vmname) (\<lambda>name.
     bnd (find_machine name) (\<lambda>machine.
     bnd (deref machine (\<lambda>m. ask_refs (MediumAttachments m (u16 ''SATA'')))) (\<lambda>medium.
     bnd (collect medium disk_info) (\<lambda>jsonarraydisk.
     bnd (get machine (\<lambda>m. NetworkAdapter m 0)) (\<lambda>adapter_0.
     bnd (get machine (\<lambda>m. NetworkAdapter m 1)) (\<lambda>adapter_1.
     bnd (get machine (\<lambda>m. NetworkAdapter m 2)) (\<lambda>adapter_2.
     bnd (get machine (\<lambda>m. NetworkAdapter m 3)) (\<lambda>adapter_3.
     bnd (adapter_info adapter_0) (\<lambda>n0.
     bnd (adapter_info adapter_1) (\<lambda>n1.
     bnd (adapter_info adapter_2) (\<lambda>n2.
     bnd (adapter_info adapter_3) (\<lambda>n3.
     bnd (geti machine VRAMSizeP) (\<lambda>ram.
     bnd (geti machine MonitorCountP) (\<lambda>monitors.
     bnd (getb machine Accelerate3DP) (\<lambda>enable3d.
     bnd (mapTojsonstr (map_build [(''ramsize'', to_string ram),
            (''monitor_count'', to_string monitors), (''enable3d'', bool_string enable3d)])) (\<lambda>graphics.
     if machine \<noteq> None then
       bnd (geti machine MachineStateP) (\<lambda>st.
       bnd (geti machine CPUCountP) (\<lambda>cpus.
       bnd (geti machine MemorySizeP) (\<lambda>memory.
       bnd (bnd (gets machine OSTypeOf) utf8) (\<lambda>os.
       bnd (bnd (gets machine HardwareUUID) utf8) (\<lambda>uuid.
       bnd (env (\<lambda>E. styled E (json_array jsonarraydisk))) (\<lambda>disks.
       bnd (env (\<lambda>E. styled E (json_array (n0 @ n1 @ n2 @ n3)))) (\<lambda>nets.
       bnd (env (\<lambda>E. styled E (json_array [JStr graphics]))) (\<lambda>graphic.
       bnd (mapTojsonstr (map_build [(''state'', to_string st), (''cpucount'', to_string (as_int cpus)),
              (''memory'', to_string (as_int memory)), (''os'', os), (''vmuuid'', uuid),
              (''disk'', disks), (''network'', nets), (''graphics'', graphic)])) (\<lambda>text.
       bnd (env (\<lambda>E. fast_write E (JArr [JStr text]))) (\<lambda>vminfo'.
       seqs [release machine] (ret (True, vminfo', callbackdata))))))))))))
     else
       seqs [release machine]
         (ret (False, vminfo, ''Virtual machine does not exist!''))))))))))))))))))"

subsection \<open>getVmSnapshotInfo\<close>

definition getVmSnapshotInfo :: "string \<Rightarrow> string \<Rightarrow> string \<Rightarrow> ('w, bool \<times> string \<times> string) io" where
  "getVmSnapshotInfo vmname info callbackdata =
     bnd (utf16 vmname) (\<lambda>name.
     bnd (find_machine name) (\<lambda>machine.
     if machine \<noteq> None then
       bnd (geti machine SnapshotCountP) (\<lambda>count.
       bnd (gets machine SnapshotFolder) (\<lambda>snap_path.
       let snap_count = as_int count in
       if snap_count \<ge> 1 then
         bnd (get machine CurrentSnapshot) (\<lambda>current_snap.
         bnd (gets current_snap SnapshotName) (\<lambda>snap_current_name.
         bnd (if snap_count \<ge> 2
              then bnd (get current_snap SnapshotParent) (\<lambda>p. gets p SnapshotName)
              else ret (u16 ''0'')) (\<lambda>snap_parent_name.
         bnd (utf8 snap_path) (\<lambda>path.
         bnd (utf8 snap_current_name) (\<lambda>current.
         if snap_parent_name \<noteq> [] then
           bnd (utf8 snap_parent_name) (\<lambda>par.
           bnd (mapTojsonstr (map_build [(''count'', to_string snap_count), (''path'', path),
                  (''current'', current), (''parent'', par)])) (\<lambda>text.
           bnd (env (\<lambda>E. fast_write E (JArr [JStr text]))) (\<lambda>info'.
           seqs [release machine] (ret (True, info', callbackdata)))))
         else
           seqs [release machine]
             (ret (False, info, '' Failure during virtual machine snapshot data collection !'')))))))
       else
         seqs [release machine] (ret (False, info, ''Virtual machine has no snapshot !''))))
     else
       seqs [release machine] (ret (False, info, '' Virtual machine does not exist !''))))"

subsection \<open>Contracts\<close>

text \<open>A query changes nothing, whatever it meets, and ends in one of three ways.\<close>

definition reads :: "'a outcome \<Rightarrow> event list \<Rightarrow> bool" where
  "reads r tr \<longleftrightarrow> inert tr \<and> r \<noteq> Hang \<and> (\<forall>u. r = Undef u \<longrightarrow> u = Null_deref)"

lemma reads_simps [simp]:
  "reads (Ret a) tr = inert tr" "reads (Throw e) tr = inert tr"
  "reads (Undef u) tr = (inert tr \<and> u = Null_deref)" "reads Hang tr = False"
  by (auto simp: reads_def)

lemma inert_append [simp]: "inert (xs @ ys) = (inert xs \<and> inert ys)"
  by (simp add: inert_def)

lemma inert_Cons [simp]: "inert (e # es) = (\<not> changing e \<and> inert es)"
  by (simp add: inert_def)

lemma inert_Nil [simp]: "inert []"
  by (simp add: inert_def)

text \<open>
  What an answer of \<open>getVmInfo\<close> was built from: each relation pairs the calls of a piece with
  the JSON made of exactly the replies to them. A medium is asked for anew at every use.
\<close>

definition of_medium :: "ref \<Rightarrow> ref \<Rightarrow> event \<Rightarrow> event list" where
  "of_medium a m e = [ERef (AttachmentMedium a) (Inr (Some m)), e]"

inductive parent_read :: "ref \<Rightarrow> event list \<Rightarrow> string \<Rightarrow> string option \<Rightarrow> bool" where
  base_disk: "parent_read a (of_medium a m (ERef (MediumParent m) (Inr None))) ''0'' None"
| child_disk: "to_utf8 un = Some pname \<Longrightarrow> to_utf8 ui = Some pid \<Longrightarrow>
     parent_read a
       (of_medium a m (ERef (MediumParent m) (Inr (Some r)))
        @ of_medium a m1 (ERef (MediumParent m1) (Inr (Some r1))) @ [EStr (MediumName r1) (Inr un)]
        @ of_medium a m2 (ERef (MediumParent m2) (Inr (Some r2))) @ [EStr (MediumId r2) (Inr ui)])
       pname (Some pid)"

definition disk_text ::
  "'w vbox \<Rightarrow> string \<Rightarrow> string \<Rightarrow> int \<Rightarrow> bool \<Rightarrow> string \<Rightarrow> string \<Rightarrow> int \<Rightarrow> int \<Rightarrow> string \<Rightarrow> string option
     \<Rightarrow> string" where
  "disk_text E name uuid port hot controller format logical physical pname pid =
     styled E (JObj
       ([(''controller'', JStr controller), (''format'', JStr format),
         (''hotplug'', JStr (bool_string hot)), (''logical_size'', JStr (to_string logical)),
         (''name'', JStr name)]
        @ (case pid of None \<Rightarrow> [] | Some i \<Rightarrow> [(''parent_id'', JStr i)])
        @ [(''parent_name'', JStr pname), (''physics_size'', JStr (to_string physical)),
           (''port'', JStr (to_string port)), (''uuid'', JStr uuid)]))"

inductive disk_read :: "'w vbox \<Rightarrow> ref \<Rightarrow> event list \<Rightarrow> json \<Rightarrow> bool" for E where
  disk_read: "to_utf8 un = Some name \<Longrightarrow> to_utf8 uu = Some uuid \<Longrightarrow> to_utf8 uc = Some controller
     \<Longrightarrow> to_utf8 uf = Some format \<Longrightarrow> parent_read a tp pname pid \<Longrightarrow>
     disk_read E a
       (of_medium a m1 (EStr (MediumName m1) (Inr un)) @ of_medium a m2 (EStr (MediumId m2) (Inr uu))
        @ [EInt a PortP (Inr port), EBool a HotPluggableP (Inr hot),
           EStr (AttachmentController a) (Inr uc)]
        @ of_medium a m3 (EStr (MediumFormat m3) (Inr uf))
        @ of_medium a m4 (EInt m4 LogicalSizeP (Inr logical))
        @ of_medium a m5 (EInt m5 SizeP (Inr physical)) @ tp)
       (JStr (disk_text E name uuid port hot controller format logical physical pname pid))"

inductive disks_read :: "'w vbox \<Rightarrow> ref list \<Rightarrow> event list \<Rightarrow> json list \<Rightarrow> bool" for E where
  no_disk: "disks_read E [] [] []"
| next_disk: "disks_read E as tr js \<Longrightarrow> disk_read E a t j \<Longrightarrow> disks_read E (as @ [a]) (tr @ t) (js @ [j])"

definition net_mode :: "int \<Rightarrow> int \<Rightarrow> (string \<times> json) list" where
  \<comment> \<open>the attachment type is read twice: 2 is bridged, 1 is NAT, another is not shown\<close>
  "net_mode t1 t2 = (if t1 = 2 then [(''nettype'', JStr ''Bridged'')]
     else if t2 = 1 then [(''nettype'', JStr ''NAT'')] else [])"

inductive net_read :: "'w vbox \<Rightarrow> ptr \<Rightarrow> event list \<Rightarrow> json list \<Rightarrow> bool" for E where
  net_off: "net_read E (Some r) [EBool r AdapterEnabledP (Inr False)] []"
| net_on: "to_utf8 uv = Some vif \<Longrightarrow> to_utf8 um = Some mac \<Longrightarrow>
     net_read E (Some r)
       [EBool r AdapterEnabledP (Inr True), EInt r AttachmentTypeP (Inr t1),
        EInt r AttachmentTypeP (Inr t2), EStr (BridgedInterfaceOf r) (Inr uv),
        EStr (MACAddressOf r) (Inr um)]
       [JStr (styled E (JObj ([(''MAC'', JStr mac), (''VIF'', JStr vif)] @ net_mode t1 t2)))]"

definition vm_info_text ::
  "'w vbox \<Rightarrow> int \<Rightarrow> int \<Rightarrow> int \<Rightarrow> string \<Rightarrow> string \<Rightarrow> string \<Rightarrow> string \<Rightarrow> string \<Rightarrow> string" where
  "vm_info_text E st cpus mem os uuid disks nets graphics =
     fast_write E (JArr [JStr (styled E (JObj
       [(''cpucount'', JStr (to_string (as_int cpus))), (''disk'', JStr disks),
        (''graphics'', JStr graphics), (''memory'', JStr (to_string (as_int mem))),
        (''network'', JStr nets), (''os'', JStr os), (''state'', JStr (to_string st)),
        (''vmuuid'', JStr uuid)]))])"

definition graphics_text :: "'w vbox \<Rightarrow> int \<Rightarrow> int \<Rightarrow> bool \<Rightarrow> string" where
  "graphics_text E ram monitors enable3d = styled E (JArr [JStr (styled E (JObj
     [(''enable3d'', JStr (bool_string enable3d)), (''monitor_count'', JStr (to_string monitors)),
      (''ramsize'', JStr (to_string ram))]))])"

inductive info_read :: "'w vbox \<Rightarrow> string \<Rightarrow> event list \<Rightarrow> string \<Rightarrow> bool" for E where
  info_read: "to_utf16 n = Some name \<Longrightarrow> disks_read E atts td ds
     \<Longrightarrow> net_read E a0 t0 n0 \<Longrightarrow> net_read E a1 t1 n1 \<Longrightarrow> net_read E a2 t2 n2 \<Longrightarrow> net_read E a3 t3 n3
     \<Longrightarrow> to_utf8 uo = Some os \<Longrightarrow> to_utf8 uu = Some uuid \<Longrightarrow>
     info_read E n
       ([ERef (FindMachine name) (Inr (Some m)), ERefs (MediumAttachments m (u16 ''SATA'')) (Inr atts)]
        @ td
        @ [ERef (NetworkAdapter m 0) (Inr a0), ERef (NetworkAdapter m 1) (Inr a1),
           ERef (NetworkAdapter m 2) (Inr a2), ERef (NetworkAdapter m 3) (Inr a3)]
        @ t0 @ t1 @ t2 @ t3
        @ [EInt m VRAMSizeP (Inr ram), EInt m MonitorCountP (Inr monitors),
           EBool m Accelerate3DP (Inr enable3d), EInt m MachineStateP (Inr st),
           EInt m CPUCountP (Inr cpus), EInt m MemorySizeP (Inr mem), EStr (OSTypeOf m) (Inr uo),
           EStr (HardwareUUID m) (Inr uu), ERelease m])
       (vm_info_text E st cpus mem os uuid (styled E (json_array ds))
          (styled E (json_array (n0 @ n1 @ n2 @ n3))) (graphics_text E ram monitors enable3d))"

lemma post_reads_result:
  assumes "post E m (\<lambda>r tr. reads r tr \<and> (\<forall>a. r = Ret a \<longrightarrow> P a tr))"
    and "\<And>a tr. inert tr \<Longrightarrow> P a tr \<Longrightarrow> Q (Ret a) tr" and "\<And>e tr. inert tr \<Longrightarrow> Q (Throw e) tr"
    and "\<And>tr. inert tr \<Longrightarrow> Q (Undef Null_deref) tr"
  shows "post E m Q"
  using assms(1)
proof (rule post_mono)
  fix r :: "'c outcome" and tr
  assume "reads r tr \<and> (\<forall>a. r = Ret a \<longrightarrow> P a tr)"
  then show "Q r tr" using assms(2-4) by (cases r) (auto simp: reads_def)
qed

text \<open>The pieces in the form the rules of the calculus leave them in.\<close>

lemmas disk_read_lists =
  disk_read.intros [OF _ _ _ _ base_disk, simplified of_medium_def disk_text_def append.simps option.case]
  disk_read.intros [OF _ _ _ _ child_disk, simplified of_medium_def disk_text_def append.simps option.case]

lemma disk_post: "post E (disk_info a) (\<lambda>r tr. reads r tr \<and> (\<forall>j. r = Ret j \<longrightarrow> disk_read E a tr j))"
  unfolding disk_info_def medium_text_def medium_number_def medium_parent_def medium_of_def
  by (intro post_intros)
    (auto simp: mapTojson_def map_build_def intro: disk_read_lists)

lemma disks_post:
  "post E (collect as disk_info) (\<lambda>r tr. reads r tr \<and> (\<forall>js. r = Ret js \<longrightarrow> disks_read E as tr js))"
proof (rule post_collect [where I = "\<lambda>zs js tr. inert tr \<and> disks_read E zs tr js"], goal_cases)
  case (2 x xs ys tr)
  then show ?case by (intro disk_post [THEN post_reads_result]) (auto intro: next_disk)
qed (auto intro: no_disk)

inductive_simps net_read_on:
  "net_read E (Some r) [EBool r AdapterEnabledP (Inr True), EInt r AttachmentTypeP (Inr t1),
     EInt r AttachmentTypeP (Inr t2), EStr (BridgedInterfaceOf r) (Inr uv), EStr (MACAddressOf r) (Inr um)] js"

lemma adapter_post: "post E (adapter_info p) (\<lambda>r tr. reads r tr \<and> (\<forall>js. r = Ret js \<longrightarrow> net_read E p tr js))"
  unfolding adapter_info_def
  by (intro post_intros)
    (auto simp: mapTojson_def map_build_def bridged_value_def nat_value_def net_read_on net_mode_def
      intro: net_off)

definition vm_info_contract ::
  "'w vbox \<Rightarrow> string \<Rightarrow> string \<Rightarrow> (bool \<times> string \<times> string) outcome \<Rightarrow> event list \<Rightarrow> bool" where
  "vm_info_contract E n d r tr \<longleftrightarrow> reads r tr \<and>
     (case r of Ret (b, info, d') \<Rightarrow> b \<and> d' = d \<and> info_read E n tr info | _ \<Rightarrow> True)"

lemmas info_read_list =
  info_read [simplified vm_info_text_def graphics_text_def append.simps]

lemma vm_info_post: "post E (getVmInfo n info d) (vm_info_contract E n d)"
  unfolding getVmInfo_def
  by (intro post_intros disks_post [THEN post_reads_result] adapter_post [THEN post_reads_result])
    (auto simp: vm_info_contract_def mapTojson_def map_build_def json_array_def [of "[_]"]
      intro: info_read_list)

definition snapshot_info_contract ::
  "'w vbox \<Rightarrow> string \<Rightarrow> string \<Rightarrow> (bool \<times> string \<times> string) outcome \<Rightarrow> event list \<Rightarrow> bool" where
  "snapshot_info_contract E info d r tr \<longleftrightarrow> reads r tr \<and>
     (case r of Ret (b, info', d') \<Rightarrow>
        (\<exists>m c. EInt m SnapshotCountP (Inr c) \<in> set tr \<and> ERelease m \<in> set tr \<and>
          (if b then 1 \<le> as_int c \<and> d' = d \<and>
             (\<exists>path cur par. info' = fast_write E (JArr [JStr (styled E (JObj
               [(''count'', JStr (to_string (as_int c))), (''current'', JStr cur),
                (''parent'', JStr par), (''path'', JStr path)]))])
                \<and> (as_int c = 1 \<longrightarrow> par = ''0''))
           else info' = info \<and> (as_int c < 1 \<longleftrightarrow> d' = ''Virtual machine has no snapshot !'')))
      | _ \<Rightarrow> True)"

lemma snapshot_info_post: "post E (getVmSnapshotInfo n info d) (snapshot_info_contract E info d)"
  unfolding getVmSnapshotInfo_def Let_def
  by (intro post_intros)
    (auto simp: snapshot_info_contract_def  mapTojson_def map_build_def to_utf8_ascii)

text \<open>
  The list: one entry for every machine with a name, in name order, each with the state
  that \<open>findMachine\<close> on that name read.
\<close>

definition named_machines :: "ref list \<Rightarrow> string list \<Rightarrow> event list \<Rightarrow> bool" where
  "named_machines ms names tr \<longleftrightarrow>
     list_all2 (\<lambda>m k. \<exists>u. EStr (MachineName m) (Inr u) \<in> set tr
                    \<and> wide_to_utf8 (utf16ToWide u) = Some k) ms names"

definition state_known :: "event list \<Rightarrow> string \<times> int \<Rightarrow> bool" where
  "state_known tr kv \<longleftrightarrow> (\<exists>u r. to_utf16 (fst kv) = Some u
      \<and> ERef (FindMachine u) (Inr (Some r)) \<in> set tr
      \<and> EInt r MachineStateP (Inr (snd kv)) \<in> set tr)"

definition list_text :: "'w vbox \<Rightarrow> int smap \<Rightarrow> string" where
  "list_text E m = fast_write E (JArr [JStr (styled E (mapTojson JInt m))])"

definition list_contract ::
  "'w vbox \<Rightarrow> ref list \<Rightarrow> string \<Rightarrow> string \<Rightarrow> (bool \<times> string \<times> string) outcome \<Rightarrow> event list \<Rightarrow> bool" where
  "list_contract E machines vms d r tr \<longleftrightarrow> reads r tr \<and>
     (case r of Ret (b, vms', d') \<Rightarrow>
        (\<exists>names m. named_machines machines names tr \<and> ordered m
           \<and> fst ` set m = set names - {[]} \<and> list_all (state_known tr) m
           \<and> (if b then m \<noteq> [] \<and> d' = d \<and> vms' = list_text E m
              else m = [] \<and> vms' = vms \<and> d' = ''Virtual machine does not exist!''))
      | _ \<Rightarrow> True)"

lemma named_machines_mono:
  "named_machines ms ks tr \<Longrightarrow> set tr \<subseteq> set tr' \<Longrightarrow> named_machines ms ks tr'"
  unfolding named_machines_def by (erule list_all2_mono) auto

lemma state_known_mono:
  "list_all (state_known tr) m \<Longrightarrow> set tr \<subseteq> set tr' \<Longrightarrow> list_all (state_known tr') m"
  by (erule list.pred_mono_strong) (auto simp: state_known_def)

lemma names_post:
  "post E (collect ms (\<lambda>machine. bnd (ask_str (MachineName machine)) (\<lambda>u. conv (wide_to_utf8 (utf16ToWide u)))))
     (\<lambda>r tr. reads r tr \<and> (\<forall>ks. r = Ret ks \<longrightarrow> named_machines ms ks tr))"
proof (rule post_collect [where I = "\<lambda>xs ks tr. inert tr \<and> named_machines xs ks tr"], goal_cases)
  case (2 x xs ys tr)
  then show ?case
    by (intro post_intros)
      (auto simp: named_machines_def intro!: list_all2_appendI elim!: list_all2_mono)
qed (simp_all add: named_machines_def)

lemma list_all_insert:
  "P (k, v) \<Longrightarrow> list_all P m \<Longrightarrow> list_all P (map_insert k v m)"
  by (induction k v m rule: map_insert.induct) auto

lemma states_post:
  "post E (each ks [] (\<lambda>k map. if k \<noteq> [] then
        bnd (utf16 k) (\<lambda>name. bnd (find_machine name) (\<lambda>m.
        bnd (geti m MachineStateP) (\<lambda>st. ret (map_insert k st map)))) else ret map))
     (\<lambda>r tr. reads r tr \<and> (\<forall>m. r = Ret m \<longrightarrow>
        ordered m \<and> fst ` set m = set ks - {[]} \<and> list_all (state_known tr) m))"
proof (rule post_each [where I = "\<lambda>zs m tr. inert tr \<and> ordered m \<and> fst ` set m = set zs - {[]}
      \<and> list_all (state_known tr) m"], goal_cases)
  case (2 k zs m tr)
  have known: "list_all (state_known (tr @ [ERef (FindMachine u) (Inr (Some r)),
      EInt r MachineStateP (Inr st)])) (map_insert k st m)" (is "list_all (state_known ?tr) _")
    if "to_utf16 k = Some u" for u r st
    using that 2 state_known_mono [of tr m ?tr]
    by (intro list_all_insert) (auto simp: state_known_def)
  from 2 show ?case
    by (intro post_intros)
      (auto simp: ordered_insert map_insert_keys  intro: known)
qed simp_all

lemma list_returns:
  assumes "named_machines ms names tr1" and "inert tr1" and "inert tr2"
    and "ordered m \<and> fst ` set m = set names - {[]} \<and> list_all (state_known tr2) m"
    and "tr = EStates ms None # tr1 @ tr2"
    and "b \<longleftrightarrow> m \<noteq> []" and "v = (if b then list_text E m else vms)"
    and "d' = (if b then d else ''Virtual machine does not exist!'')"
  shows "list_contract E ms vms d (Ret (b, v, d')) tr"
proof -
  have "named_machines ms names tr" "list_all (state_known tr) m"
    using assms named_machines_mono [of ms names tr1 tr] state_known_mono [of tr2 m tr] by auto
  with assms show ?thesis
    by (auto simp: list_contract_def)
qed

lemma list_post: "post E (listVMs machines vms d) (list_contract E machines vms d)"
  unfolding listVMs_def
  by (intro post_intros names_post [THEN post_reads_result] states_post [THEN post_reads_result];
      (rule list_returns, assumption, assumption, assumption, assumption)?;
      simp add: list_contract_def list_text_def)

subsection \<open>Properties\<close>

text \<open>C13. \<open>listVMs\<close> changes nothing; the list it writes has one entry for every machine with a
  non-empty name, strictly ordered by name, and each state is one that \<open>findMachine\<close> on
  exactly that name led to. It returns false only when no machine has a name.\<close>

theorem list_machines: "post E (listVMs machines vms d) (list_contract E machines vms d)"
  by (rule list_post)

text \<open>C33. \<open>getVmInfo\<close> changes nothing on any path and never returns false. When it returns, its
  calls are exactly those of \<open>info_read\<close>, and its answer is built from the replies: the state,
  processor count, memory, system type and hardware id of the machine, one entry for each of
  its SATA attachments in order with the values read for that medium, one for each enabled
  adapter among the four, and the graphics settings, each under its own key.\<close>

theorem machine_info: "post E (getVmInfo n info d) (vm_info_contract E n d)"
  by (rule vm_info_post)

text \<open>\<open>getVmSnapshotInfo\<close> changes nothing; it answers with the snapshot count it read when
  that is positive as a signed number, with parent 0 for a single snapshot, and refuses with
  its message when it is not.\<close>

theorem snapshot_info: "post E (getVmSnapshotInfo n info d) (snapshot_info_contract E info d)"
  by (rule snapshot_info_post)

end
