(* ===== verification/Core_Disk.thy ===== *)
theory Core_Disk
  imports Sample_Host
begin

text \<open>
  The disk operations of \<open>QiVCA\<close> (source/vca_core.cpp): \<open>makeFloatDisk\<close>, \<open>addDiskToVm\<close>,
  \<open>destroyFloatDiskWithoutAttach\<close> and \<open>detachDiskFromVm\<close>.
\<close>

subsection \<open>Names and formats\<close>

definition storageBus :: "string list" where
  "storageBus = [''IDE'', ''SATA'', ''SCSI'', ''Floppy'', ''SAS'', ''USB'', ''PCIe'']"

definition disk_file :: "string \<Rightarrow> string \<Rightarrow> string \<Rightarrow> string option" where
  \<comment> \<open>the path of a disk, by its format; \<open>None\<close> is an incorrect format\<close>
  "disk_file diskformat basefolder name =
     (if strcmp_eq diskformat ''VDI'' then Some (basefolder @ ''/'' @ name @ ''/'' @ name @ ''.vdi'')
      else if strcmp_eq diskformat ''VHD'' then Some (basefolder @ ''/'' @ name @ ''/'' @ name @ ''.vhd'')
      else if strcmp_eq diskformat ''VMDK'' then Some (basefolder @ ''/'' @ name @ ''/'' @ name @ ''.vmdk'')
      else None)"

definition slot_ok :: "int \<Rightarrow> bool" where
  "slot_ok slot \<longleftrightarrow> slot > 0 \<and> slot < 5"

subsection \<open>The operations\<close>

definition makeFloatDisk ::
  "string \<Rightarrow> string \<Rightarrow> string \<Rightarrow> int \<Rightarrow> string \<Rightarrow> ('w, bool \<times> string) io" where
  "makeFloatDisk disknameorid diskformat basefolder sz callbackdata =
     (let path = disk_file diskformat basefolder disknameorid in
      if path = None then ret (False, ''Virtual disk format is incorrect !'')
      else
        bnd (utf16 diskformat) (\<lambda>format.
        bnd (utf16 (the path)) (\<lambda>logicdisk_storagepath.
        bnd (ask_ref (CreateMedium format logicdisk_storagepath ReadWrite HardDisk)) (\<lambda>disk.
        if disk \<noteq> None then
          bnd (get disk (\<lambda>d. CreateBaseStorage d sz [Standard, Fixed])) (\<lambda>progress.
          seqs [poll progress]
          (bnd (gets disk MediumId) (\<lambda>i.
           bnd (utf8 i) (\<lambda>uuid. ret (True, uuid)))))
        else
          ret (False, ''Disk already exists '' @ [CHR 0xEF, CHR 0xBC, CHR 0x81])))))"

definition addDiskToVm ::
  "string \<Rightarrow> string \<Rightarrow> string \<Rightarrow> string \<Rightarrow> string \<Rightarrow> int \<Rightarrow> string \<Rightarrow> ('w, bool \<times> string) io" where
  "addDiskToVm vmname diskname diskformat storagecontroller basefolder slot callbackdata =
     bnd (utf16 vmname) (\<lambda>name.
     if \<not> slot_ok slot then ret (False, ''slot should be :1, 2, 3, 4 !'')
     else if disk_file diskformat basefolder diskname = None
       then ret (False, ''Virtual disk format is incorrect !'')
     else
       bnd (find_machine name) (\<lambda>machine.
       if machine \<noteq> None then
         bnd new_session (\<lambda>session.
         seqs [lock_machine machine session Write]
         (bnd (get session SessionMachine) (\<lambda>mutableMachine.
          bnd (utf16 (the (disk_file diskformat basefolder diskname))) (\<lambda>path.
          bnd (ask_ref (OpenMedium path HardDisk ReadWrite True)) (\<lambda>disk.
          if disk \<noteq> None then
            (if storagecontroller \<in> set storageBus then
               bnd (get mutableMachine (\<lambda>m. StorageControllerByName m (u16 storagecontroller)))
                 (\<lambda>controller.
               bnd (try_com
                 (bnd (gets controller ControllerName) (\<lambda>cn.
                  seqs [call mutableMachine (\<lambda>m. AttachDevice m cn slot 0 HardDisk disk)]
                  (bnd (gets controller ControllerName) (\<lambda>cn'.
                   seqs [call mutableMachine (\<lambda>m. SetHotPluggable m cn' slot 0 True)]
                     (ret (Inl (the (disk_file diskformat basefolder diskname))))))))
                 (\<lambda>err. bnd report_errors (\<lambda>vboxError.
                    if vboxError then ret (Inr (err_what err))
                    else ret (Inl callbackdata))))
               (\<lambda>res. case res of
                  Inl cb \<Rightarrow>
                    seqs [call mutableMachine SaveSettings, unlock_machine session, release machine]
                      (ret (True, cb))
                | Inr what \<Rightarrow> ret (False, what)))
             else
               seqs [release machine] (ret (False, '' Wrong type of disk controller !'')))
          else
            seqs [release machine] (ret (False, '' Disk read error  !'')))))))
       else
         seqs [release machine] (ret (False, ''Virtual machine does not exist !''))))"

definition destroyFloatDiskWithoutAttach :: "string \<Rightarrow> string \<Rightarrow> ('w, bool \<times> string) io" where
  "destroyFloatDiskWithoutAttach diskuuid callbackdata =
     bnd (utf16 diskuuid) (\<lambda>diskNameOrId.
     bnd (ask_refs HardDisks) (\<lambda>disks.
     bnd (each_until disks callbackdata (\<lambda>disk cb.
        bnd (ask_str (MediumId disk)) (\<lambda>i.
        bnd (if i = diskNameOrId then ret True
             else bnd (ask_str (MediumName disk)) (\<lambda>nm. ret (nm = diskNameOrId))) (\<lambda>hit.
        if hit then
          bnd (ask_ref (DeleteStorage disk)) (\<lambda>_.
          bnd (ask_str (MediumName disk)) (\<lambda>nm.
          bnd (utf8 nm) (\<lambda>cb'. ret (Inr cb'))))
        else ret (Inl cb)))))
     (\<lambda>res. ret (True, case res of Inl cb \<Rightarrow> cb | Inr cb \<Rightarrow> cb))))"

definition detachDiskFromVm :: "string \<Rightarrow> int \<Rightarrow> string \<Rightarrow> ('w, bool \<times> string) io" where
  "detachDiskFromVm vmname slot callbackdata =
     bnd (utf16 vmname) (\<lambda>name.
     if \<not> slot_ok slot then ret (False, ''slot should be :1, 2, 3, 4 !'')
     else
       bnd (find_machine name) (\<lambda>machine.
       if machine \<noteq> None then
         bnd new_session (\<lambda>session.
         seqs [lock_machine machine session Shared]
         (bnd (get session SessionMachine) (\<lambda>mutableMachine.
          bnd (get mutableMachine (\<lambda>m. StorageControllerByName m (u16 ''SATA''))) (\<lambda>controller.
          bnd (try_com
            (bnd (gets controller ControllerName) (\<lambda>cn.
             seqs [call mutableMachine (\<lambda>m. DetachDevice m cn slot 0)] (ret (Inl ()))))
            (\<lambda>err. bnd report_errors (\<lambda>_.
               ret (Inr (err_what err)))))
          (\<lambda>res. case res of
             Inl _ \<Rightarrow>
               seqs [call mutableMachine SaveSettings, unlock_machine session, release machine]
                 (ret (True, callbackdata))
           | Inr what \<Rightarrow> ret (False, what))))))
       else undef No_return))"

subsection \<open>Contracts\<close>

text \<open>
  Creating a disk: an incorrect format is refused before any call; a run that returns true
  asked for exactly the path, format and size of its arguments, polled the progress object
  and answers with the new medium's id.
\<close>

definition make_script :: "u16string \<Rightarrow> u16string \<Rightarrow> int \<Rightarrow> ref \<Rightarrow> ref \<Rightarrow> event list \<Rightarrow> u16string \<Rightarrow> event list" where
  "make_script fmt path sz d g polls i =
     [ERef (CreateMedium fmt path ReadWrite HardDisk) (Inr (Some d)),
      ERef (CreateBaseStorage d sz [Standard, Fixed]) (Inr (Some g))] @ polls
     @ [EStr (MediumId d) (Inr i)]"

definition make_contract ::
  "string \<Rightarrow> string \<Rightarrow> string \<Rightarrow> int \<Rightarrow> (bool \<times> string) outcome \<Rightarrow> event list \<Rightarrow> bool" where
  "make_contract name fmt base sz r tr \<longleftrightarrow>
     (case r of Ret (b, d') \<Rightarrow>
        (case disk_file fmt base name of
           None \<Rightarrow> \<not> b \<and> d' = ''Virtual disk format is incorrect !'' \<and> tr = []
         | Some path \<Rightarrow> (\<exists>f p. to_utf16 fmt = Some f \<and> to_utf16 path = Some p \<and>
             (if b then \<exists>d g polls i. list_all polling polls \<and> to_utf8 i = Some d'
                          \<and> tr = make_script f p sz d g polls i
              else tr = [ERef (CreateMedium f p ReadWrite HardDisk) (Inr None)])))
      | Throw e \<Rightarrow> disk_file fmt base name \<noteq> None
      | Undef u \<Rightarrow> u = Null_deref
      | Hang \<Rightarrow> True)"

lemma make_post:
  "post E (makeFloatDisk name fmt base sz d) (make_contract name fmt base sz)"
  unfolding makeFloatDisk_def Let_def
  by (intro post_intros) (auto simp: make_contract_def make_script_def split: option.splits)

text \<open>
  Attaching and detaching keep the discipline, and a run that returns true has saved the
  settings and unlocked the session. Every refusal after the machine was found, however,
  returns with the session still locked. \<open>done_as d' tr\<close> is what a run that returns true with
  the answer \<open>d'\<close> has done, \<open>refused_as\<close> what its refusal says.
\<close>

definition attach_contract ::
  "bool \<Rightarrow> (string \<Rightarrow> event list \<Rightarrow> bool) \<Rightarrow> (string \<Rightarrow> event list \<Rightarrow> bool)
     \<Rightarrow> (bool \<times> string) outcome \<Rightarrow> event list \<Rightarrow> bool" where
  "attach_contract args_ok done_as refused_as r tr \<longleftrightarrow> disciplined tr \<and> (\<not> args_ok \<longrightarrow> tr = []) \<and>
     (case r of Ret (b, d') \<Rightarrow>
        (if b then args_ok \<and> run tr start = Some start \<and> done_as d' tr
         else (if args_ok then held tr \<noteq> [] \<and> refused_as d' tr else tr = []))
      | Throw _ \<Rightarrow> True
      | Undef u \<Rightarrow> args_ok \<and> u \<noteq> Uninit_read
      | Hang \<Rightarrow> list_ex failed tr)"

datatype disk_step =
    Opened u16string ptr
  | Attached int int device_type ptr
  | Detached int int

fun disk_steps :: "event \<Rightarrow> disk_step list" where
  \<comment> \<open>the accepted calls that open a disk, or attach or detach one at a slot and device\<close>
  "disk_steps (ERef q r) = (case q of
      OpenMedium u _ _ _ \<Rightarrow> (case r of Inr p \<Rightarrow> [Opened u p] | Inl _ \<Rightarrow> []) | _ \<Rightarrow> [])"
| "disk_steps (ECmd c e) = (if e \<noteq> None then [] else case c of
      AttachDevice _ _ slot dev t p \<Rightarrow> [Attached slot dev t p]
    | DetachDevice _ _ slot dev \<Rightarrow> [Detached slot dev] | _ \<Rightarrow> [])"
| "disk_steps _ = []"

fun refusals :: "event \<Rightarrow> com_err list" where
  "refusals (ECmd _ (Some e)) = [e]"
| "refusals (EStr _ (Inl e)) = [e]"
| "refusals _ = []"

definition each_event :: "(event \<Rightarrow> 'a list) \<Rightarrow> event list \<Rightarrow> 'a list" where
  "each_event f tr = concat (map f tr)"

lemma each_event_simps [simp]:
  "each_event f [] = []" "each_event f (e # tr) = f e @ each_event f tr"
  "each_event f (xs @ ys) = each_event f xs @ each_event f ys"
  by (simp_all add: each_event_def)

lemma report_disk_steps [simp]: "list_all error_report tr \<Longrightarrow> each_event disk_steps tr = []"
proof (induction tr)
  case (Cons e tr)
  have "disk_steps e = []" if "error_report e" using that by (cases e) (auto split: ref_req.split)
  with Cons show ?case by simp
qed simp

definition attached :: "string \<Rightarrow> int \<Rightarrow> string \<Rightarrow> string \<Rightarrow> event list \<Rightarrow> bool" where
  \<comment> \<open>the file was opened and attached at the slot; or a call of the attachment was refused\<close>
  "attached path slot d d' tr \<longleftrightarrow>
     (if each_event refusals tr = [] then d' = path \<and> (\<exists>u x. to_utf16 path = Some u
         \<and> each_event disk_steps tr = [Opened u (Some x), Attached slot 0 HardDisk (Some x)])
      else d' = d)"

definition attach_refused :: "string \<Rightarrow> string \<Rightarrow> event list \<Rightarrow> bool" where
  "attach_refused bus d' tr \<longleftrightarrow>
     (if each_event refusals tr = []
      then (if bus \<in> set storageBus then d' = '' Disk read error  !''
            else d' \<in> {'' Disk read error  !'', '' Wrong type of disk controller !''})
      else d' = err_what (hd (each_event refusals tr)))"

definition detached :: "int \<Rightarrow> string \<Rightarrow> string \<Rightarrow> event list \<Rightarrow> bool" where
  "detached slot d d' tr \<longleftrightarrow> d' = d \<and> each_event disk_steps tr = [Detached slot 0]"

definition detach_refused :: "string \<Rightarrow> event list \<Rightarrow> bool" where
  "detach_refused d' tr \<longleftrightarrow> each_event refusals tr \<noteq> [] \<and> d' = err_what (hd (each_event refusals tr))"

lemma add_disk_post:
  "post E (addDiskToVm n dn fmt bus base slot d)
     (attach_contract (slot_ok slot \<and> disk_file fmt base dn \<noteq> None)
        (attached (the (disk_file fmt base dn)) slot d) (attach_refused bus))"
  unfolding addDiskToVm_def
  apply (intro post_intros)
  apply  (auto simp: attach_contract_def attached_def attach_refused_def
      disciplined_def held_def protocol_simps split: option.splits)
  done

lemma detach_post:
  "post E (detachDiskFromVm n slot d) (attach_contract (slot_ok slot) (detached slot d) detach_refused)"
  unfolding detachDiskFromVm_def
  by (intro post_intros)
    (auto simp: attach_contract_def detached_def detach_refused_def disciplined_def held_def
      protocol_simps split: option.splits)

text \<open>
  Destroying a disk: the disks are searched in order, \<open>deleteStorage\<close> is called at most
  once, and only on a disk whose id or name was just read and equals the argument.
\<close>

fun deletes :: "event list \<Rightarrow> ref list" where
  "deletes [] = []"
| "deletes (e # tr) = (case e of
      ERef q _ \<Rightarrow> (case q of DeleteStorage d \<Rightarrow> [d] | _ \<Rightarrow> []) | _ \<Rightarrow> []) @ deletes tr"

lemma deletes_append [simp]: "deletes (xs @ ys) = deletes xs @ deletes ys"
  by (induction xs) simp_all

definition named :: "u16string \<Rightarrow> ref \<Rightarrow> event list \<Rightarrow> bool" where
  "named x d tr \<longleftrightarrow> EStr (MediumId d) (Inr x) \<in> set tr \<or> EStr (MediumName d) (Inr x) \<in> set tr"

definition destroy_contract ::
  "string \<Rightarrow> string \<Rightarrow> (bool \<times> string) outcome \<Rightarrow> event list \<Rightarrow> bool" where
  "destroy_contract n d r tr \<longleftrightarrow>
     length (deletes tr) \<le> 1 \<and>
     (\<forall>x \<in> set (deletes tr). \<exists>u. to_utf16 n = Some u \<and> named u x tr) \<and>
     (case r of Ret (b, d') \<Rightarrow> b \<and> (deletes tr = [] \<longrightarrow> d' = d) | Throw _ \<Rightarrow> True | _ \<Rightarrow> False)"

definition searched :: "u16string \<Rightarrow> string \<Rightarrow> (string + string) outcome \<Rightarrow> event list \<Rightarrow> bool" where
  "searched u d r tr \<longleftrightarrow>
     length (deletes tr) \<le> 1 \<and> (\<forall>x \<in> set (deletes tr). named u x tr)
      \<and> (case r of Ret v \<Rightarrow> (deletes tr = [] \<longrightarrow> v = Inl d) | Throw _ \<Rightarrow> True | _ \<Rightarrow> False)"

lemma destroy_post: "post E (destroyFloatDiskWithoutAttach n d) (destroy_contract n d)"
proof -
  let ?f = "\<lambda>u disk cb. bnd (ask_str (MediumId disk)) (\<lambda>i.
        bnd (if i = u then ret True
             else bnd (ask_str (MediumName disk)) (\<lambda>nm. ret (nm = u))) (\<lambda>hit.
        if hit then
          bnd (ask_ref (DeleteStorage disk)) (\<lambda>_.
          bnd (ask_str (MediumName disk)) (\<lambda>nm.
          bnd (utf8 nm) (\<lambda>cb'. ret (Inr cb'))))
        else ret (Inl cb)))"
  have search: "post E (each_until disks d (?f u)) (searched u d)" for disks u
    by (rule post_each_until [where I = "\<lambda>s tr. s = d \<and> deletes tr = []"])
      (intro post_intros | auto simp: searched_def named_def)+
  have rest: "then_post E (\<lambda>res. ret (True, case res of Inl cb \<Rightarrow> cb | Inr cb \<Rightarrow> cb))
      (\<lambda>r' tr'. destroy_contract n d r' (ERefs HardDisks ds # tr')) r tr"
    if "searched u d r tr" "to_utf16 n = Some u" for u r tr ds
    using that
    by (cases r) (auto simp: searched_def destroy_contract_def named_def intro!: post_intros)
  have thrown: "destroy_contract n d (Throw e) tr" if "deletes tr = []" for e tr
    using that by (simp add: destroy_contract_def)
  show ?thesis
    unfolding destroyFloatDiskWithoutAttach_def
    by (intro post_intros post_mono [OF search]) (auto intro: rest simp: thrown)
qed

subsection \<open>Properties\<close>

text \<open>\<open>makeFloatDisk\<close> refuses an unknown format before any call; a run that returns true
  created the medium at \<open>base/name/name.ext\<close> for the extension of its format, with the size
  it was given and a fixed allocation, polled until completion and answers with the id of
  the new medium.\<close>

theorem make_disk: "post E (makeFloatDisk name fmt base sz d) (make_contract name fmt base sz)"
  by (rule make_post)

text \<open>C19. \<open>addDiskToVm\<close> makes no call for a slot outside 1..4 or an unknown format. A run that
  returns true has saved the settings and unlocked the session; every refusal after the
  lock returns with the session still locked.\<close>

theorem add_disk:
  "post E (addDiskToVm n dn fmt bus base slot d)
     (attach_contract (slot_ok slot \<and> disk_file fmt base dn \<noteq> None)
        (attached (the (disk_file fmt base dn)) slot d) (attach_refused bus))"
  by (rule add_disk_post)

text \<open>\<open>detachDiskFromVm\<close> likewise: no call for a slot outside 1..4, clean after success,
  and a failed detach returns false with the error's text and the session still locked.\<close>

theorem detach_disk:
  "post E (detachDiskFromVm n slot d) (attach_contract (slot_ok slot) (detached slot d) detach_refused)"
  by (rule detach_post)

text \<open>\<open>destroyFloatDiskWithoutAttach\<close> deletes at most one disk, only one whose id or name
  was read and equals the argument; it returns true also when no disk matched, with the
  answer string untouched.\<close>

theorem destroy_disk: "post E (destroyFloatDiskWithoutAttach n d) (destroy_contract n d)"
  by (rule destroy_post)

end
