(* ===== verification/Core_Install.thy ===== *)
theory Core_Install
  imports Core_Disk
begin

text \<open>
  Machine creation (source/vca_core.cpp): \<open>createVMfromSystemdisk\<close> and \<open>createVMfromISO\<close>.
  Both walk the list \<open>osType\<close> of include/vca_core.h and build a machine for the entry that
  equals the argument. The list has no two equal entries, so the loop body runs at most
  once (\<open>one_os\<close>); an argument that is not in it makes the functions return true without
  a single call.
\<close>

definition osType :: "string list" where
  "osType = [
     ''Windows31'', ''Windows95'', ''Windows98'', ''WindowsMe'', ''WindowsNT3x'', ''WindowsNT4'',
     ''Windows2000'', ''WindowsXP'', ''WindowsXP_64'', ''Windows2003'', ''Windows2003_64'',
     ''WindowsVista'', ''WindowsVista_64'', ''Windows2008'', ''Windows2008_64'',
     ''Windows7'', ''Windows7_64'', ''Windows8'', ''Windows8_64'', ''Windows81'', ''Windows81_64'',
     ''Windows2012_64'', ''Windows10'', ''Windows10_64'', ''Windows2016_64'',
     ''Windows2019_64'', ''WindowsNT'', ''WindowsNT_64'',
     ''Linux22'', ''Linux24'', ''Linux24_64'', ''Linux26'', ''Linux26_64'',
     ''ArchLinux'', ''ArchLinux_64'', ''Debian'', ''Debian_64'', ''Fedora'', ''Fedora_64'',
     ''Gentoo'', ''Gentoo_64'', ''Mandriva'', ''Mandriva_64'', ''Oracle'', ''Oracle_64'',
     ''RedHat'', ''RedHat_64'', ''OpenSUSE'', ''OpenSUSE_64'', ''Turbolinux'', ''Turbolinux_64'',
     ''Ubuntu'', ''Ubuntu_64'', ''Xandros'', ''Xandros_64'', ''Linux'', ''Linux_64'',
     ''Solaris'', ''Solaris_64'', ''OpenSolaris'', ''OpenSolaris_64'', ''Solaris11_64'',
     ''FreeBSD'', ''FreeBSD_64'', ''OpenBSD'', ''OpenBSD_64'', ''NetBSD'', ''NetBSD_64'',
     ''OS2Warp3'', ''OS2Warp4'', ''OS2Warp45'', ''OS2eCS'', ''OS21x'', ''OS2'',
     ''MacOS'', ''MacOS_64'', ''MacOS106'', ''MacOS106_64'', ''MacOS107_64'', ''MacOS108_64'',
     ''MacOS109_64'', ''MacOS1010_64'', ''MacOS1011_64'', ''MacOS1012_64'', ''MacOS1013_64'',
     ''DOS'', ''Netware'', ''L4'', ''QNX'', ''JRockitVE'', ''VBoxBS_64'']"

definition mediaType :: "string list" where
  "mediaType = [''VDI'', ''VHD'', ''VMDK'']"

definition bus_of :: "string \<Rightarrow> storage_bus option" where
  "bus_of s = map_of (zip storageBus [IDE, SATA, SCSI, Floppy, SAS, USB, PCIe]) s"

definition add_bus :: "ptr \<Rightarrow> string \<Rightarrow> ('w, ptr) io" where
  \<comment> \<open>the if-chain on the bus name; another name leaves the controller pointer null\<close>
  "add_bus mutableMachine name = (case bus_of name of
      None \<Rightarrow> ret None
    | Some b \<Rightarrow> get mutableMachine (\<lambda>m. AddStorageController m (u16 name) b))"

definition systemdisk_body ::
  "u16string \<Rightarrow> u16string \<Rightarrow> u16string \<Rightarrow> int \<Rightarrow> int \<Rightarrow> string \<Rightarrow> string \<Rightarrow> string
     \<Rightarrow> ('w, string + bool \<times> string) io" where
  \<comment> \<open>the body of the loop for the matching entry\<close>
  "systemdisk_body name path base_folder cpucount memorysize storagebustype ostypeid callbackdata =
     bnd (utf16 ostypeid) (\<lambda>os_type.
     bnd (ask_str (ComposeMachineFilename name [] [] base_folder)) (\<lambda>p.
     bnd (ask_ref (CreateMachine p name os_type)) (\<lambda>machine.
     if machine \<noteq> None then
       bnd (bnd (gets machine MachineId) utf8) (\<lambda>callbackdata.
       seqs [put machine (CPUCount (word_of_int cpucount)), put machine (OSTypeId os_type),
             put machine (MemorySize (word_of_int memorysize))]
       (bnd new_session (\<lambda>session.
        seqs [perform (RegisterMachine machine), lock_machine machine session Write]
        (bnd (get session SessionMachine) (\<lambda>mutableMachine.
         seqs [put mutableMachine (NestedPaging True)]
         (bnd (ask_ref (OpenMedium path HardDisk ReadWrite True)) (\<lambda>disk.
          if disk \<noteq> None then
            seqs [call disk RefreshState]
            (bnd (add_bus mutableMachine storagebustype) (\<lambda>controller.
             bnd (gets controller ControllerName) (\<lambda>cn.
             seqs
               [call mutableMachine (\<lambda>m. AttachDevice m cn 0 0 HardDisk disk),
                put mutableMachine (BootOrder 1 HardDisk),
                call mutableMachine SaveSettings,
                unlock_machine session, release machine]
               (ret (Inl callbackdata)))))
          else
            seqs [unlock_machine session, release disk, release machine]
              (ret (Inr (False, '' Virtual machine disk open failed !''))))))))))
     else
       seqs [release machine] (ret (Inr (False, ''Virtual machine creation failed!''))))))"

definition createVMfromSystemdisk ::
  "string \<Rightarrow> string \<Rightarrow> int \<Rightarrow> int \<Rightarrow> string \<Rightarrow> string \<Rightarrow> string \<Rightarrow> string \<Rightarrow> ('w, bool \<times> string) io" where
  "createVMfromSystemdisk vmname ostypeid cpucount memorysize basefolder diskpath storagebustype callbackdata =
     try_com
       (bnd (utf16 vmname) (\<lambda>name.
        bnd (utf16 diskpath) (\<lambda>path.
        bnd (utf16 basefolder) (\<lambda>base_folder.
        bnd (each_until osType callbackdata (\<lambda>iter cb.
           if strcmp_eq ostypeid iter then
             systemdisk_body name path base_folder cpucount memorysize storagebustype ostypeid cb
           else ret (Inl cb)))
        (\<lambda>res. ret (case res of Inl cb \<Rightarrow> (True, cb) | Inr x \<Rightarrow> x))))))
       print_and_fall_off"

text \<open>The inner body of \<open>createVMfromISO\<close>; the state carries \<open>vmuuid\<close> and \<open>callbackdata\<close>.\<close>

type_synonym iso_out = "string \<times> string"

definition iso_media ::
  "ptr \<Rightarrow> ptr \<Rightarrow> ptr \<Rightarrow> ptr \<Rightarrow> string \<Rightarrow> u16string \<Rightarrow> iso_out
     \<Rightarrow> ('w, iso_out + bool \<times> iso_out) io" where
  "iso_media machine session mutableMachine disk storagebustype iso_path = (\<lambda>(vmuuid, callbackdata).
       bnd (add_bus mutableMachine storagebustype) (\<lambda>diskcontroller.
       bnd (get mutableMachine (\<lambda>m. AddStorageController m (u16 ''IDE'') IDE))
         (\<lambda>dvdcontroller.
       bnd (ask_ref (OpenMedium iso_path DVD ReadOnly True)) (\<lambda>dvd_medium.
       if dvd_medium \<noteq> None then
         bnd (gets dvdcontroller ControllerName) (\<lambda>n1.
         seqs [call mutableMachine (\<lambda>m. AttachDevice m n1 0 0 DVD dvd_medium)]
         (bnd (gets diskcontroller ControllerName) (\<lambda>n2.
          seqs [call mutableMachine (\<lambda>m. AttachDevice m n2 0 0 HardDisk disk)]
          (bnd (gets dvdcontroller ControllerName) (\<lambda>n3.
           seqs
             [call mutableMachine (\<lambda>m. MountMedium m n3 0 0 dvd_medium True),
              put mutableMachine (BootOrder 1 DVD),
              put mutableMachine (BootOrder 2 HardDisk),
              call mutableMachine SaveSettings, unlock_machine session]
             (ret (Inl (vmuuid, callbackdata))))))))
       else ret (Inr (False, vmuuid, '' DVD device open failed !''))))))"

definition iso_body ::
  "string \<Rightarrow> u16string \<Rightarrow> u16string \<Rightarrow> u16string \<Rightarrow> u16string \<Rightarrow> int \<Rightarrow> int \<Rightarrow> string \<Rightarrow> int \<Rightarrow> string
     \<Rightarrow> string \<Rightarrow> bool \<Rightarrow> iso_out \<Rightarrow> ('w, iso_out + bool \<times> iso_out) io" where
  "iso_body vmname name iso_path base_folder os_type cpucount memorysize basefolder logicdisk_size
      diskformat storagebustype fix' = (\<lambda>(vmuuid, callbackdata).
     bnd (utf16 diskformat) (\<lambda>media_type.
     bnd (ask_str (ComposeMachineFilename name [] [] base_folder)) (\<lambda>p.
     bnd (ask_ref (CreateMachine p name os_type)) (\<lambda>machine.
     if machine \<noteq> None then
       bnd (bnd (gets machine MachineId) utf8) (\<lambda>vmuuid.
       seqs [put machine (CPUCount (word_of_int cpucount)), put machine (OSTypeId os_type),
             put machine (MemorySize (word_of_int memorysize))]
       (bnd new_session (\<lambda>session.
        seqs [perform (RegisterMachine machine), lock_machine machine session Write]
        (bnd (get session SessionMachine) (\<lambda>mutableMachine.
         seqs [put mutableMachine (NestedPaging True)]
         (if disk_file diskformat basefolder vmname = None
          then ret (Inr (False, vmuuid, ''Virtual disk format is incorrect !''))
          else
            bnd (utf16 (the (disk_file diskformat basefolder vmname))) (\<lambda>path.
            bnd (ask_ref (CreateMedium media_type path ReadWrite HardDisk)) (\<lambda>disk.
            if disk \<noteq> None then
              bnd (get disk (\<lambda>d. CreateBaseStorage d logicdisk_size
                     (Standard # (if fix' then [Fixed] else [])))) (\<lambda>progress.
              seqs [wait_for progress]
              (bnd (geti progress ResultCodeP) (\<lambda>rc.
               if rc \<noteq> 0 then
                 seqs [unlock_machine session, release machine]
                   (ret (Inr (False, vmuuid, ''Virtual machine disk creation failed!'')))
               else
                 iso_media machine session mutableMachine disk storagebustype iso_path
                   (vmuuid, callbackdata))))
            else
              seqs [unlock_machine session, release disk, release machine]
                (ret (Inr (False, vmuuid, ''Virtual machine disk creation failed!'')))))))))))
     else
       seqs [release machine] (ret (Inr (False, vmuuid, ''Virtual machine creation failed!'')))))))"

definition createVMfromISO ::
  "string \<Rightarrow> string \<Rightarrow> int \<Rightarrow> int \<Rightarrow> string \<Rightarrow> int \<Rightarrow> string \<Rightarrow> string \<Rightarrow> string \<Rightarrow> bool \<Rightarrow> string
     \<Rightarrow> string \<Rightarrow> ('w, bool \<times> string \<times> string) io" where
  "createVMfromISO vmname ostypeid cpucount memorysize basefolder logicdisk_size isopath diskformat
      storagebustype fix' vmuuid callbackdata =
     try_com
       (bnd (utf16 vmname) (\<lambda>name.
        bnd (utf16 isopath) (\<lambda>iso_path.
        bnd (utf16 basefolder) (\<lambda>base_folder.
        bnd (each_until osType (vmuuid, callbackdata) (\<lambda>iter s.
           if strcmp_eq ostypeid iter then
             bnd (utf16 ostypeid) (\<lambda>os_type.
             each_until mediaType s (\<lambda>iter_l s'.
               if strcmp_eq diskformat iter_l then
                 iso_body vmname name iso_path base_folder os_type cpucount memorysize basefolder
                   logicdisk_size diskformat storagebustype fix' s'
               else ret (Inl s')))
           else ret (Inl s)))
        (\<lambda>res. ret (case res of Inl s \<Rightarrow> (True, s) | Inr x \<Rightarrow> x))))))
       print_and_fall_off"

subsection \<open>The loops run their body at most once\<close>

lemma each_until_filter:
  "each_until xs s (\<lambda>x s. if P x then f x s else ret (Inl s)) = each_until (filter P xs) s f"
  by (induction xs arbitrary: s) (auto intro!: arg_cong [where f = "bnd _"])

lemma distinct_os: "distinct (map c_str osType)"
  unfolding osType_def c_str_def by simp

lemma distinct_media: "distinct (map c_str mediaType)"
  unfolding mediaType_def c_str_def by simp

lemma filter_at_most_one:
  "distinct (map f xs) \<Longrightarrow> filter (\<lambda>x. a = f x) xs = [] \<or> (\<exists>y. filter (\<lambda>x. a = f x) xs = [y])"
  by (induction xs) (auto simp: filter_empty_conv image_iff)

lemma one_os: "filter (strcmp_eq s) osType = [] \<or> (\<exists>y. filter (strcmp_eq s) osType = [y])"
  using filter_at_most_one [OF distinct_os] by (simp add: strcmp_eq_def [abs_def])

lemma one_media: "filter (strcmp_eq s) mediaType = [] \<or> (\<exists>y. filter (strcmp_eq s) mediaType = [y])"
  using filter_at_most_one [OF distinct_media] by (simp add: strcmp_eq_def [abs_def])

definition supported :: "string list \<Rightarrow> string \<Rightarrow> bool" where
  "supported xs s \<longleftrightarrow> list_ex (strcmp_eq s) xs"

lemma supported_filter: "supported xs s \<longleftrightarrow> filter (strcmp_eq s) xs \<noteq> []"
  by (auto simp: supported_def list_ex_iff filter_empty_conv)

lemma bnd_rebuild_sum: "bnd m (\<lambda>r. case r of Inl s \<Rightarrow> ret (Inl s) | Inr a \<Rightarrow> ret (Inr a)) = m"
  by (rule ext, rule ext)
    (simp add: bnd_def ret_def split: prod.splits outcome.splits sum.splits)

lemma each_until_one:
  assumes "filter P xs = [] \<or> (\<exists>y. filter P xs = [y])"
  shows "each_until xs s (\<lambda>x s. if P x then f s else ret (Inl s))
           = (if filter P xs = [] then ret (Inl s) else f s)"
  using assms by (auto simp: each_until_filter bnd_rebuild_sum)

lemma media_has_file: "supported mediaType f \<Longrightarrow> disk_file f base n \<noteq> None"
  by (auto simp: supported_def mediaType_def disk_file_def)

subsection \<open>Contracts\<close>

text \<open>
  Creation from a system disk. The calls of a run that returns are determined by the
  arguments; it never returns false, because every branch that means to do so calls
  \<open>Release\<close> through a null pointer first.
\<close>

definition sysdisk_script ::
  "u16string \<Rightarrow> u16string \<Rightarrow> u16string \<Rightarrow> u16string \<Rightarrow> int \<Rightarrow> int \<Rightarrow> string \<Rightarrow> storage_bus \<Rightarrow> u16string
     \<Rightarrow> ref \<Rightarrow> u16string \<Rightarrow> ref \<Rightarrow> ref \<Rightarrow> ref \<Rightarrow> ref \<Rightarrow> u16string \<Rightarrow> event list" where
  "sysdisk_script name path base os cpus mem busname bus p t uuid s m disk c cn =
     [EStr (ComposeMachineFilename name [] [] base) (Inr p),
      ERef (CreateMachine p name os) (Inr (Some t)), EStr (MachineId t) (Inr uuid),
      ECmd (Put t (CPUCount (word_of_int cpus))) None, ECmd (Put t (OSTypeId os)) None,
      ECmd (Put t (MemorySize (word_of_int mem))) None,
      ERef NewSession (Inr (Some s)), ECmd (RegisterMachine (Some t)) None,
      ECmd (LockMachine t (Some s) Write) None, ERef (SessionMachine s) (Inr (Some m)),
      ECmd (Put m (NestedPaging True)) None,
      ERef (OpenMedium path HardDisk ReadWrite True) (Inr (Some disk)), ECmd (RefreshState disk) None,
      ERef (AddStorageController m (u16 busname) bus) (Inr (Some c)), EStr (ControllerName c) (Inr cn),
      ECmd (AttachDevice m cn 0 0 HardDisk (Some disk)) None, ECmd (Put m (BootOrder 1 HardDisk)) None,
      ECmd (SaveSettings m) None, ECmd (UnlockMachine s) None, ERelease t]"

definition sysdisk_contract ::
  "string \<Rightarrow> string \<Rightarrow> string \<Rightarrow> string \<Rightarrow> int \<Rightarrow> int \<Rightarrow> string \<Rightarrow> string
     \<Rightarrow> (bool \<times> string) outcome \<Rightarrow> event list \<Rightarrow> bool" where
  "sysdisk_contract n path base os cpus mem bus d r tr \<longleftrightarrow> disciplined tr \<and>
     (\<not> supported osType os \<longrightarrow> tr = []) \<and>
     (case r of Ret (b, d') \<Rightarrow> b \<and>
        (if supported osType os then
           \<exists>n' path' base' os' bus' p t uuid s m disk c cn.
             to_utf16 n = Some n' \<and> to_utf16 path = Some path' \<and> to_utf16 base = Some base'
             \<and> to_utf16 os = Some os' \<and> bus_of bus = Some bus' \<and> to_utf8 uuid = Some d'
             \<and> tr = sysdisk_script n' path' base' os' cpus mem bus bus' p t uuid s m disk c cn
         else d' = d)
      | Throw e \<Rightarrow> e = RangeError \<or> list_ex failed tr
      | Undef u \<Rightarrow> supported osType os \<and> (u = No_return \<longrightarrow> list_ex failed tr) \<and> u \<noteq> Uninit_read
      | Hang \<Rightarrow> list_ex failed tr)"

lemma post_add_bus [post_intros]:
  "(bus_of b = None \<Longrightarrow> Q (Ret None) [])
    \<Longrightarrow> (\<And>x. bus_of b = Some x \<Longrightarrow> post E (get m (\<lambda>m. AddStorageController m (u16 b) x)) Q)
    \<Longrightarrow> post E (add_bus m b) Q"
  by (auto simp: add_bus_def intro: post_ret split: option.splits)

lemma sysdisk_post:
  "post E (createVMfromSystemdisk n os cpus mem base path bus d)
     (sysdisk_contract n path base os cpus mem bus d)"
  unfolding createVMfromSystemdisk_def each_until_one [OF one_os] systemdisk_body_def
  by (rule post_handled, intro post_intros)
    (auto simp: sysdisk_contract_def sysdisk_script_def supported_filter disciplined_def
      protocol_simps run_append split: option.splits)

text \<open>
  Installation from an ISO image. A run that returns true for a supported type and format
  leaves no session locked and no setting unsaved. The two refusals do not: a disk that
  could not be created drops the nested-paging setting, an ISO that could not be opened
  returns with the session still locked.
\<close>

definition iso_contract ::
  "string \<Rightarrow> string \<Rightarrow> string \<Rightarrow> string \<Rightarrow> (bool \<times> string \<times> string) outcome \<Rightarrow> event list \<Rightarrow> bool" where
  "iso_contract os fmt vmuuid d r tr \<longleftrightarrow>
     (let ok = supported osType os \<and> supported mediaType fmt in
      (\<not> ok \<longrightarrow> tr = []) \<and>
      (case run tr start of None \<Rightarrow> False | Some p \<Rightarrow>
        (case r of Ret (b, vmuuid', d') \<Rightarrow>
           (if b then p = start \<and> d' = d \<and> (\<not> ok \<longrightarrow> vmuuid' = vmuuid)
            else ok \<and> unsaved p \<and>
              (if locked p = [] then d' = ''Virtual machine disk creation failed!''
               else d' = '' DVD device open failed !''))
         | Throw e \<Rightarrow> e = RangeError \<or> list_ex failed tr
         | Undef u \<Rightarrow> ok \<and> (u = No_return \<longrightarrow> list_ex failed tr) \<and> u \<noteq> Uninit_read
         | Hang \<Rightarrow> list_ex failed tr)))"

definition iso_locked :: "ref \<Rightarrow> ref \<Rightarrow> proto" where
  "iso_locked s m = \<lparr>locked = [s], owned = [(m, s)], fresh = [], unsaved = True\<rparr>"

definition media_done :: "ref \<Rightarrow> ref \<Rightarrow> iso_out \<Rightarrow> (iso_out + bool \<times> iso_out) outcome \<Rightarrow> event list \<Rightarrow> bool" where
  "media_done s m out r tr \<longleftrightarrow> (case run tr (iso_locked s m) of None \<Rightarrow> False | Some p \<Rightarrow>
     (case r of
        Ret x \<Rightarrow> (case x of Inl out' \<Rightarrow> p = start \<and> out' = out
          | Inr (b, v, d) \<Rightarrow> \<not> b \<and> p = iso_locked s m \<and> d = '' DVD device open failed !'')
      | Throw e \<Rightarrow> e = RangeError \<or> list_ex failed tr
      | Undef u \<Rightarrow> u = Null_deref
      | Hang \<Rightarrow> False))"

lemma media_post:
  "post E (iso_media (Some t) (Some s) (Some m) (Some disk) bus path (v, d)) (media_done s m (v, d))"
  unfolding iso_media_def prod.case
  by (intro post_intros)
    (auto simp: media_done_def iso_locked_def protocol_simps split: option.splits)

lemma media_done_run:
  "media_done s m out r tr \<Longrightarrow> \<exists>p. run tr (iso_locked s m) = Some p"
  by (auto simp: media_done_def split: option.splits)

lemma post_iso_media:
  assumes "\<And>tr. run tr (iso_locked s m) = Some start \<Longrightarrow> Q (Ret (Inl (v, d))) tr"
    and "\<And>tr v'. run tr (iso_locked s m) = Some (iso_locked s m)
           \<Longrightarrow> Q (Ret (Inr (False, v', '' DVD device open failed !''))) tr"
    and "\<And>tr p e. run tr (iso_locked s m) = Some p \<Longrightarrow> e = RangeError \<or> list_ex failed tr \<Longrightarrow> Q (Throw e) tr"
    and "\<And>tr p. run tr (iso_locked s m) = Some p \<Longrightarrow> Q (Undef Null_deref) tr"
  shows "post E (iso_media (Some t) (Some s) (Some m) (Some disk) bus path (v, d)) Q"
proof (rule post_mono [OF media_post])
  fix r tr
  assume "media_done s m (v, d) r tr"
  then show "Q r tr"
    using assms by (cases r) (auto simp: media_done_def split: option.splits sum.splits)
qed

lemma iso_post:
  "post E (createVMfromISO n os cpus mem base sz isopath fmt bus fx vmuuid d)
     (iso_contract os fmt vmuuid d)"
proof -
  have has_file: "disk_file fmt base n \<noteq> None" if "filter (strcmp_eq fmt) mediaType \<noteq> []"
    using that media_has_file supported_filter by metis
  show ?thesis
    unfolding createVMfromISO_def each_until_one [OF one_os] each_until_one [OF one_media] iso_body_def
    by (rule post_handled, intro post_intros)
      (auto simp: iso_contract_def supported_filter protocol_simps Let_def has_file run_append
        iso_locked_def intro!: post_iso_media post_intros split: option.splits)
qed

subsection \<open>Properties\<close>

text \<open>C7. \<open>createVMfromSystemdisk\<close>: an operating-system type outside its list returns true
  without a single call. For a listed one a run that returns made exactly the calls of its
  script, with the counts reduced to 32 bits, ended with the settings saved and the session
  unlocked, and returned true.\<close>

theorem create_from_disk:
  "post E (createVMfromSystemdisk n os cpus mem base path bus d)
     (sysdisk_contract n path base os cpus mem bus d)"
  by (rule sysdisk_post)

text \<open>C20. \<open>createVMfromISO\<close>: an unlisted type or format returns true without a call; true for a
  listed one leaves no session locked and no setting unsaved. A failed disk drops the
  settings made so far, and an ISO that cannot be opened returns with the session locked.\<close>

theorem create_from_iso:
  "post E (createVMfromISO n os cpus mem base sz isopath fmt bus fx vmuuid d)
     (iso_contract os fmt vmuuid d)"
  by (rule iso_post)

end
