(* ===== verification/Config_Base.thy ===== *)
theory Config_Base
  imports Sample_Host
begin

text \<open>
  What the operations of \<open>vcaVmConfigure\<close> (source/vca_vmConfigure.cpp) share: the constructor
  and destructor, the pieces of the call sequences they make, the bounds within which they
  pass numbers to the hypervisor, and the contract of an operation that is honest about
  success: when it returns true, every setting is saved and no session is left locked.
\<close>

subsection \<open>Constructor and destructor\<close>

record config =
  vboxClient_c :: ptr
  vbox_c :: ptr
  machines_c :: "ref list"

definition vcaVmConfigure :: "('w, config) io" where
  "vcaVmConfigure =
     bnd (ask_ref VirtualBoxClient) (\<lambda>client.
     bnd (get client VirtualBoxOf) (\<lambda>vbox.
     bnd (deref vbox (\<lambda>_. ask_refs Machines)) (\<lambda>machines.
     ret \<lparr>vboxClient_c = client, vbox_c = vbox, machines_c = machines\<rparr>)))"

definition delete_vcaVmConfigure :: "config \<Rightarrow> ('w, unit) io" where
  "delete_vcaVmConfigure c = seqs [release (vbox_c c), release (vboxClient_c c)] (ret ())"

text \<open>A constructed object can be destroyed: neither pointer is null.\<close>

lemma construct_destroy:
  "post E (bnd vcaVmConfigure delete_vcaVmConfigure)
     (\<lambda>r tr. inert tr \<and> (r = Ret () \<longrightarrow> (\<exists>c v ms. tr =
        [ERef VirtualBoxClient (Inr (Some c)), ERef (VirtualBoxOf c) (Inr (Some v)),
         ERefs Machines (Inr ms), ERelease v, ERelease c])))"
  unfolding vcaVmConfigure_def delete_vcaVmConfigure_def
  by (intro post_intros) (auto simp: protocol_simps intro!: post_intros)

subsection \<open>The pieces of a configuration session\<close>

definition entered :: "bool \<Rightarrow> u16string \<Rightarrow> ref \<Rightarrow> int \<Rightarrow> ref \<Rightarrow> ptr \<Rightarrow> event list" where
  \<comment> \<open>up to the mutable machine \<open>mm\<close>; \<open>gated\<close> operations read the machine's state first\<close>
  "entered gated name m i s mm =
     ERef (FindMachine name) (Inr (Some m))
     # (if gated then [EInt m MachineStateP (Inr i)] else [])
     @ [ERef NewSession (Inr (Some s)), ECmd (LockMachine m (Some s) Shared) None,
        ERef (SessionMachine s) (Inr mm)]"

definition puts :: "ref \<Rightarrow> setting list \<Rightarrow> event list" where
  "puts r xs = map (\<lambda>x. ECmd (Put r x) None) xs"

definition left :: "ref \<Rightarrow> ref \<Rightarrow> event list" where
  "left s m = [ECmd (UnlockMachine s) None, ERelease m]"

definition saved_and_left :: "ref \<Rightarrow> ref \<Rightarrow> ref \<Rightarrow> event list" where
  "saved_and_left mm s m = ECmd (SaveSettings mm) None # left s m"

definition looked_at :: "u16string \<Rightarrow> ref \<Rightarrow> int \<Rightarrow> event list" where
  "looked_at name m i = [ERef (FindMachine name) (Inr (Some m)), EInt m MachineStateP (Inr i)]"

lemmas session_pieces = entered_def puts_def left_def saved_and_left_def looked_at_def

text \<open>
  A block of settings on one object is followed in one step: it is made in full, or it
  stops at the first call that fails.
\<close>

definition put_all :: "ptr \<Rightarrow> setting list \<Rightarrow> ('w, unit) io" where
  "put_all p xs = seqs (map (put p) xs) (ret ())"

lemma seqs_append: "seqs (xs @ ys) k = bnd (seqs xs (ret ())) (\<lambda>_. seqs ys k)"
  by (induction xs) (simp_all add: bnd_assoc)

lemma seqs_puts: "seqs (map (put p) xs @ ys) k = bnd (put_all p xs) (\<lambda>_. seqs ys k)"
  unfolding put_all_def by (rule seqs_append)

lemma post_put_all:
  assumes "Q (Ret ()) (puts r xs)"
    and "\<And>ys y e. set ys \<subseteq> set xs \<Longrightarrow> y \<in> set xs \<Longrightarrow> Q (Throw (COMError e)) (puts r ys @ [ECmd (Put r y) (Some e)])"
  shows "post E (put_all (Some r) xs) Q"
proof -
  have "Q' (Ret ()) (puts r xs) \<Longrightarrow>
      (\<And>ys y e. set ys \<subseteq> set xs \<Longrightarrow> y \<in> set xs \<Longrightarrow> Q' (Throw (COMError e)) (puts r ys @ [ECmd (Put r y) (Some e)]))
      \<Longrightarrow> post E (put_all (Some r) xs) Q'" for Q'
  proof (induction xs arbitrary: Q')
    case Nil
    then show ?case by (auto simp: put_all_def puts_def intro!: post_ret)
  next
    case (Cons x xs)
    have "Q' (Throw (COMError e)) [ECmd (Put r x) (Some e)]" for e
      using Cons.prems(2) [of "[]" x e] by (simp add: puts_def)
    moreover have "post E (put_all (Some r) xs) (\<lambda>r' tr. Q' r' (ECmd (Put r x) None # tr))"
    proof (rule Cons.IH)
      fix ys y e
      assume "set ys \<subseteq> set xs" "y \<in> set xs"
      then show "Q' (Throw (COMError e)) (ECmd (Put r x) None # puts r ys @ [ECmd (Put r y) (Some e)])"
        using Cons.prems(2) [of "x # ys" y e] by (auto simp: puts_def)
    qed (use Cons.prems(1) in \<open>simp add: puts_def\<close>)
    ultimately show ?case
      by (auto simp: put_all_def put_def call_def deref_def intro!: post_intros)
  qed
  from this [of Q] assms show ?thesis by blast
qed

lemma post_put_all_null: "xs \<noteq> [] \<Longrightarrow> Q (Undef Null_deref) [] \<Longrightarrow> post E (put_all None xs) Q"
  by (cases xs) (auto simp: put_all_def put_def call_def deref_def intro: post_undef)

lemma puts_append: "puts r (xs @ ys) = puts r xs @ puts r ys"
  by (simp add: puts_def)

lemma run_puts:
  assumes "editable r p" and "r \<notin> set (fresh p)"
  shows "run (puts r xs @ es) p = run es (if xs = [] then p else p\<lparr>unsaved := True\<rparr>)"
  using assms
proof (induction xs arbitrary: p)
  case (Cons x xs)
  then have "editable r (p\<lparr>unsaved := True\<rparr>)"
    by (simp add: editable_def reachable_in_def)
  with Cons.prems Cons.IH [of "p\<lparr>unsaved := True\<rparr>"] show ?case
    by (simp add: puts_def)
qed (simp add: puts_def)

lemma guarded_puts: "guarded S True (puts r xs @ es) = guarded S True es"
  by (induction xs) (simp_all add: puts_def)

text \<open>
  How an operation inside \<open>try ... catch (COMError)\<close> can end other than by returning: the
  string conversions throw before any call, a null pointer is dereferenced, or a call
  failed and the handler printed its report and ran off the end of the function.
\<close>

fun crashed :: "'a outcome \<Rightarrow> event list \<Rightarrow> bool" where
  "crashed (Ret _) tr \<longleftrightarrow> False"
| "crashed (Throw e) tr \<longleftrightarrow> (case e of RangeError \<Rightarrow> tr = [] | COMError _ \<Rightarrow> list_ex failed tr)"
| "crashed (Undef u) tr \<longleftrightarrow>
     (case u of Null_deref \<Rightarrow> True | No_return \<Rightarrow> list_ex failed tr | Uninit_read \<Rightarrow> False)"
| "crashed Hang tr \<longleftrightarrow> list_ex failed tr"

subsection \<open>Bounds\<close>

text \<open>The documented range of each number an operation hands to the hypervisor.\<close>

fun setting_bounds :: "setting \<Rightarrow> bool" where
  "setting_bounds (CPUCount c) \<longleftrightarrow> 1 \<le> uint c \<and> uint c \<le> 4"
| "setting_bounds (MemorySize c) \<longleftrightarrow> uint c \<le> 8192"
| "setting_bounds (VRAMSize c) \<longleftrightarrow> uint c \<le> 128"
| "setting_bounds (MonitorCount c) \<longleftrightarrow> 1 \<le> uint c \<and> uint c \<le> 8"
| "setting_bounds (VideoWidth c) \<longleftrightarrow> 320 \<le> uint c \<and> uint c \<le> 2880"
| "setting_bounds (VideoHeight c) \<longleftrightarrow> 200 \<le> uint c \<and> uint c \<le> 1800"
| "setting_bounds (VideoFPS c) \<longleftrightarrow> 1 \<le> uint c \<and> uint c \<le> 30"
| "setting_bounds (VideoRate c) \<longleftrightarrow> 102 \<le> uint c \<and> uint c \<le> 1024"
| "setting_bounds _ \<longleftrightarrow> True"

fun in_bounds :: "event \<Rightarrow> bool" where
  "in_bounds (ECmd c _) \<longleftrightarrow> (case c of Put _ x \<Rightarrow> setting_bounds x | _ \<Rightarrow> True)"
| "in_bounds (ERef q _) \<longleftrightarrow> (case q of NetworkAdapter _ k \<Rightarrow> uint k \<le> 3
      | ScreenSettings _ k \<Rightarrow> uint k \<le> 7 | SerialPort _ k \<Rightarrow> uint k \<le> 3 | _ \<Rightarrow> True)"
| "in_bounds _ \<longleftrightarrow> True"

lemma puts_in_bounds: "list_all in_bounds (puts r xs) = list_all setting_bounds xs"
  by (induction xs) (simp_all add: puts_def)

lemma error_report_in_bounds: "error_report e \<Longrightarrow> in_bounds e"
proof (cases e)
  case (ERef q r)
  then show "error_report e \<Longrightarrow> in_bounds e" by (cases q) simp_all
qed simp_all

lemma report_in_bounds [simp]: "list_all error_report tr \<Longrightarrow> list_all in_bounds tr"
  by (erule list.pred_mono_strong, simp add: error_report_in_bounds)

lemma small_int_word: "0 \<le> k \<Longrightarrow> k < 4294967296 \<Longrightarrow> uint (word_of_int k :: u32) = k"
  by (simp add: uint_word_of_int)

text \<open>
  The \<open>catch\<close> handler only adds an error report, which keeps every property of the trace the
  contracts speak of: it is enough to follow the paths of the \<open>try\<close> block.
\<close>

lemma guarded_append_report:
  "list_all error_report rp \<Longrightarrow> guarded S b (tr @ rp) = guarded S b tr"
  by (induction tr arbitrary: b) simp_all

lemma disciplined_append_report:
  "list_all error_report rp \<Longrightarrow> disciplined tr \<Longrightarrow> disciplined (tr @ rp)"
  by (auto simp: disciplined_def run_append)

definition sound_trace :: "(machine_state option \<Rightarrow> bool) \<Rightarrow> bool \<Rightarrow> event list \<Rightarrow> bool" where
  "sound_trace S armed tr \<longleftrightarrow> disciplined tr \<and> list_all in_bounds tr \<and> guarded S armed tr"

definition sound_run ::
  "(machine_state option \<Rightarrow> bool) \<Rightarrow> bool \<Rightarrow> ('a \<Rightarrow> event list \<Rightarrow> bool) \<Rightarrow> 'a outcome \<Rightarrow> event list \<Rightarrow> bool" where
  "sound_run S armed R r tr \<longleftrightarrow>
     sound_trace S armed tr \<and> (case r of Ret a \<Rightarrow> R a tr | _ \<Rightarrow> crashed r tr)"

lemma post_try_report:
  assumes "post E m (sound_run S armed R)"
  shows "post E (try_com m print_and_fall_off) (sound_run S armed R)"
  by (rule post_handled [OF assms])
    (auto simp: sound_run_def sound_trace_def disciplined_append_report guarded_append_report)

subsection \<open>Operations that are honest about success\<close>

definition honest_end :: "(bool \<times> 'a) outcome \<Rightarrow> event list \<Rightarrow> bool" where
  "honest_end r tr \<longleftrightarrow> disciplined tr \<and> (\<forall>a. r = Ret (True, a) \<longrightarrow> run tr start = Some start)"

definition batch_end :: "(unit + (bool \<times> 'a)) outcome \<Rightarrow> event list \<Rightarrow> bool" where
  "batch_end r tr \<longleftrightarrow> disciplined tr \<and> (r = Ret (Inl ()) \<longrightarrow> run tr start = Some start)"

text \<open>
  The client of such operations: a batch that stops at the first one that does not return
  true. When the whole batch succeeded, the calls it made from the first to the last keep
  the discipline and leave nothing behind.
\<close>

locale honest_operation =
  fixes op_run :: "'x \<Rightarrow> ('w, bool \<times> 'a) io"
  assumes honest: "post E (op_run x) honest_end"
begin

definition batch :: "'x list \<Rightarrow> ('w, unit + (bool \<times> 'a)) io" where
  "batch xs = each_until xs () (\<lambda>x _. bnd (op_run x) (\<lambda>r. ret (if fst r then Inl () else Inr r)))"

lemma batch_honest:
  "post E (batch xs) batch_end"
  unfolding batch_def batch_end_def
proof (rule post_each_until [where I = "\<lambda>_ tr. run tr start = Some start"])
  fix x s tr
  assume clean: "run tr start = Some start"
  let ?Q = "\<lambda>r tr'. case r of Ret (Inl s') \<Rightarrow> run (tr @ tr') start = Some start
      | _ \<Rightarrow> disciplined (tr @ tr') \<and> (r = Ret (Inl ()) \<longrightarrow> run (tr @ tr') start = Some start)"
  have "then_post E (\<lambda>r. ret (if fst r then Inl () else Inr r)) ?Q r tr'"
    if "honest_end r tr'" for r tr'
    using that clean
    by (cases r) (auto simp: honest_end_def disciplined_def run_append intro!: post_ret)
  then show "post E (bnd (op_run x) (\<lambda>r. ret (if fst r then Inl () else Inr r))) ?Q"
    by (intro post_bnd post_mono [OF honest])
qed (auto simp: disciplined_def)

end

text \<open>A tidy operation is honest whatever it answers.\<close>

lemma conforms_honest: "conforms r tr \<Longrightarrow> honest_end r tr"
  by (auto simp: conforms_def honest_end_def disciplined_def returns_def)

end
