(* ===== verification/Config_Display.thy ===== *)
theory Config_Display
  imports Config_Base Json_Text
begin

text \<open>
  The remote-display operations of \<open>vcaVmConfigure\<close> (source/vca_vmConfigure.cpp):
  \<open>setSimpleRemoteDisplay\<close>, \<open>disableRDP\<close> and the query \<open>getRdpInfo\<close>.
\<close>

subsection \<open>The operations\<close>

definition setSimpleRemoteDisplay ::
  "string \<Rightarrow> string \<Rightarrow> int \<Rightarrow> bool \<Rightarrow> bool \<Rightarrow> string \<Rightarrow> ('w, bool \<times> string) io" where
  "setSimpleRemoteDisplay vmname ip port allowMultiConnect reuseSingleConnect callbackdata =
     try_com
       (bnd (utf16 vmname) (\<lambda>name.
        bnd (utf16 ip) (\<lambda>ip_l.
        bnd (find_machine name) (\<lambda>machine.
        if machine \<noteq> None then
          bnd (state machine) (\<lambda>st.
          if isin [PoweredOff] st then
            bnd new_session (\<lambda>session.
            seqs [lock_machine machine session Shared]
            (bnd (get session SessionMachine) (\<lambda>mutabmachine.
             if mutabmachine \<noteq> None then
               bnd (get mutabmachine VRDEServerOf) (\<lambda>rdpserver.
               seqs
                 [put rdpserver (VRDEEnabled True),
                  put rdpserver (AllowMultiConnection allowMultiConnect),
                  put rdpserver (ReuseSingleConnection reuseSingleConnect),
                  put rdpserver (AuthTimeout 6000),
                  bnd (utf16 (to_string port)) (\<lambda>p. put rdpserver (VRDEProperty (u16 ''TCP/Ports'') p)),
                  put rdpserver (VRDEProperty (u16 ''TCP/Address'') ip_l),
                  call mutabmachine SaveSettings, unlock_machine session, release machine]
                 (ret (True, callbackdata)))
             else
               seqs [unlock_machine session, release machine]
                 (ret (False, '' Failed to get mutable machine object !'')))))
          else
            ret (False, '' Virtual machine should be poweroff !''))
        else
          seqs [release machine] (ret (False, '' Virtual machine does not exist !''))))))
       print_and_fall_off"

definition disableRDP :: "string \<Rightarrow> string \<Rightarrow> ('w, bool \<times> string) io" where
  "disableRDP vmname callbackdata =
     try_com
       (bnd (utf16 vmname) (\<lambda>name.
        bnd (find_machine name) (\<lambda>machine.
        if machine \<noteq> None then
          bnd new_session (\<lambda>session.
          seqs [lock_machine machine session Shared]
          (bnd (get session SessionMachine) (\<lambda>mutabmachine.
           if mutabmachine \<noteq> None then
             bnd (get mutabmachine VRDEServerOf) (\<lambda>rdpserver.
             seqs
               [put rdpserver (VRDEEnabled False),
                call mutabmachine SaveSettings, unlock_machine session, release machine]
               (ret (True, callbackdata)))
           else
             seqs [unlock_machine session, release machine]
               (ret (False, '' Failed to get mutable machine object !'')))))
        else
          seqs [release machine] (ret (False, '' Virtual machine does not exist !'')))))
       print_and_fall_off"

definition text_or_zero :: "string \<Rightarrow> string" where
  "text_or_zero s = (if s \<noteq> [] then s else ''0'')"

definition number_or_zero :: "int \<Rightarrow> string" where
  "number_or_zero i = (if i \<noteq> 0 then to_string i else ''0'')"

definition getRdpInfo :: "string \<Rightarrow> string \<Rightarrow> string \<Rightarrow> ('w, bool \<times> string \<times> string) io" where
  "getRdpInfo vmname vdredata callbackdata =
     try_com
       (bnd (utf16 vmname) (\<lambda>name.
        bnd (find_machine name) (\<lambda>machine.
        if machine \<noteq> None then
          bnd (state machine) (\<lambda>st.
          if isin [Running] st then
            bnd new_session (\<lambda>session.
            seqs [lock_machine machine session Shared]
            (bnd (get session ConsoleOf) (\<lambda>console.
             bnd (get console VRDEServerInfoOf) (\<lambda>info.
             bnd (getb info ActiveP) (\<lambda>active.
             if \<not> active then ret (False, vdredata, callbackdata)
             else
               bnd (geti info VRDEPortP) (\<lambda>port.
               bnd (gets info ClientIP) (\<lambda>client_ip.
               bnd (utf8 client_ip) (\<lambda>client_ip.
               bnd (gets info UserOf) (\<lambda>user.
               bnd (gets info DomainOf) (\<lambda>domain.
               bnd (utf8 user) (\<lambda>user.
               bnd (utf8 domain) (\<lambda>domain.
               bnd (geti info NumberOfClientsP) (\<lambda>client_count.
               bnd (gets info ClientNameOf) (\<lambda>client_name.
               bnd (geti info ClientVersionP) (\<lambda>version.
               bnd (utf8 client_name) (\<lambda>client_name.
               bnd (geti info EncryptionStyleP) (\<lambda>encryption.
               bnd (geti info BeginTimeP) (\<lambda>begin_time.
               bnd (geti info EndTimeP) (\<lambda>end_time.
               bnd (geti info BytesReceivedP) (\<lambda>received.
               bnd (geti info BytesReceivedTotalP) (\<lambda>received_total.
               bnd (geti info BytesSentP) (\<lambda>sent.
               bnd (geti info BytesSentTotalP) (\<lambda>sent_total.
               bnd (mapTojsonstr (map_build
                      [(''vdeState'', ''1''),
                       (''clientIP'', text_or_zero client_ip),
                       (''port'', number_or_zero port),
                       (''user'', text_or_zero user),
                       (''domain'', text_or_zero domain),
                       (''connectCount'', number_or_zero client_count),
                       (''clientName'', text_or_zero client_name),
                       (''clientVersion'', number_or_zero version),
                       (''encryptionType'', number_or_zero encryption),
                       (''beginTime'', number_or_zero begin_time),
                       (''endTime'', number_or_zero end_time),
                       (''bytesReceived'', number_or_zero received),
                       (''bytesReceivedTotal'', number_or_zero received_total),
                       (''bytesSent'', number_or_zero sent),
                       (''bytesSentTotal'', number_or_zero sent_total)])) (\<lambda>text.
               bnd (env (\<lambda>E. fast_write E (JArr [JStr text]))) (\<lambda>vdredata'.
               seqs [unlock_machine session, release machine]
                 (ret (True, vdredata', callbackdata)))))))))))))))))))))))))))
          else
            seqs [release machine]
              (ret (True, vdredata, '' Virtual machine should be running!'')))
        else
          seqs [release machine]
            (ret (False, vdredata, '' Virtual machine does not exist !'')))))
       print_and_fall_off"

subsection \<open>The settings\<close>

datatype rdp_req = Set_Rdp string int bool bool | Disable_Rdp

primrec rdp_op :: "rdp_req \<Rightarrow> string \<Rightarrow> string \<Rightarrow> ('w, bool \<times> string) io" where
  "rdp_op (Set_Rdp ip port multi reuse) n d = setSimpleRemoteDisplay n ip port multi reuse d"
| "rdp_op Disable_Rdp n d = disableRDP n d"

primrec rdp_gated :: "rdp_req \<Rightarrow> bool" where
  "rdp_gated (Set_Rdp _ _ _ _) = True"
| "rdp_gated Disable_Rdp = False"

primrec rdp_settings :: "rdp_req \<Rightarrow> setting list option" where
  "rdp_settings (Set_Rdp ip port multi reuse) = map_option (\<lambda>ip'.
     [VRDEEnabled True, AllowMultiConnection multi, ReuseSingleConnection reuse, AuthTimeout 6000,
      VRDEProperty (u16 ''TCP/Ports'') (u16 (to_string port)),
      VRDEProperty (u16 ''TCP/Address'') ip']) (to_utf16 ip)"
| "rdp_settings Disable_Rdp = Some [VRDEEnabled False]"

definition rdp_returns :: "rdp_req \<Rightarrow> string \<Rightarrow> string \<Rightarrow> bool \<Rightarrow> string \<Rightarrow> event list \<Rightarrow> bool" where
  "rdp_returns q n d b d' tr \<longleftrightarrow>
     (\<exists>name m i s mm. to_utf16 n = Some name \<and>
        (if rdp_gated q \<and> state_of i \<noteq> Some PoweredOff
         then \<not> b \<and> d' = '' Virtual machine should be poweroff !'' \<and> tr = looked_at name m i
         else if b
         then d' = d \<and> (\<exists>x xs. rdp_settings q = Some xs
           \<and> tr = entered (rdp_gated q) name m i s (Some mm)
                  @ ERef (VRDEServerOf mm) (Inr (Some x)) # puts x xs @ saved_and_left mm s m)
         else d' = '' Failed to get mutable machine object !''
           \<and> tr = entered (rdp_gated q) name m i s None @ left s m))"

definition rdp_contract ::
  "rdp_req \<Rightarrow> string \<Rightarrow> string \<Rightarrow> (bool \<times> string) outcome \<Rightarrow> event list \<Rightarrow> bool" where
  "rdp_contract q n d r tr \<longleftrightarrow>
     conforms r tr \<and> guarded (isin [PoweredOff]) (\<not> rdp_gated q) tr
     \<and> (case r of Ret (b, d') \<Rightarrow> rdp_returns q n d b d' tr | _ \<Rightarrow> crashed r tr)"

lemma dec_ascii: "list_all (\<lambda>c. (of_char c :: nat) < 128) (dec n)"
proof (induction n rule: dec.induct)
  case (1 n)
  have "(of_char (char_of (48 + d :: nat)) :: nat) < 128" if "d < 10" for d
    using that by (simp add: of_char_of)
  moreover have "n mod 10 < 10" by simp
  ultimately show ?case using 1 by (subst dec.simps) (simp del: mod_less_divisor)
qed

lemma to_utf16_number: "to_utf16 (to_string k) = Some (u16 (to_string k))"
  by (rule to_utf16_ascii) (simp add: to_string_def dec_ascii)

lemmas rdp_simps = rdp_contract_def rdp_returns_def conforms_def session_pieces

lemma rdp_post: "post E (rdp_op q n d) (rdp_contract q n d)"
  by (cases q; simp only: rdp_op.simps setSimpleRemoteDisplay_def disableRDP_def; intro post_intros)
    (auto simp: rdp_simps to_utf16_number protocol_simps isin_def split: option.splits)

interpretation rdp: tidy_operation "\<lambda>(q, n, d). rdp_op q n d"
  by unfold_locales (auto intro: post_mono [OF rdp_post] simp: rdp_contract_def)

interpretation rdp_batch: honest_operation "\<lambda>(q, n, d). rdp_op q n d"
  by unfold_locales (rule post_mono [OF rdp.tidy conforms_honest])

subsection \<open>The query\<close>

text \<open>The readings of an active connection, in the order they are taken.\<close>

definition rdp_readings ::
  "ref \<Rightarrow> u16string \<Rightarrow> u16string \<Rightarrow> u16string \<Rightarrow> u16string \<Rightarrow> int \<Rightarrow> int \<Rightarrow> int \<Rightarrow> int \<Rightarrow> int \<Rightarrow> int
     \<Rightarrow> int \<Rightarrow> int \<Rightarrow> int \<Rightarrow> int \<Rightarrow> event list" where
  "rdp_readings v ip user domain cn port count version encryption t0 t1 rx rx_all tx tx_all =
     [EBool v ActiveP (Inr True), EInt v VRDEPortP (Inr port), EStr (ClientIP v) (Inr ip),
      EStr (UserOf v) (Inr user), EStr (DomainOf v) (Inr domain),
      EInt v NumberOfClientsP (Inr count), EStr (ClientNameOf v) (Inr cn),
      EInt v ClientVersionP (Inr version), EInt v EncryptionStyleP (Inr encryption),
      EInt v BeginTimeP (Inr t0), EInt v EndTimeP (Inr t1),
      EInt v BytesReceivedP (Inr rx), EInt v BytesReceivedTotalP (Inr rx_all),
      EInt v BytesSentP (Inr tx), EInt v BytesSentTotalP (Inr tx_all)]"

definition rdp_text ::
  "'w vbox \<Rightarrow> string \<Rightarrow> string \<Rightarrow> string \<Rightarrow> string \<Rightarrow> int \<Rightarrow> int \<Rightarrow> int \<Rightarrow> int \<Rightarrow> int \<Rightarrow> int
     \<Rightarrow> int \<Rightarrow> int \<Rightarrow> int \<Rightarrow> int \<Rightarrow> string" where
  "rdp_text E ip user domain cn port count version encryption t0 t1 rx rx_all tx tx_all =
     fast_write E (JArr [JStr (styled E (JObj
     [(''beginTime'', JStr (to_string t0)),
      (''bytesReceived'', JStr (to_string rx)),
      (''bytesReceivedTotal'', JStr (to_string rx_all)),
      (''bytesSent'', JStr (to_string tx)),
      (''bytesSentTotal'', JStr (to_string tx_all)),
      (''clientIP'', JStr (text_or_zero ip)),
      (''clientName'', JStr (text_or_zero cn)),
      (''clientVersion'', JStr (to_string version)),
      (''connectCount'', JStr (to_string count)),
      (''domain'', JStr (text_or_zero domain)),
      (''encryptionType'', JStr (to_string encryption)),
      (''endTime'', JStr (to_string t1)),
      (''port'', JStr (to_string port)),
      (''user'', JStr (text_or_zero user)),
      (''vdeState'', JStr ''1'')]))])"

definition rdp_info_returns ::
  "'w vbox \<Rightarrow> string \<Rightarrow> string \<Rightarrow> string \<Rightarrow> bool \<Rightarrow> string \<Rightarrow> string \<Rightarrow> event list \<Rightarrow> bool" where
  "rdp_info_returns E n vde d b vde' d' tr \<longleftrightarrow>
     (\<exists>name m i s c v asked. to_utf16 n = Some name \<and> asked = looked_at name m i
         @ [ERef NewSession (Inr (Some s)), ECmd (LockMachine m (Some s) Shared) None,
            ERef (ConsoleOf s) (Inr (Some c)), ERef (VRDEServerInfoOf c) (Inr (Some v))] \<and>
        (state_of i \<noteq> Some Running \<and> b \<and> vde' = vde
           \<and> d' = '' Virtual machine should be running!'' \<and> tr = looked_at name m i @ [ERelease m]
         \<or> state_of i = Some Running \<and> \<not> b \<and> vde' = vde \<and> d' = d
           \<and> tr = asked @ [EBool v ActiveP (Inr False)] \<and> held tr = [s]
         \<or> state_of i = Some Running \<and> b \<and> d' = d
           \<and> (\<exists>ip user domain cn port count version encryption t0 t1 rx rx_all tx tx_all.
               None \<notin> to_utf8 ` {ip, user, domain, cn}
               \<and> vde' = rdp_text E (the (to_utf8 ip)) (the (to_utf8 user)) (the (to_utf8 domain))
                            (the (to_utf8 cn)) port count version encryption t0 t1 rx rx_all tx tx_all
               \<and> tr = asked @ rdp_readings v ip user domain cn port count version encryption t0 t1
                            rx rx_all tx tx_all @ left s m)))"

definition rdp_info_contract ::
  "'w vbox \<Rightarrow> string \<Rightarrow> string \<Rightarrow> string \<Rightarrow> (bool \<times> string \<times> string) outcome \<Rightarrow> event list \<Rightarrow> bool" where
  "rdp_info_contract E n vde d r tr \<longleftrightarrow>
     honest_end r tr \<and> guarded (isin [Running]) False tr
     \<and> (case run tr start of None \<Rightarrow> False | Some p \<Rightarrow> \<not> unsaved p)
     \<and> (case r of Ret (b, vde', d') \<Rightarrow> rdp_info_returns E n vde d b vde' d' tr
        | Throw RangeError \<Rightarrow> inert tr \<or> held tr \<noteq> []
        | _ \<Rightarrow> crashed r tr)"

lemma number_or_zero: "number_or_zero i = to_string i"
proof -
  have "char_of (48 :: nat) = CHR ''0''" by code_simp
  then show ?thesis by (simp add: number_or_zero_def to_string_def dec.simps)
qed

lemma rdp_text_built:
  "fast_write E (JArr [JStr (styled E (mapTojson JStr (map_build
     [(''vdeState'', ''1''), (''clientIP'', text_or_zero ip), (''port'', number_or_zero port),
      (''user'', text_or_zero user), (''domain'', text_or_zero domain),
      (''connectCount'', number_or_zero count), (''clientName'', text_or_zero cn),
      (''clientVersion'', number_or_zero version), (''encryptionType'', number_or_zero encryption),
      (''beginTime'', number_or_zero t0), (''endTime'', number_or_zero t1),
      (''bytesReceived'', number_or_zero rx), (''bytesReceivedTotal'', number_or_zero rx_all),
      (''bytesSent'', number_or_zero tx), (''bytesSentTotal'', number_or_zero tx_all)])))])
   = rdp_text E ip user domain cn port count version encryption t0 t1 rx rx_all tx tx_all"
  by (simp add: rdp_text_def number_or_zero map_build_def mapTojson_def)

lemma rdp_info_post: "post E (getRdpInfo n vde d) (rdp_info_contract E n vde d)"
  unfolding getRdpInfo_def
  by (intro post_intros)
    (auto simp: rdp_info_contract_def rdp_info_returns_def honest_end_def disciplined_def held_def
      looked_at_def left_def rdp_readings_def Let_def rdp_text_built protocol_simps isin_def split: option.splits)

subsection \<open>Properties\<close>

text \<open>C26. The remote-display server is configured on a powered-off machine only; a run that returns
  true made exactly its settings on the server of the locked machine, the port as decimal
  text, and saved and unlocked; its refusals leave nothing locked.
  \<open>getRdpInfo\<close> changes no setting. It answers an active connection of a running machine
  with the readings it took, empty texts as 0, under their fifteen keys in order; with an
  inactive connection it returns false and leaves the session locked; on a machine that is
  not running it reports so and nevertheless returns true.\<close>

theorem remote_display:
  "post E (rdp_op q n d) (rdp_contract q n d)
   \<and> post E (getRdpInfo n' vde d') (rdp_info_contract E n' vde d')"
  by (rule conjI [OF rdp_post rdp_info_post])

end
