(* ===== verification/Core_Appliance.thy ===== *)
theory Core_Appliance
  imports Config_Display
begin

text \<open>
  Removing a machine and moving it between hosts (source/vca_core.cpp): \<open>deleteVM\<close>,
  \<open>exportVM\<close>, \<open>importVM\<close>.
\<close>

subsection \<open>deleteVM\<close>

definition deleteVM :: "string \<Rightarrow> int \<Rightarrow> string \<Rightarrow> ('w, bool \<times> string) io" where
  "deleteVM vmname type callbackdata =
     try_com
       (bnd (utf16 vmname) (\<lambda>name.
        bnd (find_machine name) (\<lambda>machine.
        if machine \<noteq> None then
          bnd (state machine) (\<lambda>st.
          if isin [PoweredOff] st then
            bnd (if 4 = type then
                   bnd (deref machine (\<lambda>m. ask_refs (Unregister m Full))) (\<lambda>mediums.
                   bnd (get machine (\<lambda>m. DeleteConfig m mediums)) (\<lambda>progress.
                   seqs [wait_for progress] (ret callbackdata)))
                 else if 3 = type then
                   bnd (deref machine (\<lambda>m. ask_refs (Unregister m DetachAllReturnHardDisksOnly))) (\<lambda>mediums.
                   bnd (get machine (\<lambda>m. DeleteConfig m mediums)) (\<lambda>progress.
                   seqs [wait_for progress] (ret callbackdata)))
                 else if 2 = type then
                   bnd (deref machine (\<lambda>m. ask_refs (Unregister m DetachAllReturnNone))) (\<lambda>mediums.
                   bnd (get machine (\<lambda>m. DeleteConfig m mediums)) (\<lambda>progress.
                   seqs [wait_for progress] (ret callbackdata)))
                 else if 1 = type then
                   bnd (deref machine (\<lambda>m. ask_refs (Unregister m UnregisterOnly))) (\<lambda>mediums.
                   bnd (get machine (\<lambda>m. DeleteConfig m mediums)) (\<lambda>progress.
                   seqs [wait_for progress] (ret callbackdata)))
                 else ret ''delete type is err!'') (\<lambda>callbackdata.
            seqs [release machine] (ret (True, callbackdata)))
          else ret (False, ''VM should be poweroff!''))
        else
          seqs [release machine] (ret (False, ''Virtual machine does not exist!'')))))
       print_and_fall_off"

text \<open>What each type code keeps: the media it takes from the machine and deletes with it.\<close>

definition delete_mode :: "int \<Rightarrow> cleanup_mode option" where
  "delete_mode k = map_of [(1, UnregisterOnly), (2, DetachAllReturnNone),
     (3, DetachAllReturnHardDisksOnly), (4, Full)] k"

definition removal_script :: "cleanup_mode \<Rightarrow> u16string \<Rightarrow> ref \<Rightarrow> int \<Rightarrow> ref list \<Rightarrow> ref \<Rightarrow> event list" where
  "removal_script c name m i media g = looked_at name m i
     @ [ERefs (Unregister m c) (Inr media), ERef (DeleteConfig m media) (Inr (Some g)),
        ECmd (WaitForCompletion g (- 1)) None, ERelease m]"

definition removal_returns :: "string \<Rightarrow> int \<Rightarrow> string \<Rightarrow> bool \<Rightarrow> string \<Rightarrow> event list \<Rightarrow> bool" where
  "removal_returns n type d b d' tr \<longleftrightarrow>
     (\<exists>name m i. to_utf16 n = Some name \<and>
        (if state_of i \<noteq> Some PoweredOff
         then \<not> b \<and> d' = ''VM should be poweroff!'' \<and> tr = looked_at name m i
         else b \<and> (case delete_mode type of
             None \<Rightarrow> d' = ''delete type is err!'' \<and> tr = looked_at name m i @ [ERelease m]
           | Some c \<Rightarrow> d' = d \<and> (\<exists>media g. tr = removal_script c name m i media g))))"

definition removal_contract ::
  "string \<Rightarrow> int \<Rightarrow> string \<Rightarrow> (bool \<times> string) outcome \<Rightarrow> event list \<Rightarrow> bool" where
  "removal_contract n type d = sound_run (isin [PoweredOff]) False (\<lambda>(b, d'). removal_returns n type d b d')"

lemma removal_post: "post E (deleteVM n type d) (removal_contract n type d)"
  unfolding deleteVM_def removal_contract_def
  by (rule post_try_report, intro post_intros)
    (auto simp: sound_run_def sound_trace_def removal_returns_def removal_script_def delete_mode_def
      looked_at_def disciplined_def protocol_simps isin_def split: option.splits)

subsection \<open>exportVM\<close>

definition exportVM ::
  "string \<Rightarrow> bool \<Rightarrow> string \<Rightarrow> string \<Rightarrow> string \<Rightarrow> string \<Rightarrow> ('w, bool \<times> string \<times> string) io" where
  "exportVM vmname keepmac ovafileType exportpath ovapath callbackdata =
     try_com
       (bnd (utf16 vmname) (\<lambda>name.
        bnd (utf16 ovafileType) (\<lambda>format.
        bnd (utf16 (exportpath @ ''/'' @ vmname @ ''.ova'')) (\<lambda>path.
        bnd (find_machine name) (\<lambda>machine.
        if machine \<noteq> None then
          bnd (ask_ref CreateAppliance) (\<lambda>app.
          bnd (get machine (\<lambda>m. ExportTo m app name)) (\<lambda>desc.
          let options = (if \<not> keepmac then [StripAllMACs] else []) @ [ExportDVDImages, CreateManifest] in
          bnd (get app (\<lambda>a. WriteAppliance a format options path)) (\<lambda>progress.
          seqs [poll progress]
          (bnd (geti progress ResultCodeP) (\<lambda>rc.
           if 0 = rc then ret (True, exportpath @ ''/'' @ vmname @ ''.ova'', callbackdata)
           else ret (False, [], '' Write error during export!''))))))
        else
          seqs [release machine]
            (ret (False, ovapath, ''Virtual machine does not exist!'')))))))
       print_and_fall_off"

definition export_script ::
  "u16string \<Rightarrow> u16string \<Rightarrow> u16string \<Rightarrow> bool \<Rightarrow> ref \<Rightarrow> ref \<Rightarrow> ptr \<Rightarrow> ref \<Rightarrow> event list \<Rightarrow> int \<Rightarrow> event list" where
  "export_script name fmt path keepmac m a desc g polls rc =
     [ERef (FindMachine name) (Inr (Some m)), ERef CreateAppliance (Inr (Some a)),
      ERef (ExportTo m (Some a) name) (Inr desc),
      ERef (WriteAppliance a fmt ((if keepmac then [] else [StripAllMACs]) @ [ExportDVDImages, CreateManifest])
        path) (Inr (Some g))]
     @ polls @ [EInt g ResultCodeP (Inr rc)]"

definition export_returns ::
  "string \<Rightarrow> bool \<Rightarrow> string \<Rightarrow> string \<Rightarrow> string \<Rightarrow> bool \<Rightarrow> string \<Rightarrow> string \<Rightarrow> event list \<Rightarrow> bool" where
  "export_returns n keepmac fmt dir d b ova d' tr \<longleftrightarrow>
     (\<exists>name fmt' path m a desc g polls rc.
        to_utf16 n = Some name \<and> to_utf16 fmt = Some fmt'
        \<and> to_utf16 (dir @ ''/'' @ n @ ''.ova'') = Some path
        \<and> list_all polling polls \<and> tr = export_script name fmt' path keepmac m a desc g polls rc
        \<and> (if rc = 0 then b \<and> ova = dir @ ''/'' @ n @ ''.ova'' \<and> d' = d
           else \<not> b \<and> ova = [] \<and> d' = '' Write error during export!''))"

text \<open>Nothing is locked, so an export that never ends is the only thing to be waited for.\<close>

definition export_contract ::
  "string \<Rightarrow> bool \<Rightarrow> string \<Rightarrow> string \<Rightarrow> string \<Rightarrow> (bool \<times> string \<times> string) outcome \<Rightarrow> event list \<Rightarrow> bool" where
  "export_contract n keepmac fmt dir d r tr \<longleftrightarrow>
     run tr start = Some start
     \<and> (case r of Ret (b, ova, d') \<Rightarrow> export_returns n keepmac fmt dir d b ova d' tr
        | Hang \<Rightarrow> \<not> inert tr \<or> list_ex failed tr
        | _ \<Rightarrow> crashed r tr)"

lemma export_post: "post E (exportVM n keepmac fmt dir ova d) (export_contract n keepmac fmt dir d)"
  unfolding exportVM_def Let_def
  by (intro post_intros)
    (auto simp: export_contract_def export_returns_def export_script_def protocol_simps)

subsection \<open>importVM\<close>

text \<open>
  The loop over the warnings of the interpretation never advances its iterator. The pointer
  \<open>machine\<close> is never assigned, and it is released on the way to every \<open>return\<close>.
\<close>

definition import_values ::
  "u16string \<Rightarrow> u16string \<Rightarrow> u16string \<Rightarrow> u16string \<Rightarrow> u16string \<Rightarrow> u16string \<Rightarrow> u16string \<Rightarrow> u16string list" where
  "import_values os name storage base cpus memory disk =
     [os, name, u16 ''/'', storage, base, cpus, memory, u16 ''0'', u16 [], u16 ''3'', u16 [],
      u16 ''PIIX4'', u16 ''PIIX4'', u16 ''AHCI'', disk]"

definition import_extra :: "bool \<Rightarrow> u16string list" where
  "import_extra netup =
     replicate 9 (u16 []) @ [if netup then u16 ''slot=0;type=Bridged'' else u16 []]
     @ replicate 4 (u16 []) @ [u16 ''controller=13;channel=0'']"

definition importVM ::
  "string \<Rightarrow> string \<Rightarrow> bool \<Rightarrow> string \<Rightarrow> int \<Rightarrow> int \<Rightarrow> bool \<Rightarrow> string \<Rightarrow> string
     \<Rightarrow> ('w, bool \<times> string) io" where
  "importVM vmname ovapath keepmac ostypeid cpucount memory netup basefolder callbackdata =
     try_com
       (bnd (utf16 ovapath) (\<lambda>ova_path.
        bnd (utf16 ostypeid) (\<lambda>os_type.
        bnd (utf16 vmname) (\<lambda>vm_name.
        bnd (utf16 (to_string cpucount)) (\<lambda>cpu_count.
        bnd (utf16 (to_string memory)) (\<lambda>vm_memory.
        bnd (utf16 basefolder) (\<lambda>base_folder.
        bnd (utf16 (basefolder @ ''/'' @ vmname @ ''/'' @ vmname @ ''.vbox'')) (\<lambda>vm_storage_path.
        let vm_name = vm_name @ u16 ''.vmdk''; disk_name = vm_name; machine = None;
            options = ImportToVDI # (if keepmac then [ImportKeepAllMACs] else []) in
        bnd (ask_ref CreateAppliance) (\<lambda>app.
        bnd (get app (\<lambda>a. ReadAppliance a ova_path)) (\<lambda>r_progress.
        seqs [wait_for r_progress]
        (bnd (geti r_progress ResultCodeP) (\<lambda>rc.
         if rc < 0 then
           seqs [release machine] (ret (False, '' Error reading ova file during import!''))
         else
           seqs [call app Interpret]
           (bnd (deref app ask_warnings) (\<lambda>warn.
            seqs
              [case warn of [] \<Rightarrow> ret ()
               | iter # _ \<Rightarrow> bnd (loop (\<lambda>_. True) (\<lambda>_. bnd (utf8 iter) (\<lambda>_. ret ())) ()) (\<lambda>_. ret ())]
            (bnd (deref app (\<lambda>a. ask_refs (VirtualSystemDescriptions a))) (\<lambda>desc.
             bnd (each desc ([], [], []) (\<lambda>tmp (enabled, VBoxValues, extraConfigValues).
               let enabled = enabled @ replicate 15 True;
                   VBoxValues = VBoxValues @ import_values os_type vm_name vm_storage_path base_folder
                                  cpu_count vm_memory disk_name;
                   extraConfigValues = extraConfigValues @ import_extra netup in
               seqs [perform (SetFinalValues tmp enabled VBoxValues extraConfigValues)]
                 (ret (enabled, VBoxValues, extraConfigValues)))) (\<lambda>_.
             bnd (get app (\<lambda>a. ImportMachines a options)) (\<lambda>i_progress.
             seqs [poll i_progress, release machine]
             (bnd (geti i_progress ResultCodeP) (\<lambda>rc. ret (rc \<ge> 0, callbackdata)))))))))))))))))))))
       print_and_fall_off"

text \<open>
  The contract: \<open>importVM\<close> has no path to a \<open>return\<close>. When nothing fails and the appliance has
  no warnings, it imports the machines with the values of its arguments and then dereferences
  null; every description after the first is given the values of the earlier ones again.
\<close>

fun final_values :: "event \<Rightarrow> (bool list \<times> u16string list \<times> u16string list) list" where
  "final_values (ECmd c _) = (case c of SetFinalValues _ e v x \<Rightarrow> [(e, v, x)] | _ \<Rightarrow> [])"
| "final_values _ = []"

definition repeated :: "nat \<Rightarrow> 'a list \<Rightarrow> 'a list" where
  "repeated k xs = concat (replicate k xs)"

definition given_values ::
  "u16string list \<Rightarrow> u16string list \<Rightarrow> nat \<Rightarrow> (bool list \<times> u16string list \<times> u16string list) list" where
  "given_values vs xs k = map (\<lambda>j. (repeated (Suc j) (replicate 15 True), repeated (Suc j) vs,
     repeated (Suc j) xs)) [0..<k]"

fun warned :: "event \<Rightarrow> bool" where
  "warned (EWarnings _ r) \<longleftrightarrow> (case r of Inl _ \<Rightarrow> False | Inr ws \<Rightarrow> ws \<noteq> [])"
| "warned _ \<longleftrightarrow> False"

definition import_contract ::
  "string \<Rightarrow> string \<Rightarrow> int \<Rightarrow> int \<Rightarrow> bool \<Rightarrow> string \<Rightarrow> (bool \<times> string) outcome \<Rightarrow> event list \<Rightarrow> bool" where
  "import_contract n os cpus memory netup base r tr \<longleftrightarrow>
     run tr start = Some start \<and> \<not> returns r
     \<and> (list_ex warned tr \<longrightarrow> r = Hang \<or> r = Throw RangeError)
     \<and> (\<exists>k. k = 0 \<and> concat (map final_values tr) = [] \<or>
         (\<exists>os' n' base' path. to_utf16 os = Some os' \<and> to_utf16 n = Some n' \<and> to_utf16 base = Some base'
            \<and> to_utf16 (base @ ''/'' @ n @ ''/'' @ n @ ''.vbox'') = Some path
            \<and> concat (map final_values tr) = given_values
                (import_values os' (n' @ u16 ''.vmdk'') path base' (u16 (to_string cpus))
                   (u16 (to_string memory)) (n' @ u16 ''.vmdk'')) (import_extra netup) k))"

lemma post_endless_warning [post_intros]:
  assumes "Q Hang []" and "Q (Throw RangeError) []"
  shows "post E (loop (\<lambda>_. True) (\<lambda>_. bnd (utf8 i) (\<lambda>_. ret ())) ()) Q"
  by (rule post_loop [where I = "\<lambda>r tr. tr = [] \<and> (r = Ret () \<or> r = Throw RangeError)"])
    (auto intro!: post_intros assms)

lemma post_case_list [post_intros]:
  "(xs = [] \<Longrightarrow> post E m Q) \<Longrightarrow> (\<And>y ys. xs = y # ys \<Longrightarrow> post E (f y ys) Q)
     \<Longrightarrow> post E (case xs of [] \<Rightarrow> m | y # ys \<Rightarrow> f y ys) Q"
  by (cases xs) simp_all

lemma repeated_Suc: "repeated k xs @ xs = repeated (Suc k) xs"
  by (induction k) (simp_all add: repeated_def)

lemma given_values_Suc:
  "given_values vs xs k @ [(repeated (Suc k) (replicate 15 True), repeated (Suc k) vs, repeated (Suc k) xs)]
     = given_values vs xs (Suc k)"
  by (simp add: given_values_def)

definition set_values :: "u16string list \<Rightarrow> u16string list \<Rightarrow> event list \<Rightarrow> nat \<Rightarrow> bool" where
  "set_values vs xs tr k \<longleftrightarrow> list_all (\<lambda>e. \<exists>c r. e = ECmd c r \<and> final_values e \<noteq> []) tr
     \<and> concat (map final_values tr) = given_values vs xs k"

lemma set_values_snoc:
  assumes "set_values vs xs tr k"
  shows "set_values vs xs (tr @ [ECmd (SetFinalValues d (repeated (Suc k) (replicate 15 True))
           (repeated (Suc k) vs) (repeated (Suc k) xs)) r]) (Suc k)"
  using assms by (simp add: set_values_def given_values_Suc)

lemma descriptions_post:
  "post E (each desc ([], [], []) (\<lambda>tmp (e, v, x).
      seqs [perform (SetFinalValues tmp (e @ replicate 15 True) (v @ vs) (x @ xs))]
        (ret (e @ replicate 15 True, v @ vs, x @ xs))))
    (\<lambda>r tr. (\<exists>k. set_values vs xs tr k) \<and> (returns r \<or> (\<exists>e. r = Throw (COMError e) \<and> list_ex failed tr)))"
proof (rule post_each [where I = "\<lambda>zs s tr. s = (repeated (length zs) (replicate 15 True),
      repeated (length zs) vs, repeated (length zs) xs) \<and> set_values vs xs tr (length zs)"], goal_cases)
  case 1
  show ?case by (simp add: repeated_def set_values_def given_values_def)
next
  case (2 x zs s tr)
  then show ?case
    by (auto simp: repeated_Suc intro!: post_intros set_values_snoc exI)
next
  case (3 s tr)
  then show ?case by (auto simp: returns_def)
qed

lemma post_descriptions [post_intros]:
  assumes "\<And>a tr k. set_values vs xs tr k \<Longrightarrow> Q (Ret a) tr"
    and "\<And>e tr k. set_values vs xs tr k \<Longrightarrow> Q (Throw (COMError e)) tr"
  shows "post E (each desc ([], [], []) (\<lambda>tmp (e, v, x).
      seqs [perform (SetFinalValues tmp (e @ replicate 15 True) (v @ vs) (x @ xs))]
        (ret (e @ replicate 15 True, v @ vs, x @ xs)))) Q"
  by (rule post_mono [OF descriptions_post [where vs = vs and xs = xs]])
    (use assms in \<open>auto simp: returns_def split: outcome.splits\<close>)

text \<open>The calls of the loop are neutral for the automaton and are not warnings.\<close>

lemma final_values_idle: "final_values e \<noteq> [] \<Longrightarrow> legal e p \<and> after e p = p \<and> \<not> warned e"
proof (cases e)
  case (ECmd c r)
  then show "final_values e \<noteq> [] \<Longrightarrow> legal e p \<and> after e p = p \<and> \<not> warned e" by (cases c) simp_all
qed simp_all

lemma set_values_idle:
  assumes "set_values vs xs tr k"
  shows "run tr p = Some p" "run (tr @ ys) p = run ys p" "\<not> list_ex warned tr"
    "concat (map final_values tr) = given_values vs xs k"
  using assms final_values_idle
  by (auto simp: set_values_def list_ex_iff list_all_iff intro!: run_skip)

lemma quiet_import [simp]:
  "list_all error_report tr \<Longrightarrow> concat (map final_values tr) = [] \<and> \<not> list_ex warned tr"
  "list_all polling tr \<Longrightarrow> concat (map final_values tr) = [] \<and> \<not> list_ex warned tr"
proof -
  have "error_report e \<or> polling e \<Longrightarrow> final_values e = [] \<and> \<not> warned e" for e
    by (cases e) simp_all
  then show "list_all error_report tr \<Longrightarrow> concat (map final_values tr) = [] \<and> \<not> list_ex warned tr"
    "list_all polling tr \<Longrightarrow> concat (map final_values tr) = [] \<and> \<not> list_ex warned tr"
    by (auto simp: list_all_iff list_ex_iff)
qed

lemma import_post:
  "post E (importVM n ova keepmac os cpus memory netup base d)
     (import_contract n os cpus memory netup base)"
  unfolding importVM_def Let_def
  by (intro post_intros)
    (auto simp: import_contract_def returns_def set_values_idle to_utf16_number protocol_simps
       split: list.splits)

subsection \<open>Properties\<close>

text \<open>C14. \<open>deleteVM\<close> deletes a powered-off machine only: it unregisters it with the cleanup mode of
  the type code, deletes its configuration with exactly the media the hypervisor detached and
  waits for the end. An unknown type code deletes nothing, and is nevertheless reported as
  success, with an error text.\<close>

theorem delete_machine: "post E (deleteVM n type d) (removal_contract n type d)"
  by (rule removal_post)

text \<open>C27. A run of \<open>exportVM\<close> that returns wrote the named machine alone to the file
  directory/name.ova in the requested format, stripping the MAC addresses unless they are to
  be kept, and is true exactly when the result code read after completion is 0.\<close>

theorem export_machine:
  "post E (exportVM n keepmac fmt dir ova d) (export_contract n keepmac fmt dir d)"
  by (rule export_post)

text \<open>C17. \<open>importVM\<close> never returns: whatever the hypervisor answers, a run ends in an exception, a
  dereferenced null pointer or an endless loop, the last whenever the appliance has a warning.
  On the way each description is given the values of the arguments, repeated once more for
  every description before it.\<close>

theorem import_never_returns:
  "post E (importVM n ova keepmac os cpus memory netup base d)
     (import_contract n os cpus memory netup base)"
  by (rule import_post)

end
