(* ===== verification/Config_Network.thy ===== *)
theory Config_Network
  imports Config_Base
begin

text \<open>
  The network operations of \<open>vcaVmConfigure\<close> (source/vca_vmConfigure.cpp): \<open>setBridge\<close>,
  \<open>addBridge\<close>, \<open>setNat\<close>, \<open>addNat\<close>, \<open>setAdaptorMAC\<close>, \<open>disableAdaptor\<close>. The \<open>switch\<close>
  statements list every enumerator and have no default, so a raw state that names none falls
  through to \<open>return true\<close>.
\<close>

subsection \<open>The operations\<close>

definition setBridge :: "string \<Rightarrow> int \<Rightarrow> string \<Rightarrow> string \<Rightarrow> ('w, bool \<times> string) io" where
  "setBridge vmname slot hostpci callbackdata =
     try_com
       (bnd (utf16 vmname) (\<lambda>name.
        bnd (utf16 hostpci) (\<lambda>pci_name.
        if \<not> (slot \<ge> 0 \<and> slot \<le> 3) then ret (False, ''slot should between 0~3'')
        else
          bnd (find_machine name) (\<lambda>machine.
          if machine \<noteq> None then
            bnd new_session (\<lambda>session.
            seqs [lock_machine machine session Shared]
            (bnd (get session SessionMachine) (\<lambda>mutabmachine.
             bnd (get mutabmachine (\<lambda>m. NetworkAdapter m (word_of_int slot))) (\<lambda>adapter.
             if adapter \<noteq> None then
               seqs
                 [put adapter (BridgedInterface pci_name),
                  put adapter (AttachmentType Bridged),
                  put adapter (AdapterEnabled True),
                  call mutabmachine SaveSettings, unlock_machine session, release machine]
                 (ret (True, callbackdata))
             else
               seqs [release machine]
                 (ret (False, '' Virtual machine adapter does not exist!''))))))
          else
            seqs [release machine] (ret (False, '' Virtual machine does not exist!''))))))
       print_and_fall_off"

definition addBridge :: "string \<Rightarrow> int \<Rightarrow> string \<Rightarrow> string \<Rightarrow> ('w, bool \<times> string) io" where
  "addBridge vmname slot hostpci callbackdata =
     bnd (utf16 vmname) (\<lambda>name.
     bnd (utf16 hostpci) (\<lambda>pci_name.
     if \<not> (slot \<ge> 0 \<and> slot \<le> 3) then ret (False, ''slot should between 0~3'')
     else
       bnd (find_machine name) (\<lambda>machine.
       if machine \<noteq> None then
         bnd (state machine) (\<lambda>st.
         if isin [PoweredOff] st then
           bnd new_session (\<lambda>session.
           seqs [lock_machine machine session Shared]
           (bnd (get session SessionMachine) (\<lambda>mutabmachine.
            bnd (get mutabmachine (\<lambda>m. NetworkAdapter m (word_of_int slot))) (\<lambda>adapter.
            if adapter \<noteq> None then
              seqs
                [put adapter (BridgedInterface pci_name),
                 put adapter (AttachmentType Bridged),
                 put adapter (AdapterEnabled True),
                 call mutabmachine SaveSettings, unlock_machine session, release machine]
                (ret (True, callbackdata))
            else
              seqs [release machine]
                (ret (False, '' Virtual machine adapter does not exist!''))))))
         else if st = None then ret (True, callbackdata)
         else
           seqs [release machine] (ret (False, '' Virtual machine must be poweroff!'')))
       else
         seqs [release machine] (ret (False, '' Virtual machine does not exist!'')))))"

definition setNat :: "string \<Rightarrow> int \<Rightarrow> string \<Rightarrow> ('w, bool \<times> string) io" where
  "setNat vmname slot callbackdata =
     try_com
       (bnd (utf16 vmname) (\<lambda>name.
        if \<not> (slot \<ge> 0 \<and> slot \<le> 3) then ret (False, ''slot should between 0~3'')
        else
          bnd (find_machine name) (\<lambda>machine.
          if machine \<noteq> None then
            bnd new_session (\<lambda>session.
            seqs [lock_machine machine session Shared]
            (bnd (get session SessionMachine) (\<lambda>mutabmachine.
             bnd (get mutabmachine (\<lambda>m. NetworkAdapter m (word_of_int slot))) (\<lambda>adapter.
             if adapter \<noteq> None then
               seqs
                 [put adapter (AttachmentType NAT), put adapter (AdapterEnabled True),
                  call mutabmachine SaveSettings, unlock_machine session, release machine]
                 (ret (True, callbackdata))
             else
               seqs [release machine]
                 (ret (False, '' Virtual machine adapter does not exist!''))))))
          else
            seqs [release machine] (ret (False, '' Virtual machine does not exist!'')))))
       print_and_fall_off"

definition addNat :: "string \<Rightarrow> int \<Rightarrow> string \<Rightarrow> ('w, bool \<times> string) io" where
  "addNat vmname slot callbackdata =
     try_com
       (bnd (utf16 vmname) (\<lambda>name.
        if \<not> (slot \<ge> 0 \<and> slot \<le> 3) then ret (False, ''slot should between 0~3'')
        else
          bnd (find_machine name) (\<lambda>machine.
          if machine \<noteq> None then
            bnd (state machine) (\<lambda>st.
            if isin [PoweredOff] st then
              bnd new_session (\<lambda>session.
              seqs [lock_machine machine session Shared]
              (bnd (get session SessionMachine) (\<lambda>mutabmachine.
               bnd (get mutabmachine (\<lambda>m. NetworkAdapter m (word_of_int slot))) (\<lambda>adapter.
               if adapter \<noteq> None then
                 seqs
                   [put adapter (AttachmentType NAT), put adapter (AdapterEnabled True),
                    call mutabmachine SaveSettings, unlock_machine session, release machine]
                   (ret (True, callbackdata))
               else
                 seqs [release machine]
                   (ret (False, '' Virtual machine adapter does not exist!''))))))
            else if st = None then ret (True, callbackdata)
            else
              seqs [release machine] (ret (False, '' Virtual machine must be poweroff!'')))
          else
            seqs [release machine] (ret (False, '' Virtual machine does not exist!'')))))
       print_and_fall_off"

definition setAdaptorMAC :: "string \<Rightarrow> int \<Rightarrow> string \<Rightarrow> string \<Rightarrow> ('w, bool \<times> string) io" where
  "setAdaptorMAC vmname slot mac callbackdata =
     try_com
       (bnd (utf16 vmname) (\<lambda>name.
        bnd (utf16 mac) (\<lambda>pci_mac.
        if \<not> (slot \<ge> 0 \<and> slot \<le> 3) then ret (False, ''slot should between 0~3'')
        else
          bnd (find_machine name) (\<lambda>machine.
          if machine \<noteq> None then
            bnd (state machine) (\<lambda>st.
            if isin [PoweredOff] st then
              bnd new_session (\<lambda>session.
              seqs [lock_machine machine session Shared]
              (bnd (get session SessionMachine) (\<lambda>mutabmachine.
               bnd (get mutabmachine (\<lambda>m. NetworkAdapter m (word_of_int slot))) (\<lambda>adapter.
               if adapter \<noteq> None then
                 seqs
                   [put adapter (AdapterEnabled True), put adapter (MACAddress pci_mac),
                    call mutabmachine SaveSettings, unlock_machine session, release machine]
                   (ret (True, callbackdata))
               else
                 seqs [release machine]
                   (ret (False, '' Virtual machine adapter does not exist!''))))))
            else if st = None then ret (True, callbackdata)
            else
              seqs [release machine] (ret (False, '' Virtual machine must be poweroff!'')))
          else
            seqs [release machine] (ret (False, '' Virtual machine does not exist!''))))))
       print_and_fall_off"

definition disableAdaptor :: "string \<Rightarrow> int \<Rightarrow> string \<Rightarrow> ('w, bool \<times> string) io" where
  "disableAdaptor vmname slot callbackdata =
     try_com
       (bnd (utf16 vmname) (\<lambda>name.
        if \<not> (slot \<ge> 0 \<and> slot \<le> 3) then ret (False, ''slot should between 0~3'')
        else
          bnd (find_machine name) (\<lambda>machine.
          if machine \<noteq> None then
            bnd (state machine) (\<lambda>st.
            if isin [PoweredOff] st then
              bnd new_session (\<lambda>session.
              seqs [lock_machine machine session Shared]
              (bnd (get session SessionMachine) (\<lambda>mutabmachine.
               bnd (get mutabmachine (\<lambda>m. NetworkAdapter m (word_of_int slot))) (\<lambda>adapter.
               if adapter \<noteq> None then
                 seqs
                   [put adapter (AdapterEnabled False),
                    call mutabmachine SaveSettings, unlock_machine session, release machine]
                   (ret (True, callbackdata))
               else
                 seqs [release machine]
                   (ret (False, '' Virtual machine adapter does not exist!''))))))
            else if st = None then ret (True, callbackdata)
            else
              seqs [release machine] (ret (False, '' Virtual machine must be poweroff!'')))
          else
            seqs [release machine] (ret (False, '' Virtual machine does not exist!'')))))
       print_and_fall_off"

subsection \<open>The contract\<close>

datatype net_req =
    Set_Bridge string | Add_Bridge string | Set_Nat | Add_Nat | Set_Mac string | Disable

primrec net_op :: "net_req \<Rightarrow> string \<Rightarrow> int \<Rightarrow> string \<Rightarrow> ('w, bool \<times> string) io" where
  "net_op (Set_Bridge pci) n slot d = setBridge n slot pci d"
| "net_op (Add_Bridge pci) n slot d = addBridge n slot pci d"
| "net_op Set_Nat n slot d = setNat n slot d"
| "net_op Add_Nat n slot d = addNat n slot d"
| "net_op (Set_Mac mac) n slot d = setAdaptorMAC n slot mac d"
| "net_op Disable n slot d = disableAdaptor n slot d"

text \<open>Which operations look at the machine's state, and what they set on the adapter.\<close>

primrec net_gated :: "net_req \<Rightarrow> bool" where
  "net_gated (Set_Bridge _) = False"
| "net_gated (Add_Bridge _) = True"
| "net_gated Set_Nat = False"
| "net_gated Add_Nat = True"
| "net_gated (Set_Mac _) = True"
| "net_gated Disable = True"

primrec net_settings :: "net_req \<Rightarrow> setting list option" where
  "net_settings (Set_Bridge pci) = map_option
     (\<lambda>u. [BridgedInterface u, AttachmentType Bridged, AdapterEnabled True]) (to_utf16 pci)"
| "net_settings (Add_Bridge pci) = map_option
     (\<lambda>u. [BridgedInterface u, AttachmentType Bridged, AdapterEnabled True]) (to_utf16 pci)"
| "net_settings Set_Nat = Some [AttachmentType NAT, AdapterEnabled True]"
| "net_settings Add_Nat = Some [AttachmentType NAT, AdapterEnabled True]"
| "net_settings (Set_Mac mac) = map_option (\<lambda>u. [AdapterEnabled True, MACAddress u]) (to_utf16 mac)"
| "net_settings Disable = Some [AdapterEnabled False]"

definition net_script ::
  "net_req \<Rightarrow> int \<Rightarrow> setting list \<Rightarrow> u16string \<Rightarrow> ref \<Rightarrow> int \<Rightarrow> ref \<Rightarrow> ref \<Rightarrow> ref \<Rightarrow> event list" where
  "net_script q slot xs name m i s mm a =
     entered (net_gated q) name m i s (Some mm)
     @ ERef (NetworkAdapter mm (word_of_int slot)) (Inr (Some a)) # puts a xs
     @ saved_and_left mm s m"

definition no_adapter_script ::
  "net_req \<Rightarrow> int \<Rightarrow> u16string \<Rightarrow> ref \<Rightarrow> int \<Rightarrow> ref \<Rightarrow> ref \<Rightarrow> event list" where
  "no_adapter_script q slot name m i s mm =
     entered (net_gated q) name m i s (Some mm)
     @ [ERef (NetworkAdapter mm (word_of_int slot)) (Inr None), ERelease m]"

definition net_returns ::
  "net_req \<Rightarrow> string \<Rightarrow> int \<Rightarrow> string \<Rightarrow> bool \<Rightarrow> string \<Rightarrow> event list \<Rightarrow> bool" where
  "net_returns q n slot d b d' tr \<longleftrightarrow>
     (if \<not> (0 \<le> slot \<and> slot \<le> 3) then \<not> b \<and> d' = ''slot should between 0~3'' \<and> tr = []
      else \<exists>name m i s mm. to_utf16 n = Some name \<and>
        (if net_gated q \<and> state_of i = None then b \<and> d' = d \<and> tr = looked_at name m i
         else if net_gated q \<and> state_of i \<noteq> Some PoweredOff
         then \<not> b \<and> d' = '' Virtual machine must be poweroff!'' \<and> tr = looked_at name m i @ [ERelease m]
         else if b
         then d' = d \<and> (\<exists>xs a. net_settings q = Some xs \<and> tr = net_script q slot xs name m i s mm a)
         else d' = '' Virtual machine adapter does not exist!''
              \<and> tr = no_adapter_script q slot name m i s mm \<and> held tr = [s]))"

definition net_contract ::
  "net_req \<Rightarrow> string \<Rightarrow> int \<Rightarrow> string \<Rightarrow> (bool \<times> string) outcome \<Rightarrow> event list \<Rightarrow> bool" where
  "net_contract q n slot d r tr \<longleftrightarrow>
     honest_end r tr \<and> list_all in_bounds tr
     \<and> guarded (isin [PoweredOff]) (\<not> net_gated q) tr
     \<and> (case r of Ret (b, d') \<Rightarrow> net_returns q n slot d b d' tr
        | _ \<Rightarrow> crashed r tr)"

lemmas net_simps = net_contract_def net_returns_def net_script_def no_adapter_script_def
  honest_end_def disciplined_def held_def session_pieces

lemma net_post: "post E (net_op q n slot d) (net_contract q n slot d)"
  by (cases q; simp only: net_op.simps setBridge_def addBridge_def setNat_def addNat_def
        setAdaptorMAC_def disableAdaptor_def; intro post_intros)
    (auto simp: net_simps protocol_simps small_int_word isin_def split: option.splits)

interpretation net: honest_operation "\<lambda>(q, n, slot, d). net_op q n slot d"
  by unfold_locales (auto intro: post_mono [OF net_post] simp: net_contract_def)

subsection \<open>Properties\<close>

text \<open>C9. A network operation refuses a slot outside 0..3 before any call. One that returns true
  found the machine, in the powered-off state where the operation asks for it, locked it,
  made exactly its settings on the adapter of that slot, saved and unlocked; the refusals say
  why and change no setting. A missing adapter is refused with the session still locked.\<close>

theorem network_operations: "post E (net_op q n slot d) (net_contract q n slot d)"
  by (rule net_post)

text \<open>A batch of network operations that all return true keeps the session discipline from
  its first call to its last and leaves no session locked and no setting unsaved.\<close>

theorem network_batch: "post E (net.batch xs) batch_end"
  by (rule net.batch_honest)

end
