(* ===== verification/Config_Machine.thy ===== *)
theory Config_Machine
  imports Config_Base
begin

text \<open>
  The operations of \<open>vcaVmConfigure\<close> (source/vca_vmConfigure.cpp) on the machine's own
  settings: \<open>createSharefolder\<close>, \<open>removeSharedFolder\<close>, \<open>resetCpuCount\<close>, \<open>resetMemSize\<close>.
\<close>

subsection \<open>The operations\<close>

definition createSharefolder ::
  "string \<Rightarrow> string \<Rightarrow> string \<Rightarrow> bool \<Rightarrow> bool \<Rightarrow> string \<Rightarrow> string \<Rightarrow> ('w, bool \<times> string) io" where
  "createSharefolder vmname foldername externalpath writeable automount internalpath callbackdata =
     try_com
       (bnd (utf16 vmname) (\<lambda>name.
        bnd (utf16 foldername) (\<lambda>folder.
        bnd (utf16 externalpath) (\<lambda>externpath.
        bnd (if internalpath = [] then ret [] else utf16 internalpath) (\<lambda>internpath.
        bnd (find_machine name) (\<lambda>machine.
        if machine \<noteq> None then
          bnd new_session (\<lambda>session.
          seqs [lock_machine machine session Shared]
          (bnd (get session SessionMachine) (\<lambda>mutabmachine.
           seqs
             [call mutabmachine
                (\<lambda>m. AddSharedFolder m folder externpath writeable automount internpath),
              call mutabmachine SaveSettings, unlock_machine session, release machine]
             (ret (True, callbackdata)))))
        else
          seqs [release machine] (ret (False, '' Virtual machine does not exist!''))))))))
       print_and_fall_off"

definition removeSharedFolder :: "string \<Rightarrow> string \<Rightarrow> string \<Rightarrow> ('w, bool \<times> string) io" where
  "removeSharedFolder vmname foldername callbackdata =
     try_com
       (bnd (utf16 vmname) (\<lambda>name.
        bnd (utf16 foldername) (\<lambda>folder.
        bnd (find_machine name) (\<lambda>machine.
        if machine \<noteq> None then
          bnd new_session (\<lambda>session.
          seqs [lock_machine machine session Shared]
          (bnd (get session SessionMachine) (\<lambda>mutabmachine.
           seqs
             [call mutabmachine (\<lambda>m. RemoveSharedFolder m folder),
              call mutabmachine SaveSettings, unlock_machine session, release machine]
             (ret (True, callbackdata)))))
        else
          seqs [release machine] (ret (False, '' Virtual machine does not exist!''))))))
       print_and_fall_off"

definition resetCpuCount :: "string \<Rightarrow> int \<Rightarrow> string \<Rightarrow> ('w, bool \<times> string) io" where
  "resetCpuCount vmname cpuCount callbackdata =
     try_com
       (bnd (utf16 vmname) (\<lambda>name.
        if \<not> (cpuCount \<ge> 1 \<and> cpuCount \<le> 4) then ret (False, ''cpucount : 1 ~ 4 !'')
        else
          bnd (find_machine name) (\<lambda>machine.
          if machine \<noteq> None then
            bnd (state machine) (\<lambda>st.
            if isin [PoweredOff] st then
              bnd new_session (\<lambda>session.
              seqs [lock_machine machine session Shared]
              (bnd (get session SessionMachine) (\<lambda>mutabmachine.
               seqs
                 [if mutabmachine \<noteq> None then
                    seqs [put mutabmachine (CPUCount (word_of_int cpuCount)),
                          call mutabmachine SaveSettings] (ret ())
                  else ret (),
                  unlock_machine session, release machine]
                 (ret (True, callbackdata)))))
            else if st = None then ret (True, callbackdata)
            else
              seqs [release machine] (ret (False, '' Virtual machine should be poweroff !'')))
          else
            seqs [release machine] (ret (False, '' Virtual machine does not exist !'')))))
       print_and_fall_off"

definition resetMemSize :: "string \<Rightarrow> int \<Rightarrow> string \<Rightarrow> ('w, bool \<times> string) io" where
  "resetMemSize vmname memorySize callbackdata =
     try_com
       (bnd (utf16 vmname) (\<lambda>name.
        if \<not> (memorySize \<ge> 0 \<and> memorySize \<le> 8192) then ret (False, ''memorySize : 0 ~8192MB !'')
        else
          bnd (find_machine name) (\<lambda>machine.
          if machine \<noteq> None then
            bnd (state machine) (\<lambda>st.
            if isin [PoweredOff] st then
              bnd new_session (\<lambda>session.
              seqs [lock_machine machine session Shared]
              (bnd (get session SessionMachine) (\<lambda>mutabmachine.
               seqs
                 [if mutabmachine \<noteq> None then
                    seqs [put mutabmachine (MemorySize (word_of_int memorySize)),
                          call mutabmachine SaveSettings] (ret ())
                  else ret (),
                  unlock_machine session, release machine]
                 (ret (True, callbackdata)))))
            else if st = None then ret (True, callbackdata)
            else
              seqs [release machine] (ret (False, '' Virtual machine should be poweroff !'')))
          else
            seqs [release machine] (ret (False, '' Virtual machine does not exist !'')))))
       print_and_fall_off"

subsection \<open>The contract\<close>

datatype machine_req =
    Create_Folder string string bool bool string | Remove_Folder string
  | Cpu_Count int | Mem_Size int

primrec machine_op :: "machine_req \<Rightarrow> string \<Rightarrow> string \<Rightarrow> ('w, bool \<times> string) io" where
  "machine_op (Create_Folder f x wr am p) n d = createSharefolder n f x wr am p d"
| "machine_op (Remove_Folder f) n d = removeSharedFolder n f d"
| "machine_op (Cpu_Count c) n d = resetCpuCount n c d"
| "machine_op (Mem_Size k) n d = resetMemSize n k d"

primrec machine_gated :: "machine_req \<Rightarrow> bool" where
  "machine_gated (Create_Folder _ _ _ _ _) = False"
| "machine_gated (Remove_Folder _) = False"
| "machine_gated (Cpu_Count _) = True"
| "machine_gated (Mem_Size _) = True"

text \<open>The refusal of an argument, before any call.\<close>

primrec machine_bad :: "machine_req \<Rightarrow> string option" where
  "machine_bad (Create_Folder _ _ _ _ _) = None"
| "machine_bad (Remove_Folder _) = None"
| "machine_bad (Cpu_Count c) = (if 1 \<le> c \<and> c \<le> 4 then None else Some ''cpucount : 1 ~ 4 !'')"
| "machine_bad (Mem_Size k) = (if 0 \<le> k \<and> k \<le> 8192 then None else Some ''memorySize : 0 ~8192MB !'')"

text \<open>The one call an operation makes on the mutable machine between lock and save.\<close>

primrec machine_call :: "machine_req \<Rightarrow> ref \<Rightarrow> cmd option" where
  "machine_call (Create_Folder f x wr am p) mm =
     (case (to_utf16 f, to_utf16 x, to_utf16 p) of
        (Some f', Some x', Some p') \<Rightarrow> Some (AddSharedFolder mm f' x' wr am p')
      | _ \<Rightarrow> None)"
| "machine_call (Remove_Folder f) mm = map_option (RemoveSharedFolder mm) (to_utf16 f)"
| "machine_call (Cpu_Count c) mm = Some (Put mm (CPUCount (word_of_int c)))"
| "machine_call (Mem_Size k) mm = Some (Put mm (MemorySize (word_of_int k)))"

definition machine_script ::
  "machine_req \<Rightarrow> u16string \<Rightarrow> ref \<Rightarrow> int \<Rightarrow> ref \<Rightarrow> ptr \<Rightarrow> event list" where
  "machine_script q name m i s x =
     entered (machine_gated q) name m i s x
     @ (case x of None \<Rightarrow> left s m
        | Some mm \<Rightarrow> ECmd (the (machine_call q mm)) None # saved_and_left mm s m)"

definition machine_returns ::
  "machine_req \<Rightarrow> string \<Rightarrow> string \<Rightarrow> bool \<Rightarrow> string \<Rightarrow> event list \<Rightarrow> bool" where
  "machine_returns q n d b d' tr \<longleftrightarrow>
     (if machine_bad q \<noteq> None then \<not> b \<and> Some d' = machine_bad q \<and> tr = []
      else \<exists>name m i s x. to_utf16 n = Some name \<and>
        (if machine_gated q \<and> state_of i = None then b \<and> d' = d \<and> tr = looked_at name m i
         else if machine_gated q \<and> state_of i \<noteq> Some PoweredOff
         then \<not> b \<and> d' = '' Virtual machine should be poweroff !'' \<and> tr = looked_at name m i @ [ERelease m]
         else b \<and> d' = d \<and> (x = None \<longrightarrow> machine_gated q) \<and> machine_call q m \<noteq> None
              \<and> tr = machine_script q name m i s x))"

definition machine_contract ::
  "machine_req \<Rightarrow> string \<Rightarrow> string \<Rightarrow> (bool \<times> string) outcome \<Rightarrow> event list \<Rightarrow> bool" where
  "machine_contract q n d r tr \<longleftrightarrow>
     conforms r tr \<and> list_all in_bounds tr
     \<and> guarded (isin [PoweredOff]) (\<not> machine_gated q) tr
     \<and> (case r of Ret (b, d') \<Rightarrow> machine_returns q n d b d' tr | _ \<Rightarrow> crashed r tr)"

lemmas machine_simps = machine_contract_def machine_returns_def machine_script_def
  conforms_def session_pieces

lemma to_utf16_empty: "to_utf16 [] = Some []"
  using to_utf16_ascii [of "[]"] by (simp add: u16_def)

lemma machine_post: "post E (machine_op q n d) (machine_contract q n d)"
  by (cases q; simp only: machine_op.simps createSharefolder_def removeSharedFolder_def
        resetCpuCount_def resetMemSize_def; intro post_intros)
    (auto simp: machine_simps to_utf16_empty protocol_simps small_int_word isin_def split: option.splits)

text \<open>These operations are tidy, hence honest.\<close>

interpretation machine: tidy_operation "\<lambda>(q, n, d). machine_op q n d"
  by unfold_locales (auto intro: post_mono [OF machine_post] simp: machine_contract_def)

interpretation machine_batch: honest_operation "\<lambda>(q, n, d). machine_op q n d"
  by unfold_locales (rule post_mono [OF machine.tidy conforms_honest])

subsection \<open>Properties\<close>

text \<open>C21. An operation on the machine's own settings refuses a CPU count outside 1..4 and a
  memory size above 8192 MB before any call, never changes a machine that is not powered off
  where it asks for that state, and passes no number outside the documented range. A run
  that returns made the one call it stands for between lock and save, and is tidy; but when
  the session gives no mutable machine, the two resets return true having set nothing.\<close>

theorem machine_operations: "post E (machine_op q n d) (machine_contract q n d)"
  by (rule machine_post)

end
