(* ===== verification/Config_Devices.thy ===== *)
theory Config_Devices
  imports Config_Base
begin

text \<open>
  The device operations of \<open>vcaVmConfigure\<close> (source/vca_vmConfigure.cpp): USB controllers
  (\<open>addUSBController\<close>, \<open>delUSBController\<close>), the sound card (\<open>setAudio\<close>, \<open>switchAudio\<close>)
  and the serial ports (\<open>addSerialPort\<close>, \<open>delSerialPort\<close>).
\<close>

subsection \<open>The operations\<close>

definition addUSBController :: "string \<Rightarrow> string \<Rightarrow> string \<Rightarrow> string \<Rightarrow> ('w, bool \<times> string) io" where
  "addUSBController vmname usbctlname usbType callbackdata =
     try_com
       (bnd (utf16 vmname) (\<lambda>name.
        bnd (utf16 usbctlname) (\<lambda>usbname.
        bnd (utf16 usbType) (\<lambda>type.
        bnd (find_machine name) (\<lambda>machine.
        if machine \<noteq> None then
          bnd new_session (\<lambda>session.
          seqs [lock_machine machine session Shared]
          (bnd (get session SessionMachine) (\<lambda>mutabmachine.
           if strcmp_eq usbType ''XHCI'' then
             bnd (get mutabmachine (\<lambda>m. AddUSBController m usbname XHCI)) (\<lambda>ctrl.
             seqs [call mutabmachine SaveSettings, unlock_machine session, release machine]
               (ret (True, callbackdata)))
           else if strcmp_eq usbType ''EHCI'' then
             bnd (get mutabmachine (\<lambda>m. AddUSBController m usbname EHCI)) (\<lambda>ctrl.
             seqs [call mutabmachine SaveSettings, unlock_machine session, release machine]
               (ret (True, callbackdata)))
           else if strcmp_eq usbType ''OHCI'' then
             seqs [unlock_machine session, release machine] (ret (False, ''usb 1.0 is default!''))
           else
             seqs [unlock_machine session, release machine] (ret (False, '' USB type error !'')))))
        else
          seqs [release machine] (ret (False, '' Virtual machine does not exist !'')))))))
       print_and_fall_off"

definition delUSBController :: "string \<Rightarrow> string \<Rightarrow> string \<Rightarrow> ('w, bool \<times> string) io" where
  "delUSBController vmname usbctlname callbackdata =
     try_com
       (bnd (utf16 vmname) (\<lambda>name.
        bnd (utf16 usbctlname) (\<lambda>usbname.
        bnd (find_machine name) (\<lambda>machine.
        if machine \<noteq> None then
          bnd new_session (\<lambda>session.
          seqs [lock_machine machine session Shared]
          (bnd (get session SessionMachine) (\<lambda>mutabmachine.
           seqs
             [call mutabmachine (\<lambda>m. RemoveUSBController m usbname),
              call mutabmachine SaveSettings, unlock_machine session, release machine]
             (ret (True, callbackdata)))))
        else
          seqs [release machine] (ret (False, '' Virtual machine does not exist !''))))))
       print_and_fall_off"

definition setAudio :: "string \<Rightarrow> bool \<Rightarrow> bool \<Rightarrow> string \<Rightarrow> ('w, bool \<times> string) io" where
  "setAudio vmname in_on out_on callbackdata =
     try_com
       (bnd (utf16 vmname) (\<lambda>name.
        bnd (find_machine name) (\<lambda>machine.
        if machine \<noteq> None then
          bnd new_session (\<lambda>session.
          seqs [lock_machine machine session Shared]
          (bnd (get session SessionMachine) (\<lambda>mutabmachine.
           bnd (get mutabmachine AudioAdapterOf) (\<lambda>audio.
           if audio \<noteq> None then
             seqs
               [put audio AudioControllerAC97, put audio AudioDriverALSA,
                put audio (AudioEnabledIn in_on), put audio (AudioEnabledOut out_on),
                call mutabmachine SaveSettings, unlock_machine session, release machine]
               (ret (True, callbackdata))
           else
             seqs [unlock_machine session, release machine]
               (ret (False, '' No sound card adapter  !''))))))
        else
          seqs [release machine] (ret (False, '' Virtual machine does not exist !'')))))
       print_and_fall_off"

definition switchAudio :: "string \<Rightarrow> bool \<Rightarrow> string \<Rightarrow> ('w, bool \<times> string) io" where
  "switchAudio vmname enable callbackdata =
     try_com
       (bnd (utf16 vmname) (\<lambda>name.
        bnd (find_machine name) (\<lambda>machine.
        if machine \<noteq> None then
          bnd new_session (\<lambda>session.
          seqs [lock_machine machine session Shared]
          (bnd (get session SessionMachine) (\<lambda>mutabmachine.
           bnd (get mutabmachine AudioAdapterOf) (\<lambda>audio.
           if audio \<noteq> None then
             seqs
               [put audio (AudioEnabled enable),
                call mutabmachine SaveSettings, unlock_machine session, release machine]
               (ret (True, callbackdata))
           else
             seqs [unlock_machine session, release machine]
               (ret (False, '' No sound card adapter !''))))))
        else
          seqs [release machine] (ret (False, '' Virtual machine does not exist !'')))))
       print_and_fall_off"

definition addSerialPort :: "string \<Rightarrow> int \<Rightarrow> string \<Rightarrow> ('w, bool \<times> string) io" where
  "addSerialPort vmname slot callbackdata =
     try_com
       (bnd (utf16 vmname) (\<lambda>name.
        if slot < 0 \<or> slot > 4 then ret (False, ''serial port: 0 ~ 3 !'')
        else
          bnd (find_machine name) (\<lambda>machine.
          if machine \<noteq> None then
            bnd new_session (\<lambda>session.
            seqs [lock_machine machine session Shared]
            (bnd (get session SessionMachine) (\<lambda>mutabmachine.
             bnd (get mutabmachine (\<lambda>m. SerialPort m (word_of_int slot))) (\<lambda>serial.
             if serial \<noteq> None then
               seqs
                 [put serial (SerialEnabled True),
                  call mutabmachine SaveSettings, unlock_machine session, release machine]
                 (ret (True, callbackdata))
             else
               seqs [unlock_machine session, release machine]
                 (ret (False, ''No such serial port !''))))))
          else
            seqs [release machine] (ret (False, '' Virtual machine does not exist !'')))))
       print_and_fall_off"

definition delSerialPort :: "string \<Rightarrow> int \<Rightarrow> string \<Rightarrow> ('w, bool \<times> string) io" where
  "delSerialPort vmname slot callbackdata =
     try_com
       (bnd (utf16 vmname) (\<lambda>name.
        if slot < 0 \<or> slot > 4 then ret (False, ''serial port: 0 ~ 3 !'')
        else
          bnd (find_machine name) (\<lambda>machine.
          if machine \<noteq> None then
            bnd new_session (\<lambda>session.
            seqs [lock_machine machine session Shared]
            (bnd (get session SessionMachine) (\<lambda>mutabmachine.
             bnd (get mutabmachine (\<lambda>m. SerialPort m (word_of_int slot))) (\<lambda>serial.
             if serial \<noteq> None then
               seqs
                 [put serial (SerialEnabled False),
                  call mutabmachine SaveSettings, unlock_machine session, release machine]
                 (ret (True, callbackdata))
             else
               seqs [unlock_machine session, release machine]
                 (ret (False, ''No such serial port !''))))))
          else
            seqs [release machine] (ret (False, '' Virtual machine does not exist !'')))))
       print_and_fall_off"

subsection \<open>The contract\<close>

datatype device_req =
    Add_Usb string string | Del_Usb string
  | Set_Audio bool bool | Switch_Audio bool
  | Add_Serial int | Del_Serial int

primrec device_op :: "device_req \<Rightarrow> string \<Rightarrow> string \<Rightarrow> ('w, bool \<times> string) io" where
  "device_op (Add_Usb c t) n d = addUSBController n c t d"
| "device_op (Del_Usb c) n d = delUSBController n c d"
| "device_op (Set_Audio i j) n d = setAudio n i j d"
| "device_op (Switch_Audio e) n d = switchAudio n e d"
| "device_op (Add_Serial k) n d = addSerialPort n k d"
| "device_op (Del_Serial k) n d = delSerialPort n k d"

text \<open>
  The calls between lock and save when the device \<open>x\<close> the operation works on is there, and
  the refusal with the calls before it when it is not.
\<close>

definition usb_kind :: "string \<Rightarrow> usb_type option" where
  "usb_kind t = (if strcmp_eq t ''XHCI'' then Some XHCI else if strcmp_eq t ''EHCI'' then Some EHCI else None)"

primrec device_calls :: "device_req \<Rightarrow> ref \<Rightarrow> ptr \<Rightarrow> event list option" where
  "device_calls (Add_Usb c t) mm x = (case (to_utf16 c, usb_kind t) of
      (Some c', Some k) \<Rightarrow> Some [ERef (AddUSBController mm c' k) (Inr x)] | _ \<Rightarrow> None)"
| "device_calls (Del_Usb c) mm x =
     map_option (\<lambda>c'. [ECmd (RemoveUSBController mm c') None]) (to_utf16 c)"
| "device_calls (Set_Audio i j) mm x = map_option
     (\<lambda>a. ERef (AudioAdapterOf mm) (Inr x)
        # puts a [AudioControllerAC97, AudioDriverALSA, AudioEnabledIn i, AudioEnabledOut j]) x"
| "device_calls (Switch_Audio e) mm x = map_option
     (\<lambda>a. ERef (AudioAdapterOf mm) (Inr x) # puts a [AudioEnabled e]) x"
| "device_calls (Add_Serial k) mm x = map_option
     (\<lambda>a. ERef (SerialPort mm (word_of_int k)) (Inr x) # puts a [SerialEnabled True]) x"
| "device_calls (Del_Serial k) mm x = map_option
     (\<lambda>a. ERef (SerialPort mm (word_of_int k)) (Inr x) # puts a [SerialEnabled False]) x"

primrec device_missing :: "device_req \<Rightarrow> ref \<Rightarrow> (string \<times> event list) option" where
  "device_missing (Add_Usb c t) mm =
     (if usb_kind t \<noteq> None then None
      else Some (if strcmp_eq t ''OHCI'' then ''usb 1.0 is default!'' else '' USB type error !'', []))"
| "device_missing (Del_Usb c) mm = None"
| "device_missing (Set_Audio i j) mm =
     Some ('' No sound card adapter  !'', [ERef (AudioAdapterOf mm) (Inr None)])"
| "device_missing (Switch_Audio e) mm =
     Some ('' No sound card adapter !'', [ERef (AudioAdapterOf mm) (Inr None)])"
| "device_missing (Add_Serial k) mm =
     Some (''No such serial port !'', [ERef (SerialPort mm (word_of_int k)) (Inr None)])"
| "device_missing (Del_Serial k) mm =
     Some (''No such serial port !'', [ERef (SerialPort mm (word_of_int k)) (Inr None)])"

text \<open>The serial operations test for five slots where their message and the hypervisor have four.\<close>

primrec device_bad :: "device_req \<Rightarrow> bool" where
  "device_bad (Add_Usb c t) = False"
| "device_bad (Del_Usb c) = False"
| "device_bad (Set_Audio i j) = False"
| "device_bad (Switch_Audio e) = False"
| "device_bad (Add_Serial k) = (k \<notin> {0..4})"
| "device_bad (Del_Serial k) = (k \<notin> {0..4})"

primrec fifth_port :: "device_req \<Rightarrow> bool" where
  "fifth_port (Add_Usb c t) = False"
| "fifth_port (Del_Usb c) = False"
| "fifth_port (Set_Audio i j) = False"
| "fifth_port (Switch_Audio e) = False"
| "fifth_port (Add_Serial k) = (k = 4)"
| "fifth_port (Del_Serial k) = (k = 4)"

definition device_returns ::
  "device_req \<Rightarrow> string \<Rightarrow> string \<Rightarrow> bool \<Rightarrow> string \<Rightarrow> event list \<Rightarrow> bool" where
  "device_returns q n d b d' tr \<longleftrightarrow>
     (if device_bad q then \<not> b \<and> d' = ''serial port: 0 ~ 3 !'' \<and> tr = []
      else \<exists>name m s y. to_utf16 n = Some name \<and>
        (if b then d' = d \<and> (\<exists>mm x calls. y = Some mm \<and> device_calls q mm x = Some calls
                \<and> tr = entered False name m 0 s y @ calls @ saved_and_left mm s m)
         else \<exists>pre. device_missing q (the y) = Some (d', pre)
                \<and> tr = entered False name m 0 s y @ pre @ left s m))"

definition device_contract ::
  "device_req \<Rightarrow> string \<Rightarrow> string \<Rightarrow> (bool \<times> string) outcome \<Rightarrow> event list \<Rightarrow> bool" where
  "device_contract q n d r tr \<longleftrightarrow>
     conforms r tr \<and> (list_all in_bounds tr \<or> fifth_port q)
     \<and> (case r of Ret (b, d') \<Rightarrow> device_returns q n d b d' tr | _ \<Rightarrow> crashed r tr)"

lemmas device_simps = device_contract_def device_returns_def usb_kind_def conforms_def session_pieces

lemma serial_word: "0 \<le> k \<Longrightarrow> k \<le> 4 \<Longrightarrow> k \<noteq> 4 \<Longrightarrow> uint (word_of_int k :: u32) \<le> 3"
  by (simp add: small_int_word)

lemma device_post: "post E (device_op q n d) (device_contract q n d)"
  by (cases q; simp only: device_op.simps addUSBController_def delUSBController_def setAudio_def
        switchAudio_def addSerialPort_def delSerialPort_def; intro post_intros)
    (auto simp: device_simps protocol_simps intro: serial_word split: option.splits)

interpretation device: tidy_operation "\<lambda>(q, n, d). device_op q n d"
  by unfold_locales (auto intro: post_mono [OF device_post] simp: device_contract_def)

interpretation device_batch: honest_operation "\<lambda>(q, n, d). device_op q n d"
  by unfold_locales (rule post_mono [OF device.tidy conforms_honest])

subsection \<open>Properties\<close>

text \<open>C22. A device operation is tidy on every path; it returns true exactly with its calls on the
  device between lock and save, and refuses a missing device or an unknown USB type with the
  session unlocked and nothing set.\<close>

theorem device_operations: "post E (device_op q n d) (device_contract q n d)"
  by (rule device_post)

text \<open>The serial operations accept slot 4: the run asks the hypervisor for a fifth port,
  outside the range 0..3 that the refusal message states.\<close>

theorem serial_slot_four:
  "ERef (SerialPort 11 4) (Inr (Some 40))
     \<in> set (trace (snd (addSerialPort ''vm'' 4 [] (host 1) world0)))
   \<and> fst (addSerialPort ''vm'' 4 [] (host 1) world0) = Ret (True, [])
   \<and> \<not> in_bounds (ERef (SerialPort 11 4) (Inr (Some 40)))"
  by (simp add: addSerialPort_def eval_simps utf16_vm)

end
