(* ===== verification/Config_Screen.thy ===== *)
theory Config_Screen
  imports Config_Display
begin

text \<open>
  The graphics and screen-recording operations of \<open>vcaVmConfigure\<close>
  (source/vca_vmConfigure.cpp): \<open>resetGraphics\<close>, \<open>setRecordingScreenConfig\<close> and
  \<open>switchRecordingScreen\<close>. The first two return true without unlocking when the session
  gives no mutable machine: they are not honest operations, and their contracts say when.
\<close>

subsection \<open>The operations\<close>

definition graphicsCtrlType :: "string list" where
  "graphicsCtrlType = [''VBoxVGA'', ''VMSVGA'', ''VBoxSVGA'']"

definition resetGraphics ::
  "string \<Rightarrow> int \<Rightarrow> int \<Rightarrow> string \<Rightarrow> bool \<Rightarrow> string \<Rightarrow> ('w, bool \<times> string) io" where
  "resetGraphics vmname ramSize monitorCount cardController enable3D callbackdata =
     try_com
       (bnd (utf16 vmname) (\<lambda>name.
        bnd (utf16 cardController) (\<lambda>cardctl.
        if \<not> (ramSize \<ge> 0 \<and> ramSize \<le> 128) then ret (False, '' ramSize : 0 ~ 128MB !'')
        else if \<not> (monitorCount \<ge> 1 \<and> monitorCount \<le> 8) then ret (False, '' monitorCount : 1 ~ 8MB !'')
        else
          bnd (find_machine name) (\<lambda>machine.
          if machine \<noteq> None then
            bnd (state machine) (\<lambda>st.
            if isin [PoweredOff] st then
              bnd new_session (\<lambda>session.
              seqs [lock_machine machine session Shared]
              (bnd (get session SessionMachine) (\<lambda>mutabmachine.
               if mutabmachine \<noteq> None then
                 seqs
                   [if enable3D then put mutabmachine (Accelerate3D True) else ret (),
                    put mutabmachine (VRAMSize (word_of_int ramSize)),
                    put mutabmachine (MonitorCount (word_of_int monitorCount)),
                    each graphicsCtrlType () (\<lambda>iter_l _.
                      if strcmp_eq cardController iter_l then
                        seqs
                          [if strcmp_eq iter_l ''VBoxSVGA''
                           then put mutabmachine (GraphicsController VBoxSVGA) else ret (),
                           if strcmp_eq iter_l ''VBoxVGA''
                           then put mutabmachine (GraphicsController VBoxVGA) else ret (),
                           if strcmp_eq iter_l ''VMSVGA''
                           then put mutabmachine (GraphicsController VMSVGA) else ret ()]
                          (ret ())
                      else ret ()),
                    put mutabmachine (Accelerate2DVideo True),
                    call mutabmachine SaveSettings, unlock_machine session, release machine]
                   (ret (True, callbackdata))
               else ret (True, callbackdata))))
            else if st = None then ret (True, callbackdata)
            else
              seqs [release machine] (ret (False, '' Virtual machine should be poweroff !'')))
          else
            seqs [release machine] (ret (False, '' Virtual machine does not exist !''))))))
       print_and_fall_off"

definition record_to :: "ptr \<Rightarrow> u16string \<Rightarrow> int \<Rightarrow> int \<Rightarrow> int \<Rightarrow> int \<Rightarrow> int \<Rightarrow> ('w, unit) io" where
  "record_to screen filepath width height fps kbps audioquality =
     seqs
       [put screen (Filename filepath),
        put screen (VideoWidth (word_of_int width)),
        put screen (VideoHeight (word_of_int height)),
        put screen (VideoFPS (word_of_int fps)),
        put screen (VideoRate (word_of_int kbps)),
        put screen VideoCodecAV1,
        if audioquality = 0 then
          seqs [put screen (AudioHz 500), put screen (AudioBits 8), put screen (AudioChannels 1)] (ret ())
        else if audioquality = 1 then
          seqs [put screen (AudioHz 800), put screen (AudioBits 16), put screen (AudioChannels 2)] (ret ())
        else if audioquality = 2 then
          seqs [put screen (AudioHz 1000), put screen (AudioBits 24), put screen (AudioChannels 2)] (ret ())
        else ret (),
        put screen AudioCodecWavPCM] (ret ())"

definition setRecordingScreenConfig ::
  "string \<Rightarrow> int \<Rightarrow> bool \<Rightarrow> string \<Rightarrow> int \<Rightarrow> int \<Rightarrow> int \<Rightarrow> int \<Rightarrow> int \<Rightarrow> string \<Rightarrow> string
     \<Rightarrow> ('w, bool \<times> string \<times> string) io" where
  "setRecordingScreenConfig vmname screenid on basepath width height fps kbps audioquality
      videostoragepath callbackdata =
     try_com
       (bnd (utf16 vmname) (\<lambda>name.
        bnd (if basepath \<noteq> [] then utf16 basepath else utf16 ''/var/lib/vcloud/video'') (\<lambda>vediopath.
        if \<not> (screenid \<ge> 0 \<and> screenid \<le> 7) then ret (False, videostoragepath, ''screenid : 0 ~ 7!'')
        else if \<not> (width \<ge> 320 \<and> width \<le> 2880)
          then ret (False, videostoragepath, ''width : 320 ~ 2880!'')
        else if \<not> (height \<ge> 200 \<and> height \<le> 1800)
          then ret (False, videostoragepath, ''height : 200 ~ 1800!'')
        else if \<not> (fps \<ge> 1 \<and> fps \<le> 30) then ret (False, videostoragepath, ''fps : 1 ~ 30!'')
        else if \<not> (kbps \<ge> 102 \<and> kbps \<le> 1024)
          then ret (False, videostoragepath, ''kbps : 102 ~ 1024!'')
        else if \<not> (audioquality \<ge> 0 \<and> audioquality \<le> 2)
          then ret (False, videostoragepath, ''audioquality : 0 ~ 2!'')
        else
          bnd (find_machine name) (\<lambda>machine.
          if machine \<noteq> None then
            bnd (state machine) (\<lambda>st.
            if isin [PoweredOff] st then
              bnd ask_time (\<lambda>nowtime.
              bnd new_session (\<lambda>session.
              seqs [lock_machine machine session Shared]
              (bnd (get session SessionMachine) (\<lambda>mutabmachine.
               if mutabmachine \<noteq> None then
                 bnd (get mutabmachine RecordingSettingsOf) (\<lambda>record.
                 bnd (get record (\<lambda>r. ScreenSettings r (word_of_int screenid))) (\<lambda>screen.
                 seqs
                   [if on then
                      seqs [put record (RecordingEnabled True), put screen (ScreenEnabled True)] (ret ())
                    else ret (),
                    put screen DestinationFile]
                 (bnd (utf16 (to_string nowtime)) (\<lambda>now.
                  let filepath = vediopath @ u16 ''/'' @ name @ u16 ''-'' @ now @ u16 ''.webm'' in
                  bnd (utf8 filepath) (\<lambda>videostoragepath.
                  seqs
                    [record_to screen filepath width height fps kbps audioquality,
                     call mutabmachine SaveSettings, unlock_machine session, release machine]
                    (ret (True, videostoragepath, callbackdata)))))))
               else ret (True, videostoragepath, callbackdata)))))
            else if st = None then ret (True, videostoragepath, callbackdata)
            else
              seqs [release machine]
                (ret (False, videostoragepath, '' Virtual machine shoud be poweroff!'')))
          else
            seqs [release machine]
              (ret (False, videostoragepath, '' Virtual machine does not exist !''))))))
       print_and_fall_off"

definition switchRecordingScreen :: "string \<Rightarrow> int \<Rightarrow> bool \<Rightarrow> string \<Rightarrow> ('w, bool \<times> string) io" where
  "switchRecordingScreen vmname screenid on callbackdata =
     try_com
       (bnd (utf16 vmname) (\<lambda>name.
        if \<not> (screenid \<ge> 0 \<and> screenid \<le> 7) then ret (False, ''screenid : 0 ~ 7!'')
        else
          bnd (find_machine name) (\<lambda>machine.
          if machine \<noteq> None then
            bnd (state machine) (\<lambda>st.
            if isin [Running, PoweredOff, Starting, Stopping, Saving, Restoring, Saved, Snapshotting] st then
              bnd new_session (\<lambda>session.
              seqs [lock_machine machine session Shared]
              (bnd (get session SessionMachine) (\<lambda>mutabmachine.
               if mutabmachine \<noteq> None then
                 bnd (get mutabmachine RecordingSettingsOf) (\<lambda>record.
                 bnd (get record (\<lambda>r. ScreenSettings r (word_of_int screenid))) (\<lambda>screen.
                 seqs
                   [put record (RecordingEnabled on),
                    call mutabmachine SaveSettings, unlock_machine session, release machine]
                   (ret (True, callbackdata))))
               else
                 seqs [release machine] (ret (False, '' Failed to get mutable machine object !'')))))
            else if st = None then ret (True, callbackdata)
            else
              seqs [release machine]
                (ret (False, '' Virtual machine should running or starting or poweroff or saved !'')))
          else
            seqs [release machine] (ret (False, '' Virtual machine does not exist !'')))))
       print_and_fall_off"

subsection \<open>Contracts\<close>

text \<open>Graphics: the settings on the machine, by the arguments.\<close>

definition card_settings :: "string \<Rightarrow> setting list" where
  "card_settings ctl =
     (if strcmp_eq ctl ''VBoxVGA'' then [GraphicsController VBoxVGA]
      else if strcmp_eq ctl ''VMSVGA'' then [GraphicsController VMSVGA]
      else if strcmp_eq ctl ''VBoxSVGA'' then [GraphicsController VBoxSVGA] else [])"

definition graphics_settings :: "int \<Rightarrow> int \<Rightarrow> string \<Rightarrow> bool \<Rightarrow> setting list" where
  "graphics_settings ram monitors ctl enable3D =
     (if enable3D then [Accelerate3D True] else [])
     @ [VRAMSize (word_of_int ram), MonitorCount (word_of_int monitors)]
     @ card_settings ctl @ [Accelerate2DVideo True]"

definition graphics_returns ::
  "string \<Rightarrow> int \<Rightarrow> int \<Rightarrow> string \<Rightarrow> bool \<Rightarrow> string \<Rightarrow> bool \<Rightarrow> string \<Rightarrow> event list \<Rightarrow> bool" where
  "graphics_returns n ram monitors ctl e3 d b d' tr \<longleftrightarrow>
     (if ram \<notin> {0..128} then \<not> b \<and> d' = '' ramSize : 0 ~ 128MB !'' \<and> tr = []
      else if monitors \<notin> {1..8} then \<not> b \<and> d' = '' monitorCount : 1 ~ 8MB !'' \<and> tr = []
      else \<exists>name m i s x. to_utf16 n = Some name \<and>
        (if state_of i = None then b \<and> d' = d \<and> tr = looked_at name m i
         else if state_of i \<noteq> Some PoweredOff
         then \<not> b \<and> d' = '' Virtual machine should be poweroff !'' \<and> tr = looked_at name m i @ [ERelease m]
         else b \<and> d' = d \<and> tr = entered True name m i s x
           @ (case x of None \<Rightarrow> []
              | Some mm \<Rightarrow> puts mm (graphics_settings ram monitors ctl e3) @ saved_and_left mm s m)
           \<and> (case x of None \<Rightarrow> held tr = [s] | Some mm \<Rightarrow> held tr = [])))"

definition graphics_contract ::
  "string \<Rightarrow> int \<Rightarrow> int \<Rightarrow> string \<Rightarrow> bool \<Rightarrow> string \<Rightarrow> (bool \<times> string) outcome \<Rightarrow> event list \<Rightarrow> bool" where
  "graphics_contract n ram monitors ctl e3 d =
     sound_run (isin [PoweredOff]) False (\<lambda>(b, d') tr. graphics_returns n ram monitors ctl e3 d b d' tr)"

lemma card_names [simp]:
  "strcmp_eq ''VBoxVGA'' ''VBoxVGA''" "strcmp_eq ''VMSVGA'' ''VMSVGA''"
  "strcmp_eq ''VBoxSVGA'' ''VBoxSVGA''"
  "\<not> strcmp_eq ''VBoxVGA'' ''VMSVGA''" "\<not> strcmp_eq ''VBoxVGA'' ''VBoxSVGA''"
  "\<not> strcmp_eq ''VMSVGA'' ''VBoxVGA''" "\<not> strcmp_eq ''VMSVGA'' ''VBoxSVGA''"
  "\<not> strcmp_eq ''VBoxSVGA'' ''VBoxVGA''" "\<not> strcmp_eq ''VBoxSVGA'' ''VMSVGA''"
  by (simp_all add: strcmp_eq_def c_str_def)

text \<open>The loop over the controller names makes at most one of its settings.\<close>

lemma card_loop:
  "each graphicsCtrlType () (\<lambda>iter_l _.
     if strcmp_eq ctl iter_l then
       seqs [if strcmp_eq iter_l ''VBoxSVGA'' then put mm (GraphicsController VBoxSVGA) else ret (),
             if strcmp_eq iter_l ''VBoxVGA'' then put mm (GraphicsController VBoxVGA) else ret (),
             if strcmp_eq iter_l ''VMSVGA'' then put mm (GraphicsController VMSVGA) else ret ()] (ret ())
     else ret ())
   = seqs (map (put mm) (card_settings ctl)) (ret ())"
proof -
  have "strcmp_eq ctl a \<Longrightarrow> strcmp_eq ctl b \<Longrightarrow> strcmp_eq a b" for a b
    by (simp add: strcmp_eq_def)
  then have one:
    "\<not> (strcmp_eq ctl ''VBoxVGA'' \<and> strcmp_eq ctl ''VMSVGA'')"
    "\<not> (strcmp_eq ctl ''VBoxVGA'' \<and> strcmp_eq ctl ''VBoxSVGA'')"
    "\<not> (strcmp_eq ctl ''VMSVGA'' \<and> strcmp_eq ctl ''VBoxSVGA'')"
    by (meson card_names)+
  have unit: "bnd m (\<lambda>x. ret ()) = m" for m :: "('w, unit) io"
    using bnd_ret_right [of m] by (simp add: eta_contract_eq)
  show ?thesis
    using one by (auto simp: graphicsCtrlType_def card_settings_def unit)
qed

lemmas graphics_simps = sound_run_def sound_trace_def graphics_returns_def graphics_settings_def
  disciplined_def held_def session_pieces protocol_simps small_int_word isin_def

lemma graphics_post:
  "post E (resetGraphics n ram monitors ctl e3 d) (graphics_contract n ram monitors ctl e3 d)"
proof -
  have "card_settings ctl = [] \<or> (\<exists>k. card_settings ctl = [GraphicsController k])"
    by (simp add: card_settings_def)
  then show ?thesis
  proof (elim disjE exE)
    assume none: "card_settings ctl = []"
    show ?thesis
      unfolding resetGraphics_def graphics_contract_def card_loop none list.map
      by (rule post_try_report, intro post_intros) (auto simp: none graphics_simps split: option.splits)
  next
    fix k
    assume one: "card_settings ctl = [GraphicsController k]"
    show ?thesis
      unfolding resetGraphics_def graphics_contract_def card_loop one list.map
      by (rule post_try_report, intro post_intros) (auto simp: one graphics_simps split: option.splits)
  qed
qed

text \<open>Recording: the arguments are checked in order before any call.\<close>

definition recording_bad :: "int \<Rightarrow> int \<Rightarrow> int \<Rightarrow> int \<Rightarrow> int \<Rightarrow> int \<Rightarrow> string option" where
  "recording_bad screen width height fps kbps quality =
     (if screen \<notin> {0..7} then Some ''screenid : 0 ~ 7!''
      else if width \<notin> {320..2880} then Some ''width : 320 ~ 2880!''
      else if height \<notin> {200..1800} then Some ''height : 200 ~ 1800!''
      else if fps \<notin> {1..30} then Some ''fps : 1 ~ 30!''
      else if kbps \<notin> {102..1024} then Some ''kbps : 102 ~ 1024!''
      else if quality \<notin> {0..2} then Some ''audioquality : 0 ~ 2!'' else None)"

definition audio_settings :: "int \<Rightarrow> setting list" where
  "audio_settings quality =
     (if quality = 0 then [AudioHz 500, AudioBits 8, AudioChannels 1]
      else if quality = 1 then [AudioHz 800, AudioBits 16, AudioChannels 2]
      else [AudioHz 1000, AudioBits 24, AudioChannels 2])"

definition screen_settings :: "u16string \<Rightarrow> int \<Rightarrow> int \<Rightarrow> int \<Rightarrow> int \<Rightarrow> int \<Rightarrow> setting list" where
  "screen_settings path width height fps kbps quality =
     [Filename path, VideoWidth (word_of_int width), VideoHeight (word_of_int height),
      VideoFPS (word_of_int fps), VideoRate (word_of_int kbps), VideoCodecAV1]
     @ audio_settings quality @ [AudioCodecWavPCM]"

definition video_file :: "string \<Rightarrow> string \<Rightarrow> int \<Rightarrow> string" where
  "video_file base n t =
     (if base \<noteq> [] then base else ''/var/lib/vcloud/video'') @ ''/'' @ n @ ''-'' @ to_string t @ ''.webm''"

definition video_file16 :: "string \<Rightarrow> u16string \<Rightarrow> int \<Rightarrow> u16string" where
  "video_file16 base name t =
     (if base \<noteq> [] then the (to_utf16 base) else u16 ''/var/lib/vcloud/video'')
     @ u16 ''/'' @ name @ u16 ''-'' @ u16 (to_string t) @ u16 ''.webm''"

definition recording_calls ::
  "int \<Rightarrow> bool \<Rightarrow> int \<Rightarrow> int \<Rightarrow> int \<Rightarrow> int \<Rightarrow> int \<Rightarrow> u16string \<Rightarrow> ref \<Rightarrow> ref \<Rightarrow> ref \<Rightarrow> event list" where
  "recording_calls screen on width height fps kbps quality path mm rec x =
     [ERef (RecordingSettingsOf mm) (Inr (Some rec)),
      ERef (ScreenSettings rec (word_of_int screen)) (Inr (Some x))]
     @ (if on then puts rec [RecordingEnabled True] @ puts x [ScreenEnabled True] else [])
     @ puts x [DestinationFile]
     @ puts x (screen_settings path width height fps kbps quality)"

definition recording_returns ::
  "string \<Rightarrow> int \<Rightarrow> bool \<Rightarrow> string \<Rightarrow> int \<Rightarrow> int \<Rightarrow> int \<Rightarrow> int \<Rightarrow> int \<Rightarrow> string \<Rightarrow> string
     \<Rightarrow> bool \<Rightarrow> string \<Rightarrow> string \<Rightarrow> event list \<Rightarrow> bool" where
  "recording_returns n screen on base width height fps kbps quality p d b p' d' tr \<longleftrightarrow>
     (if recording_bad screen width height fps kbps quality \<noteq> None
      then \<not> b \<and> p' = p \<and> Some d' = recording_bad screen width height fps kbps quality \<and> tr = []
      else \<exists>name m i t s mm rec y got. to_utf16 n = Some name \<and>
        got = looked_at name m i @ [ETime t, ERef NewSession (Inr (Some s)),
                ECmd (LockMachine m (Some s) Shared) None] \<and>
        (state_of i = None \<and> b \<and> p' = p \<and> d' = d \<and> tr = looked_at name m i
         \<or> state_of i \<notin> {None, Some PoweredOff} \<and> \<not> b \<and> p' = p
           \<and> d' = '' Virtual machine shoud be poweroff!'' \<and> tr = looked_at name m i @ [ERelease m]
         \<or> state_of i = Some PoweredOff \<and> b \<and> p' = p \<and> d' = d
           \<and> tr = got @ [ERef (SessionMachine s) (Inr None)] \<and> held tr = [s]
         \<or> state_of i = Some PoweredOff \<and> b \<and> p' = video_file base n t \<and> d' = d
           \<and> to_utf8 (video_file16 base name t) = Some p' \<and> held tr = []
           \<and> tr = got @ ERef (SessionMachine s) (Inr (Some mm))
                   # recording_calls screen on width height fps kbps quality (video_file16 base name t) mm rec y
                   @ saved_and_left mm s m))"

definition recording_contract ::
  "string \<Rightarrow> int \<Rightarrow> bool \<Rightarrow> string \<Rightarrow> int \<Rightarrow> int \<Rightarrow> int \<Rightarrow> int \<Rightarrow> int \<Rightarrow> string \<Rightarrow> string
     \<Rightarrow> (bool \<times> string \<times> string) outcome \<Rightarrow> event list \<Rightarrow> bool" where
  "recording_contract n screen on base width height fps kbps quality p d =
     sound_run (isin [PoweredOff]) False (\<lambda>(b, p', d') tr. recording_returns n screen on base width height fps kbps quality p d b p' d' tr)"

text \<open>The file name is put together in UTF-16 and reported in UTF-8.\<close>

lemma u16_ascii:
  "list_all (\<lambda>c. (of_char c :: nat) < 128) s \<Longrightarrow> to_utf8 u = Some t \<Longrightarrow> to_utf8 (u16 s @ u) = Some (s @ t)"
  by (rule to_utf8_append [OF to_utf8_ascii])

lemma video_path:
  assumes "to_utf16 n = Some name" and "to_utf8 v = Some base'"
  shows "to_utf8 (v @ u16 ''/'' @ name @ u16 ''-'' @ u16 (to_string t) @ u16 ''.webm'')
           = Some (base' @ ''/'' @ n @ ''-'' @ to_string t @ ''.webm'')"
proof -
  have ext: "to_utf8 (u16 ''.webm'') = Some ''.webm''" by (rule to_utf8_ascii) simp
  have num: "list_all (\<lambda>c. (of_char c :: nat) < 128) (to_string t)"
    by (simp add: to_string_def dec_ascii)
  show ?thesis
    by (intro to_utf8_append assms(2) u16_ascii utf16_roundtrip assms(1) num ext) simp_all
qed

lemma default_path: "to_utf16 ''/var/lib/vcloud/video'' = Some (u16 ''/var/lib/vcloud/video'')"
  by (rule to_utf16_ascii) simp

lemma default_path': "to_utf8 (u16 ''/var/lib/vcloud/video'') = Some ''/var/lib/vcloud/video''"
  by (rule to_utf8_ascii) simp

lemma record_to_settings:
  "0 \<le> quality \<Longrightarrow> quality \<le> 2 \<Longrightarrow> record_to x path width height fps kbps quality
     = put_all x (screen_settings path width height fps kbps quality)"
  by (cases "quality = 0 \<or> quality = 1")
    (auto simp: record_to_def put_all_def screen_settings_def audio_settings_def bnd_assoc)

lemma post_record_to [post_intros]:
  assumes "x = None \<Longrightarrow> Q (Undef Null_deref) []"
    and "\<And>r xs. x = Some r \<Longrightarrow> xs = screen_settings path width height fps kbps quality \<Longrightarrow>
        Q (Ret ()) (puts r xs)"
    and "\<And>r ys y e. x = Some r \<Longrightarrow> list_all setting_bounds (y # ys) \<Longrightarrow>
        Q (Throw (COMError e)) (puts r ys @ [ECmd (Put r y) (Some e)])"
    and "0 \<le> quality" "quality \<le> 2" "320 \<le> width" "width \<le> 2880" "200 \<le> height" "height \<le> 1800"
      "1 \<le> fps" "fps \<le> 30" "102 \<le> kbps" "kbps \<le> 1024"
  shows "post E (record_to x path width height fps kbps quality) Q"
proof -
  let ?xs = "screen_settings path width height fps kbps quality"
  have ok: "list_all setting_bounds ?xs"
    using assms(4-) by (simp add: screen_settings_def audio_settings_def small_int_word)
  have "list_all setting_bounds (y # ys)" if "y \<in> set ?xs" "set ys \<subseteq> set ?xs" for y ys
    using ok that by (auto simp: list_all_iff)
  then have "post E (put_all (Some r) ?xs) Q" if "x = Some r" for r
    using that by (intro post_put_all assms(2,3)) simp_all
  moreover have "?xs \<noteq> []" by (simp add: screen_settings_def)
  ultimately show ?thesis
    unfolding record_to_settings [OF assms(4,5)]
    by (cases x) (simp_all add: post_put_all_null assms(1))
qed

lemma screen_settings_facts:
  assumes "0 \<le> quality" "quality \<le> 2" "320 \<le> width" "width \<le> 2880" "200 \<le> height" "height \<le> 1800"
      "1 \<le> fps" "fps \<le> 30" "102 \<le> kbps" "kbps \<le> 1024"
  shows "list_all setting_bounds (screen_settings path width height fps kbps quality)"
    and "screen_settings path width height fps kbps quality \<noteq> []"
  using assms by (simp_all add: screen_settings_def audio_settings_def small_int_word)

lemma puts_single: "puts r [x] = [ECmd (Put r x) None]"
  by (simp add: puts_def)

lemmas recording_simps = sound_run_def sound_trace_def recording_returns_def recording_bad_def
  recording_calls_def disciplined_def held_def entered_def left_def
  saved_and_left_def looked_at_def protocol_simps run_puts guarded_puts puts_in_bounds screen_settings_facts
  small_int_word isin_def to_utf16_number video_path video_file_def utf16_roundtrip
  default_path default_path' video_file16_def puts_single

lemma recording_post:
  "post E (setRecordingScreenConfig n screen on base width height fps kbps quality p d)
     (recording_contract n screen on base width height fps kbps quality p d)"
  unfolding setRecordingScreenConfig_def Let_def recording_contract_def
  by (rule post_try_report, intro post_intros)
    (auto simp: recording_simps split: option.splits)

text \<open>Switching the recording of a machine on or off.\<close>

definition recordable :: "machine_state option \<Rightarrow> bool" where
  "recordable = isin [Running, PoweredOff, Starting, Stopping, Saving, Restoring, Saved, Snapshotting]"

definition switch_returns ::
  "string \<Rightarrow> int \<Rightarrow> bool \<Rightarrow> string \<Rightarrow> bool \<Rightarrow> string \<Rightarrow> event list \<Rightarrow> bool" where
  "switch_returns n screen on d b d' tr \<longleftrightarrow>
     (if screen \<notin> {0..7} then \<not> b \<and> d' = ''screenid : 0 ~ 7!'' \<and> tr = []
      else \<exists>name m i s mm rec y. to_utf16 n = Some name \<and>
        (state_of i = None \<and> b \<and> d' = d \<and> tr = looked_at name m i
         \<or> state_of i \<noteq> None \<and> \<not> recordable (state_of i) \<and> \<not> b
           \<and> d' = '' Virtual machine should running or starting or poweroff or saved !''
           \<and> tr = looked_at name m i @ [ERelease m]
         \<or> recordable (state_of i) \<and> \<not> b \<and> d' = '' Failed to get mutable machine object !''
           \<and> tr = entered True name m i s None @ [ERelease m] \<and> held tr = [s]
         \<or> recordable (state_of i) \<and> b \<and> d' = d \<and> run tr start = Some start
           \<and> tr = entered True name m i s (Some mm)
               @ [ERef (RecordingSettingsOf mm) (Inr (Some rec)),
                  ERef (ScreenSettings rec (word_of_int screen)) (Inr y)]
               @ puts rec [RecordingEnabled on] @ saved_and_left mm s m))"

definition switch_contract ::
  "string \<Rightarrow> int \<Rightarrow> bool \<Rightarrow> string \<Rightarrow> (bool \<times> string) outcome \<Rightarrow> event list \<Rightarrow> bool" where
  "switch_contract n screen on d r tr \<longleftrightarrow> honest_end r tr
     \<and> sound_run recordable False (\<lambda>(b, d') tr. switch_returns n screen on d b d' tr) r tr"

lemma switch_sound:
  "post E (switchRecordingScreen n screen on d)
     (sound_run recordable False (\<lambda>(b, d') tr. switch_returns n screen on d b d' tr))"
  unfolding switchRecordingScreen_def
  by (rule post_try_report, intro post_intros)
    (auto simp: sound_run_def sound_trace_def switch_returns_def recordable_def disciplined_def held_def
      session_pieces protocol_simps small_int_word isin_def split: option.splits)

lemma switch_post: "post E (switchRecordingScreen n screen on d) (switch_contract n screen on d)"
proof (rule post_mono [OF switch_sound])
  fix r tr
  let ?R = "\<lambda>(b, d') tr. switch_returns n screen on d b d' tr"
  assume s: "sound_run recordable False ?R r tr"
  have "run tr start = Some start" if "r = Ret (True, a)" for a
    using s that
    by (auto simp: sound_run_def switch_returns_def looked_at_def inherit_def split: if_splits)
  with s show "switch_contract n screen on d r tr"
    by (auto simp: switch_contract_def honest_end_def sound_run_def sound_trace_def)
qed

interpretation screen_switch: honest_operation "\<lambda>(n, k, on, d). switchRecordingScreen n k on d"
  by unfold_locales (auto intro: post_mono [OF switch_post] simp: switch_contract_def)

subsection \<open>Properties\<close>

text \<open>C32. \<open>resetGraphics\<close> refuses a video memory above 128 MB and a monitor count outside 1..8
  before any call, changes a powered-off machine only and passes no number out of range. When
  it got the mutable machine, it made exactly the settings of its arguments, at most one of
  them a controller type, and saved and unlocked; without one it returns true and leaves the
  session locked.\<close>

theorem reset_graphics:
  "post E (resetGraphics n ram monitors ctl e3 d) (graphics_contract n ram monitors ctl e3 d)"
  by (rule graphics_post)

text \<open>C25. \<open>setRecordingScreenConfig\<close> refuses each argument out of its range before any call and
  changes a powered-off machine only. When it got the mutable machine, it configured the one
  screen it was asked to, with the audio settings of the quality, saved and unlocked, and
  reports the file name it set: directory, machine name and time. Without a mutable machine
  it returns true and leaves the session locked.\<close>

theorem recording_config:
  "post E (setRecordingScreenConfig n screen on base width height fps kbps quality p d)
     (recording_contract n screen on base width height fps kbps quality p d)"
  by (rule recording_post)

text \<open>\<open>switchRecordingScreen\<close> is honest: a run that returns true set the switch of a machine in
  a recordable state, saved and unlocked. Its refusal for a missing mutable machine keeps the
  session locked.\<close>

theorem switch_recording:
  "post E (switchRecordingScreen n screen on d) (switch_contract n screen on d)"
  by (rule switch_post)

end
