(* ===== verification/Controller.thy ===== *)
theory Controller
  imports Core_Power Core_Snapshot Core_Clone Core_Info Core_Disk Core_Install Core_Appliance Config_Network Config_Machine Config_Devices Config_Display Config_Screen
begin

text \<open>
  The request handlers of \<open>vca_controller\<close> (protocol/vca_controller.cpp) that work on the
  hypervisor, and \<open>Test\<close>. A handler builds a new \<open>QiVCA\<close> or \<open>vcaVmConfigure\<close> (which is never
  deleted), selects the operation by the request's method id (protocol/vca_enummethod.h) and
  fills the reply; its status is always OK, so the reply is the result. A request is the
  record of its message's fields (protocol/qigrpc.proto).
\<close>

subsection \<open>Messages\<close>

record vcaReply =
  rep_vcamethod :: string
  rep_data :: string
  rep_code :: int

record requestSimple = simple_vcamethod :: int simple_vmname :: string

record requestSnapshot =
  snap_vcamethod :: int snap_vmname :: string snap_snapshotname :: string

record requestClone =
  clone_vcamethod :: int clone_vmname :: string clone_targetvmname :: string
  clone_basefolder :: string clone_keepmacs :: bool clone_keephwuuids :: bool
  clone_keepdiskname :: bool

record requestInstall =
  inst_vcamethod :: int inst_vmname :: string inst_ostypeid :: string inst_cpucount :: int
  inst_memorysize :: int inst_basefolder :: string inst_sourcepath :: string
  inst_storagebustype :: string inst_logicdisksize :: int inst_diskformat :: string inst_fix :: bool

record requestImpAndexportVM =
  imp_vcamethod :: int imp_vmname :: string imp_ovapath :: string imp_exportpath :: string
  imp_keepmac :: bool imp_ostypeid :: string imp_cpucount :: int imp_memory :: int
  imp_netup :: bool imp_basefolder :: string imp_ovsfiletype :: string

record requestNetwork =
  net_vcamethod :: int net_vmname :: string net_slot :: int net_hostpciname :: string
  net_mac :: string

record requestRdp =
  rdp_vcamethod :: int rdp_vmname :: string rdp_listenaddress :: string rdp_listenport :: int
  rdp_allowmulticonnect :: bool rdp_reusesingleconnect :: bool

record requestRecord =
  rec_vcamethod :: int rec_vmname :: string rec_on :: bool rec_screenid :: int
  rec_basefolder :: string rec_width :: int rec_height :: int rec_fps :: int rec_kbps :: int

record requestSharefolder =
  share_vcamethod :: int share_vmname :: string share_sharefoldername :: string
  share_serverpath :: string share_writeable :: bool share_internalpath :: string

record requestConfig =
  conf_vcamethod :: int conf_vmname :: string conf_cpucount :: int conf_memorysize :: int
  conf_ramsize :: int conf_monitorcount :: int conf_enable3d :: bool

record requestUSB =
  usb_vcamethod :: int usb_vmname :: string usb_usbname :: string usb_usbtype :: string

record requestAudio =
  audio_vcamethod :: int audio_vmname :: string audio_audioswitch :: bool audio_audioin :: bool
  audio_audioout :: bool

record requestSerial = serial_vcamethod :: int serial_vmname :: string serial_slot :: int

record requestVmExtends =
  ext_vcamethod :: int ext_vmname :: string ext_diskname :: string ext_diskuuid :: string
  ext_diskformattype :: string ext_basefolder :: string ext_size :: int
  ext_storagecontroller :: string ext_slot :: int

text \<open>
  \<open>set_vcamethod\<close>, \<open>set_data\<close> and \<open>set_code(ret)\<close> on a fresh reply; a handler that recognises
  no method leaves the reply blank or says \<open>null\<close>.
\<close>

definition reply :: "string \<Rightarrow> bool \<Rightarrow> string \<Rightarrow> vcaReply" where
  "reply name b d = \<lparr>rep_vcamethod = name, rep_data = d, rep_code = of_bool b\<rparr>"

definition blank :: vcaReply where
  "blank = \<lparr>rep_vcamethod = [], rep_data = [], rep_code = 0\<rparr>"

definition null_reply :: vcaReply where
  "null_reply = \<lparr>rep_vcamethod = ''null'', rep_data = ''null'', rep_code = 0\<rparr>"

text \<open>The method ids of protocol/vca_enummethod.h.\<close>

definition vca_enummethod :: "(string \<times> int) list" where
  "vca_enummethod =
    [(''startUp'', 0), (''shutDown'', 1), (''powerOff'', 2), (''pauses'', 3), (''resume'', 4),
     (''vmSleep'', 5), (''restart'', 6), (''getVmInfo'', 7), (''listVMs'', 8), (''deleteVM'', 9),
     (''getVmSnapshotInfo'', 10), (''takeSnapshot'', 11), (''restoreSnapshot'', 12),
     (''deleteSnapshot'', 13), (''cloneFullVM'', 14), (''cloneLinkVM'', 15), (''exportVM'', 16),
     (''importVM'', 17), (''createVMfromSystemdisk'', 18), (''createVMfromISO'', 19),
     (''setBridge'', 20), (''addBridge'', 21), (''setNat'', 22), (''addNat'', 23),
     (''setAdaptorMAC'', 24), (''disableAdaptor'', 25), (''setSimpleRemoteDisplay'', 26),
     (''getRdpInfo'', 27), (''disableRDP'', 28), (''setRecordingScreenConfig'', 29),
     (''switchRecordingScreen'', 30), (''createSharefolder'', 31), (''removeSharedFolder'', 32),
     (''resetCpuCount'', 33), (''resetMemSize'', 34), (''resetGraphics'', 35),
     (''addUSBController'', 36), (''delUSBController'', 37), (''setAudio'', 38),
     (''switchAudio'', 39), (''addSerialPort'', 40), (''delSerialPort'', 41),
     (''startTracker'', 42), (''stopTracker'', 43), (''produceSeed'', 44), (''startShare'', 45),
     (''downloadFile'', 46), (''stopShare'', 47), (''makeFloatDisk'', 101), (''addDiskToVm'', 102),
     (''detachDiskFromVm'', 103), (''destroyFloatDiskWithoutAttach'', 104)]"

definition id_of :: "string \<Rightarrow> int" where
  "id_of name = the (map_of vca_enummethod name)"

subsection \<open>Test\<close>

text \<open>
  \<open>getProcessPidByName\<close> runs \<open>pidof\<close> through \<open>popen\<close>, which is a parameter: it fails, prints
  nothing, or prints a line. \<open>fgets\<close> is told the buffer has 255 bytes; it has 100. \<open>None\<close> is
  undefined behaviour (an overrun, or \<open>pclose\<close> of a null pointer).
\<close>

datatype pidof = Popen_failed | No_output | Line string

definition digit :: "char \<Rightarrow> bool" where
  "digit c \<longleftrightarrow> c \<in> set ''0123456789''"

definition atoi :: "string \<Rightarrow> int" where
  "atoi s = (let t = dropWhile (\<lambda>c. c \<in> {CHR '' '', CHR 0x09, CHR 0x0A, CHR 0x0B, CHR 0x0C, CHR 0x0D}) s in
     case t of [] \<Rightarrow> 0
     | c # r \<Rightarrow> if c = CHR ''-'' then - int (undec (takeWhile digit r) 0)
               else int (undec (takeWhile digit (if c = CHR ''+'' then r else t)) 0))"

definition getProcessPidByName :: "pidof \<Rightarrow> int option" where
  "getProcessPidByName p = (case p of
      Popen_failed \<Rightarrow> None
    | No_output \<Rightarrow> Some (- 1)
    | Line buf \<Rightarrow> if length buf \<ge> 100 then None else Some (atoi buf))"

definition Test :: "pidof \<Rightarrow> pidof \<Rightarrow> vcaReply option" where
  "Test xpcom svc = Option.bind (getProcessPidByName xpcom) (\<lambda>xpcom_process_pid.
     Option.bind (getProcessPidByName svc) (\<lambda>svc_process_pid.
     Some (reply ''Test'' (xpcom_process_pid \<noteq> 0 \<and> svc_process_pid \<noteq> 0)
       ''VirtualizationCoreAPI Version 1.0.0'')))"

subsection \<open>Handlers on \<open>QiVCA\<close>\<close>

definition VmCommon :: "requestSimple \<Rightarrow> ('w, vcaReply) io" where
  "VmCommon request =
     (let method_id = simple_vcamethod request; vmname = simple_vmname request in
      bnd QiVCA (\<lambda>machines.
      if method_id = id_of ''startUp'' then
        bnd (startUp vmname ''headless'' None []) (\<lambda>(data, message). case data of
            None \<Rightarrow> undef Uninit_read
          | Some k \<Rightarrow> ret (if k = 1 then reply ''startUp'' True [] else reply ''startUp'' False message))
      else if method_id = id_of ''shutDown'' then
        bnd (shutDown vmname []) (\<lambda>(r, data). ret (reply ''shutDown'' r data))
      else if method_id = id_of ''powerOff'' then
        bnd (powerOff vmname []) (\<lambda>(r, data). ret (reply ''powerOff'' r data))
      else if method_id = id_of ''pauses'' then
        bnd (pause vmname []) (\<lambda>(r, data). ret (reply ''pause'' r data))
      else if method_id = id_of ''resume'' then
        bnd (resume vmname []) (\<lambda>(r, data). ret (reply ''resume'' r data))
      else if method_id = id_of ''vmSleep'' then
        bnd (vmSleep vmname []) (\<lambda>(r, data). ret (reply ''vmSleep'' r data))
      else if method_id = id_of ''restart'' then
        bnd (restart vmname []) (\<lambda>(r, data). ret (reply ''restart'' r data))
      else if method_id = id_of ''getVmInfo'' then
        bnd (getVmInfo vmname [] []) (\<lambda>(r, vminfo, data).
        ret (reply ''getVmInfo'' r (if r then vminfo else data)))
      else if method_id = id_of ''listVMs'' then
        bnd (listVMs machines [] []) (\<lambda>(r, vmlist, data).
        ret (reply ''listVMs'' r (if r then vmlist else data)))
      else if method_id = id_of ''deleteVM'' then
        bnd (deleteVM vmname 4 []) (\<lambda>(r, data). ret (reply ''deleteVM'' r data))
      else ret null_reply))"

definition VmInstall :: "requestInstall \<Rightarrow> ('w, vcaReply) io" where
  "VmInstall request =
     (let method_id = inst_vcamethod request in
      bnd QiVCA (\<lambda>_.
      if method_id = id_of ''createVMfromISO'' then
        bnd (createVMfromISO (inst_vmname request) (inst_ostypeid request) (inst_cpucount request)
               (inst_memorysize request) (inst_basefolder request) (inst_logicdisksize request)
               (inst_sourcepath request) (inst_diskformat request) (inst_storagebustype request)
               (inst_fix request) [] []) (\<lambda>(r, vmuuid, callbackdata).
        ret (reply ''createVMfromISO'' r (if r then vmuuid else callbackdata)))
      else if method_id = id_of ''createVMfromSystemdisk'' then
        bnd (createVMfromSystemdisk (inst_vmname request) (inst_ostypeid request)
               (inst_cpucount request) (inst_memorysize request) (inst_basefolder request)
               (inst_sourcepath request) (inst_storagebustype request) []) (\<lambda>(r, callbackdata).
        ret (reply ''createVMfromSystemdisk'' r callbackdata))
      else ret null_reply))"

definition VmOperateSnapshot :: "requestSnapshot \<Rightarrow> ('w, vcaReply) io" where
  "VmOperateSnapshot request =
     (let method_id = snap_vcamethod request; vmname = snap_vmname request;
          snapshotname = snap_snapshotname request in
      bnd QiVCA (\<lambda>_.
      if method_id = id_of ''getVmSnapshotInfo'' then
        bnd (getVmSnapshotInfo vmname [] []) (\<lambda>(r, snapinfo, callback).
        ret (reply ''getVmSnapshotInfo'' r (if r then snapinfo else callback)))
      else if method_id = id_of ''takeSnapshot'' then
        bnd (takeSnapshot vmname snapshotname []) (\<lambda>(r, callback). ret (reply ''takeSnapshot'' r callback))
      else if method_id = id_of ''restoreSnapshot'' then
        bnd (restoreSnapshot vmname snapshotname [])
          (\<lambda>(r, callback). ret (reply ''restoreSnapshot'' r callback))
      else if method_id = id_of ''deleteSnapshot'' then
        bnd (deleteSnapshot vmname snapshotname [])
          (\<lambda>(r, callback). ret (reply ''deleteSnapshot'' r callback))
      else ret blank))"

definition VmClone :: "requestClone \<Rightarrow> ('w, vcaReply) io" where
  "VmClone request =
     (let method_id = clone_vcamethod request; vmname = clone_vmname request;
          basefolder = clone_basefolder request; targetvmname = clone_targetvmname request in
      bnd QiVCA (\<lambda>_.
      if method_id = id_of ''cloneFullVM'' then
        bnd (cloneFullVM vmname basefolder targetvmname (clone_keepmacs request)
               (clone_keephwuuids request) (clone_keepdiskname request) [])
          (\<lambda>(r, callback). ret (reply ''cloneFullVM'' r callback))
      else if method_id = id_of ''cloneLinkVM'' then
        bnd (cloneLinkVM vmname basefolder targetvmname [])
          (\<lambda>(r, callback). ret (reply ''cloneLinkVM'' r callback))
      else ret blank))"

definition VmImpAndExp :: "requestImpAndexportVM \<Rightarrow> ('w, vcaReply) io" where
  "VmImpAndExp request =
     (let method_id = imp_vcamethod request; vmname = imp_vmname request;
          keepmac = imp_keepmac request in
      bnd QiVCA (\<lambda>_.
      if method_id = id_of ''exportVM'' then
        bnd (exportVM vmname keepmac ''ovf-2.0'' (imp_exportpath request) [] [])
          (\<lambda>(r, ovapath, callback). ret (reply ''exportVM'' r (if r then ovapath else callback)))
      else if method_id = id_of ''importVM'' then
        bnd (importVM vmname (imp_ovapath request) keepmac (imp_ostypeid request)
               (imp_cpucount request) (imp_memory request) (imp_netup request)
               (imp_basefolder request) []) (\<lambda>(r, callback). ret (reply ''importVM'' r callback))
      else ret blank))"

definition VmExtends :: "requestVmExtends \<Rightarrow> ('w, vcaReply) io" where
  "VmExtends request =
     (let method_id = ext_vcamethod request in
      bnd QiVCA (\<lambda>_.
      if method_id = id_of ''makeFloatDisk'' then
        bnd (makeFloatDisk (ext_diskname request) (ext_diskformattype request)
               (ext_basefolder request) (ext_size request) [])
          (\<lambda>(r, callback). ret (reply ''makeFloatDisk'' r callback))
      else if method_id = id_of ''addDiskToVm'' then
        bnd (addDiskToVm (ext_vmname request) (ext_diskname request) (ext_diskformattype request)
               (ext_storagecontroller request) (ext_basefolder request) (ext_slot request) [])
          (\<lambda>(r, callback). ret (reply ''addDiskToVm'' r callback))
      else if method_id = id_of ''detachDiskFromVm'' then
        bnd (detachDiskFromVm (ext_vmname request) (ext_slot request) [])
          (\<lambda>(r, callback). ret (reply ''detachDiskFromVm'' r callback))
      else if method_id = id_of ''destroyFloatDiskWithoutAttach'' then
        bnd (destroyFloatDiskWithoutAttach (ext_diskuuid request) [])
          (\<lambda>(r, callback). ret (reply ''destroyFloatDiskWithoutAttach'' r callback))
      else ret blank))"

subsection \<open>Handlers on \<open>vcaVmConfigure\<close>\<close>

definition VmNetwork :: "requestNetwork \<Rightarrow> ('w, vcaReply) io" where
  "VmNetwork request =
     (let method_id = net_vcamethod request; vmname = net_vmname request; slot = net_slot request in
      bnd vcaVmConfigure (\<lambda>_.
      if method_id = id_of ''setBridge'' then
        bnd (setBridge vmname slot (net_hostpciname request) [])
          (\<lambda>(r, callback). ret (reply ''setBridge'' r callback))
      else if method_id = id_of ''addBridge'' then
        bnd (addBridge vmname slot (net_hostpciname request) [])
          (\<lambda>(r, callback). ret (reply ''addBridge'' r callback))
      else if method_id = id_of ''setNat'' then
        bnd (setNat vmname slot []) (\<lambda>(r, callback). ret (reply ''setNat'' r callback))
      else if method_id = id_of ''addNat'' then
        bnd (addNat vmname slot []) (\<lambda>(r, callback). ret (reply ''addNat'' r callback))
      else if method_id = id_of ''setAdaptorMAC'' then
        bnd (setAdaptorMAC vmname slot (net_mac request) [])
          (\<lambda>(r, callback). ret (reply ''setAdaptorMAC'' r callback))
      else if method_id = id_of ''disableAdaptor'' then
        bnd (disableAdaptor vmname slot [])
          (\<lambda>(r, callback). ret (reply ''disableAdaptor'' r callback))
      else ret blank))"

definition VmRdp :: "requestRdp \<Rightarrow> ('w, vcaReply) io" where
  "VmRdp request =
     (let method_id = rdp_vcamethod request; vmname = rdp_vmname request in
      bnd vcaVmConfigure (\<lambda>_.
      if method_id = id_of ''setSimpleRemoteDisplay'' then
        bnd (setSimpleRemoteDisplay vmname (rdp_listenaddress request) (rdp_listenport request)
               (rdp_allowmulticonnect request) (rdp_reusesingleconnect request) [])
          (\<lambda>(r, callback). ret (reply ''setSimpleRemoteDisplay'' r callback))
      else if method_id = id_of ''getRdpInfo'' then
        bnd (getRdpInfo vmname [] []) (\<lambda>(r, vdredata, callback).
        ret (reply ''getRdpInfo'' r (if r then vdredata else callback)))
      else if method_id = id_of ''disableRDP'' then
        bnd (disableRDP vmname []) (\<lambda>(r, callback). ret (reply ''disableRDP'' r callback))
      else ret blank))"

definition VmRecord :: "requestRecord \<Rightarrow> ('w, vcaReply) io" where
  "VmRecord request =
     (let method_id = rec_vcamethod request; vmname = rec_vmname request;
          screenid = rec_screenid request; on = rec_on request; audioquality = 2 in
      bnd vcaVmConfigure (\<lambda>_.
      if method_id = id_of ''setRecordingScreenConfig'' then
        bnd (setRecordingScreenConfig vmname screenid on (rec_basefolder request)
               (rec_width request) (rec_height request) (rec_fps request) (rec_kbps request)
               audioquality [] []) (\<lambda>(r, videopath, callback).
        ret (reply ''setRecordingScreenConfig'' r (if r then videopath else callback)))
      else if method_id = id_of ''switchRecordingScreen'' then
        bnd (switchRecordingScreen vmname screenid on [])
          (\<lambda>(r, callback). ret (reply ''switchRecordingScreen'' r callback))
      else ret blank))"

definition VmSharefolder :: "requestSharefolder \<Rightarrow> ('w, vcaReply) io" where
  "VmSharefolder request =
     (let method_id = share_vcamethod request; vmname = share_vmname request;
          foldername = share_sharefoldername request in
      bnd vcaVmConfigure (\<lambda>_.
      if method_id = id_of ''createSharefolder'' then
        bnd (createSharefolder vmname foldername (share_serverpath request)
               (share_writeable request) True
               (if share_internalpath request \<noteq> [] then share_internalpath request else []) [])
          (\<lambda>(r, callback). ret (reply ''createSharefolder'' r callback))
      else if method_id = id_of ''removeSharedFolder'' then
        bnd (removeSharedFolder vmname foldername [])
          (\<lambda>(r, callback). ret (reply ''removeSharedFolder'' r callback))
      else ret blank))"

definition VmConfig :: "requestConfig \<Rightarrow> ('w, vcaReply) io" where
  "VmConfig request =
     (let method_id = conf_vcamethod request; vmname = conf_vmname request in
      bnd vcaVmConfigure (\<lambda>_.
      if method_id = id_of ''resetCpuCount'' then
        bnd (resetCpuCount vmname (conf_cpucount request) [])
          (\<lambda>(r, callback). ret (reply ''resetCpuCount'' r callback))
      else if method_id = id_of ''resetMemSize'' then
        bnd (resetMemSize vmname (conf_memorysize request) [])
          (\<lambda>(r, callback). ret (reply ''resetMemSize'' r callback))
      else if method_id = id_of ''resetGraphics'' then
        bnd (resetGraphics vmname (conf_ramsize request) (conf_monitorcount request) ''VBoxSVGA''
               (conf_enable3d request) [])
          (\<lambda>(r, callback). ret (reply ''resetGraphics'' r callback))
      else ret blank))"

definition VmUSB :: "requestUSB \<Rightarrow> ('w, vcaReply) io" where
  "VmUSB request =
     (let method_id = usb_vcamethod request; vmname = usb_vmname request;
          usbctlname = usb_usbname request in
      bnd vcaVmConfigure (\<lambda>_.
      if method_id = id_of ''addUSBController'' then
        bnd (addUSBController vmname usbctlname (usb_usbtype request) [])
          (\<lambda>(r, callback). ret (reply ''addUSBController'' r callback))
      else if method_id = id_of ''delUSBController'' then
        bnd (delUSBController vmname usbctlname [])
          (\<lambda>(r, callback). ret (reply ''delUSBController'' r callback))
      else ret blank))"

definition VmAudio :: "requestAudio \<Rightarrow> ('w, vcaReply) io" where
  "VmAudio request =
     (let method_id = audio_vcamethod request; vmname = audio_vmname request in
      bnd vcaVmConfigure (\<lambda>_.
      if method_id = id_of ''setAudio'' then
        bnd (setAudio vmname (audio_audioin request) (audio_audioout request) [])
          (\<lambda>(r, callback). ret (reply ''setAudio'' r callback))
      else if method_id = id_of ''switchAudio'' then
        bnd (switchAudio vmname (audio_audioswitch request) [])
          (\<lambda>(r, callback). ret (reply ''switchAudio'' r callback))
      else ret blank))"

definition VmSerial :: "requestSerial \<Rightarrow> ('w, vcaReply) io" where
  "VmSerial request =
     (let method_id = serial_vcamethod request; vmname = serial_vmname request;
          slot = serial_slot request in
      bnd vcaVmConfigure (\<lambda>_.
      if method_id = id_of ''addSerialPort'' then
        bnd (addSerialPort vmname slot [])
          (\<lambda>(r, callback). ret (reply ''addSerialPort'' r callback))
      else if method_id = id_of ''delSerialPort'' then
        bnd (delSerialPort vmname slot [])
          (\<lambda>(r, callback). ret (reply ''delSerialPort'' r callback))
      else ret blank))"

end
