(* ===== verification/Controller_Answers.thy ===== *)
theory Controller_Answers
  imports Controller
begin

text \<open>
  What every handler of the controller owes the service: whatever the hypervisor answers, a
  reply that is built names the method that was asked for and carries 0 or 1, the calls made
  keep the session discipline, and a method that is honest about success leaves no session
  locked and no setting unsaved when it reports 1. The three methods that are not
  (\<open>cloneLinkVM\<close>, \<open>setRecordingScreenConfig\<close>, \<open>resetGraphics\<close>) are named.
\<close>

subsection \<open>Each operation\<close>

text \<open>A call that changes nothing is legal at any time and leaves a clean state clean.\<close>

lemma idle_at_start: "\<not> changing e \<Longrightarrow> legal e start \<and> after e start = start"
proof (cases e)
  case (ECmd c x)
  then show "\<not> changing e \<Longrightarrow> legal e start \<and> after e start = start" by (cases c) simp_all
next
  case (ERef q x)
  then show "\<not> changing e \<Longrightarrow> legal e start \<and> after e start = start"
    by (cases q; cases x) (simp_all add: protocol_simps split: option.splits)
qed simp_all

lemma run_inert: "inert tr \<Longrightarrow> run (tr @ es) start = run es start"
  using idle_at_start by (induction tr) (auto simp: inert_def)

lemma inert_run: "inert tr \<Longrightarrow> run tr start = Some start"
  using run_inert [of tr "[]"] by simp

lemma inert_honest: "inert tr \<Longrightarrow> honest_end r tr"
  by (simp add: honest_end_def disciplined_def inert_run)

lemma clean_honest: "run tr start = Some start \<Longrightarrow> honest_end r tr"
  by (simp add: honest_end_def disciplined_def)

named_theorems op_facts "the operations that are honest about success"

lemma power_honest: "post E (power_op q n d) honest_end"
  by (rule post_mono [OF power_tidy conforms_honest])

lemmas power_facts [op_facts] =
  power_honest [of _ Shut_Down, simplified] power_honest [of _ Power_Off, simplified]
  power_honest [of _ Pause, simplified] power_honest [of _ Resume, simplified]
  power_honest [of _ Sleep, simplified] power_honest [of _ Restart, simplified]

lemma snapshot_facts [op_facts]:
  "post E (takeSnapshot n sn d) honest_end"
  "post E (restoreSnapshot n sn d) honest_end"
  "post E (deleteSnapshot n sn d) honest_end"
  by (rule post_mono, rule take_post restore_post delete_post, rule conforms_honest,
      simp add: take_contract_def restore_contract_def delete_contract_def)+

lemma info_facts [op_facts]:
  "post E (listVMs ms vms d) honest_end"
  "post E (getVmInfo n vms d) honest_end"
  "post E (getVmSnapshotInfo n vms d) honest_end"
  by (rule post_mono, rule list_post vm_info_post snapshot_info_post, rule inert_honest,
      simp add: list_contract_def vm_info_contract_def snapshot_info_contract_def reads_def)+

lemma disk_facts [op_facts]:
  "post E (addDiskToVm n dn fmt bus base slot d) honest_end"
  "post E (detachDiskFromVm n slot d) honest_end"
  by (rule post_mono, rule add_disk_post detach_post,
      auto simp: attach_contract_def honest_end_def)+

lemma float_disk_facts [op_facts]: "post E (makeFloatDisk name fmt base sz d) honest_end"
  unfolding makeFloatDisk_def Let_def
  by (rule post_mono [where P = "\<lambda>r tr. run tr start = Some start"], intro post_intros)
    (auto simp: protocol_simps clean_honest split: option.splits)

lemma install_facts [op_facts]:
  "post E (createVMfromSystemdisk n os cpus mem base path bus d) honest_end"
  "post E (createVMfromISO n os cpus mem base sz isopath fmt bus fx v d) honest_end"
   apply (rule post_mono, rule sysdisk_post)
   apply (auto simp: sysdisk_contract_def sysdisk_script_def honest_end_def protocol_simps split: if_splits)[]
  apply (rule post_mono, rule iso_post)
  apply (auto simp: iso_contract_def honest_end_def disciplined_def Let_def split: option.splits)
  done

lemma full_clone_facts [op_facts]:
  "post E (cloneFullVM n base target macs uuids disks d) honest_end"
  by (rule post_mono, rule full_post)
    (auto simp: full_contract_def full_script_def honest_end_def protocol_simps split: if_splits)

lemma appliance_facts [op_facts]:
  "post E (deleteVM n type d) honest_end"
  "post E (exportVM n keepmac fmt dir ova d) honest_end"
  "post E (importVM n ova keepmac os cpus memory netup base d) honest_end"
    apply (rule post_mono, rule removal_post)
    apply (auto simp: removal_contract_def sound_run_def sound_trace_def removal_returns_def
      removal_script_def looked_at_def honest_end_def protocol_simps split: if_splits option.splits)[]
   apply (rule post_mono, rule export_post, simp add: export_contract_def clean_honest)
  apply (rule post_mono, rule import_post, simp add: import_contract_def clean_honest)
  done

lemma post_each_until_clean:
  assumes "\<And>x s. post E (f x s) (\<lambda>r tr. run tr start = Some start)"
  shows "post E (each_until xs s f) (\<lambda>r tr. run tr start = Some start)"
proof (rule post_each_until [where I = "\<lambda>s tr. run tr start = Some start"])
  fix x s tr
  assume "run tr start = Some start"
  then show "post E (f x s) (\<lambda>r tr'. case r of Ret (Inl s') \<Rightarrow> run (tr @ tr') start = Some start
      | _ \<Rightarrow> run (tr @ tr') start = Some start)"
    by (intro post_mono [OF assms]) (auto simp: run_append split: outcome.splits sum.splits)
qed auto

lemma post_bnd_clean:
  assumes "post E m (\<lambda>r tr. run tr start = Some start)"
    and "\<And>a. post E (f a) (\<lambda>r tr. run tr start = Some start)"
  shows "post E (bnd m f) (\<lambda>r tr. run tr start = Some start)"
proof (intro post_bnd post_mono [OF assms(1)])
  fix r tr
  assume "run tr start = Some start"
  then show "then_post E f (\<lambda>r tr. run tr start = Some start) r tr"
    by (cases r) (auto simp: run_append intro: post_mono [OF assms(2)])
qed

lemma destroy_facts [op_facts]: "post E (destroyFloatDiskWithoutAttach n d) honest_end"
proof (rule post_mono)
  show "post E (destroyFloatDiskWithoutAttach n d) (\<lambda>r tr. run tr start = Some start)"
    unfolding destroyFloatDiskWithoutAttach_def
    by (rule post_bnd_clean post_each_until_clean | (intro post_intros; simp add: protocol_simps))+
qed (rule clean_honest)

lemma config_facts:
  "post E (net_op q n slot d) honest_end"
  "post E (machine_op q' n d) honest_end"
  "post E (device_op q'' n d) honest_end"
  "post E (rdp_op qr n d) honest_end"
  using net.honest [of E "(q, n, slot, d)"] machine_batch.honest [of E "(q', n, d)"]
    device_batch.honest [of E "(q'', n, d)"] rdp_batch.honest [of E "(qr, n, d)"] by simp_all

lemmas network_facts [op_facts] =
  config_facts(1) [where q = "Set_Bridge pci", simplified]
  config_facts(1) [where q = "Add_Bridge pci", simplified]
  config_facts(1) [where q = Set_Nat, simplified] config_facts(1) [where q = Add_Nat, simplified]
  config_facts(1) [where q = "Set_Mac mac", simplified] config_facts(1) [where q = Disable, simplified]
  for pci mac

lemmas machine_facts [op_facts] =
  config_facts(2) [where q' = "Create_Folder f x wr am p", simplified]
  config_facts(2) [where q' = "Remove_Folder f", simplified]
  config_facts(2) [where q' = "Cpu_Count c", simplified]
  config_facts(2) [where q' = "Mem_Size c", simplified]
  for f x wr am p c

lemmas device_facts [op_facts] =
  config_facts(3) [where q'' = "Add_Usb c t", simplified]
  config_facts(3) [where q'' = "Del_Usb c", simplified]
  config_facts(3) [where q'' = "Set_Audio i o'", simplified]
  config_facts(3) [where q'' = "Switch_Audio i", simplified]
  config_facts(3) [where q'' = "Add_Serial k", simplified]
  config_facts(3) [where q'' = "Del_Serial k", simplified]
  for c t i o' k

lemmas display_facts [op_facts] =
  config_facts(4) [where qr = "Set_Rdp ip port multi reuse", simplified]
  config_facts(4) [where qr = Disable_Rdp, simplified]
  for ip port multi reuse

lemma screen_facts [op_facts]:
  "post E (getRdpInfo n vde d) honest_end"
  "post E (switchRecordingScreen n screen on d) honest_end"
   apply (rule post_mono, rule rdp_info_post, simp add: rdp_info_contract_def)
  apply (rule post_mono, rule switch_post, simp add: switch_contract_def)
  done

text \<open>The other three only keep the discipline.\<close>

lemma disciplined_facts:
  "post E (cloneLinkVM n base target d) (\<lambda>r tr. disciplined tr)"
  "post E (resetGraphics n ram monitors ctl e3 d) (\<lambda>r tr. disciplined tr)"
  "post E (setRecordingScreenConfig n screen on base width height fps kbps quality p d)
     (\<lambda>r tr. disciplined tr)"
    apply (rule post_mono, rule link_post)
    apply (auto simp: link_contract_def disciplined_def split: option.splits)[]
   apply (rule post_mono, rule graphics_post, simp add: graphics_contract_def sound_run_def sound_trace_def)
  apply (rule post_mono, rule recording_post, simp add: recording_contract_def sound_run_def sound_trace_def)
  done

subsection \<open>Each handler\<close>

text \<open>The reply of a method, \<open>honest\<close> when its 1 means that nothing was left behind.\<close>

definition answered :: "bool \<Rightarrow> string \<Rightarrow> vcaReply outcome \<Rightarrow> event list \<Rightarrow> bool" where
  "answered honest name r tr \<longleftrightarrow> disciplined tr \<and>
     (case r of Ret rep \<Rightarrow> rep_vcamethod rep = name \<and> rep_code rep \<in> {0, 1}
        \<and> (honest \<and> rep_code rep = 1 \<longrightarrow> run tr start = Some start)
      | _ \<Rightarrow> True)"

definition reply_name :: "int \<Rightarrow> string" where
  "reply_name i = (case map_of (map (\<lambda>(s, k). (k, s)) vca_enummethod) i of
     Some s \<Rightarrow> if s = ''pauses'' then ''pause'' else s | None \<Rightarrow> [])"

definition dishonest :: "int list" where
  "dishonest = map id_of [''cloneLinkVM'', ''setRecordingScreenConfig'', ''resetGraphics'']"

text \<open>A handler answers the methods \<open>ids\<close>; for any other id it changes nothing.\<close>

definition handled :: "int list \<Rightarrow> int \<Rightarrow> vcaReply outcome \<Rightarrow> event list \<Rightarrow> bool" where
  "handled ids i r tr \<longleftrightarrow>
     (if i \<in> set ids then answered (i \<notin> set dishonest) (reply_name i) r tr
      else inert tr \<and> (case r of Ret rep \<Rightarrow> rep \<in> {blank, null_reply} | _ \<Rightarrow> True))"

lemma post_after_inert:
  assumes "post E m (\<lambda>r tr. inert tr)" and "\<And>a. post E (f a) (handled ids i)"
  shows "post E (bnd m f) (handled ids i)"
proof (intro post_bnd post_mono [OF assms(1)])
  fix r tr
  assume "inert tr"
  then have "handled ids i r' tr' \<Longrightarrow> handled ids i r' (tr @ tr')" for r' tr'
    by (auto simp: handled_def answered_def disciplined_def run_inert inert_append split: outcome.splits)
  moreover from \<open>inert tr\<close> have "handled ids i (Throw e) tr" "handled ids i (Undef u) tr" "handled ids i Hang tr"
    for e u by (simp_all add: handled_def answered_def disciplined_def inert_run)
  ultimately show "then_post E f (handled ids i) r tr"
    by (cases r) (auto intro: post_mono [OF assms(2)])
qed

lemma constructors_inert:
  "post E QiVCA (\<lambda>r tr. inert tr)" "post E vcaVmConfigure (\<lambda>r tr. inert tr)"
  unfolding QiVCA_def vcaVmConfigure_def
  by (intro post_intros; simp add: protocol_simps)+

text \<open>The two ways a handler fills its reply: from \<open>(ret, data)\<close> or \<open>(ret, result, data)\<close>.\<close>

lemma post_answered:
  assumes op: "post E (op_run :: ('w, bool \<times> 'x) io) P"
    and P: "\<forall>r tr. P r tr \<longrightarrow> (if i \<in> set dishonest then disciplined tr else honest_end r tr)"
    and i: "i \<in> set ids" "reply_name i = name"
  shows "post E (bnd op_run (\<lambda>x. ret (reply name (fst x) (f x)))) (handled ids i)"
proof (intro post_bnd post_mono [OF op])
  fix r :: "(bool \<times> 'x) outcome" and tr
  assume "P r tr"
  with P have h: "if i \<in> set dishonest then disciplined tr else honest_end r tr" by blast
  have "post E (ret (reply name (fst x) (f x))) (\<lambda>r' tr'. handled ids i r' (tr @ tr'))" if "r = Ret x" for x
    using h i that
    by (cases x) (auto simp: honest_end_def handled_def answered_def reply_def split: if_splits intro!: post_ret)
  with h i show "then_post E (\<lambda>x. ret (reply name (fst x) (f x))) (handled ids i) r tr"
    by (cases r) (auto simp: honest_end_def handled_def answered_def split: if_splits)
qed

lemma answered_honestly:
  assumes "post E (op_run :: ('w, bool \<times> 'x) io) honest_end"
    and "i \<in> set ids" "i \<notin> set dishonest" "reply_name i = name"
  shows "post E (bnd op_run (\<lambda>(r, d). ret (reply name r (f r d)))) (handled ids i)"
  using post_answered [where P = honest_end and f = "\<lambda>x. f (fst x) (snd x)",
      OF assms(1) _ assms(2,4)] assms(3)
  by (simp add: case_prod_unfold)

lemma answered_honestly3:
  assumes "post E (op_run :: ('w, bool \<times> 'x \<times> 'y) io) honest_end"
    and "i \<in> set ids" "i \<notin> set dishonest" "reply_name i = name"
  shows "post E (bnd op_run (\<lambda>(r, v, d). ret (reply name r (f r v d)))) (handled ids i)"
  using post_answered [where P = honest_end and f = "\<lambda>x. f (fst x) (fst (snd x)) (snd (snd x))",
      OF assms(1) _ assms(2,4)] assms(3)
  by (simp add: case_prod_unfold)

lemma answered_anyhow:
  assumes "post E (op_run :: ('w, bool \<times> 'x) io) (\<lambda>r tr. disciplined tr)"
    and "i \<in> set ids" "i \<in> set dishonest" "reply_name i = name"
  shows "post E (bnd op_run (\<lambda>(r, d). ret (reply name r (f r d)))) (handled ids i)"
  using post_answered [where P = "\<lambda>r tr. disciplined tr" and f = "\<lambda>x. f (fst x) (snd x)",
      OF assms(1) _ assms(2,4)] assms(3)
  by (simp add: case_prod_unfold)

lemma answered_anyhow3:
  assumes "post E (op_run :: ('w, bool \<times> 'x \<times> 'y) io) (\<lambda>r tr. disciplined tr)"
    and "i \<in> set ids" "i \<in> set dishonest" "reply_name i = name"
  shows "post E (bnd op_run (\<lambda>(r, v, d). ret (reply name r (f r v d)))) (handled ids i)"
  using post_answered [where P = "\<lambda>r tr. disciplined tr" and f = "\<lambda>x. f (fst x) (fst (snd x)) (snd (snd x))",
      OF assms(1) _ assms(2,4)] assms(3)
  by (simp add: case_prod_unfold)

lemma not_handled:
  "i \<notin> set ids \<Longrightarrow> post E (ret blank) (handled ids i)"
  "i \<notin> set ids \<Longrightarrow> post E (ret null_reply) (handled ids i)"
  by (auto simp: handled_def inert_def intro!: post_ret)

lemma id_table: "map id_of (map fst vca_enummethod) =
    [0, 1, 2, 3, 4, 5, 6, 7, 8, 9, 10, 11, 12, 13, 14, 15, 16, 17, 18, 19, 20, 21, 22, 23,
     24, 25, 26, 27, 28, 29, 30, 31, 32, 33, 34, 35, 36, 37, 38, 39, 40, 41, 42, 43, 44, 45, 46, 47, 101, 102, 103, 104]"
  by code_simp

lemmas id_values = id_table [unfolded vca_enummethod_def, simplified]

lemma name_table:
  "map reply_name
    [0, 1, 2, 3, 4, 5, 6, 7, 8, 9, 10, 11, 12, 13, 14, 15, 16, 17, 18, 19, 20, 21, 22, 23,
     24, 25, 26, 27, 28, 29, 30, 31, 32, 33, 34, 35, 36, 37, 38, 39, 40, 41, 42, 43, 44, 45, 46, 47, 101, 102, 103, 104] =
     map (\<lambda>(s, _). if s = ''pauses'' then ''pause'' else s) vca_enummethod"
  by code_simp

lemmas reply_names = name_table [unfolded vca_enummethod_def, simplified]

lemma dishonest_values: "dishonest = [15, 29, 35]"
  by (simp add: dishonest_def id_values)

lemmas answer_simps = id_values reply_names dishonest_values

lemma network_handled: "post E (VmNetwork q) (handled [20, 21, 22, 23, 24, 25] (net_vcamethod q))"
  unfolding VmNetwork_def Let_def
  by (rule post_after_inert constructors_inert)+
    (intro post_if not_handled network_facts [THEN answered_honestly]; simp add: answer_simps)

lemma rdp_handled: "post E (VmRdp q) (handled [26, 27, 28] (rdp_vcamethod q))"
  unfolding VmRdp_def Let_def
  by (rule post_after_inert constructors_inert)+
    (intro post_if not_handled display_facts [THEN answered_honestly] screen_facts(1) [THEN answered_honestly3]; simp add: answer_simps)

lemma record_handled: "post E (VmRecord q) (handled [29, 30] (rec_vcamethod q))"
  unfolding VmRecord_def Let_def
  by (rule post_after_inert constructors_inert)+
    (intro post_if not_handled screen_facts(2) [THEN answered_honestly] disciplined_facts(3) [THEN answered_anyhow3]; simp add: answer_simps)

lemma sharefolder_handled: "post E (VmSharefolder q) (handled [31, 32] (share_vcamethod q))"
  unfolding VmSharefolder_def Let_def
  by (rule post_after_inert constructors_inert)+
    (intro post_if not_handled machine_facts [THEN answered_honestly]; simp add: answer_simps)

lemma config_handled: "post E (VmConfig q) (handled [33, 34, 35] (conf_vcamethod q))"
  unfolding VmConfig_def Let_def
  by (rule post_after_inert constructors_inert)+
    (intro post_if not_handled machine_facts [THEN answered_honestly] disciplined_facts(2) [THEN answered_anyhow]; simp add: answer_simps)

lemma usb_handled: "post E (VmUSB q) (handled [36, 37] (usb_vcamethod q))"
  unfolding VmUSB_def Let_def
  by (rule post_after_inert constructors_inert)+
    (intro post_if not_handled device_facts [THEN answered_honestly]; simp add: answer_simps)

lemma audio_handled: "post E (VmAudio q) (handled [38, 39] (audio_vcamethod q))"
  unfolding VmAudio_def Let_def
  by (rule post_after_inert constructors_inert)+
    (intro post_if not_handled device_facts [THEN answered_honestly]; simp add: answer_simps)

lemma serial_handled: "post E (VmSerial q) (handled [40, 41] (serial_vcamethod q))"
  unfolding VmSerial_def Let_def
  by (rule post_after_inert constructors_inert)+
    (intro post_if not_handled device_facts [THEN answered_honestly]; simp add: answer_simps)

lemma snapshot_handled: "post E (VmOperateSnapshot q) (handled [10, 11, 12, 13] (snap_vcamethod q))"
  unfolding VmOperateSnapshot_def Let_def
  by (rule post_after_inert constructors_inert)+
    (intro post_if not_handled snapshot_facts [THEN answered_honestly] info_facts(3) [THEN answered_honestly3]; simp add: answer_simps)

lemma clone_handled: "post E (VmClone q) (handled [14, 15] (clone_vcamethod q))"
  unfolding VmClone_def Let_def
  by (rule post_after_inert constructors_inert)+
    (intro post_if not_handled full_clone_facts [THEN answered_honestly] disciplined_facts(1) [THEN answered_anyhow]; simp add: answer_simps)

lemma install_handled: "post E (VmInstall q) (handled [18, 19] (inst_vcamethod q))"
  unfolding VmInstall_def Let_def
  by (rule post_after_inert constructors_inert)+
    (intro post_if not_handled install_facts(1) [THEN answered_honestly] install_facts(2) [THEN answered_honestly3]; simp add: answer_simps)

lemma impexp_handled: "post E (VmImpAndExp q) (handled [16, 17] (imp_vcamethod q))"
  unfolding VmImpAndExp_def Let_def
  by (rule post_after_inert constructors_inert)+
    (intro post_if not_handled appliance_facts(2) [THEN answered_honestly3] appliance_facts(3) [THEN answered_honestly]; simp add: answer_simps)

lemma extends_handled: "post E (VmExtends q) (handled [101, 102, 103, 104] (ext_vcamethod q))"
  unfolding VmExtends_def Let_def
  by (rule post_after_inert constructors_inert)+
    (intro post_if not_handled disk_facts [THEN answered_honestly] float_disk_facts [THEN answered_honestly] destroy_facts [THEN answered_honestly]; simp add: answer_simps)

text \<open>
  The handler of \<open>startUp\<close> reads \<open>data\<close>, which \<open>startUp\<close> does not set after a COM error.
\<close>

lemma startup_handled:
  "post E (bnd (startUp vmname ''headless'' None []) (\<lambda>(data, message). case data of
        None \<Rightarrow> undef Uninit_read
      | Some k \<Rightarrow> ret (if k = 1 then reply ''startUp'' True [] else reply ''startUp'' False message)))
    (handled [0, 1, 2, 3, 4, 5, 6, 7, 8, 9] 0)"
proof (intro post_bnd post_mono [OF start_post])
  fix r tr
  assume h: "start_contract vmname ''headless'' None [] r tr"
  have clean: "run tr start = Some start" if "r = Ret (Some 1, m)" for m
    using h that
    by (auto simp: start_contract_def start_returns_def start_script_def protocol_simps split: if_splits)
  have keeps: "disciplined tr" using h by (simp add: start_contract_def)
  show "then_post E (\<lambda>(data, message). case data of
        None \<Rightarrow> undef Uninit_read
      | Some k \<Rightarrow> ret (if k = 1 then reply ''startUp'' True [] else reply ''startUp'' False message))
    (handled [0, 1, 2, 3, 4, 5, 6, 7, 8, 9] 0) r tr"
    using keeps clean
    by (cases r) (auto simp: handled_def answered_def reply_def answer_simps
        split: option.splits intro!: post_intros)
qed

lemma common_handled: "post E (VmCommon q) (handled [0, 1, 2, 3, 4, 5, 6, 7, 8, 9] (simple_vcamethod q))"
  unfolding VmCommon_def Let_def
  by (rule post_after_inert constructors_inert)+
    (intro post_if not_handled power_facts [THEN answered_honestly]
      info_facts(1,2) [THEN answered_honestly3] appliance_facts(1) [THEN answered_honestly];
     simp add: answer_simps startup_handled)

subsection \<open>The requests\<close>

text \<open>
  The cases 3 to 15 and 17 of the task \<open>vcaService::Handler\<close> gives the thread pool: one per
  type of request.
\<close>

datatype vm_request =
    Common requestSimple | Install requestInstall | Snap requestSnapshot | Cloning requestClone
  | Imp_Exp requestImpAndexportVM | Network requestNetwork | Rdp requestRdp
  | Recording requestRecord | Sharefolder requestSharefolder | Config requestConfig
  | Usb requestUSB | Audio requestAudio | Serial requestSerial | Extends requestVmExtends

primrec vm_serve :: "vm_request \<Rightarrow> ('w, vcaReply) io" where
  "vm_serve (Common q) = VmCommon q"
| "vm_serve (Install q) = VmInstall q"
| "vm_serve (Snap q) = VmOperateSnapshot q"
| "vm_serve (Cloning q) = VmClone q"
| "vm_serve (Imp_Exp q) = VmImpAndExp q"
| "vm_serve (Network q) = VmNetwork q"
| "vm_serve (Rdp q) = VmRdp q"
| "vm_serve (Recording q) = VmRecord q"
| "vm_serve (Sharefolder q) = VmSharefolder q"
| "vm_serve (Config q) = VmConfig q"
| "vm_serve (Usb q) = VmUSB q"
| "vm_serve (Audio q) = VmAudio q"
| "vm_serve (Serial q) = VmSerial q"
| "vm_serve (Extends q) = VmExtends q"

primrec asked :: "vm_request \<Rightarrow> int list \<times> int" where
  \<comment> \<open>the ids the request's handler knows, and the id it was given\<close>
  "asked (Common q) = ([0, 1, 2, 3, 4, 5, 6, 7, 8, 9], simple_vcamethod q)"
| "asked (Install q) = ([18, 19], inst_vcamethod q)"
| "asked (Snap q) = ([10, 11, 12, 13], snap_vcamethod q)"
| "asked (Cloning q) = ([14, 15], clone_vcamethod q)"
| "asked (Imp_Exp q) = ([16, 17], imp_vcamethod q)"
| "asked (Network q) = ([20, 21, 22, 23, 24, 25], net_vcamethod q)"
| "asked (Rdp q) = ([26, 27, 28], rdp_vcamethod q)"
| "asked (Recording q) = ([29, 30], rec_vcamethod q)"
| "asked (Sharefolder q) = ([31, 32], share_vcamethod q)"
| "asked (Config q) = ([33, 34, 35], conf_vcamethod q)"
| "asked (Usb q) = ([36, 37], usb_vcamethod q)"
| "asked (Audio q) = ([38, 39], audio_vcamethod q)"
| "asked (Serial q) = ([40, 41], serial_vcamethod q)"
| "asked (Extends q) = ([101, 102, 103, 104], ext_vcamethod q)"

definition served :: "vm_request \<Rightarrow> vcaReply outcome \<Rightarrow> event list \<Rightarrow> bool" where
  "served q = handled (fst (asked q)) (snd (asked q))"

lemmas handlers = common_handled install_handled snapshot_handled clone_handled impexp_handled
  network_handled rdp_handled record_handled sharefolder_handled config_handled usb_handled
  audio_handled serial_handled extends_handled

lemma serve_post: "post E (vm_serve q) (served q)"
  by (cases q) (simp_all add: served_def handlers)

text \<open>
  Sequences of requests: a client that sends one request after the other. As long as every
  reply is an honest 1, the hypervisor is left clean; whatever the replies, no request that
  starts clean breaks the discipline.
\<close>

definition serve_honest :: "vm_request \<Rightarrow> ('w, bool \<times> vcaReply) io" where
  "serve_honest q = bnd (vm_serve q) (\<lambda>rep. ret (rep_code rep = 1 \<and> snd (asked q) \<notin> set dishonest, rep))"

lemma serve_honest_end: "post E (serve_honest q) honest_end"
  unfolding serve_honest_def
proof (intro post_bnd post_mono [OF serve_post])
  fix r tr
  assume "served q r tr"
  then show "then_post E (\<lambda>rep. ret (rep_code rep = 1 \<and> snd (asked q) \<notin> set dishonest, rep)) honest_end r tr"
    by (cases r)
      (auto simp: served_def handled_def answered_def honest_end_def disciplined_def inert_run
        split: if_splits intro!: post_ret)
qed

interpretation client: honest_operation serve_honest
  by unfold_locales (rule serve_honest_end)

subsection \<open>Properties\<close>

text \<open>C1. Every request on virtual machines, with any fields and any answers of the hypervisor:
  the calls made keep the session discipline; a known method id is answered under that
  method's name with 0 or 1, and a 1 leaves no session locked and no setting unsaved, except
  for the three methods named dishonest; an unknown id changes nothing and is answered with
  a blank or null reply.\<close>

theorem requests_served: "post E (vm_serve q) (served q)"
  by (rule serve_post)

text \<open>A client's batch of requests that stops at the first reply that is not an honest 1
  keeps the discipline from its first call to its last; when it goes through, the machines
  are left as unlocked and saved as before.\<close>

theorem request_batches: "post E (client.batch qs) batch_end"
  by (rule client.batch_honest)

text \<open>A failed launch is not reported: when the hypervisor refuses the wait for it, the
  handler of \<open>startUp\<close> decides on a variable that was never written.\<close>

theorem failed_launch_unanswered:
  "fst (VmCommon \<lparr>simple_vcamethod = id_of ''startUp'', simple_vmname = ''vm''\<rparr> launch_fails world0)
     = Undef Uninit_read"
  by (simp add: VmCommon_def QiVCA_def startUp_def launch_fails_def eval_simps utf16_vm
    to_utf16_ascii [of "''headless''"] id_values)

text \<open>\<open>Test\<close> reports the services as running although \<open>pidof\<close> found neither: no output is
  the pid \<open>-1\<close>, which counts as a pid.\<close>

theorem test_without_services:
  "Test No_output No_output
     = Some (reply ''Test'' True ''VirtualizationCoreAPI Version 1.0.0'')"
  by (simp add: Test_def getProcessPidByName_def)

end
