(* ===== verification/Transitions.thy ===== *)
theory Transitions
  imports Main
begin

text \<open>
  Runs of a labelled transition system and what is shown of them: an invariant over the
  labels so far and the state reached (the locale \<open>invariant_system\<close>), and a bound on the
  number of steps (the locale \<open>bounded_system\<close>). The thread pool and the service are such
  systems.
\<close>

inductive exec :: "('s \<Rightarrow> 'l \<Rightarrow> 's \<Rightarrow> bool) \<Rightarrow> 's \<Rightarrow> 'l list \<Rightarrow> 's \<Rightarrow> bool" for step and s where
  exec_none: "exec step s [] s"
| exec_more: "exec step s ls s' \<Longrightarrow> step s' l s'' \<Longrightarrow> exec step s (ls @ [l]) s''"

lemma exec_append: "exec step s' ls' s'' \<Longrightarrow> exec step s ls s' \<Longrightarrow> exec step s (ls @ ls') s''"
  by (induction rule: exec.induct) (auto intro: exec_more simp flip: append_assoc)

lemma exec_one: "step s l s' \<Longrightarrow> exec step s [l] s'"
  using exec_more [OF exec_none, of step s l s'] by simp

lemma exec_first: "step s l s' \<Longrightarrow> exec step s' ls s'' \<Longrightarrow> exec step s (l # ls) s''"
  using exec_append [of step s' ls s'' s "[l]"] exec_one [of step s l s'] by simp

text \<open>\<open>P\<close> holds of every execution from \<open>s\<close>.\<close>

definition always :: "('s \<Rightarrow> 'l \<Rightarrow> 's \<Rightarrow> bool) \<Rightarrow> 's \<Rightarrow> ('l list \<Rightarrow> 's \<Rightarrow> bool) \<Rightarrow> bool" where
  "always step s P \<longleftrightarrow> (\<forall>ls s'. exec step s ls s' \<longrightarrow> P ls s')"

lemma alwaysD: "always step s P \<Longrightarrow> exec step s ls s' \<Longrightarrow> P ls s'"
  by (simp add: always_def)

lemma always_mono: "always step s P \<Longrightarrow> (\<And>ls s'. P ls s' \<Longrightarrow> Q ls s') \<Longrightarrow> always step s Q"
  by (simp add: always_def)

locale invariant_system =
  fixes step :: "'s \<Rightarrow> 'l \<Rightarrow> 's \<Rightarrow> bool" and init :: 's and inv :: "'l list \<Rightarrow> 's \<Rightarrow> bool"
  assumes initial: "inv [] init"
    and preserved: "inv ls s \<Longrightarrow> step s l s' \<Longrightarrow> inv (ls @ [l]) s'"
begin

lemma reachable: "exec step init ls s \<Longrightarrow> inv ls s"
  by (induction rule: exec.induct) (auto intro: initial preserved)

lemma invariant: "always step init inv"
  by (simp add: always_def reachable)

end

text \<open>Steps that are not \<open>idle\<close> use up a measure: a run cannot have more of them.\<close>

locale bounded_system =
  fixes step :: "'s \<Rightarrow> 'l \<Rightarrow> 's \<Rightarrow> bool" and closing :: "'s \<Rightarrow> bool"
    and idle :: "'l \<Rightarrow> bool" and fuel :: "'s \<Rightarrow> nat"
  assumes stays: "closing s \<Longrightarrow> step s l s' \<Longrightarrow> closing s'"
    and uses: "closing s \<Longrightarrow> step s l s' \<Longrightarrow> (if idle l then fuel s' \<le> fuel s else fuel s' < fuel s)"
begin

lemma bound:
  assumes "exec step s ls s'" and "closing s"
  shows "length (filter (\<lambda>l. \<not> idle l) ls) + fuel s' \<le> fuel s"
proof -
  have "closing s' \<and> length (filter (\<lambda>l. \<not> idle l) ls) + fuel s' \<le> fuel s"
    using assms
  proof (induction rule: exec.induct)
    case (exec_more ls s' l s'')
    then show ?case
      using stays [of s' l s''] uses [of s' l s''] by (auto split: if_splits)
  qed simp
  then show ?thesis ..
qed

end

end
