(* ===== verification/Thread_Pool.thy ===== *)
theory Thread_Pool
  imports Transitions "HOL-Library.Multiset"
begin

text \<open>
  \<open>ThreadPool\<close> (protocol/vca_threadpool.h): workers that take tasks from a queue under a
  mutex and sleep on a condition variable. A step is what one thread does while it holds the
  mutex, or a notification; the interleaving of the steps is arbitrary, so a worker may wake
  at any time, as \<open>std::condition_variable\<close> allows. A task is opaque: whatever it throws is
  kept in its future, so it either ends or runs forever.
\<close>

datatype 't worker =
    Checking        \<comment> \<open>about to evaluate \<open>stop || !tasks.empty()\<close> under the lock\<close>
  | Sleeping        \<comment> \<open>blocked in \<open>condition.wait\<close>\<close>
  | Working 't
  | Exited

record 't pool =
  workers :: "'t worker list"
  tasks :: "'t list"
  stop :: bool
  notifies :: nat   \<comment> \<open>\<open>notify_one\<close> calls due: an enqueue notifies after it has unlocked\<close>
  woken :: bool     \<comment> \<open>the destructor has called \<open>notify_all\<close>\<close>

definition ThreadPool :: "nat \<Rightarrow> 't pool" where
  "ThreadPool threads =
     \<lparr>workers = replicate threads Checking, tasks = [], stop = False, notifies = 0, woken = False\<rparr>"

datatype 't move =
    Push 't | Refuse 't | Notify | Wake | Sleep | Take 't | Finish 't | Exit
  | Set_Stop | Notify_All | Join

inductive pool_step :: "'t pool \<Rightarrow> 't move \<Rightarrow> 't pool \<Rightarrow> bool" where
  push: "\<not> stop p \<Longrightarrow> pool_step p (Push t) (p\<lparr>tasks := tasks p @ [t], notifies := Suc (notifies p)\<rparr>)"
| refuse: "stop p \<Longrightarrow> pool_step p (Refuse t) p"
| notify_one: "workers p = us @ Sleeping # vs \<Longrightarrow> notifies p = Suc k
    \<Longrightarrow> pool_step p Notify (p\<lparr>workers := us @ Checking # vs, notifies := k\<rparr>)"
| notify_none: "Sleeping \<notin> set (workers p) \<Longrightarrow> notifies p = Suc k
    \<Longrightarrow> pool_step p Notify (p\<lparr>notifies := k\<rparr>)"
| wake: "workers p = us @ Sleeping # vs \<Longrightarrow> pool_step p Wake (p\<lparr>workers := us @ Checking # vs\<rparr>)"
| sleep: "workers p = us @ Checking # vs \<Longrightarrow> \<not> stop p \<Longrightarrow> tasks p = []
    \<Longrightarrow> pool_step p Sleep (p\<lparr>workers := us @ Sleeping # vs\<rparr>)"
| take: "workers p = us @ Checking # vs \<Longrightarrow> tasks p = t # ts
    \<Longrightarrow> pool_step p (Take t) (p\<lparr>workers := us @ Working t # vs, tasks := ts\<rparr>)"
| finish: "workers p = us @ Working t # vs
    \<Longrightarrow> pool_step p (Finish t) (p\<lparr>workers := us @ Checking # vs\<rparr>)"
| exit: "workers p = us @ Checking # vs \<Longrightarrow> stop p \<Longrightarrow> tasks p = []
    \<Longrightarrow> pool_step p Exit (p\<lparr>workers := us @ Exited # vs\<rparr>)"
| set_stop: "\<not> stop p \<Longrightarrow> pool_step p Set_Stop (p\<lparr>stop := True\<rparr>)"
| notify_all: "stop p \<Longrightarrow> \<not> woken p
    \<Longrightarrow> pool_step p Notify_All
          (p\<lparr>workers := map (\<lambda>w. if w = Sleeping then Checking else w) (workers p), woken := True\<rparr>)"
| join: "woken p \<Longrightarrow> set (workers p) \<subseteq> {Exited} \<Longrightarrow> pool_step p Join p"

inductive_cases pool_stepE: "pool_step p l p'"

subsection \<open>The history\<close>

fun pushed :: "'t move \<Rightarrow> 't list" where
  "pushed (Push t) = [t]"
| "pushed _ = []"

fun taken :: "'t move \<Rightarrow> 't list" where
  "taken (Take t) = [t]"
| "taken _ = []"

fun finished :: "'t move \<Rightarrow> 't list" where
  "finished (Finish t) = [t]"
| "finished _ = []"

fun running :: "'t worker \<Rightarrow> 't list" where
  "running (Working t) = [t]"
| "running _ = []"

definition history :: "('t move \<Rightarrow> 't list) \<Rightarrow> 't move list \<Rightarrow> 't list" where
  "history f ls = concat (map f ls)"

lemma history_simps [simp]:
  "history f [] = []" "history f (ls @ [l]) = history f ls @ f l"
  by (simp_all add: history_def)

definition in_work :: "'t worker list \<Rightarrow> 't multiset" where
  "in_work ws = mset (concat (map running ws))"

lemma in_work_simps [simp]:
  "in_work [] = {#}" "in_work (w # ws) = mset (running w) + in_work ws"
  "in_work (us @ ws) = in_work us + in_work ws"
  "in_work (replicate n Checking) = {#}"
  by (induction n) (simp_all add: in_work_def)

lemma in_work_woken [simp]:
  "in_work (map (\<lambda>w. if w = Sleeping then Checking else w) ws) = in_work ws"
  by (induction ws) auto

text \<open>
  No task is lost, duplicated or overtaken: tasks start in the order they were pushed, and
  each one that started is being worked on or is finished.
\<close>

definition fifo :: "'t move list \<Rightarrow> 't pool \<Rightarrow> bool" where
  "fifo ls p \<longleftrightarrow> history pushed ls = history taken ls @ tasks p
     \<and> mset (history taken ls) = mset (history finished ls) + in_work (workers p)"

text \<open>
  No wake-up is lost: while a worker sleeps, each queued task has a worker about to check
  the queue or a notification that is still due. A worker leaves only when the pool is
  stopped and the queue empty, and none sleeps once the destructor has notified.
\<close>

definition alert :: "'t pool \<Rightarrow> bool" where
  "alert p \<longleftrightarrow>
     (Sleeping \<in> set (workers p)
        \<longrightarrow> \<not> woken p \<and> length (tasks p) \<le> length (filter (\<lambda>w. w = Checking) (workers p)) + notifies p)
     \<and> (Exited \<in> set (workers p) \<longrightarrow> stop p \<and> tasks p = [])
     \<and> (woken p \<longrightarrow> stop p)"

definition pool_inv :: "nat \<Rightarrow> 't move list \<Rightarrow> 't pool \<Rightarrow> bool" where
  "pool_inv n ls p \<longleftrightarrow> length (workers p) = n \<and> fifo ls p \<and> alert p"

lemma fifo_step: "fifo ls p \<Longrightarrow> pool_step p l p' \<Longrightarrow> fifo (ls @ [l]) p'"
  by (erule pool_stepE) (auto simp: fifo_def)

lemma alert_step: "alert p \<Longrightarrow> pool_step p l p' \<Longrightarrow> alert p'"
  by (erule pool_stepE) (auto simp: alert_def)

lemma pool_length: "pool_step p l p' \<Longrightarrow> length (workers p') = length (workers p)"
  by (erule pool_stepE) auto

interpretation pool: invariant_system pool_step "ThreadPool n" "pool_inv n"
proof
  show "pool_inv n [] (ThreadPool n)"
    by (simp add: pool_inv_def fifo_def alert_def ThreadPool_def)
qed (auto simp: pool_inv_def fifo_step alert_step pool_length)

subsection \<open>Shutdown\<close>

text \<open>Once the destructor has notified, every step but a refused enqueue or the join uses up fuel.\<close>

fun weight :: "'t worker \<Rightarrow> nat" where
  "weight Checking = 1"
| "weight Exited = 0"
| "weight _ = 2"

definition pool_fuel :: "'t pool \<Rightarrow> nat" where
  "pool_fuel p = 3 * length (tasks p) + sum_list (map weight (workers p)) + notifies p"

fun idle_move :: "'t move \<Rightarrow> bool" where
  "idle_move (Refuse _) = True"
| "idle_move Join = True"
| "idle_move _ = False"

definition closing :: "'t pool \<Rightarrow> bool" where
  "closing p \<longleftrightarrow> woken p \<and> stop p"

interpretation pool_end: bounded_system pool_step closing idle_move pool_fuel
proof
  show "closing p \<Longrightarrow> pool_step p l p' \<Longrightarrow> closing p'" for p p' :: "'t pool" and l
    by (erule pool_stepE) (auto simp: closing_def)
  show "closing p \<Longrightarrow> pool_step p l p'
      \<Longrightarrow> (if idle_move l then pool_fuel p' \<le> pool_fuel p else pool_fuel p' < pool_fuel p)"
    for p p' :: "'t pool" and l
    by (erule pool_stepE) (auto simp: closing_def pool_fuel_def)
qed

definition at_rest :: "'t pool \<Rightarrow> bool" where
  "at_rest p \<longleftrightarrow> (\<forall>l p'. pool_step p l p' \<longrightarrow> idle_move l)"

lemma at_restD: "at_rest p \<Longrightarrow> pool_step p l p' \<Longrightarrow> idle_move l"
  unfolding at_rest_def by blast

lemma at_rest_exited:
  assumes "at_rest p" and "closing p"
  shows "set (workers p) \<subseteq> {Exited}"
proof
  fix w
  assume "w \<in> set (workers p)"
  then obtain us vs where ws: "workers p = us @ w # vs" by (auto dest: split_list)
  note rest = at_restD [OF assms(1)]
  show "w \<in> {Exited}"
  proof (cases w)
    case Checking
    have "idle_move Exit" if "tasks p = []"
      using rest [OF pool_step.exit [of p us vs]] ws Checking assms(2) that by (simp add: closing_def)
    moreover have "idle_move (Take t)" if "tasks p = t # ts" for t ts
      using rest [OF pool_step.take [of p us vs t ts]] ws Checking that by simp
    ultimately show ?thesis by (cases "tasks p") auto
  next
    case Sleeping
    with ws rest [OF pool_step.wake [of p us vs]] show ?thesis by simp
  next
    case (Working t)
    with ws rest [OF pool_step.finish [of p us t vs]] show ?thesis by simp
  qed simp
qed

lemma exited_in_work: "set ws \<subseteq> {Exited} \<Longrightarrow> in_work ws = {#}"
  by (induction ws) auto

lemma no_push_after_stop:
  assumes "exec pool_step p ls p'" and "stop p"
  shows "stop p' \<and> history pushed ls = []"
  using assms by (induction rule: exec.induct) (auto elim: pool_stepE)

text \<open>What the destructor guarantees once it has notified all workers.\<close>

definition drains :: "'t move list \<Rightarrow> 't pool \<Rightarrow> bool" where
  "drains ls p \<longleftrightarrow> (woken p \<longrightarrow> always pool_step p (\<lambda>ls' p'.
     length (filter (\<lambda>l. \<not> idle_move l) ls') \<le> pool_fuel p
     \<and> (at_rest p' \<longrightarrow> set (workers p') \<subseteq> {Exited}
          \<and> mset (history finished (ls @ ls')) = mset (history pushed ls))))"

lemma drains_always: "always pool_step (ThreadPool (Suc n)) drains"
  unfolding always_def drains_def
proof (intro allI impI, rule conjI)
  fix ls :: "'a move list" and p ls' p'
  assume run: "exec pool_step (ThreadPool (Suc n)) ls p" and woken: "woken p"
    and more: "exec pool_step p ls' p'"
  from pool.reachable [OF run] woken have stop: "stop p" by (simp add: pool_inv_def alert_def)
  with woken have "closing p" by (simp add: closing_def)
  from pool_end.bound [OF more this]
  show "length (filter (\<lambda>l. \<not> idle_move l) ls') \<le> pool_fuel p" by simp
  from more \<open>closing p\<close> have closing': "closing p'"
    by (induction rule: exec.induct) (auto intro: pool_end.stays)
  from pool.reachable [OF exec_append [OF more run]]
  have inv: "fifo (ls @ ls') p'" "alert p'" "length (workers p') = Suc n" by (auto simp: pool_inv_def)
  show "at_rest p' \<longrightarrow> set (workers p') \<subseteq> {Exited}
      \<and> mset (history finished (ls @ ls')) = mset (history pushed ls)"
  proof (intro impI conjI)
    assume "at_rest p'"
    from at_rest_exited [OF this closing'] show gone: "set (workers p') \<subseteq> {Exited}" .
    with inv(3) have "Exited \<in> set (workers p')" by (cases "workers p'") auto
    with inv(2) have "tasks p' = []" by (simp add: alert_def)
    moreover have "history pushed (ls @ ls') = history pushed ls"
      using no_push_after_stop [OF more stop] by (simp add: history_def)
    ultimately show "mset (history finished (ls @ ls')) = mset (history pushed ls)"
      using inv(1) exited_in_work [OF gone] by (simp add: fifo_def)
  qed
qed

subsection \<open>Saturation\<close>

definition saturated :: "'t pool \<Rightarrow> bool" where
  "saturated p \<longleftrightarrow> list_all (\<lambda>w. running w \<noteq> []) (workers p)"

lemma saturated_step:
  "pool_step p l p' \<Longrightarrow> saturated p \<Longrightarrow> finished l = [] \<Longrightarrow> workers p' = workers p \<and> taken l = []"
  by (erule pool_stepE) (auto simp: saturated_def list_all_iff intro!: map_idI, force)

lemma saturated_run:
  assumes "exec pool_step p ls p'" and "saturated p" and "history finished ls = []"
  shows "workers p' = workers p \<and> history taken ls = []"
  using assms
proof (induction rule: exec.induct)
  case (exec_more ls p' l p'')
  then have "workers p' = workers p" "history taken ls = []" by auto
  moreover from this exec_more have "saturated p'" by (simp add: saturated_def)
  ultimately show ?case using saturated_step [OF exec_more.hyps(2)] exec_more.prems by simp
qed simp

definition attended :: "'t pool \<Rightarrow> bool" where
  "attended p \<longleftrightarrow> tasks p = [] \<or> Checking \<in> set (workers p)
     \<or> Sleeping \<in> set (workers p) \<and> notifies p > 0 \<or> saturated p"

lemma alert_attended: "alert p \<Longrightarrow> attended p"
proof (rule ccontr)
  assume alert: "alert p" and no: "\<not> attended p"
  then have "filter (\<lambda>w. w = Checking) (workers p) = []"
    by (auto simp: attended_def filter_empty_conv)
  with alert no have "Sleeping \<notin> set (workers p)" "Exited \<notin> set (workers p)"
    by (auto simp: alert_def attended_def)
  with no have "running w \<noteq> []" if "w \<in> set (workers p)" for w
    using that by (cases w) (auto simp: attended_def)
  with no show False by (simp add: attended_def saturated_def list_all_iff)
qed

subsection \<open>Properties\<close>

text \<open>C8. However the threads interleave, tasks start in the order in which they were enqueued,
  each once, and every task that was started is finished or being worked on.\<close>

theorem pool_in_order: "always pool_step (ThreadPool n) fifo"
  by (rule always_mono [OF pool.invariant]) (simp add: pool_inv_def)

text \<open>C15. No wake-up is lost: a queued task always finds a worker that is about to check the
  queue, or a sleeping one with a notification due, or all workers busy.\<close>

theorem no_lost_wakeup: "always pool_step (ThreadPool n) (\<lambda>_ p. attended p)"
  by (rule always_mono [OF pool.invariant]) (simp add: pool_inv_def alert_attended)

text \<open>C28. Shutdown: once the destructor has notified the workers of a pool with at least one,
  the threads can take only finitely many more steps, at most \<open>pool_fuel\<close>; when none is left
  every worker has exited and every task ever enqueued has finished.\<close>

theorem pool_shutdown: "always pool_step (ThreadPool (Suc n)) drains"
  by (rule drains_always)

text \<open>A pool whose workers are all busy with tasks that do not end never starts another
  task, whatever is enqueued.\<close>

theorem pool_saturation:
  assumes "exec pool_step p ls p'" and "saturated p" and "history finished ls = []"
  shows "workers p' = workers p \<and> history taken ls = []"
  by (rule saturated_run [OF assms])

theorem pool_saturation_witness:
  "workers ((\<lparr>workers = [Working 1], tasks = [] @ [2], stop = False, notifies = Suc 0, woken = False\<rparr>)
     :: nat pool) = [Working 1] \<and> history taken [Push (2::nat)] = []"
proof -
  let ?p = "\<lparr>workers = [Working (1::nat)], tasks = [], stop = False, notifies = 0, woken = False\<rparr>"
  have "exec pool_step ?p [Push 2]
      \<lparr>workers = [Working 1], tasks = [] @ [2], stop = False, notifies = Suc 0, woken = False\<rparr>"
    using exec_one [of pool_step ?p, OF pool_step.push [of ?p 2]] by simp
  from pool_saturation [OF this] show ?thesis by (simp add: saturated_def history_def)
qed

end
