(* ===== verification/Service.thy ===== *)
theory Service
  imports Thread_Pool
begin

text \<open>
  \<open>vcaService\<close> (protocol/vca_service.cpp): one context object per call, found again through
  its address, the tag. The loop of \<open>Handler\<close> takes an event from the completion queue; for a
  new call it arms another context of the same type and gives a task to the thread pool, for
  a finished answer it frees the context. The gRPC runtime is the environment: it accepts a
  call on an armed context, and reports an answer as sent or, when the client has gone, as
  not sent. What a task does between its start and its answer is modelled in \<open>Controller\<close>;
  here a task answers, throws or runs on. A tag names an object, not an address.
\<close>

record handler_context =
  htype :: int
  hstatus :: int

type_synonym tag = nat

record service =
  contexts :: "tag \<rightharpoonup> handler_context"
  next_tag :: tag
  armed :: "tag list"               \<comment> \<open>registered for a call that has not come\<close>
  cq :: "(tag \<times> bool) list"         \<comment> \<open>the events of the completion queue with their \<open>ok\<close>\<close>
  thread_pool :: "(int \<times> tag) pool"
  owing :: "tag list"               \<comment> \<open>taken by a worker that has neither answered nor thrown\<close>
  sending :: "tag list"             \<comment> \<open>\<open>Finish\<close> was called\<close>
  lost :: "tag list"                \<comment> \<open>the task threw into its future\<close>
  aborted :: bool                   \<comment> \<open>\<open>GPR_ASSERT(ok)\<close> failed\<close>

subsection \<open>Constructor and registration\<close>

definition types :: "int list" where
  "types = [1, 2, 3, 4, 5, 6, 7, 8, 9, 10, 11, 12, 13, 14, 15, 16, 17]"

definition vcaService :: "tag \<rightharpoonup> handler_context" where
  "vcaService = map_of (zip [0..<17] (map (\<lambda>i. \<lparr>htype = i, hstatus = 1\<rparr>) types))"

definition RegisterRequest :: "tag list" where
  "RegisterRequest = [0..<17]"

definition Service :: service where
  "Service = \<lparr>contexts = vcaService, next_tag = 17, armed = RegisterRequest, cq = [],
     thread_pool = ThreadPool 17, owing = [], sending = [], lost = [], aborted = False\<rparr>"

subsection \<open>The three switches of the loop\<close>

text \<open>
  \<open>htc\<close> is the object an event names and \<open>i\<close> its type: freeing it, arming a new object of its
  type, and the call a task makes.
\<close>

definition free_context :: "int \<Rightarrow> tag \<Rightarrow> service \<Rightarrow> service" where
  "free_context i htc s =
     (if i \<in> set types then s\<lparr>contexts := (contexts s)(htc := None)\<rparr> else s)"

definition arm_again :: "int \<Rightarrow> service \<Rightarrow> service" where
  "arm_again i s =
     (if i \<in> set types
      then s\<lparr>contexts := (contexts s)(next_tag s \<mapsto> \<lparr>htype = i, hstatus = 1\<rparr>),
             armed := next_tag s # armed s, next_tag := Suc (next_tag s)\<rparr>
      else s)"

definition answer :: "int \<Rightarrow> tag \<Rightarrow> service \<Rightarrow> service" where
  \<comment> \<open>a task that got its reply: \<open>status 2; h->responder_.Finish(..., htc)\<close>\<close>
  "answer i htc s =
     (if i \<in> set types
      then s\<lparr>contexts := (contexts s)(htc := map_option (\<lambda>c. c\<lparr>hstatus := 2\<rparr>) (contexts s htc)),
             sending := htc # sending s\<rparr>
      else s)"

subsection \<open>Steps\<close>

datatype move =
    Call tag | Sent tag bool                       \<comment> \<open>the gRPC runtime\<close>
  | Accept tag | Free tag | Abort                  \<comment> \<open>an iteration of the loop\<close>
  | Answer tag | Fail tag                          \<comment> \<open>a task\<close>
  | Pool "(int \<times> tag) Thread_Pool.move"            \<comment> \<open>a step of the pool on its own\<close>

text \<open>
  The pool's own steps: the loop never ends, so the destructor is not among them. A worker
  that returns from its task owes nothing any more.
\<close>

fun own_move :: "tag list \<Rightarrow> (int \<times> tag) Thread_Pool.move \<Rightarrow> bool" where
  "own_move ow Notify = True"
| "own_move ow Wake = True"
| "own_move ow Sleep = True"
| "own_move ow (Take t) = True"
| "own_move ow (Finish t) = (snd t \<notin> set ow)"
| "own_move ow _ = False"

inductive service_step :: "service \<Rightarrow> move \<Rightarrow> service \<Rightarrow> bool" where
  call: "armed s = us @ x # vs
    \<Longrightarrow> service_step s (Call x) (s\<lparr>armed := us @ vs, cq := cq s @ [(x, True)]\<rparr>)"
| sent: "sending s = us @ x # vs
    \<Longrightarrow> service_step s (Sent x ok) (s\<lparr>sending := us @ vs, cq := cq s @ [(x, ok)]\<rparr>)"
| accept: "\<not> aborted s \<Longrightarrow> cq s = us @ (x, True) # vs \<Longrightarrow> contexts s x = Some c \<Longrightarrow> hstatus c \<noteq> 2
    \<Longrightarrow> pool_step (thread_pool s) (Push (htype c, x)) p'
    \<Longrightarrow> service_step s (Accept x) ((arm_again (htype c) (s\<lparr>cq := us @ vs\<rparr>))\<lparr>thread_pool := p'\<rparr>)"
| free: "\<not> aborted s \<Longrightarrow> cq s = us @ (x, True) # vs \<Longrightarrow> contexts s x = Some c \<Longrightarrow> hstatus c = 2
    \<Longrightarrow> service_step s (Free x) (free_context (htype c) x (s\<lparr>cq := us @ vs\<rparr>))"
| abort: "\<not> aborted s \<Longrightarrow> cq s = us @ (x, False) # vs
    \<Longrightarrow> service_step s Abort (s\<lparr>cq := us @ vs, lost := x # lost s, aborted := True\<rparr>)"
| answer: "owing s = us @ x # vs \<Longrightarrow> contexts s x = Some c
    \<Longrightarrow> service_step s (Answer x) (answer (htype c) x (s\<lparr>owing := us @ vs\<rparr>))"
| fail: "owing s = us @ x # vs
    \<Longrightarrow> service_step s (Fail x) (s\<lparr>owing := us @ vs, lost := x # lost s\<rparr>)"
| pool: "own_move (owing s) l \<Longrightarrow> pool_step (thread_pool s) l p'
    \<Longrightarrow> service_step s (Pool l) (s\<lparr>thread_pool := p', owing := map snd (taken l) @ owing s\<rparr>)"

inductive_cases service_stepE: "service_step s l s'"

subsection \<open>Who holds an object\<close>

text \<open>
  Every live object is in exactly one hand: registered, in the completion queue, queued,
  with a worker, being sent, or lost. Its status and its type are what that hand relies on.
\<close>

definition hands :: "service \<Rightarrow> tag list" where
  "hands s = armed s @ map fst (cq s) @ map snd (tasks (thread_pool s)) @ owing s @ sending s @ lost s"

definition has :: "(tag \<rightharpoonup> handler_context) \<Rightarrow> int \<Rightarrow> tag \<Rightarrow> bool" where
  "has cs k x \<longleftrightarrow> (case cs x of None \<Rightarrow> False | Some c \<Rightarrow> hstatus c = k \<and> htype c \<in> set types)"

definition owned_once :: "service \<Rightarrow> bool" where
  "owned_once s \<longleftrightarrow> finite (dom (contexts s)) \<and> mset (hands s) = mset_set (dom (contexts s))
     \<and> (\<forall>x \<in> dom (contexts s). x < next_tag s)"

definition live :: "(tag \<rightharpoonup> handler_context) \<Rightarrow> tag \<Rightarrow> bool" where
  "live cs x \<longleftrightarrow> has cs 1 x \<or> has cs 2 x"

definition typed :: "(tag \<rightharpoonup> handler_context) \<Rightarrow> int \<times> tag \<Rightarrow> bool" where
  "typed cs t \<longleftrightarrow> map_option htype (cs (snd t)) = Some (fst t)"

definition statuses :: "service \<Rightarrow> bool" where
  "statuses s \<longleftrightarrow>
     list_all (has (contexts s) 1) (armed s @ map snd (tasks (thread_pool s)) @ owing s)
     \<and> list_all (has (contexts s) 2) (sending s) \<and> list_all (live (contexts s)) (map fst (cq s))
     \<and> list_all (typed (contexts s)) (tasks (thread_pool s))"

text \<open>The types with an object registered for a call, or with a call the loop has not seen.\<close>

definition htypes :: "(tag \<rightharpoonup> handler_context) \<Rightarrow> tag list \<Rightarrow> int multiset" where
  "htypes cs xs = mset (map (\<lambda>x. htype (the (cs x))) xs)"

definition listening :: "service \<Rightarrow> int multiset" where
  "listening s = htypes (contexts s) (armed s)
     + htypes (contexts s) (filter (has (contexts s) 1) (map fst (cq s)))"

definition one_of_each :: "service \<Rightarrow> bool" where
  "one_of_each s \<longleftrightarrow> aborted s \<or> listening s = mset types"

text \<open>What each kind of step does to the objects.\<close>

inductive_cases push_step: "pool_step p (Push t) p'"

lemma push_effect:
  "pool_step p (Push t) p' \<Longrightarrow> p' = p\<lparr>tasks := tasks p @ [t], notifies := Suc (notifies p)\<rparr>"
  by (erule push_step) simp

lemma own_move_effect:
  "own_move ow l \<Longrightarrow> pool_step p l p' \<Longrightarrow> tasks p = taken l @ tasks p'"
  by (erule pool_stepE) auto

lemma hands_contexts [simp]: "hands (s\<lparr>contexts := cs\<rparr>) = hands s"
  by (simp add: hands_def)

lemma owned_set:
  assumes "owned_once s"
  shows "set (hands s) = dom (contexts s)" and "distinct (hands s)"
proof -
  from assms have fin: "finite (dom (contexts s))" and eq: "mset (hands s) = mset_set (dom (contexts s))"
    by (auto simp: owned_once_def)
  from arg_cong [OF eq, of set_mset] fin show set: "set (hands s) = dom (contexts s)" by simp
  from fin eq set show "distinct (hands s)"
    by (simp add: distinct_count_atmost_1)
qed

lemma tag_fresh:
  assumes "owned_once s"
  shows "next_tag s \<notin> set (armed s)" "next_tag s \<notin> fst ` set (cq s)"
    "next_tag s \<notin> snd ` set (tasks (thread_pool s))" "next_tag s \<notin> set (owing s)"
    "next_tag s \<notin> set (sending s)"
proof -
  have "next_tag s \<notin> set (hands s)"
    using assms by (auto simp: owned_set(1) owned_once_def)
  then show "next_tag s \<notin> set (armed s)" "next_tag s \<notin> fst ` set (cq s)"
    "next_tag s \<notin> snd ` set (tasks (thread_pool s))" "next_tag s \<notin> set (owing s)"
    "next_tag s \<notin> set (sending s)"
    by (simp_all add: hands_def)
qed

lemma owned_step:
  assumes "owned_once s" and "statuses s" and "service_step s l s'"
  shows "owned_once s'"
  using assms(3)
proof (cases rule: service_step.cases)
  case (pool l p')
  with assms(1) show ?thesis
    using own_move_effect [OF pool(3,4)]
    by (simp add: owned_once_def hands_def ac_simps)
next
  case (accept us x vs c p')
  from accept assms(2) have known: "htype c \<in> set types" by (auto simp: statuses_def live_def has_def)
  from assms(1) have fin: "finite (dom (contexts s))" and fresh: "next_tag s \<notin> dom (contexts s)"
    by (auto simp: owned_once_def)
  with assms(1) accept known show ?thesis
    using push_effect [OF accept(7)]
    by (auto simp: owned_once_def hands_def arm_again_def mset_set.insert [OF fin fresh] ac_simps
        intro: less_SucI)
next
  case (free us x vs c)
  from free assms(2) have "htype c \<in> set types" by (auto simp: statuses_def live_def has_def)
  moreover from free assms(1) have "mset_set (dom (contexts s) - {x}) = mset_set (dom (contexts s)) - {#x#}"
    by (subst mset_set_Diff) (auto simp: owned_once_def)
  moreover from free have "mset (hands (s\<lparr>cq := us @ vs\<rparr>)) = mset (hands s) - {#x#}"
    by (simp add: hands_def)
  ultimately show ?thesis
    using assms(1) free by (auto simp: owned_once_def free_context_def)
next
  case (answer us x vs c)
  from answer assms(2) have "htype c \<in> set types" by (auto simp: statuses_def live_def has_def)
  moreover from answer have "dom ((contexts s)(x := map_option f (contexts s x))) = dom (contexts s)" for f
    by auto
  ultimately show ?thesis
    using assms(1) answer by (auto simp: owned_once_def hands_def answer_def)
qed (use assms(1) in \<open>auto simp: owned_once_def hands_def ac_simps\<close>)

lemma has_other [simp]: "y \<noteq> x \<Longrightarrow> has (cs(x := v)) k y = has cs k y"
  by (simp add: has_def)

lemma list_all_other: "x \<notin> set xs \<Longrightarrow> (\<And>y. y \<noteq> x \<Longrightarrow> P y = Q y) \<Longrightarrow> list_all P xs = list_all Q xs"
  by (induction xs) auto

lemma all_other [simp]:
  "x \<notin> set xs \<Longrightarrow> list_all (has (cs(x := v)) k) xs = list_all (has cs k) xs"
  "x \<notin> set xs \<Longrightarrow> list_all (live (cs(x := v))) xs = list_all (live cs) xs"
  by (rule list_all_other, assumption, simp add: live_def)+

lemma has_here [simp]: "has (cs(x \<mapsto> c)) k x \<longleftrightarrow> hstatus c = k \<and> htype c \<in> set types"
  by (simp add: has_def)

lemma all_typed_other [simp]:
  "x \<notin> snd ` set ts \<Longrightarrow> list_all (typed (cs(x := v))) ts = list_all (typed cs) ts"
  by (induction ts) (auto simp: typed_def)

lemma statuses_step:
  assumes "owned_once s" and "statuses s" and "service_step s l s'"
  shows "statuses s'"
proof -
  note d = owned_set [OF assms(1)]
  note new = tag_fresh [OF assms(1)]
  show ?thesis
    using assms(3)
  proof (cases rule: service_step.cases)
    case (pool l p')
    with assms(2) show ?thesis
      using own_move_effect [OF pool(3,4)] by (simp add: statuses_def)
  next
    case (accept us x vs c p')
    from accept assms(2) have "htype c \<in> set types" "has (contexts s) 1 x" "typed (contexts s) (htype c, x)"
      and "x \<noteq> next_tag s"
      using new(2) by (auto simp: statuses_def live_def has_def typed_def)
    with accept(1-6) new assms(2) show ?thesis
      unfolding push_effect [OF accept(7)] by (simp add: statuses_def arm_again_def typed_def image_Un)
  next
    case (free us x vs c)
    then show ?thesis using assms(2) d by (simp add: statuses_def hands_def free_context_def)
  next
    case (answer us x vs c)
    then show ?thesis using assms(2) d by (simp add: statuses_def hands_def answer_def)
  qed (use assms(2) in \<open>auto simp: statuses_def live_def\<close>)
qed

lemma htypes_simps [simp]:
  "htypes cs [] = {#}" "htypes cs (x # xs) = add_mset (htype (the (cs x))) (htypes cs xs)"
  "htypes cs (xs @ ys) = htypes cs xs + htypes cs ys"
  by (simp_all add: htypes_def)

lemma htypes_other [simp]: "x \<notin> set xs \<Longrightarrow> htypes (cs(x := v)) xs = htypes cs xs"
  by (induction xs) auto

lemma filter_other [simp]:
  "x \<notin> set xs \<Longrightarrow> filter (has (cs(x := v)) k) xs = filter (has cs k) xs"
  by (induction xs) auto

lemma one_of_each_step:
  assumes "owned_once s" and "statuses s" and "one_of_each s" and "service_step s l s'"
  shows "one_of_each s'"
proof -
  note d = owned_set [OF assms(1)]
  note new = tag_fresh [OF assms(1)]
  show ?thesis
    using assms(4)
  proof (cases rule: service_step.cases)
    case (accept us x vs c p')
    from accept assms(2) have known: "htype c \<in> set types" "has (contexts s) 1 x"
      by (auto simp: statuses_def live_def has_def)
    with accept new assms(3) show ?thesis
      by (simp add: one_of_each_def listening_def arm_again_def image_Un)
  next
    case (free us x vs c)
    then have "\<not> has (contexts s) 1 x" by (simp add: has_def)
    with free assms(3) d show ?thesis
      by (simp add: one_of_each_def listening_def hands_def free_context_def)
  next
    case (answer us x vs c)
    then show ?thesis using assms(3) d by (simp add: one_of_each_def listening_def hands_def answer_def)
  next
    case (call us x vs)
    then show ?thesis using assms(2,3) by (simp add: one_of_each_def listening_def statuses_def)
  next
    case (sent us x vs ok)
    then have "\<not> has (contexts s) 1 x" using assms(2) by (auto simp: statuses_def has_def split: option.splits)
    then show ?thesis using assms(3) sent by (simp add: one_of_each_def listening_def)
  qed (use assms(3) in \<open>simp_all add: one_of_each_def listening_def\<close>)
qed

subsection \<open>The calls\<close>

fun called :: "move \<Rightarrow> tag list" where
  "called (Call x) = [x]"
| "called _ = []"

fun ended :: "move \<Rightarrow> tag list" where
  \<comment> \<open>answered, or thrown and then never answered\<close>
  "ended (Answer x) = [x]"
| "ended (Fail x) = [x]"
| "ended _ = []"

definition happened :: "(move \<Rightarrow> tag list) \<Rightarrow> move list \<Rightarrow> tag list" where
  "happened f ls = concat (map f ls)"

lemma happened_simps [simp]:
  "happened f [] = []" "happened f (ls @ [l]) = happened f ls @ f l"
  by (simp_all add: happened_def)

text \<open>
  Every call is with the completion queue, with the pool, with a worker, or has ended, and
  it is in one of these places once.
\<close>

definition accounted :: "move list \<Rightarrow> service \<Rightarrow> bool" where
  "accounted ls s \<longleftrightarrow> distinct (happened called ls)
     \<and> set (happened called ls) \<inter> set (armed s) = {}
     \<and> (\<forall>x \<in> set (happened called ls). x < next_tag s)
     \<and> (aborted s \<or> mset (happened called ls) =
          mset (filter (has (contexts s) 1) (map fst (cq s))) + mset (map snd (tasks (thread_pool s)))
          + mset (owing s) + mset (happened ended ls))"

lemma accounted_step:
  assumes "owned_once s" and "statuses s" and "accounted ls s" and "service_step s l s'"
  shows "accounted (ls @ [l]) s'"
proof -
  note d = owned_set [OF assms(1)]
  note new = tag_fresh [OF assms(1)]
  show ?thesis
    using assms(4)
  proof (cases rule: service_step.cases)
    case (accept us x vs c p')
    from accept assms(2) have "htype c \<in> set types" "has (contexts s) 1 x" and "next_tag s \<noteq> x"
      using new(2) by (auto simp: statuses_def live_def has_def)
    with accept(1-6) new assms(3) show ?thesis
      unfolding push_effect [OF accept(7)]
      by (auto simp: accounted_def arm_again_def image_Un simp del: mset_filter mset_map intro: less_SucI)
  next
    case (free us x vs c)
    then have "\<not> has (contexts s) 1 x" by (simp add: has_def)
    with free assms(3) d show ?thesis
      by (simp add: accounted_def hands_def free_context_def del: mset_filter mset_map)
  next
    case (answer us x vs c)
    from answer assms(2) have "htype c \<in> set types" by (auto simp: statuses_def has_def)
    with answer show ?thesis using assms(3) d by (simp add: accounted_def hands_def answer_def del: mset_filter mset_map)
  next
    case (call us x vs)
    moreover from call d have "x \<notin> set us" "x \<notin> set vs" by (auto simp: hands_def)
    moreover from call assms(1) d have "x < next_tag s" by (auto simp: owned_once_def hands_def)
    ultimately show ?thesis
      using assms(2,3) by (auto simp: accounted_def statuses_def simp del: mset_filter mset_map)
  next
    case (sent us x vs ok)
    then have "\<not> has (contexts s) 1 x" using assms(2) by (auto simp: statuses_def has_def split: option.splits)
    then show ?thesis using assms(3) sent by (simp add: accounted_def del: mset_filter mset_map)
  next
    case (pool l p')
    with assms(3) show ?thesis
      using own_move_effect [OF pool(3,4)] by (auto simp: accounted_def simp del: mset_filter mset_map)
  qed (use assms(3) in \<open>auto simp: accounted_def simp del: mset_filter mset_map\<close>)
qed

lemma pool_kept:
  "service_step s l s' \<Longrightarrow> alert (thread_pool s) \<Longrightarrow> alert (thread_pool s')
     \<and> length (workers (thread_pool s')) = length (workers (thread_pool s))"
  by (erule service_stepE)
    (auto simp: arm_again_def free_context_def answer_def dest: alert_step pool_length)

definition service_inv :: "move list \<Rightarrow> service \<Rightarrow> bool" where
  "service_inv ls s \<longleftrightarrow> owned_once s \<and> statuses s \<and> one_of_each s \<and> accounted ls s
     \<and> alert (thread_pool s) \<and> length (workers (thread_pool s)) = 17"

lemma numbers17: "[0..<17] = [0, 1, 2, 3, 4, 5, 6, 7, 8, 9, 10, 11, 12, 13, 14, 15, 16 :: nat]"
  by (simp add: upt_conv_Cons)

lemma service_start: "service_inv [] Service"
proof -
  have "dom vcaService = set [0..<17]"
    by (auto simp: vcaService_def dom_map_of_conv_image_fst types_def numbers17)
  moreover have "mset_set (set [0..<17 :: nat]) = mset [0..<17]"
    by (rule mset_set_set) simp
  ultimately have "owned_once Service"
    by (simp add: owned_once_def hands_def Service_def RegisterRequest_def ThreadPool_def)
  moreover have "statuses Service" "one_of_each Service"
    by (simp_all add: statuses_def one_of_each_def listening_def Service_def RegisterRequest_def
        ThreadPool_def vcaService_def types_def has_def htypes_def numbers17)
  ultimately show ?thesis
    by (simp add: service_inv_def accounted_def alert_def Service_def ThreadPool_def)
qed

interpretation service: invariant_system service_step Service service_inv
  by (unfold_locales, rule service_start)
    (auto simp: service_inv_def dest: pool_kept
      intro: owned_step statuses_step one_of_each_step accounted_step)

subsection \<open>Answers that are not sent\<close>










subsection \<open>Properties\<close>

text \<open>C5. The objects of the service are used safely: however events, workers and the loop
  interleave, every live object is in one hand, objects in a hand are live, and each has the
  status and the type its hand relies on, so nothing is freed while it is used or twice.\<close>

theorem service_objects: "always service_step Service (\<lambda>_ s. owned_once s \<and> statuses s)"
  by (rule always_mono [OF service.invariant]) (simp add: service_inv_def)

text \<open>C10. The service never stops listening: until it is aborted, exactly one object of each of
  the 17 types is registered for a call or holds a call the loop has not seen.\<close>

theorem service_listens: "always service_step Service (\<lambda>_ s. one_of_each s)"
  by (rule always_mono [OF service.invariant]) (simp add: service_inv_def)

text \<open>C16. Every call is accounted for, waiting, being worked on or ended, and ends at most once:
  it is answered once, or its task threw and it is never answered.\<close>

theorem service_calls: "always service_step Service accounted"
  by (rule always_mono [OF service.invariant]) (simp add: service_inv_def)


end
