(* ===== verification/Python_Hook.thy ===== *)
theory Python_Hook
  imports Json_Text
begin

text \<open>
  Calling Python scripts through the C API, as \<open>Monitor\<close> and \<open>vca_murderHook\<close> do it. The
  interpreter and the scripts are the environment: whether it starts, which modules load,
  what an attribute is, what a call returns, and jsoncpp's serialisers. The code holds raw
  pointers into the objects it gets, so a string carries whether it outlives the dictionary
  it was found in. The ways a hook can go wrong that are not a value are \<open>crash\<close>es.
\<close>

datatype pykey =
    Key_Str string bool   \<comment> \<open>its text, and whether something but its dictionary keeps it alive\<close>
  | Key_Other             \<comment> \<open>a key that is no string\<close>

datatype pyval =
    Py_Int int
  | Py_Str string bool   \<comment> \<open>its text; does something but its dictionary keep it alive?\<close>
  | Py_Dict "(pykey \<times> pyval) list"
  | Py_Other

datatype attr = Missing | Not_Callable | Callable

record 'p python =
  initialize :: "'p \<Rightarrow> bool \<times> 'p"
  import_module :: "string \<Rightarrow> 'p \<Rightarrow> bool \<times> 'p"
  attribute :: "string \<Rightarrow> string \<Rightarrow> 'p \<Rightarrow> attr \<times> 'p"
  call_object :: "string \<Rightarrow> string \<Rightarrow> string list option \<Rightarrow> 'p \<Rightarrow> pyval option \<times> 'p"
  py_styled :: "json \<Rightarrow> string"
  py_fast :: "json \<Rightarrow> string"

datatype crash =
    Aborted          \<comment> \<open>a failed \<open>assert\<close>\<close>
  | Null_Object      \<comment> \<open>\<open>Py_DECREF\<close> or jsoncpp is given a null pointer\<close>
  | Unset_Variable   \<comment> \<open>\<open>PyArg_Parse\<close> failed and its variable is used\<close>
  | Overrun          \<comment> \<open>\<open>sprintf\<close> into a buffer that is too small\<close>
  | Dangling         \<comment> \<open>text is read that was freed with its dictionary\<close>

type_synonym ('p, 'a) hook = "'p \<Rightarrow> (crash + 'a) \<times> 'p"

definition give :: "'a \<Rightarrow> ('p, 'a) hook" where
  "give a p = (Inr a, p)"

definition crash_with :: "crash \<Rightarrow> ('p, 'a) hook" where
  "crash_with c p = (Inl c, p)"

definition andthen :: "('p, 'a) hook \<Rightarrow> ('a \<Rightarrow> ('p, 'b) hook) \<Rightarrow> ('p, 'b) hook" where
  "andthen m f p = (case m p of (Inl c, p') \<Rightarrow> (Inl c, p') | (Inr a, p') \<Rightarrow> f a p')"

definition ask_py :: "('p \<Rightarrow> 'a \<times> 'p) \<Rightarrow> ('p, 'a) hook" where
  "ask_py f p = (case f p of (a, p') \<Rightarrow> (Inr a, p'))"

definition assert_py :: "bool \<Rightarrow> ('p, unit) hook" where
  "assert_py b = (if b then give () else crash_with Aborted)"

definition need :: "crash \<Rightarrow> 'a option \<Rightarrow> ('p, 'a) hook" where
  "need c x = (case x of None \<Rightarrow> crash_with c | Some a \<Rightarrow> give a)"

subsection \<open>Reading a result\<close>

text \<open>
  \<open>PyDict_Size\<close> is \<open>-1\<close> for what is not a dictionary; \<open>PyDict_GetItemString\<close> gives null for a
  missing key, and \<open>PyArg_Parse\<close> leaves its variable alone when it is given null, an object
  of another type, an integer out of range or a string with a null character.
\<close>

fun py_size :: "pyval \<Rightarrow> int" where
  "py_size (Py_Dict d) = int (length d)"
| "py_size _ = - 1"

fun key_text :: "pykey \<Rightarrow> string option" where
  "key_text (Key_Str s _) = Some s"
| "key_text Key_Other = None"

fun py_item :: "pyval \<Rightarrow> string \<Rightarrow> pyval option" where
  "py_item (Py_Dict d) k = map_of (map (\<lambda>(k, v). (key_text k, v)) d) (Some k)"
| "py_item _ k = None"

definition parse_int :: "pyval option \<Rightarrow> int option" where
  "parse_int x = (case x of Some (Py_Int k) \<Rightarrow>
     if - 2147483648 \<le> k \<and> k \<le> 2147483647 then Some k else None | _ \<Rightarrow> None)"

type_synonym cptr = "string \<times> bool"   \<comment> \<open>what it points to; is that still allocated?\<close>

definition parse_str :: "pyval option \<Rightarrow> cptr option" where
  "parse_str x = (case x of Some (Py_Str s keeps) \<Rightarrow>
     if CHR 0x00 \<in> set s then None else Some (s, keeps) | _ \<Rightarrow> None)"

subsection \<open>The common beginning of every call\<close>

text \<open>
  The function is fetched and called; \<open>None\<close> is the early return of a function that is not
  callable. Where the function is missing or the call raises, \<open>Py_DECREF\<close> is given the null
  pointer just tested for.
\<close>

definition call_function ::
  "'p python \<Rightarrow> string \<Rightarrow> string \<Rightarrow> string list option \<Rightarrow> ('p, pyval option) hook" where
  "call_function E md name args =
     andthen (ask_py (attribute E md name)) (\<lambda>pFunc. case pFunc of
       Missing \<Rightarrow> crash_with Null_Object
     | Not_Callable \<Rightarrow> give None
     | Callable \<Rightarrow>
         andthen (ask_py (call_object E md name args)) (\<lambda>pDict. case pDict of
           None \<Rightarrow> crash_with Null_Object
         | Some v \<Rightarrow> give (Some v)))"

named_theorems hook_simps "evaluation of hooks"

declare give_def [hook_simps] crash_with_def [hook_simps] andthen_def [hook_simps]
  ask_py_def [hook_simps] assert_py_def [hook_simps] need_def [hook_simps]
  call_function_def [hook_simps]

lemma andthen_assoc: "andthen (andthen m f) g = andthen m (\<lambda>a. andthen (f a) g)"
  by (auto simp: andthen_def fun_eq_iff split: prod.splits sum.splits)

lemma andthen_give [simp]: "andthen (give a) f = f a" "andthen m give = m"
  by (auto simp: andthen_def give_def fun_eq_iff split: prod.splits sum.splits)

text \<open>A hook that ended in a value went through a value of its first part.\<close>

lemma andthen_value:
  "andthen m f p = (Inr b, p') \<longleftrightarrow> (\<exists>a q. m p = (Inr a, q) \<and> f a q = (Inr b, p'))"
  by (auto simp: andthen_def split: prod.splits sum.splits)

text \<open>\<open>gives m Q\<close>: if the hook ends in a value, the value satisfies \<open>Q\<close>.\<close>

definition gives :: "('p, 'a) hook \<Rightarrow> ('a \<Rightarrow> bool) \<Rightarrow> bool" where
  "gives m Q \<longleftrightarrow> (\<forall>p a p'. m p = (Inr a, p') \<longrightarrow> Q a)"

lemma gives_give [simp]: "gives (give a) Q \<longleftrightarrow> Q a"
  by (simp add: gives_def give_def)

lemma gives_crash [simp]: "gives (crash_with c) Q"
  by (simp add: gives_def crash_with_def)

lemma gives_andthen: "gives m P \<Longrightarrow> (\<And>a. P a \<Longrightarrow> gives (f a) Q) \<Longrightarrow> gives (andthen m f) Q"
  unfolding gives_def andthen_value by blast

lemma gives_any: "gives m (\<lambda>_. True)"
  by (simp add: gives_def)

lemma gives_if: "(b \<Longrightarrow> gives m Q) \<Longrightarrow> (\<not> b \<Longrightarrow> gives m' Q) \<Longrightarrow> gives (if b then m else m') Q"
  by simp

lemma gives_need: "(\<And>a. x = Some a \<Longrightarrow> Q a) \<Longrightarrow> gives (need c x) Q"
  by (cases x) (simp_all add: need_def)

lemma gives_mono: "gives m P \<Longrightarrow> (\<And>a. P a \<Longrightarrow> Q a) \<Longrightarrow> gives m Q"
  by (auto simp: gives_def)

subsection \<open>The length of printed numbers\<close>

lemma dec_length: "length (dec n) \<le> k \<Longrightarrow> n < 10 ^ k"
proof (induction n arbitrary: k rule: dec.induct)
  case (1 n)
  show ?case
  proof (cases "n < 10")
    case True
    with 1(2) have "1 \<le> k" by (simp add: dec.simps)
    then have "(10 :: nat) ^ 1 \<le> 10 ^ k" by (intro power_increasing) auto
    with True show ?thesis by simp
  next
    case False
    with 1(2) obtain j where j: "k = Suc j" "length (dec (n div 10)) \<le> j"
      by (cases k) (auto simp: dec.simps [of n])
    from 1(1) [OF False j(2)] j(1) show ?thesis by (simp add: div_less_iff_less_mult mult.commute)
  qed
qed

lemma length_dec: "0 < k \<Longrightarrow> n < 10 ^ k \<Longrightarrow> length (dec n) \<le> k"
proof (induction n arbitrary: k rule: dec.induct)
  case (1 n)
  show ?case
  proof (cases "n < 10")
    case False
    with 1(3) obtain j where j: "k = Suc j" "0 < j" by (cases k; cases "k - 1") auto
    with 1(3) have "n div 10 < 10 ^ j" by (simp add: div_less_iff_less_mult mult.commute)
    from 1(1) [OF False j(2) this] False j(1) show ?thesis by (simp add: dec.simps [of n])
  qed (use 1(2) in \<open>simp add: dec.simps [of n]\<close>)
qed

lemma printed_range: "length (to_string c) \<le> 9 \<longleftrightarrow> - 100000000 < c \<and> c < 1000000000"
proof (cases "c < 0")
  case True
  then have "length (to_string c) \<le> 9 \<longleftrightarrow> length (dec (nat (- c))) \<le> 8" by (simp add: to_string_def)
  also have "\<dots> \<longleftrightarrow> nat (- c) < 10 ^ 8" using dec_length [of _ 8] length_dec [of 8] by auto
  finally show ?thesis using True by auto
next
  case False
  then have "length (to_string c) \<le> 9 \<longleftrightarrow> length (dec (nat c)) \<le> 9" by (simp add: to_string_def)
  also have "\<dots> \<longleftrightarrow> nat c < 10 ^ 9" using dec_length [of _ 9] length_dec [of 9] by auto
  finally show ?thesis using False by auto
qed

end
