(* ===== verification/Monitor.thy ===== *)
theory Monitor
  imports Python_Hook Controller
begin

text \<open>
  The host monitor (monitor/vca_monitorHook.cpp): eleven Python scripts whose dictionaries are
  turned into JSON texts and collected into one report, and the controller's \<open>HostInfo\<close>. The
  \<open>std::map<const char *, const char *>\<close> of a query is the list of its pairs; the keys are
  literals of the code, so their order does not show in the JSON object. The \<open>code\<close> of a
  script is printed into the caller's ten characters, which outlive the query.
\<close>

subsection \<open>The queries\<close>

definition parse_strs :: "pyval \<Rightarrow> string list \<Rightarrow> (string \<times> cptr option) list" where
  "parse_strs d keys = map (\<lambda>k. (k, parse_str (py_item d k))) keys"

definition print_code :: "int \<Rightarrow> ('p, cptr) hook" where
  \<comment> \<open>\<open>sprintf(cc, "%d", code)\<close> into \<open>char cc[10]\<close>, with the terminating null\<close>
  "print_code code = (if length (to_string code) \<le> 9 then give (to_string code, True)
     else crash_with Overrun)"

text \<open>
  The body the queries have in common but for module, size and keys. \<open>None\<close> is \<open>false\<close>; the
  variables a failed \<open>PyArg_Parse\<close> left unset are used in the \<open>insert\<close> calls.
\<close>

definition query ::
  "'p python \<Rightarrow> string \<Rightarrow> string \<Rightarrow> int \<Rightarrow> string list \<Rightarrow> ('p, (string \<times> cptr) list option) hook" where
  "query E module_name name sz keys =
     andthen (call_function E module_name name None) (\<lambda>pDict. case pDict of
       None \<Rightarrow> give None
     | Some d \<Rightarrow>
         if py_size d \<noteq> sz then give None
         else
           andthen (need Unset_Variable (parse_int (py_item d ''code''))) (\<lambda>code.
           andthen (print_code code) (\<lambda>c.
           if list_ex (\<lambda>(_, v). v = None) (parse_strs d keys) then crash_with Unset_Variable
           else give (Some ((''code'', c) # map (\<lambda>(k, v). (k, the v)) (parse_strs d keys))))))"

definition getHostCpuPressure :: "'p python \<Rightarrow> ('p, (string \<times> cptr) list option) hook" where
  "getHostCpuPressure E = query E ''cpu_pressure'' ''get_cpurate'' 3 [''value'', ''obj'']"

definition getHostCpuTemperature :: "'p python \<Rightarrow> ('p, (string \<times> cptr) list option) hook" where
  "getHostCpuTemperature E = query E ''cpu_temperature'' ''get_cpuT'' 3 [''value'', ''obj'']"

definition getHostDiskIoINfo :: "'p python \<Rightarrow> ('p, (string \<times> cptr) list option) hook" where
  "getHostDiskIoINfo E = query E ''disk_io'' ''disk_ioinfo'' 4 [''read'', ''write'', ''obj'']"

definition getHostDiskRate :: "'p python \<Rightarrow> ('p, (string \<times> cptr) list option) hook" where
  "getHostDiskRate E = query E ''disk_rate'' ''fun_disk'' 6
     [''total'', ''percent'', ''free'', ''used'', ''obj'']"

definition getHostSwapRate :: "'p python \<Rightarrow> ('p, (string \<times> cptr) list option) hook" where
  "getHostSwapRate E = query E ''swap_rate'' ''fun_swap'' 6
     [''total'', ''percent'', ''free'', ''used'', ''obj'']"

definition getHostMemoryRate :: "'p python \<Rightarrow> ('p, (string \<times> cptr) list option) hook" where
  "getHostMemoryRate E = query E ''memory_rate'' ''fun_memory'' 6
     [''total'', ''percent'', ''free'', ''used'', ''obj'']"

definition getHostNetInfo :: "'p python \<Rightarrow> ('p, (string \<times> cptr) list option) hook" where
  "getHostNetInfo E = query E ''net_info'' ''net_info'' 4 [''recv'', ''send'', ''obj'']"

definition getHostRangeLoad :: "'p python \<Rightarrow> ('p, (string \<times> cptr) list option) hook" where
  "getHostRangeLoad E = query E ''range_load'' ''get_load'' 5
     [''lavg_1'', ''lavg_5'', ''lavg_15'', ''obj'']"

definition getHostUptime :: "'p python \<Rightarrow> ('p, (string \<times> cptr) list option) hook" where
  "getHostUptime E = query E ''up_time'' ''uptime'' 3 [''value'', ''obj'']"

definition getHostHardware :: "'p python \<Rightarrow> ('p, (string \<times> cptr) list option) hook" where
  "getHostHardware E = query E ''hardware'' ''hardware_message'' 7
     [''obj'', ''kernel'', ''cpumodel'', ''osversion'', ''sockets'', ''cpus'']"

text \<open>
  The network cards: every pair of a dictionary of any positive size. \<open>PyString_AsString\<close> of
  what is no string is null, which jsoncpp cannot take; a string is read up to a null
  character. Each early return releases the null \<open>pDict\<close>, except when the call gave an object
  that is no dictionary or an empty one.
\<close>

fun as_cptr :: "pyval \<Rightarrow> cptr option" where
  "as_cptr (Py_Str s keeps) = Some (c_str s, keeps)"
| "as_cptr _ = None"

fun key_cptr :: "pykey \<Rightarrow> cptr option" where
  "key_cptr (Key_Str s keeps) = Some (c_str s, keeps)"
| "key_cptr Key_Other = None"

fun dict_pairs :: "pyval \<Rightarrow> (pykey \<times> pyval) list" where
  "dict_pairs (Py_Dict d) = d"
| "dict_pairs _ = []"

definition getHostNetCount :: "'p python \<Rightarrow> ('p, (cptr option \<times> cptr option) list option) hook" where
  "getHostNetCount E =
     andthen (ask_py (attribute E ''net_count'' ''net_count'')) (\<lambda>pFunc.
     if pFunc \<noteq> Callable then crash_with Null_Object
     else andthen (ask_py (call_object E ''net_count'' ''net_count'' None)) (\<lambda>pDict. case pDict of
         None \<Rightarrow> crash_with Null_Object
       | Some d \<Rightarrow>
           if py_size d < 1 then give None
           else give (Some (map (\<lambda>(k, v). (key_cptr k, as_cptr v)) (dict_pairs d)))))"

subsection \<open>The report\<close>

text \<open>\<open>mapTojsonstr\<close> reads every text the map points to, after the dictionary was released.\<close>

definition monitor_json :: "'p python \<Rightarrow> (string \<times> cptr) list \<Rightarrow> ('p, string) hook" where
  "monitor_json E m =
     (if list_ex (\<lambda>(_, _, alive). \<not> alive) m then crash_with Dangling
      else give (py_styled E (mapTojson (\<lambda>(s, _). JStr s) (map_build m))))"

definition net_json :: "'p python \<Rightarrow> (cptr option \<times> cptr option) list \<Rightarrow> ('p, string) hook" where
  "net_json E m =
     (if list_ex (\<lambda>(k, v). k = None \<or> v = None) m then crash_with Null_Object
      else if list_ex (\<lambda>(k, _). \<not> snd (the k)) m then crash_with Dangling
      else monitor_json E (map (\<lambda>(k, v). (fst (the k), the v)) m))"

text \<open>One \<open>if (ret) append else data = ...\<close> of \<open>getHostInfo\<close>; the state is the array and \<open>data\<close>.\<close>

definition part ::
  "('p, 'm option) hook \<Rightarrow> ('m \<Rightarrow> ('p, string) hook) \<Rightarrow> string
     \<Rightarrow> json list \<times> string \<Rightarrow> ('p, json list \<times> string) hook" where
  "part q text msg = (\<lambda>(jsonarray, data). andthen q (\<lambda>r. case r of
       None \<Rightarrow> give (jsonarray, msg)
     | Some m \<Rightarrow> andthen (text m) (\<lambda>t. give (jsonarray @ [JStr t], data))))"

definition host_parts :: "'p python \<Rightarrow> (json list \<times> string \<Rightarrow> ('p, json list \<times> string) hook) list" where
  "host_parts E =
     [part (getHostCpuPressure E) (monitor_json E) ''Failed to get host cpu pressure information!'',
      part (getHostCpuTemperature E) (monitor_json E) ''Failed to get host cputemp information!'',
      part (getHostDiskIoINfo E) (monitor_json E) ''Failed to get host io information!'',
      part (getHostDiskRate E) (monitor_json E) ''Failed to get host disk information!'',
      part (getHostSwapRate E) (monitor_json E) ''Failed to get host swap information!'',
      part (getHostMemoryRate E) (monitor_json E) ''Failed to get host memory information!'',
      part (getHostNetCount E) (net_json E) ''Failed to get host network information!'',
      part (getHostNetInfo E) (monitor_json E) ''Failed to get host netinfo information!'',
      part (getHostRangeLoad E) (monitor_json E) ''Failed to get host load information!'',
      part (getHostUptime E) (monitor_json E) ''Failed to get host uptime information!'',
      part (getHostHardware E) (monitor_json E) ''Failed to get host hardware information!'']"

fun in_turn :: "('s \<Rightarrow> ('p, 's) hook) list \<Rightarrow> 's \<Rightarrow> ('p, 's) hook" where
  "in_turn [] s = give s"
| "in_turn (f # fs) s = andthen (f s) (in_turn fs)"

definition getHostInfo :: "'p python \<Rightarrow> string \<Rightarrow> ('p, bool \<times> string \<times> string) hook" where
  "getHostInfo E data =
     andthen (in_turn (host_parts E) ([], data)) (\<lambda>(jsonarray, data').
     let hostmes = py_fast E (json_array jsonarray) in give (hostmes \<noteq> [], hostmes, data'))"

subsection \<open>Construction and the handler\<close>

fun import_all :: "'p python \<Rightarrow> string list \<Rightarrow> ('p, unit) hook" where
  "import_all E [] = give ()"
| "import_all E (m # ms) = andthen (ask_py (import_module E m)) (\<lambda>ok.
     andthen (assert_py ok) (\<lambda>_. import_all E ms))"

definition new_Monitor :: "'p python \<Rightarrow> ('p, unit) hook" where
  "new_Monitor E = andthen (ask_py (initialize E)) (\<lambda>ok. andthen (assert_py ok) (\<lambda>_.
     import_all E [''cpu_pressure'', ''cpu_temperature'', ''disk_io'', ''disk_rate'', ''memory_rate'',
       ''swap_rate'', ''net_count'', ''net_info'', ''range_load'', ''up_time'', ''hardware'']))"

definition HostInfo :: "'p python \<Rightarrow> ('p, vcaReply) hook" where
  "HostInfo E = andthen (new_Monitor E) (\<lambda>_. andthen (getHostInfo E []) (\<lambda>(r, info, data).
     give (reply ''getHostInfo'' r (if r then info else data))))"

subsection \<open>What a query gives\<close>

text \<open>The script was there, and a call of it gave \<open>d\<close>.\<close>

definition script_gave :: "'p python \<Rightarrow> string \<Rightarrow> string \<Rightarrow> 'p \<Rightarrow> pyval \<Rightarrow> 'p \<Rightarrow> bool" where
  "script_gave E md name p d p' \<longleftrightarrow> (\<exists>p1. attribute E md name p = (Callable, p1)
     \<and> call_object E md name None p1 = (Some d, p'))"

text \<open>
  The dictionary is a good one and the map \<open>m\<close> is its contents: \<open>code\<close> and the keys, each
  once and no other, \<open>code\<close> a number that fits the nine characters of its buffer, and under
  each key the text the dictionary has there.
\<close>

definition code_fits :: "int \<Rightarrow> bool" where
  "code_fits code \<longleftrightarrow> - 100000000 < code \<and> code < 1000000000"

definition reports :: "(pykey \<times> pyval) list \<Rightarrow> string list \<Rightarrow> (string \<times> cptr) list \<Rightarrow> bool" where
  "reports d keys m \<longleftrightarrow>
     length d = Suc (length keys) \<and> set (map (key_text \<circ> fst) d) = Some ` set (''code'' # keys) \<and>
     (\<exists>code vs. py_item (Py_Dict d) ''code'' = Some (Py_Int code) \<and> code_fits code
        \<and> m = (''code'', to_string code, True) # zip keys vs
        \<and> list_all2 (\<lambda>k (s, keeps). py_item (Py_Dict d) k = Some (Py_Str s keeps) \<and> CHR 0x00 \<notin> set s)
            keys vs)"

definition overruns :: "(pykey \<times> pyval) list \<Rightarrow> string list \<Rightarrow> bool" where
  "overruns d keys \<longleftrightarrow> length d = Suc (length keys)
     \<and> (\<exists>code. py_item (Py_Dict d) ''code'' = Some (Py_Int code) \<and> \<not> code_fits code
          \<and> - 2147483648 \<le> code \<and> code \<le> 2147483647)"

definition faithful ::
  "'p python \<Rightarrow> ('p, (string \<times> cptr) list option) hook \<Rightarrow> string \<Rightarrow> string \<Rightarrow> string list \<Rightarrow> bool" where
  "faithful E f md name keys \<longleftrightarrow> (\<forall>p p'.
     (\<forall>m. f p = (Inr (Some m), p') \<longleftrightarrow>
        (\<exists>d. script_gave E md name p (Py_Dict d) p' \<and> reports d keys m)) \<and>
     (f p = (Inr None, p') \<longleftrightarrow> attribute E md name p = (Not_Callable, p') \<or>
        (\<exists>d. script_gave E md name p d p' \<and> py_size d \<noteq> int (Suc (length keys)))) \<and>
     (f p = (Inl Overrun, p') \<longleftrightarrow>
        (\<exists>d. script_gave E md name p (Py_Dict d) p' \<and> overruns d keys)))"

text \<open>A dictionary of the right size that has all keys has no other.\<close>

lemma keys_exact:
  assumes "length d = length ks" and "distinct ks"
    and "\<forall>k \<in> set ks. py_item (Py_Dict d) k \<noteq> None"
  shows "set (map (key_text \<circ> fst) d) = Some ` set ks"
proof (rule card_seteq [symmetric])
  show "Some ` set ks \<subseteq> set (map (key_text \<circ> fst) d)"
    using assms(3) by (force dest: map_of_SomeD)
  have "card (set (map (key_text \<circ> fst) d)) \<le> length ks"
    using card_length [of "map (key_text \<circ> fst) d"] assms(1) by simp
  also have "\<dots> = card (Some ` set ks)"
    using assms(2) by (simp add: card_image distinct_card)
  finally show "card (set (map (key_text \<circ> fst) d)) \<le> card (Some ` set ks)" .
qed simp

lemma parse_str_Some:
  "parse_str x = Some (s, b) \<longleftrightarrow> x = Some (Py_Str s b) \<and> CHR 0x00 \<notin> set s"
  by (auto simp: parse_str_def split: option.splits pyval.splits if_splits)

lemma strs_read:
  "\<not> list_ex (\<lambda>(_, v). v = None) (parse_strs d keys) \<Longrightarrow>
     \<exists>vs. map (\<lambda>(k, v). (k, the v)) (parse_strs d keys) = zip keys vs
       \<and> list_all2 (\<lambda>k (s, keeps). py_item d k = Some (Py_Str s keeps) \<and> CHR 0x00 \<notin> set s) keys vs"
proof (induction keys)
  case (Cons k keys)
  then obtain vs where "map (\<lambda>(k, v). (k, the v)) (parse_strs d keys) = zip keys vs"
    "list_all2 (\<lambda>k (s, keeps). py_item d k = Some (Py_Str s keeps) \<and> CHR 0x00 \<notin> set s) keys vs"
    by (auto simp: parse_strs_def)
  moreover from Cons.prems obtain s b where ps: "parse_str (py_item d k) = Some (s, b)"
    by (auto simp: parse_strs_def)
  moreover note ps [unfolded parse_str_Some]
  ultimately show ?case
    by (intro exI [of _ "(s, b) # vs"]) (simp add: parse_strs_def)
qed (simp add: parse_strs_def)

lemma strs_found:
  "list_all2 (\<lambda>k (s, keeps). py_item d k = Some (Py_Str s keeps) \<and> CHR 0x00 \<notin> set s) keys vs \<Longrightarrow>
     \<not> list_ex (\<lambda>(_, v). v = None) (parse_strs d keys)
     \<and> map (\<lambda>(k, v). (k, the v)) (parse_strs d keys) = zip keys vs"
  by (induction rule: list_all2_induct) (auto simp: parse_strs_def parse_str_def)

text \<open>What becomes of the object a script gave.\<close>

definition digest :: "int \<Rightarrow> string list \<Rightarrow> pyval \<Rightarrow> crash + (string \<times> cptr) list option" where
  "digest sz keys d =
     (if py_size d \<noteq> sz then Inr None
      else case parse_int (py_item d ''code'') of None \<Rightarrow> Inl Unset_Variable
        | Some code \<Rightarrow> if \<not> code_fits code then Inl Overrun
           else if list_ex (\<lambda>(_, v). v = None) (parse_strs d keys) then Inl Unset_Variable
           else Inr (Some ((''code'', to_string code, True) # map (\<lambda>(k, v). (k, the v)) (parse_strs d keys))))"

lemma query_run:
  "query E md name sz keys p = (case attribute E md name p of
       (Missing, p1) \<Rightarrow> (Inl Null_Object, p1)
     | (Not_Callable, p1) \<Rightarrow> (Inr None, p1)
     | (Callable, p1) \<Rightarrow> (case call_object E md name None p1 of
           (None, p2) \<Rightarrow> (Inl Null_Object, p2)
         | (Some d, p2) \<Rightarrow> (digest sz keys d, p2)))"
proof -
  have tail: "(if py_size d \<noteq> sz then give None else
      andthen (need Unset_Variable (parse_int (py_item d ''code''))) (\<lambda>code. andthen (print_code code) (\<lambda>c.
        if list_ex (\<lambda>(_, v). v = None) (parse_strs d keys) then crash_with Unset_Variable
        else give (Some ((''code'', c) # map (\<lambda>(k, v). (k, the v)) (parse_strs d keys)))))) q
      = (digest sz keys d, q)" for d q
    by (cases "parse_int (py_item d ''code'')")
      (simp_all add: digest_def print_code_def printed_range code_fits_def hook_simps)
  show ?thesis
    unfolding query_def by (simp add: tail call_function_def andthen_assoc hook_simps
        split: prod.split attr.split option.split)
qed

lemma query_digest:
  "query E md name sz keys p = (r, p') \<longleftrightarrow>
     (\<exists>d. script_gave E md name p d p' \<and> r = digest sz keys d)
     \<or> attribute E md name p = (Not_Callable, p') \<and> r = Inr None
     \<or> r = Inl Null_Object \<and> (attribute E md name p = (Missing, p') \<or>
          (\<exists>p1. attribute E md name p = (Callable, p1) \<and> call_object E md name None p1 = (None, p')))"
  unfolding query_run script_gave_def
  by (auto split: prod.splits attr.splits option.splits)

lemma digest_reports:
  assumes "distinct (''code'' # keys)"
  shows "digest (int (Suc (length keys))) keys d = Inr (Some m) \<longleftrightarrow> (\<exists>d'. d = Py_Dict d' \<and> reports d' keys m)"
    (is "?l \<longleftrightarrow> ?r")
proof
  assume l: ?l
  then obtain code where size: "py_size d = int (Suc (length keys))"
    and code: "parse_int (py_item d ''code'') = Some code" "code_fits code"
    and strs: "\<not> list_ex (\<lambda>(_, v). v = None) (parse_strs d keys)"
    and m: "m = (''code'', to_string code, True) # map (\<lambda>(k, v). (k, the v)) (parse_strs d keys)"
    by (auto simp: digest_def split: if_splits option.splits)
  from size obtain d' where d: "d = Py_Dict d'" "length d' = Suc (length keys)"
    by (cases d) auto
  from code have item: "py_item d ''code'' = Some (Py_Int code)"
    by (auto simp: parse_int_def split: option.splits pyval.splits if_splits)
  from strs_read [OF strs] obtain vs where
    vs: "map (\<lambda>(k, v). (k, the v)) (parse_strs d keys) = zip keys vs"
    "list_all2 (\<lambda>k (s, keeps). py_item d k = Some (Py_Str s keeps) \<and> CHR 0x00 \<notin> set s) keys vs" by blast
  have "\<forall>k \<in> set keys. py_item d k \<noteq> None"
    using vs(2) by (induction rule: list_all2_induct) auto
  then have "set (map (key_text \<circ> fst) d') = Some ` set (''code'' # keys)"
    using keys_exact [of d' "''code'' # keys"] d item assms by auto
  with d item code(2) vs m show ?r unfolding reports_def by blast
next
  assume ?r
  then obtain d' code vs where d: "d = Py_Dict d'" "length d' = Suc (length keys)"
    and code: "py_item d ''code'' = Some (Py_Int code)" "code_fits code"
    and m: "m = (''code'', to_string code, True) # zip keys vs"
    and vs: "list_all2 (\<lambda>k (s, keeps). py_item d k = Some (Py_Str s keeps) \<and> CHR 0x00 \<notin> set s) keys vs"
    unfolding reports_def by blast
  from code have "parse_int (py_item d ''code'') = Some code"
    by (simp add: parse_int_def code_fits_def)
  with d code(2) m strs_found [OF vs] show ?l by (simp add: digest_def del: py_item.simps)
qed

lemma digest_other:
  "digest sz keys d = Inr None \<longleftrightarrow> py_size d \<noteq> sz"
  "digest (int (Suc (length keys))) keys d = Inl Overrun \<longleftrightarrow> (\<exists>d'. d = Py_Dict d' \<and> overruns d' keys)"
  "digest sz keys d \<noteq> Inl Null_Object"
  by (cases d; auto simp: digest_def overruns_def parse_int_def code_fits_def simp del: py_item.simps
      split: option.splits pyval.splits if_splits)+

lemma query_faithful:
  assumes "distinct (''code'' # keys)"
  shows "faithful E (query E md name (int (Suc (length keys))) keys) md name keys"
  unfolding faithful_def query_digest
  using digest_reports [OF assms] digest_other by (auto, metis+)

text \<open>The ten queries of fixed size, each with its script and keys.\<close>

definition queries_faithful :: "'p python \<Rightarrow> bool" where
  "queries_faithful E \<longleftrightarrow>
     faithful E (getHostCpuPressure E) ''cpu_pressure'' ''get_cpurate'' [''value'', ''obj'']
   \<and> faithful E (getHostCpuTemperature E) ''cpu_temperature'' ''get_cpuT'' [''value'', ''obj'']
   \<and> faithful E (getHostDiskIoINfo E) ''disk_io'' ''disk_ioinfo'' [''read'', ''write'', ''obj'']
   \<and> faithful E (getHostDiskRate E) ''disk_rate'' ''fun_disk'' [''total'', ''percent'', ''free'', ''used'', ''obj'']
   \<and> faithful E (getHostSwapRate E) ''swap_rate'' ''fun_swap'' [''total'', ''percent'', ''free'', ''used'', ''obj'']
   \<and> faithful E (getHostMemoryRate E) ''memory_rate'' ''fun_memory''
       [''total'', ''percent'', ''free'', ''used'', ''obj'']
   \<and> faithful E (getHostNetInfo E) ''net_info'' ''net_info'' [''recv'', ''send'', ''obj'']
   \<and> faithful E (getHostRangeLoad E) ''range_load'' ''get_load'' [''lavg_1'', ''lavg_5'', ''lavg_15'', ''obj'']
   \<and> faithful E (getHostUptime E) ''up_time'' ''uptime'' [''value'', ''obj'']
   \<and> faithful E (getHostHardware E) ''hardware'' ''hardware_message''
       [''obj'', ''kernel'', ''cpumodel'', ''osversion'', ''sockets'', ''cpus'']"

lemmas query_defs = getHostCpuPressure_def getHostCpuTemperature_def getHostDiskIoINfo_def
  getHostDiskRate_def getHostSwapRate_def getHostMemoryRate_def getHostNetInfo_def
  getHostRangeLoad_def getHostUptime_def getHostHardware_def

lemma queries_fail:
  assumes "\<forall>md name q. attribute E md name q = (Callable, q)"
    and "\<forall>md name args q. call_object E md name args q = (Some Py_Other, q)"
  shows "sz \<noteq> - 1 \<Longrightarrow> query E md name sz keys p = (Inr None, p)"
    and "getHostNetCount E p = (Inr None, p)"
  using assms by (simp_all add: query_def getHostNetCount_def hook_simps)

text \<open>A Python whose scripts answer \<open>None\<close>, and one whose scripts answer fresh texts.\<close>

definition python_none :: "unit python" where
  "python_none = \<lparr>initialize = Pair True, import_module = (\<lambda>_. Pair True),
     attribute = (\<lambda>_ _. Pair Callable), call_object = (\<lambda>_ _ _. Pair (Some Py_Other)),
     py_styled = (\<lambda>_. ''{}''), py_fast = (\<lambda>_. ''null'')\<rparr>"

definition rate_dict :: "string \<Rightarrow> pyval" where
  \<comment> \<open>what \<open>get_cpurate\<close> returns: \<open>dict(code=1, value=str(cpu_rate), obj='cpupress')\<close>\<close>
  "rate_dict v = Py_Dict [(Key_Str ''code'' True, Py_Int 1), (Key_Str ''value'' True, Py_Str v False),
     (Key_Str ''obj'' True, Py_Str ''cpupress'' True)]"

definition python_fresh :: "unit python" where
  "python_fresh = python_none\<lparr>call_object := (\<lambda>_ _ _. Pair (Some (rate_dict ''3.5'')))\<rparr>"

subsection \<open>Properties\<close>

text \<open>C24. Each query of fixed size is faithful to its script, for every interpreter. It reports
  success exactly when its script gave a dictionary with \<open>code\<close> and its keys and no other, a
  number between -99999999 and 999999999 under \<open>code\<close> and texts under the keys, and then its
  map is the contents of that dictionary. It reports failure exactly when the script is not
  callable or gave something of another size, and it overruns the buffer of the code exactly
  when the dictionary has the right size and its code is an \<open>int\<close> outside that range.\<close>

theorem host_queries: "queries_faithful E"
  unfolding queries_faithful_def query_defs
  by (intro conjI query_faithful [where keys = "[_, _]", simplified]
      query_faithful [where keys = "[_, _, _]", simplified] query_faithful [where keys = "[_, _, _, _]", simplified]
      query_faithful [where keys = "[_, _, _, _, _]", simplified]
      query_faithful [where keys = "[_, _, _, _, _, _]", simplified]) simp_all

text \<open>\<open>getHostInfo\<close> cannot report failure: with scripts that all answer something that is no
  dictionary the report is the text of the JSON value null and the result is true.\<close>

theorem host_info_all_failed:
  assumes "\<forall>md name q. attribute E md name q = (Callable, q)"
    and "\<forall>md name args q. call_object E md name args q = (Some Py_Other, q)"
    and "py_fast E JNull \<noteq> []"
  shows "getHostInfo E data p
    = (Inr (True, py_fast E JNull, ''Failed to get host hardware information!''), p)"
  using assms(3)
  by (simp add: getHostInfo_def host_parts_def part_def query_defs queries_fail [OF assms(1,2)]
      json_array_def hook_simps)

theorem host_info_all_failed_witness:
  "getHostInfo python_none [] () = (Inr (True, ''null'', ''Failed to get host hardware information!''), ())"
  using host_info_all_failed [of python_none "[]" "()"] by (simp add: python_none_def)

text \<open>The texts of a script's dictionary are read after the dictionary was released: with the
  dictionary \<open>get_cpurate\<close> returns, whose value is a string made for it, \<open>getHostInfo\<close> reads
  freed memory.\<close>

theorem host_info_dangling:
  assumes "attribute E ''cpu_pressure'' ''get_cpurate'' p = (Callable, p1)"
    and "call_object E ''cpu_pressure'' ''get_cpurate'' None p1 = (Some (rate_dict v), p2)"
    and "CHR 0x00 \<notin> set v"
  shows "fst (getHostInfo E data p) = Inl Dangling"
  using assms
  by (simp add: getHostInfo_def host_parts_def part_def getHostCpuPressure_def query_def
      monitor_json_def rate_dict_def parse_int_def parse_str_def parse_strs_def print_code_def
      to_string_def dec.simps hook_simps)

theorem host_info_dangling_witness: "fst (getHostInfo python_fresh [] ()) = Inl Dangling"
  by (rule host_info_dangling [of _ _ "()" "''3.5''"]) (simp_all add: python_fresh_def python_none_def)

end
