(* ===== verification/File_Sharing.thy ===== *)
theory File_Sharing
  imports Python_Hook Controller
begin

text \<open>
  File distribution over BitTorrent (murder/vca_murderHook.cpp): six functions of the Python
  module \<open>p2p_command\<close>, each answering a dictionary of a code and a text, and the controller's
  handler \<open>P2P\<close>. The C++ functions differ only in the Python function and its arguments.
\<close>

record requestP2P =
  p2p_vcamethod :: int
  p2p_sharefilepath :: string
  p2p_shareseedpath :: string
  p2p_shareip :: string
  p2p_downloadip :: string
  p2p_downloadseedpath :: string
  p2p_downloadfilepath :: string

definition p2p_call :: "'p python \<Rightarrow> string \<Rightarrow> string list option \<Rightarrow> ('p, bool) hook" where
  "p2p_call E name args =
     andthen (call_function E ''p2p_command'' name args) (\<lambda>pDict. case pDict of
       None \<Rightarrow> give False
     | Some d \<Rightarrow>
         if py_size d \<noteq> 2 then give False
         else andthen (need Unset_Variable (parse_int (py_item d ''code''))) (\<lambda>code.
           give (\<not> code < 1)))"

definition startTracker :: "'p python \<Rightarrow> ('p, bool) hook" where
  "startTracker E = p2p_call E ''start_tracker'' None"

definition stopTracker :: "'p python \<Rightarrow> ('p, bool) hook" where
  "stopTracker E = p2p_call E ''stop_tracker'' None"

definition produceSeed ::
  "'p python \<Rightarrow> string \<Rightarrow> string \<Rightarrow> string \<Rightarrow> string \<Rightarrow> string \<Rightarrow> ('p, bool) hook" where
  "produceSeed E sourceFilePath sourceSeedPath localHost targetHost targetSeedPath =
     p2p_call E ''produce_seed'' (Some (map c_str
       [sourceFilePath, sourceSeedPath, localHost, targetHost, targetSeedPath]))"

definition startShare :: "'p python \<Rightarrow> string \<Rightarrow> string \<Rightarrow> string \<Rightarrow> ('p, bool) hook" where
  "startShare E sourceFilePath sourceSeedPath localHost =
     p2p_call E ''distribute_seed'' (Some (map c_str [sourceFilePath, sourceSeedPath, localHost]))"

definition downloadFile :: "'p python \<Rightarrow> string \<Rightarrow> string \<Rightarrow> string \<Rightarrow> ('p, bool) hook" where
  "downloadFile E downloadPath localSeedPath localHost =
     p2p_call E ''download_file'' (Some (map c_str [downloadPath, localSeedPath, localHost]))"

definition stopShare :: "'p python \<Rightarrow> ('p, bool) hook" where
  "stopShare E = p2p_call E ''stop_share'' None"

definition new_vca_murderHook :: "'p python \<Rightarrow> ('p, unit) hook" where
  "new_vca_murderHook E = andthen (ask_py (initialize E)) (\<lambda>ok. andthen (assert_py ok) (\<lambda>_.
     andthen (ask_py (import_module E ''p2p_command'')) assert_py))"

definition P2P :: "'p python \<Rightarrow> requestP2P \<Rightarrow> ('p, vcaReply) hook" where
  "P2P E request =
     (let method_id = p2p_vcamethod request in
      andthen (new_vca_murderHook E) (\<lambda>_.
      if method_id = id_of ''startTracker'' then
        andthen (startTracker E) (\<lambda>r. give (reply ''startTracker'' r []))
      else if method_id = id_of ''stopTracker'' then
        andthen (stopTracker E) (\<lambda>r. give (reply ''stopTracker'' r []))
      else if method_id = id_of ''produceSeed'' then
        andthen (produceSeed E (p2p_sharefilepath request) (p2p_shareseedpath request)
                   (p2p_shareip request) (p2p_downloadip request) (p2p_downloadseedpath request))
          (\<lambda>r. give (reply ''produceSeed'' r []))
      else if method_id = id_of ''startShare'' then
        andthen (startShare E (p2p_sharefilepath request) (p2p_shareseedpath request) (p2p_shareip request))
          (\<lambda>r. give (reply ''startShare'' r []))
      else if method_id = id_of ''downloadFile'' then
        andthen (downloadFile E (p2p_downloadfilepath request) (p2p_downloadseedpath request)
                   (p2p_downloadip request)) (\<lambda>r. give (reply ''downloadFile'' r []))
      else if method_id = id_of ''stopShare'' then
        andthen (stopShare E) (\<lambda>r. give (reply ''stopShare'' r []))
      else give blank))"

subsection \<open>What a request does\<close>

text \<open>The Python function of a method id, with its arguments, and the reply's name.\<close>

definition p2p_script :: "requestP2P \<Rightarrow> (string \<times> string \<times> string list option) option" where
  "p2p_script q = map_of
     [(42, (''startTracker'', ''start_tracker'', None)),
      (43, (''stopTracker'', ''stop_tracker'', None)),
      (44, (''produceSeed'', ''produce_seed'', Some (map c_str [p2p_sharefilepath q,
         p2p_shareseedpath q, p2p_shareip q, p2p_downloadip q, p2p_downloadseedpath q]))),
      (45, (''startShare'', ''distribute_seed'', Some (map c_str [p2p_sharefilepath q,
         p2p_shareseedpath q, p2p_shareip q]))),
      (46, (''downloadFile'', ''download_file'', Some (map c_str [p2p_downloadfilepath q,
         p2p_downloadseedpath q, p2p_downloadip q]))),
      (47, (''stopShare'', ''stop_share'', None))] (p2p_vcamethod q)"

definition says_done :: "pyval \<Rightarrow> bool" where
  \<comment> \<open>two entries, and a positive \<open>code\<close>\<close>
  "says_done d \<longleftrightarrow> py_size d = 2 \<and> (\<exists>k \<ge> 1. py_item d ''code'' = Some (Py_Int k))"

lemma id_p2p:
  "id_of ''startTracker'' = 42" "id_of ''stopTracker'' = 43" "id_of ''produceSeed'' = 44"
  "id_of ''startShare'' = 45" "id_of ''downloadFile'' = 46" "id_of ''stopShare'' = 47"
  by (simp_all add: id_of_def vca_enummethod_def)

text \<open>The handler is the construction, then the script of the request.\<close>

lemma P2P_script:
  "P2P E q = andthen (new_vca_murderHook E) (\<lambda>_. case p2p_script q of
      None \<Rightarrow> give blank
    | Some (name, script, args) \<Rightarrow> andthen (p2p_call E script args) (\<lambda>r. give (reply name r [])))"
  by (simp add: P2P_def Let_def p2p_script_def id_p2p startTracker_def stopTracker_def
      produceSeed_def startShare_def downloadFile_def stopShare_def)

lemma p2p_call_value:
  assumes "p2p_call E script args p = (Inr r, p')"
  shows "r \<longrightarrow> (\<exists>q q' d. call_object E ''p2p_command'' script args q = (Some d, q') \<and> says_done d)"
  using assms
  by (auto simp: p2p_call_def hook_simps says_done_def parse_int_def not_less
      split: prod.splits attr.splits option.splits pyval.splits if_splits)
    blast

lemma p2p_call_raises:
  assumes "\<forall>md name p'. fst (attribute E md name p') = Callable"
    and "\<forall>md name args p'. fst (call_object E md name args p') = None"
  shows "\<exists>p'. p2p_call E script args p = (Inl Null_Object, p')"
proof -
  obtain a p1 where 1: "attribute E ''p2p_command'' script p = (a, p1)" by force
  obtain d p2 where 2: "call_object E ''p2p_command'' script args p1 = (d, p2)" by force
  from 1 2 assms have "a = Callable" "d = None" by (metis fst_conv)+
  with 1 2 show ?thesis by (simp add: p2p_call_def hook_simps)
qed

definition shared :: "'p python \<Rightarrow> requestP2P \<Rightarrow> vcaReply \<Rightarrow> bool" where
  "shared E q rep \<longleftrightarrow> (case p2p_script q of
      None \<Rightarrow> rep = blank
    | Some (name, script, args) \<Rightarrow> rep_vcamethod rep = name \<and> rep_data rep = [] \<and> rep_code rep \<in> {0, 1}
        \<and> (rep_code rep = 1 \<longrightarrow> (\<exists>p p' d. call_object E ''p2p_command'' script args p = (Some d, p')
              \<and> says_done d)))"

lemma P2P_shared: "gives (P2P E q) (shared E q)"
proof -
  have "gives (p2p_call E script args) (\<lambda>r. r \<longrightarrow>
      (\<exists>p p' d. call_object E ''p2p_command'' script args p = (Some d, p') \<and> says_done d))" for script args
    unfolding gives_def by (intro allI impI) (drule p2p_call_value, blast)
  then show ?thesis
    unfolding P2P_script
    by (intro gives_andthen [OF gives_any])
      (auto simp: shared_def reply_def split: option.splits intro!: gives_andthen, blast)
qed

definition python_raises :: "unit python" where
  "python_raises = \<lparr>initialize = Pair True, import_module = (\<lambda>_. Pair True),
     attribute = (\<lambda>_ _. Pair Callable), call_object = (\<lambda>_ _ _. Pair None),
     py_styled = (\<lambda>_. ''{}''), py_fast = (\<lambda>_. ''null'')\<rparr>"

subsection \<open>Properties\<close>

text \<open>C12. A sharing request that is answered is answered under its method's name; the answer is 1
  only if the Python function of that method was called with the request's own fields, in its
  order, and returned two entries with a positive code. An unknown id calls nothing.\<close>

theorem sharing_requests: "gives (P2P E q) (shared E q)"
  by (rule P2P_shared)

text \<open>A Python function that raises takes the service down: the null result is released
  right after the test that it is null.\<close>

theorem sharing_script_raises:
  assumes "fst (new_vca_murderHook E p) = Inr ()" and "p2p_script q \<noteq> None"
    and "\<forall>md name p'. fst (attribute E md name p') = Callable"
    and "\<forall>md name args p'. fst (call_object E md name args p') = None"
  shows "fst (P2P E q p) = Inl Null_Object"
proof -
  from assms(1) obtain p1 where 1: "new_vca_murderHook E p = (Inr (), p1)"
    by (cases "new_vca_murderHook E p") auto
  from assms(2) obtain name script args where 2: "p2p_script q = Some (name, script, args)"
    by auto
  from p2p_call_raises [OF assms(3,4), of script args p1] 1 2 show ?thesis
    by (auto simp: P2P_script andthen_def)
qed

theorem sharing_script_raises_witness:
  "fst (P2P python_raises \<lparr>p2p_vcamethod = 42, p2p_sharefilepath = [], p2p_shareseedpath = [],
     p2p_shareip = [], p2p_downloadip = [], p2p_downloadseedpath = [], p2p_downloadfilepath = []\<rparr> ())
   = Inl Null_Object"
  by (rule sharing_script_raises)
    (simp_all add: python_raises_def new_vca_murderHook_def p2p_script_def hook_simps)

end
