(* ===== verification/Event_Listener.thy ===== *)
theory Event_Listener
  imports Prelude
begin

text \<open>
  The event listener of \<open>src/source/vca_event.cpp\<close>. \<open>listenObject\<close> registers a passive listener for
  machine events and detaches a thread that fetches events until a machine runs. Nothing in
  the repository calls it yet. The event source is VirtualBox's: the record \<open>event_host\<close>
  answers each call with a COM error or a value; a null event is a time-out. The thread is
  the loop \<open>event_thread\<close>, whose exceptions nobody catches (\<open>std::terminate\<close>).
\<close>

type_synonym obj = nat   \<comment> \<open>an interface pointer that is not null\<close>

datatype listener_call =
    EventSource "32 word + obj option"
  | CreateListener obj "32 word + obj option"
  | RegisterListener obj "obj option" bool "32 word option"
  | GetEvent obj "obj option" int "32 word + obj option"
  | AsStateChange obj "obj option"             \<comment> \<open>\<open>QueryInterface\<close>: null when of another kind\<close>
  | StateOf obj "32 word + int"
  | EventProcessed obj "obj option" obj "32 word option"

record 'w event_host =
  on_event_source :: "'w \<Rightarrow> (32 word + obj option) \<times> 'w"
  on_create :: "obj \<Rightarrow> 'w \<Rightarrow> (32 word + obj option) \<times> 'w"
  on_register :: "obj \<Rightarrow> obj option \<Rightarrow> bool \<Rightarrow> 'w \<Rightarrow> 32 word option \<times> 'w"
  on_event :: "obj \<Rightarrow> obj option \<Rightarrow> int \<Rightarrow> 'w \<Rightarrow> (32 word + obj option) \<times> 'w"
  on_query :: "obj \<Rightarrow> 'w \<Rightarrow> obj option \<times> 'w"
  on_state :: "obj \<Rightarrow> 'w \<Rightarrow> (32 word + int) \<times> 'w"
  on_processed :: "obj \<Rightarrow> obj option \<Rightarrow> obj \<Rightarrow> 'w \<Rightarrow> 32 word option \<times> 'w"

type_synonym ('w, 'a) listening = "('w event_host, 'w, listener_call, 'a) prog"

subsection \<open>Calls\<close>

definition fetch ::
  "('w event_host \<Rightarrow> 'w \<Rightarrow> (32 word + 'a) \<times> 'w) \<Rightarrow> (32 word + 'a \<Rightarrow> listener_call) \<Rightarrow> ('w, 'a) listening"
  where
  "fetch h c E w =
     (let (r, v) = h E (vm w) in
      (case r of Inl e \<Rightarrow> Throw (COMError e) | Inr a \<Rightarrow> Ret a, w\<lparr>vm := v, trace := trace w @ [c r]\<rparr>))"

definition order ::
  "('w event_host \<Rightarrow> 'w \<Rightarrow> 32 word option \<times> 'w) \<Rightarrow> (32 word option \<Rightarrow> listener_call)
     \<Rightarrow> ('w, unit) listening" where
  "order h c E w =
     (let (r, v) = h E (vm w) in
      (case r of Some e \<Rightarrow> Throw (COMError e) | None \<Rightarrow> Ret (), w\<lparr>vm := v, trace := trace w @ [c r]\<rparr>))"

definition as_state_change :: "obj \<Rightarrow> ('w, obj option) listening" where
  "as_state_change e E w =
     (let (r, v) = on_query E e (vm w) in
      (Ret r, w\<lparr>vm := v, trace := trace w @ [AsStateChange e r]\<rparr>))"

definition through :: "obj option \<Rightarrow> (obj \<Rightarrow> ('w, 'a) listening) \<Rightarrow> ('w, 'a) listening" where
  "through p f = (case p of None \<Rightarrow> undef Null_deref | Some r \<Rightarrow> f r)"

definition state_change :: "obj \<Rightarrow> ('w, int) listening" where
  "state_change s = fetch (\<lambda>E. on_state E s) (StateOf s)"

definition processed :: "obj option \<Rightarrow> obj option \<Rightarrow> obj \<Rightarrow> ('w, unit) listening" where
  "processed source listener e =
     through source (\<lambda>s. order (\<lambda>E. on_processed E s listener e) (EventProcessed s listener e))"

subsection \<open>The listener\<close>

text \<open>The thread: \<open>True\<close> is another round of \<open>for (;;)\<close>, \<open>False\<close> the \<open>break\<close>.\<close>

definition event_thread :: "obj option \<Rightarrow> obj option \<Rightarrow> ('w, bool) listening" where
  "event_thread source listener =
     loop (\<lambda>more. more)
       (\<lambda>_. bnd (through source (\<lambda>s. fetch (\<lambda>E. on_event E s listener 500) (GetEvent s listener 500))) (\<lambda>event.
        case event of
          None \<Rightarrow> ret True
        | Some e \<Rightarrow>
            bnd (as_state_change e) (\<lambda>changed.
            case changed of
              None \<Rightarrow> seqs [processed source listener e] (ret True)
            | Some c \<Rightarrow>
                bnd (state_change c) (\<lambda>_.
                bnd (state_change c) (\<lambda>now.
                if now = 5 then ret False
                else seqs [processed source listener e] (ret True))))))
       True"

text \<open>\<open>listenObject\<close> returns at once; its result here is what the detached thread captures.\<close>

definition listenObject :: "obj option \<Rightarrow> ('w, obj option \<times> obj option) listening" where
  "listenObject vbox =
     bnd (through vbox (\<lambda>_. fetch on_event_source EventSource)) (\<lambda>source.
     bnd (through source (\<lambda>s. fetch (\<lambda>E. on_create E s) (CreateListener s))) (\<lambda>listener.
     seqs [through source (\<lambda>s. order (\<lambda>E. on_register E s listener False) (RegisterListener s listener False))]
       (ret (source, listener))))"

subsection \<open>What the thread does\<close>

text \<open>
  A round that goes on: a time-out, or an event that is not a change to the state Running,
  read where it is a state change, and acknowledged.
\<close>

inductive rounds :: "obj \<Rightarrow> obj option \<Rightarrow> listener_call list \<Rightarrow> bool" for s l where
  no_round: "rounds s l []"
| time_out: "rounds s l tr \<Longrightarrow> rounds s l (tr @ [GetEvent s l 500 (Inr None)])"
| other_event: "rounds s l tr \<Longrightarrow>
    rounds s l (tr @ [GetEvent s l 500 (Inr (Some e)), AsStateChange e None, EventProcessed s l e None])"
| other_state: "rounds s l tr \<Longrightarrow> j \<noteq> 5 \<Longrightarrow>
    rounds s l (tr @ [GetEvent s l 500 (Inr (Some e)), AsStateChange e (Some c), StateOf c (Inr i),
      StateOf c (Inr j), EventProcessed s l e None])"

fun refused :: "listener_call \<Rightarrow> 32 word option" where
  "refused (EventSource r) = (case r of Inl e \<Rightarrow> Some e | Inr _ \<Rightarrow> None)"
| "refused (CreateListener _ r) = (case r of Inl e \<Rightarrow> Some e | Inr _ \<Rightarrow> None)"
| "refused (RegisterListener _ _ _ r) = r"
| "refused (GetEvent _ _ _ r) = (case r of Inl e \<Rightarrow> Some e | Inr _ \<Rightarrow> None)"
| "refused (AsStateChange _ _) = None"
| "refused (StateOf _ r) = (case r of Inl e \<Rightarrow> Some e | Inr _ \<Rightarrow> None)"
| "refused (EventProcessed _ _ _ r) = r"

text \<open>
  The thread stops at a state that reads Running, without acknowledging that event; it dies
  of the first call that is refused; otherwise it goes on for ever.
\<close>

definition thread_contract :: "obj \<Rightarrow> obj option \<Rightarrow> bool outcome \<Rightarrow> listener_call list \<Rightarrow> bool" where
  "thread_contract s l r tr \<longleftrightarrow> (case r of
       Ret again \<Rightarrow> \<not> again \<and> (\<exists>tr' e c i. rounds s l tr' \<and> tr = tr' @
         [GetEvent s l 500 (Inr (Some e)), AsStateChange e (Some c), StateOf c (Inr i), StateOf c (Inr 5)])
     | Throw x \<Rightarrow> (\<exists>e. x = COMError e \<and> tr \<noteq> [] \<and> refused (last tr) = Some e
         \<and> (\<forall>q \<in> set (butlast tr). refused q = None))
     | Undef _ \<Rightarrow> False
     | Hang \<Rightarrow> tr = [])"

lemma post_fetch [post_intros]:
  "(\<And>e. Q (Throw (COMError e)) [c (Inl e)]) \<Longrightarrow> (\<And>a. Q (Ret a) [c (Inr a)]) \<Longrightarrow> post E (fetch h c) Q"
  by (rule postI) (auto simp: fetch_def split: prod.split sum.split)

lemma post_order [post_intros]:
  "(\<And>e. Q (Throw (COMError e)) [c (Some e)]) \<Longrightarrow> Q (Ret ()) [c None] \<Longrightarrow> post E (order h c) Q"
  by (rule postI) (auto simp: order_def split: prod.split option.split)

lemma post_as_state_change [post_intros]:
  "(\<And>r. Q (Ret r) [AsStateChange e r]) \<Longrightarrow> post E (as_state_change e) Q"
  by (rule postI) (auto simp: as_state_change_def split: prod.split)

lemma post_through [post_intros]:
  "(p = None \<Longrightarrow> Q (Undef Null_deref) []) \<Longrightarrow> (\<And>r. p = Some r \<Longrightarrow> post E (f r) Q) \<Longrightarrow> post E (through p f) Q"
  by (cases p) (auto simp: through_def intro: post_undef)

lemma post_case_option [post_intros]:
  "(x = None \<Longrightarrow> post E m Q) \<Longrightarrow> (\<And>y. x = Some y \<Longrightarrow> post E (f y) Q)
     \<Longrightarrow> post E (case x of None \<Rightarrow> m | Some y \<Rightarrow> f y) Q"
  by (cases x) simp_all

lemma rounds_accepted: "rounds s l tr \<Longrightarrow> q \<in> set tr \<Longrightarrow> refused q = None"
  by (induction rule: rounds.induct) auto

text \<open>The invariant of the loop: the thread is between two rounds, or has reached its end.\<close>

definition between :: "obj \<Rightarrow> obj option \<Rightarrow> bool outcome \<Rightarrow> listener_call list \<Rightarrow> bool" where
  "between s l r tr \<longleftrightarrow> (if r = Ret True then rounds s l tr else thread_contract s l r tr)"

lemma event_thread_post: "post E (event_thread (Some s) l) (thread_contract s l)"
  unfolding event_thread_def
proof (rule post_loop [where I = "between s l"], goal_cases)
  case 1
  show ?case by (simp add: between_def no_round)
next
  case (2 more tr)
  then show ?case
    unfolding processed_def state_change_def
    by (intro post_intros)
      (auto simp: between_def thread_contract_def butlast_append dest: rounds_accepted
        intro: time_out other_event other_state)
next
  case (3 r tr)
  then show ?case by (cases r) (auto simp: between_def)
next
  case 4
  show ?case by (simp add: thread_contract_def)
qed

lemma listenObject_post:
  "post E (listenObject vbox) (\<lambda>r tr. \<forall>source l. r = Ret (source, l) \<longrightarrow>
     (\<exists>v s. vbox = Some v \<and> source = Some s \<and> tr = [EventSource (Inr source),
        CreateListener s (Inr l), RegisterListener s l False None]))"
  unfolding listenObject_def by (intro post_intros) auto

text \<open>
  A source that delivers the changes of its list one after the other, each when the one
  before is acknowledged: the thread ends at the first Running, which stays in the queue.
\<close>

definition scripted :: "int list event_host" where
  "scripted = \<lparr>on_event_source = \<lambda>q. (Inr (Some 0), q), on_create = \<lambda>_ q. (Inr (Some 0), q),
     on_register = \<lambda>_ _ _ q. (None, q),
     on_event = \<lambda>_ _ _ q. (Inr (if q = [] then None else Some 0), q),
     on_query = \<lambda>_ q. (Some 0, q), on_state = \<lambda>_ q. (Inr (hd q), q),
     on_processed = \<lambda>_ _ _ q. (None, tl q)\<rparr>"

lemma loop_next:
  assumes "b s" and "c s E w = (Ret s', w')" and "loop b c s' E w' = (Ret x, w'')"
  shows "loop b c s E w = (Ret x, w'')"
  using assms
  by (subst (asm) loop_def, subst loop_def, subst while_option_unfold)
    (simp split: option.splits)

lemma loop_last:
  assumes "b s" and "c s E w = (Ret s', w')" and "\<not> b s'"
  shows "loop b c s E w = (Ret s', w')"
  by (rule loop_next [where b = b and c = c, OF assms(1,2)])
    (simp add: loop_def while_option_unfold assms(3))

lemmas listening_simps = bnd_def ret_def through_def fetch_def as_state_change_def state_change_def
  processed_def order_def scripted_def

lemma listener_stops:
  "5 \<notin> set xs \<Longrightarrow> \<exists>tr. event_thread (Some s) l scripted \<lparr>vm = xs @ 5 # ys, trace = t\<rparr>
     = (Ret False, \<lparr>vm = 5 # ys, trace = tr\<rparr>)"
proof (induction xs arbitrary: t)
  case Nil
  show ?case
    unfolding event_thread_def
    by (rule exI, rule loop_last) (simp_all add: listening_simps)
next
  case (Cons x xs)
  then have x: "x \<noteq> 5" and rest: "5 \<notin> set xs" by auto
  note ih = Cons.IH [OF rest, unfolded event_thread_def]
  show ?case
    unfolding event_thread_def
    by (rule exE [OF ih], rule exI, erule loop_next [rotated 2]) (simp_all add: listening_simps x)
qed

text \<open>C40. The thread that \<open>listenObject\<close> detaches ends only at a state change that reads Running;
  every earlier event was acknowledged, and that last one is not. A call that the event
  source refuses ends the thread with an exception that nobody catches, and nothing was
  refused before it.\<close>

theorem listener_thread: "post E (event_thread (Some s) l) (thread_contract s l)"
  by (rule event_thread_post)

end
