(* ===== verification/Server.thy ===== *)
theory Server
  imports Service Controller_Answers Monitor File_Sharing
begin

text \<open>
  The server as a whole: the service of \<open>Service\<close> with the requests of its calls, and the
  tasks of its pool running the handlers of \<open>Controller\<close>, \<open>Monitor\<close> and \<open>File_Sharing\<close>; which
  handler a task runs is chosen by the type it captured when it was queued. A task gives its
  reply when its handler can end with it, from any state of the hypervisor \<open>E\<close> or of the
  interpreter \<open>P\<close> (other tasks may have changed them); it throws when its handler can throw;
  a handler that does neither keeps its worker. Executions are followed up to the first
  undefined behaviour.
\<close>

subsection \<open>Requests and their handlers\<close>

primrec vm_type :: "vm_request \<Rightarrow> int" where
  "vm_type (Common q) = 3"
| "vm_type (Install q) = 4"
| "vm_type (Snap q) = 5"
| "vm_type (Cloning q) = 6"
| "vm_type (Imp_Exp q) = 7"
| "vm_type (Network q) = 8"
| "vm_type (Rdp q) = 9"
| "vm_type (Recording q) = 10"
| "vm_type (Sharefolder q) = 11"
| "vm_type (Config q) = 12"
| "vm_type (Usb q) = 13"
| "vm_type (Audio q) = 14"
| "vm_type (Serial q) = 15"
| "vm_type (Extends q) = 17"

datatype request = Test_Call | Host_Call | Vm_Call vm_request | Share_Call requestP2P

primrec request_type :: "request \<Rightarrow> int" where
  "request_type Test_Call = 1"
| "request_type Host_Call = 2"
| "request_type (Vm_Call q) = vm_type q"
| "request_type (Share_Call q) = 16"

text \<open>
  The switch of the task over the type \<open>i\<close> it captured, with its cast of the tag to the context
  of that type: the reply a handler can end with, or that it throws. A context of another type
  than \<open>i\<close> is undefined behaviour and has no rule.
\<close>

inductive may_reply :: "'w vbox \<Rightarrow> 'p python \<Rightarrow> int \<Rightarrow> request \<Rightarrow> vcaReply \<Rightarrow> bool" for E P where
  test_replies: "Test xpcom svc = Some rep \<Longrightarrow> may_reply E P 1 Test_Call rep"
| host_replies: "HostInfo P p = (Inr rep, p') \<Longrightarrow> may_reply E P 2 Host_Call rep"
| vm_replies: "vm_serve q E w = (Ret rep, w') \<Longrightarrow> i = vm_type q \<Longrightarrow> may_reply E P i (Vm_Call q) rep"
| share_replies: "P2P P q p = (Inr rep, p') \<Longrightarrow> may_reply E P 16 (Share_Call q) rep"

inductive may_throw :: "'w vbox \<Rightarrow> int \<Rightarrow> request \<Rightarrow> bool" for E where
  vm_throws: "vm_serve q E w = (Throw e, w') \<Longrightarrow> i = vm_type q \<Longrightarrow> may_throw E i (Vm_Call q)"

inductive_cases may_replyE: "may_reply E P i q rep"

lemma served_type:
  "may_reply E P i q rep \<Longrightarrow> i = request_type q"
  "may_throw E i q \<Longrightarrow> i = request_type q"
  by (auto elim: may_reply.cases may_throw.cases)

text \<open>A request that gets no end, in the task of its own type.\<close>

definition stuck :: "'w vbox \<Rightarrow> 'p python \<Rightarrow> request \<Rightarrow> bool" where
  "stuck E P q \<longleftrightarrow> (\<forall>rep. \<not> may_reply E P (request_type q) q rep) \<and> \<not> may_throw E (request_type q) q"

lemma stuckD: "stuck E P q \<Longrightarrow> \<not> may_reply E P i q rep \<and> \<not> may_throw E i q"
  using served_type unfolding stuck_def by metis

subsection \<open>The server\<close>

record server =
  svc :: service
  requests :: "tag \<rightharpoonup> request"
  replies :: "(tag \<times> vcaReply) list"   \<comment> \<open>handed to the runtime by \<open>Finish\<close>, latest first\<close>

definition Server :: server where
  "Server = \<lparr>svc = Service, requests = Map.empty, replies = []\<rparr>"

inductive server_step :: "'w vbox \<Rightarrow> 'p python \<Rightarrow> server \<Rightarrow> move \<Rightarrow> server \<Rightarrow> bool" for E P where
  incoming: "service_step (svc s) (Call x) s' \<Longrightarrow> contexts (svc s) x = Some c \<Longrightarrow> htype c = request_type q
    \<Longrightarrow> server_step E P s (Call x) (s\<lparr>svc := s', requests := (requests s)(x \<mapsto> q)\<rparr>)"
| replies: "service_step (svc s) (Answer x) s' \<Longrightarrow> Working (i, x) \<in> set (workers (thread_pool (svc s)))
    \<Longrightarrow> requests s x = Some q \<Longrightarrow> may_reply E P i q rep
    \<Longrightarrow> server_step E P s (Answer x) (s\<lparr>svc := s', replies := (x, rep) # replies s\<rparr>)"
| throws: "service_step (svc s) (Fail x) s' \<Longrightarrow> Working (i, x) \<in> set (workers (thread_pool (svc s)))
    \<Longrightarrow> requests s x = Some q \<Longrightarrow> may_throw E i q
    \<Longrightarrow> server_step E P s (Fail x) (s\<lparr>svc := s'\<rparr>)"
| silent: "service_step (svc s) l s' \<Longrightarrow> called l = [] \<Longrightarrow> ended l = []
    \<Longrightarrow> server_step E P s l (s\<lparr>svc := s'\<rparr>)"

inductive_cases server_stepE: "server_step E P s l s'"

lemma server_service: "server_step E P s l s' \<Longrightarrow> service_step (svc s) l (svc s')"
  by (erule server_stepE) auto

lemma server_run: "exec (server_step E P) s ls s' \<Longrightarrow> exec service_step (svc s) ls (svc s')"
  by (induction rule: exec.induct) (auto intro: exec_none exec_more server_service)

subsection \<open>What a reply says\<close>

definition importing :: "vm_request \<Rightarrow> bool" where
  "importing v \<longleftrightarrow> (case v of Imp_Exp q \<Rightarrow> imp_vcamethod q = id_of ''importVM'' | _ \<Rightarrow> False)"

definition reply_fits :: "'p python \<Rightarrow> request \<Rightarrow> vcaReply \<Rightarrow> bool" where
  "reply_fits P q rep \<longleftrightarrow> (case q of
      Test_Call \<Rightarrow> rep_vcamethod rep = ''Test'' \<and> rep_code rep \<in> {0, 1}
    | Host_Call \<Rightarrow> rep_vcamethod rep = ''getHostInfo'' \<and> rep_code rep \<in> {0, 1}
    | Vm_Call v \<Rightarrow> \<not> importing v
        \<and> (if snd (asked v) \<in> set (fst (asked v))
           then rep_vcamethod rep = reply_name (snd (asked v)) \<and> rep_code rep \<in> {0, 1}
           else rep \<in> {blank, null_reply})
    | Share_Call p \<Rightarrow> shared P p rep)"

text \<open>A handler that is given an import has no reply, since the operation never returns one.\<close>

lemma import_no_reply:
  assumes "importing v"
  shows "post E (vm_serve v) (\<lambda>r tr. \<not> returns r)"
proof -
  from assms obtain q where v: "v = Imp_Exp q" "imp_vcamethod q = id_of ''importVM''"
    by (auto simp: importing_def split: vm_request.splits)
  have import: "post E (importVM n ova k os c m u b d) (\<lambda>r tr. \<not> returns r)" for n ova k os c m u b d
    by (rule post_mono [OF import_post]) (simp add: import_contract_def)
  have "then_post E (\<lambda>x. f x) (\<lambda>r tr. \<not> returns r) r tr" if "\<not> returns r" for f r tr
    using that by (cases r) (auto simp: returns_def)
  then show ?thesis
    unfolding v(1) vm_serve.simps VmImpAndExp_def Let_def v(2) QiVCA_def
    by (intro post_intros post_mono [OF import])
      (auto simp: id_of_def vca_enummethod_def returns_def)
qed

lemma may_reply_fits: "may_reply E P i q rep \<Longrightarrow> reply_fits P q rep"
proof (induction rule: may_reply.induct)
  case (test_replies xpcom sv rep)
  then show ?case
    by (auto simp: reply_fits_def Test_def reply_def bind_eq_Some_conv)
next
  case (host_replies p rep p')
  have "gives (HostInfo P) (\<lambda>rep. rep_vcamethod rep = ''getHostInfo'' \<and> rep_code rep \<in> {0, 1})"
    unfolding HostInfo_def by (intro gives_andthen [OF gives_any]) (auto simp: reply_def)
  with host_replies show ?case unfolding gives_def reply_fits_def by auto
next
  case (vm_replies v w rep w' i)
  from postD [OF serve_post vm_replies(1)] obtain tr where "served v (Ret rep) tr" by blast
  moreover have "\<not> importing v"
    using postD [OF import_no_reply vm_replies(1)] by (auto simp: returns_def)
  ultimately show ?case
    by (auto simp: reply_fits_def served_def handled_def answered_def split: if_splits)
next
  case (share_replies q p rep p')
  then show ?case using P2P_shared [of P q] by (auto simp: reply_fits_def gives_def)
qed

subsection \<open>Invariant\<close>

text \<open>
  The requests are those of the calls, each of the type of its context, and every task is a
  request's; a reply is of its call's request; until the service is aborted no call is
  answered twice; a task that has not ended keeps a worker busy.
\<close>

definition in_hand :: "service \<Rightarrow> tag set" where
  "in_hand s = set (owing s) \<union> snd ` set (tasks (thread_pool s))
     \<union> {x \<in> fst ` set (cq s). has (contexts s) 1 x}"

definition known :: "server \<Rightarrow> bool" where
  "known s \<longleftrightarrow> in_hand (svc s) \<subseteq> dom (requests s)"

definition casts :: "server \<Rightarrow> bool" where
  "casts s \<longleftrightarrow> (\<forall>x q c. requests s x = Some q \<longrightarrow> contexts (svc s) x = Some c \<longrightarrow> htype c = request_type q)"

text \<open>Every task, waiting or with a worker, captured the type of the request its tag stands for.\<close>

definition jobs :: "service \<Rightarrow> (int \<times> tag) set" where
  "jobs s = set (tasks (thread_pool s)) \<union> {t. Working t \<in> set (workers (thread_pool s))}"

definition cast_right :: "server \<Rightarrow> bool" where
  "cast_right s \<longleftrightarrow> (\<forall>(i, x) \<in> jobs (svc s). \<exists>q. requests s x = Some q \<and> request_type q = i)"

definition fitting :: "'w vbox \<Rightarrow> 'p python \<Rightarrow> server \<Rightarrow> bool" where
  "fitting E P s \<longleftrightarrow> (\<forall>(x, rep) \<in> set (replies s). \<exists>i q. requests s x = Some q \<and> may_reply E P i q rep)"

definition once :: "move list \<Rightarrow> server \<Rightarrow> bool" where
  "once ls s \<longleftrightarrow> aborted (svc s)
     \<or> set (map fst (replies s)) \<subseteq> set (happened ended ls) \<and> distinct (map fst (replies s))"

definition busy :: "server \<Rightarrow> bool" where
  "busy s \<longleftrightarrow> (\<forall>x \<in> set (owing (svc s)). \<exists>i. Working (i, x) \<in> set (workers (thread_pool (svc s))))"

definition server_inv :: "'w vbox \<Rightarrow> 'p python \<Rightarrow> move list \<Rightarrow> server \<Rightarrow> bool" where
  "server_inv E P ls s \<longleftrightarrow> service_inv ls (svc s) \<and> dom (requests s) = set (happened called ls)
     \<and> known s \<and> casts s \<and> cast_right s \<and> fitting E P s \<and> once ls s \<and> busy s"

lemma call_fresh:
  assumes "service_inv ls s" and "service_step s (Call x) s'"
  shows "x \<notin> set (happened called ls)"
  using assms by (auto simp: service_inv_def accounted_def elim: service_stepE)

lemma distinct_parts:
  assumes "distinct cs" and "mset cs = M + mset as + mset bs"
  shows "set as \<inter> set bs = {}"
proof -
  obtain zs where "M = mset zs" by (metis ex_mset)
  with assms(2) have "mset cs = mset (zs @ as @ bs)" by (simp add: ac_simps)
  with assms(1) have "distinct (zs @ as @ bs)" by (metis mset_eq_imp_distinct_iff)
  then show ?thesis by auto
qed

lemma ended_fresh:
  assumes "service_inv ls s" and "x \<in> set (owing s)" and "\<not> aborted s"
  shows "x \<notin> set (happened ended ls)"
  using assms distinct_parts [of "happened called ls" _ "owing s" "happened ended ls"]
  by (auto simp: service_inv_def accounted_def)

lemma answered_owing: "service_step s (Answer x) s' \<Longrightarrow> x \<in> set (owing s) \<and> aborted s' = aborted s"
  by (erule service_stepE) (auto simp: Service.answer_def)

lemma called_once: "called l = [] \<or> (\<exists>x. l = Call x)"
  by (cases l) auto

lemma contexts_step:
  "service_step s l s' \<Longrightarrow> contexts s' x = Some c'
     \<Longrightarrow> x = next_tag s \<or> (\<exists>c. contexts s x = Some c \<and> htype c = htype c')"
  by (erule service_stepE)
    (auto simp: arm_again_def free_context_def Service.answer_def split: if_splits)

lemma aborted_step: "service_step s l s' \<Longrightarrow> aborted s \<Longrightarrow> aborted s'"
  by (erule service_stepE) (auto simp: arm_again_def free_context_def Service.answer_def)

lemma in_hand_step:
  assumes "service_inv ls s" and "service_step s l s'"
  shows "in_hand s' \<subseteq> set (called l) \<union> in_hand s"
proof -
  from assms(1) have own: "owned_once s" and status: "statuses s" by (simp_all add: service_inv_def)
  note d = owned_set [OF own] and new = tag_fresh [OF own]
  show ?thesis
    using assms(2)
  proof (cases rule: service_step.cases)
    case (sent us x vs ok)
    with status have "\<not> has (contexts s) 1 x"
      by (auto simp: statuses_def has_def split: option.splits)
    with sent show ?thesis by (auto simp: in_hand_def)
  next
    case (accept us x vs c p')
    with status have "has (contexts s) 1 x" and "htype c \<in> set types"
      by (auto simp: statuses_def live_def has_def)
    with accept(1-6) new show ?thesis
      unfolding push_effect [OF accept(7)] by (auto simp: in_hand_def arm_again_def has_def)
  next
    case (free us x vs c)
    then show ?thesis by (auto simp: in_hand_def free_context_def has_def split: if_splits option.splits)
  next
    case (answer us x vs c)
    then show ?thesis by (auto simp: in_hand_def Service.answer_def has_def split: if_splits option.splits)
  next
    case (pool l p')
    with own_move_effect [OF pool(3,4)] show ?thesis by (auto simp: in_hand_def)
  qed (auto simp: in_hand_def)
qed

lemma requests_dom: "server_step E P s l s' \<Longrightarrow> dom (requests s') = set (called l) \<union> dom (requests s)"
  by (erule server_stepE) auto

lemma known_step:
  "service_inv ls (svc s) \<Longrightarrow> known s \<Longrightarrow> server_step E P s l s' \<Longrightarrow> known s'"
  using in_hand_step [OF _ server_service] unfolding known_def requests_dom by blast

lemma request_step:
  "server_step E P s l s' \<Longrightarrow> requests s' x = Some q \<Longrightarrow>
     requests s x = Some q \<or> (\<exists>c. contexts (svc s) x = Some c \<and> htype c = request_type q)"
  by (erule server_stepE) (auto split: if_splits)

text \<open>The tag of a new call, and of a new context, is that of no call before.\<close>

lemma casts_step:
  assumes inv: "server_inv E P ls s" and step: "server_step E P s l s'"
  shows "casts s'"
  unfolding casts_def
proof (intro allI impI)
  fix x q c'
  assume q: "requests s' x = Some q" and c': "contexts (svc s') x = Some c'"
  from inv have srv: "service_inv ls (svc s)" and dom: "dom (requests s) = set (happened called ls)"
    and casts: "casts s" by (simp_all add: server_inv_def)
  from srv dom have "requests s (next_tag (svc s)) = None"
    by (auto simp: service_inv_def accounted_def)
  moreover from srv have "contexts (svc s) (next_tag (svc s)) = None"
    by (auto simp: service_inv_def owned_once_def)
  ultimately have "x \<noteq> next_tag (svc s)"
    using request_step [OF step q] by auto
  with contexts_step [OF server_service [OF step] c'] obtain c where
    c: "contexts (svc s) x = Some c" and same: "htype c = htype c'" by blast
  from request_step [OF step q] show "htype c' = request_type q"
  proof
    assume "requests s x = Some q"
    with casts c have "htype c = request_type q" by (simp add: casts_def)
    with same show ?thesis by simp
  qed (use c same in simp)
qed

lemma jobs_step:
  assumes "service_inv ls s" and "service_step s l s'" and "t \<in> jobs s'"
  shows "t \<in> jobs s \<or> (\<exists>c. snd t \<in> in_hand s \<and> contexts s (snd t) = Some c \<and> htype c = fst t)"
proof -
  from assms(1) have status: "statuses s" by (simp add: service_inv_def)
  from assms(2) show ?thesis
  proof (cases rule: service_step.cases)
    case (accept us x vs c p')
    with status have "has (contexts s) 1 x" by (auto simp: statuses_def live_def has_def)
    with accept assms(3) show ?thesis
      unfolding push_effect [OF accept(7)] by (auto simp: jobs_def in_hand_def arm_again_def split: if_splits)
  next
    case (pool m p')
    then have "Working t \<in> set (workers p') \<Longrightarrow> Working t \<in> set (workers (thread_pool s)) \<or> t \<in> set (taken m)"
      by (auto elim!: pool_stepE)
    with pool own_move_effect [OF pool(3,4)] assms(3) show ?thesis by (auto simp: jobs_def)
  qed (use assms(3) in \<open>auto simp: jobs_def free_context_def Service.answer_def split: if_splits\<close>)
qed

lemma cast_right_step:
  assumes inv: "server_inv E P ls s" and step: "server_step E P s l s'"
  shows "cast_right s'"
proof -
  from inv have srv: "service_inv ls (svc s)" and dom: "dom (requests s) = set (happened called ls)"
    and inv': "known s" "casts s" "cast_right s" by (simp_all add: server_inv_def)
  have old: "\<exists>q. requests s x = Some q \<and> request_type q = i" if "(i, x) \<in> jobs (svc s')" for i x
    using jobs_step [OF srv server_service [OF step] that] inv'
    by (fastforce simp: known_def casts_def cast_right_def)
  have "requests s' x = Some q" if "requests s x = Some q" for x q
    using step
  proof (cases rule: server_step.cases)
    case (incoming y s1 c r)
    from call_fresh [OF srv incoming(3)] dom that incoming show ?thesis by auto
  qed (use that in auto)
  with old show ?thesis unfolding cast_right_def by blast
qed

lemma fitting_step:
  assumes inv: "server_inv E P ls s" and step: "server_step E P s l s'"
  shows "fitting E P s'"
proof -
  from inv have srv: "service_inv ls (svc s)" and dom: "dom (requests s) = set (happened called ls)"
    and fit: "fitting E P s" by (simp_all add: server_inv_def)
  from step show ?thesis
  proof (cases rule: server_step.cases)
    case (incoming x s1 c q)
    from call_fresh [OF srv incoming(3)] dom have "requests s x = None" by auto
    with fit incoming show ?thesis by (fastforce simp: fitting_def)
  qed (use fit in \<open>auto simp: fitting_def\<close>)
qed

lemma once_step:
  assumes inv: "server_inv E P ls s" and step: "server_step E P s l s'"
  shows "once (ls @ [l]) s'"
proof -
  from inv have srv: "service_inv ls (svc s)" and once: "once ls s" by (simp_all add: server_inv_def)
  from step show ?thesis
  proof (cases rule: server_step.cases)
    case (replies x s1 i q rep)
    from answered_owing [OF replies(3)] have x: "x \<in> set (owing (svc s))" "aborted s1 = aborted (svc s)"
      by auto
    with ended_fresh [OF srv x(1)] once replies show ?thesis by (auto simp: once_def)
  qed (use once aborted_step in \<open>auto simp: once_def\<close>)
qed

lemma working_step:
  assumes "pool_step p m p'" and "own_move ow m"
  shows "x \<in> set ow \<Longrightarrow> Working (i, x) \<in> set (workers p) \<Longrightarrow> Working (i, x) \<in> set (workers p')"
    and "t \<in> set (taken m) \<Longrightarrow> Working t \<in> set (workers p')"
  using assms by (auto elim!: pool_stepE)

lemma busy_step:
  assumes "busy s" and "server_step E P s l s'"
  shows "busy s'"
  using server_service [OF assms(2)]
proof (cases rule: service_step.cases)
  case (accept us x vs c p')
  with assms(1) show ?thesis
    unfolding push_effect [OF accept(7)] by (auto simp: busy_def arm_again_def)
next
  case (pool m p')
  with assms(1) working_step [OF pool(4,3)] show ?thesis
    by (auto simp: busy_def, metis prod.collapse)+
qed (use assms(1) in \<open>auto simp: busy_def free_context_def Service.answer_def\<close>)

lemma server_start: "server_inv E P [] Server"
  using service.initial
  by (auto simp: server_inv_def Server_def known_def casts_def fitting_def once_def busy_def in_hand_def
      cast_right_def jobs_def Service_def ThreadPool_def)

interpretation server: invariant_system "server_step E P" Server "server_inv E P"
proof (unfold_locales, rule server_start)
  fix ls s l s'
  assume inv: "server_inv E P ls s" and step: "server_step E P s l s'"
  from inv step have "service_inv (ls @ [l]) (svc s')" "dom (requests s') = set (happened called (ls @ [l]))"
    "known s'" "busy s'"
    by (auto simp: server_inv_def requests_dom intro: service.preserved server_service known_step busy_step)
  with inv step show "server_inv E P (ls @ [l]) s'"
    by (auto simp: server_inv_def [of _ _ "ls @ [l]"] casts_step cast_right_step fitting_step once_step)
qed

subsection \<open>Requests that do not end\<close>

text \<open>All workers are with tasks whose handlers neither return nor throw.\<close>

definition stalled :: "'w vbox \<Rightarrow> 'p python \<Rightarrow> server \<Rightarrow> bool" where
  "stalled E P s \<longleftrightarrow> (\<forall>w \<in> set (workers (thread_pool (svc s))).
     \<exists>i x q. w = Working (i, x) \<and> x \<in> set (owing (svc s)) \<and> requests s x = Some q \<and> stuck E P q)"

lemma stalled_stuck:
  assumes "busy s" and "stalled E P s" and "x \<in> set (owing (svc s))" and "requests s x = Some q"
  shows "stuck E P q"
  using assms by (fastforce simp: busy_def stalled_def)

lemma stalled_pool:
  assumes "stalled E P s" and "pool_step (thread_pool (svc s)) m p'" and "own_move (owing (svc s)) m"
  shows "workers p' = workers (thread_pool (svc s))" and "taken m = []"
proof -
  have "saturated (thread_pool (svc s))"
    using assms(1) by (fastforce simp: saturated_def stalled_def list_all_iff)
  moreover have "finished m = []"
    using assms(2)
  proof (cases rule: pool_step.cases)
    case (finish us t vs)
    with assms(1) have "snd t \<in> set (owing (svc s))" by (auto simp: stalled_def)
    with finish assms(3) show ?thesis by simp
  qed simp_all
  ultimately show "workers p' = workers (thread_pool (svc s))" and "taken m = []"
    using saturated_step [OF assms(2)] by blast+
qed

lemma stalled_step:
  assumes inv: "server_inv E P ls s" and stalled: "stalled E P s" and step: "server_step E P s l s'"
  shows "stalled E P s' \<and> replies s' = replies s"
proof -
  from inv have srv: "service_inv ls (svc s)" and dom: "dom (requests s) = set (happened called ls)"
    and busy: "busy s" by (simp_all add: server_inv_def)
  note no = stalled_stuck [OF busy stalled]
  from step show ?thesis
  proof (cases rule: server_step.cases)
    case (incoming x s1 c q)
    from call_fresh [OF srv incoming(3)] dom have "requests s x = None" by auto
    moreover from incoming(3) have "thread_pool s1 = thread_pool (svc s)" "owing s1 = owing (svc s)"
      by (auto elim: service_stepE)
    ultimately show ?thesis using incoming stalled by (fastforce simp: stalled_def)
  next
    case (replies x s1 i q rep)
    with no [of x q] answered_owing [OF replies(3)] show ?thesis by (auto dest: stuckD)
  next
    case (throws x s1 i q)
    from throws(3) have "x \<in> set (owing (svc s))" by (auto elim: service_stepE)
    with no [of x q] throws show ?thesis by (auto dest: stuckD)
  next
    case (silent s1)
    from silent(2) have "workers (thread_pool s1) = workers (thread_pool (svc s)) \<and> owing s1 = owing (svc s)"
    proof (cases rule: service_step.cases)
      case (pool m p')
      with stalled_pool [OF stalled pool(4,3)] show ?thesis by simp
    qed (use silent push_effect in \<open>auto simp: arm_again_def free_context_def dest!: push_effect\<close>)
    with silent stalled show ?thesis by (simp add: stalled_def)
  qed
qed

lemma stalled_run:
  assumes "exec (server_step E P) s ls' s'" and "server_inv E P ls s" and "stalled E P s"
  shows "server_inv E P (ls @ ls') s' \<and> stalled E P s' \<and> replies s' = replies s"
  using assms
proof (induction rule: exec.induct)
  case (exec_more ls' s' l s'')
  then show ?case
    using stalled_step [of E P "ls @ ls'" s' l s''] server.preserved [of E P "ls @ ls'" s' l s''] by simp
qed simp

text \<open>A run that loads one worker after the other with the same request.\<close>

definition loaded :: "request \<Rightarrow> nat \<Rightarrow> server \<Rightarrow> bool" where
  "loaded q n s \<longleftrightarrow> cq (svc s) = [] \<and> \<not> aborted (svc s) \<and> tasks (thread_pool (svc s)) = []
     \<and> \<not> stop (thread_pool (svc s)) \<and> replies s = []
     \<and> (\<exists>ts. workers (thread_pool (svc s)) = map Working ts @ replicate (17 - n) Checking \<and> length ts = n
          \<and> (\<forall>t \<in> set ts. snd t \<in> set (owing (svc s)) \<and> requests s (snd t) = Some q))
     \<and> (\<exists>x \<in> set (armed (svc s)). contexts (svc s) x = Some \<lparr>htype = request_type q, hstatus = 1\<rparr>)"

lemma request_types: "request_type q \<in> set types"
  by (cases q; (cases "case q of Vm_Call v \<Rightarrow> v"; simp)?) (simp_all add: types_def)

lemma loaded_start: "loaded q 0 Server"
proof -
  have "\<exists>x \<in> set RegisterRequest. vcaService x = Some \<lparr>htype = i, hstatus = 1\<rparr>" if "i \<in> set types" for i
    using that by (auto simp: RegisterRequest_def vcaService_def types_def numbers17)
  from this [OF request_types [of q]] show ?thesis
    by (auto simp: loaded_def Server_def Service_def ThreadPool_def)
qed

lemma load_one:
  assumes loaded: "loaded q n s" and n: "n < 17"
  shows "\<exists>x s'. exec (server_step E P) s [Call x, Accept x, Pool (Take (request_type q, x))] s'
    \<and> loaded q (Suc n) s'"
proof -
  let ?v = "svc s" and ?i = "request_type q"
  let ?p = "thread_pool ?v"
  from loaded obtain ts where "workers ?p = map Working ts @ replicate (17 - n) Checking"
    and ts: "length ts = n" "\<forall>t \<in> set ts. snd t \<in> set (owing ?v) \<and> requests s (snd t) = Some q"
    by (auto simp: loaded_def)
  moreover from n have "17 - n = Suc (17 - Suc n)" by simp
  ultimately have workers: "workers ?p = map Working ts @ Checking # replicate (17 - Suc n) Checking"
    by simp
  from loaded have "\<exists>x \<in> set (armed ?v). contexts ?v x = Some \<lparr>htype = ?i, hstatus = 1\<rparr>"
    by (simp add: loaded_def)
  then obtain us x vs where
    x: "armed ?v = us @ x # vs" "contexts ?v x = Some \<lparr>htype = ?i, hstatus = 1\<rparr>"
    by (auto dest: split_list)
  from loaded have idle: "cq ?v = []" "\<not> aborted ?v" "tasks ?p = []" "\<not> stop ?p" "replies s = []"
    by (simp_all add: loaded_def)
  define v1 where "v1 = ?v\<lparr>armed := us @ vs, cq := [(x, True)]\<rparr>"
  define p2 where "p2 = ?p\<lparr>tasks := [(?i, x)], notifies := Suc (notifies ?p)\<rparr>"
  define v2 where "v2 = (arm_again ?i (v1\<lparr>cq := []\<rparr>))\<lparr>thread_pool := p2\<rparr>"
  define p3 where "p3 = p2\<lparr>workers := map Working ts @ Working (?i, x) # replicate (17 - Suc n) Checking,
    tasks := []\<rparr>"
  define v3 where "v3 = v2\<lparr>thread_pool := p3, owing := x # owing ?v\<rparr>"
  define s1 where "s1 = s\<lparr>svc := v1, requests := (requests s)(x \<mapsto> q)\<rparr>"
  have "service_step ?v (Call x) v1"
    using service_step.call [of ?v us x vs] x idle by (simp add: v1_def)
  from server_step.incoming [OF this x(2), of q E P] have 1: "server_step E P s (Call x) s1"
    by (simp add: s1_def)
  have "service_step v1 (Accept x) v2"
    using service_step.accept [of v1 "[]" x "[]" "\<lparr>htype = ?i, hstatus = 1\<rparr>" p2]
      pool_step.push [of ?p "(?i, x)"] x idle by (simp add: v1_def v2_def p2_def)
  then have 2: "server_step E P s1 (Accept x) (s1\<lparr>svc := v2\<rparr>)"
    using server_step.silent [of s1 "Accept x" v2 E P] by (simp add: s1_def)
  have "pool_step p2 (Take (?i, x)) p3"
    using pool_step.take [of p2 "map Working ts" _ "(?i, x)" "[]"] workers by (simp add: p2_def p3_def)
  then have "service_step v2 (Pool (Take (?i, x))) v3"
    using service_step.pool [of v2 "Take (?i, x)" p3] request_types [of q]
    by (simp add: v2_def v3_def v1_def arm_again_def)
  then have 3: "server_step E P (s1\<lparr>svc := v2\<rparr>) (Pool (Take (?i, x))) (s1\<lparr>svc := v3\<rparr>)"
    using server_step.silent [of "s1\<lparr>svc := v2\<rparr>" "Pool (Take (?i, x))" v3 E P] by simp
  have "\<exists>ts'. workers p3 = map Working ts' @ replicate (17 - Suc n) Checking \<and> length ts' = Suc n
      \<and> (\<forall>t \<in> set ts'. snd t \<in> set (owing v3) \<and> requests s1 (snd t) = Some q)"
    by (rule exI [of _ "ts @ [(?i, x)]"]) (use ts in \<open>auto simp: p3_def v3_def s1_def\<close>)
  moreover have "\<exists>x' \<in> set (armed v3). contexts v3 x' = Some \<lparr>htype = ?i, hstatus = 1\<rparr>"
    using request_types [of q] by (simp add: v3_def v2_def arm_again_def)
  ultimately have "loaded q (Suc n) (s1\<lparr>svc := v3\<rparr>)"
    using idle request_types [of q]
    by (simp add: loaded_def v3_def v2_def v1_def arm_again_def p3_def p2_def s1_def)
  moreover have "exec (server_step E P) s [Call x, Accept x, Pool (Take (?i, x))] (s1\<lparr>svc := v3\<rparr>)"
    by (rule exec_first, rule 1, rule exec_first, rule 2, rule exec_one, rule 3)
  ultimately show ?thesis by blast
qed

lemma load_all:
  "n \<le> 17 \<Longrightarrow> \<exists>ls s. exec (server_step E P) Server ls s \<and> loaded q n s \<and> length (happened called ls) = n"
proof (induction n)
  case 0
  then show ?case using exec_none loaded_start by fastforce
next
  case (Suc n)
  then obtain ls s where 1: "exec (server_step E P) Server ls s" "loaded q n s"
    "length (happened called ls) = n" by auto
  from Suc.prems have "n < 17" by simp
  from load_one [OF 1(2) this] obtain x s' where
    2: "exec (server_step E P) s [Call x, Accept x, Pool (Take (request_type q, x))] s'" "loaded q (Suc n) s'"
    by blast
  from exec_append [OF 2(1) 1(1)] 2(2) 1(3) show ?case
    by (fastforce simp: happened_def)
qed

lemma loaded_stalled: "loaded q 17 s \<Longrightarrow> stuck E P q \<Longrightarrow> stalled E P s \<and> replies s = []"
  by (fastforce simp: loaded_def stalled_def)

subsection \<open>An import that never ends\<close>

text \<open>A hypervisor that does all it is asked, with one appliance, which has a warning.\<close>

definition warning_host :: "unit vbox" where
  "warning_host = (host 1)\<lparr>on_warnings := \<lambda>r v. (Inr [u16 ''w''], v)\<rparr>"

definition import_request :: vm_request where
  "import_request = Imp_Exp \<lparr>imp_vcamethod = id_of ''importVM'', imp_vmname = ''vm'',
     imp_ovapath = ''vm.ova'', imp_exportpath = [], imp_keepmac = True, imp_ostypeid = ''Linux'',
     imp_cpucount = 1, imp_memory = 512, imp_netup = True, imp_basefolder = ''vms'', imp_ovsfiletype = []\<rparr>"

lemma loop_same:
  assumes "b s" and "\<And>w. c s E w = (Ret s, w)"
  shows "loop b c s E w = (Hang, w)"
proof -
  let ?b = "\<lambda>(r, w'). case r of Ret s' \<Rightarrow> b s' | _ \<Rightarrow> False"
  let ?c = "\<lambda>(r, w'). case r of Ret s' \<Rightarrow> c s' E w' | _ \<Rightarrow> (r, w')"
  have "while_option ?b ?c (Ret s, w) = None"
  proof (rule ccontr)
    assume "while_option ?b ?c (Ret s, w) \<noteq> None"
    then obtain t where t: "while_option ?b ?c (Ret s, w) = Some t" by blast
    have "t = (Ret s, w)"
      by (rule while_option_rule [OF _ t, where P = "\<lambda>t. t = (Ret s, w)"]) (simp_all add: assms)
    with while_option_stop [OF t] assms(1) show False by simp
  qed
  then show ?thesis by (simp add: loop_def)
qed

lemma warning_text: "to_utf8 (u16 ''w'') = Some ''w''"
  by (rule to_utf8_ascii) simp

lemma import_hangs: "fst (vm_serve import_request warning_host w) = Hang"
proof -
  have loop: "loop (\<lambda>_. True) (\<lambda>_ _. Pair (Ret ())) () E w' = (Hang, w')"
    for E :: "unit vbox" and w' :: "(unit, event) world"
    by (rule loop_same) simp_all
  note ascii = to_utf16_ascii [of "''vm.ova''"] to_utf16_ascii [of "''Linux''"] utf16_vm
    to_utf16_number to_utf16_ascii [of "''vms''"] to_utf16_ascii [of "''vms/vm/vm.vbox''"]
  show ?thesis
    unfolding import_request_def vm_serve.simps VmImpAndExp_def importVM_def QiVCA_def
    by (simp add: id_of_def vca_enummethod_def warning_text warning_host_def
      eval_simps ascii loop)
qed

lemma import_stuck: "stuck warning_host P (Vm_Call import_request)"
  using import_hangs by (auto simp: stuck_def elim!: may_reply.cases may_throw.cases dest: arg_cong [of _ _ fst])

subsection \<open>Properties\<close>

definition server_sound :: "'w vbox \<Rightarrow> 'p python \<Rightarrow> move list \<Rightarrow> server \<Rightarrow> bool" where
  "server_sound E P ls s \<longleftrightarrow> casts s \<and> cast_right s \<and> once ls s
     \<and> (\<forall>(x, rep) \<in> set (replies s). \<exists>q. requests s x = Some q \<and> reply_fits P q rep)"

text \<open>C3. Every reply the server hands to the runtime is one that the handler of its call's request
  can give: it names the method the request asked for, with 0 or 1, an unknown method is
  answered blank, and an import is never answered. Every task, waiting or with a worker,
  captured the type of its call's request, which is also the type of the context its tag
  stands for, so the handler its switch chooses and the cast of the tag are the right ones.
  Until the service is aborted no call is answered twice.\<close>

theorem server_replies: "always (server_step E P) Server (server_sound E P)"
  by (rule always_mono [OF server.invariant])
    (fastforce simp: server_inv_def server_sound_def fitting_def intro: may_reply_fits)

text \<open>C18. Seventeen requests whose handlers neither return nor throw stop the server: they can be
  sent to a server that has just started, one after the other, and from then on, whatever
  else is sent and however the threads interleave, no call is ever answered.\<close>

theorem stuck_requests_stall:
  assumes "stuck E P q"
  shows "\<exists>ls s. exec (server_step E P) Server ls s \<and> length (happened called ls) = 17
    \<and> always (server_step E P) s (\<lambda>_ s'. replies s' = [])"
proof -
  from load_all [of 17 E P q] obtain ls s where
    run: "exec (server_step E P) Server ls s" "loaded q 17 s" "length (happened called ls) = 17" by auto
  from loaded_stalled [OF run(2) assms] have "stalled E P s" "replies s = []" by auto
  with stalled_run [OF _ server.reachable [OF run(1)]] run show ?thesis
    by (fastforce simp: always_def)
qed

theorem stuck_requests_stall_witness:
  "\<exists>ls s. exec (server_step warning_host python_none) Server ls s \<and> length (happened called ls) = 17
    \<and> always (server_step warning_host python_none) s (\<lambda>_ s'. replies s' = [])"
  by (rule stuck_requests_stall [OF import_stuck])

end
