(* ===== verification/Progress.thy ===== *)
theory Progress
  imports Server
begin

text \<open>
  What the server owes its clients when no new calls come: it can take only finitely many
  more steps, and when none is left every call whose handler can end has been answered, or
  its task threw, as long as fewer than 17 requests have handlers that do not end. The first
  part is a measure on the service (\<open>service_fuel\<close>, through the locale \<open>bounded_system\<close>); the
  second that in every state short of that some step is enabled.
\<close>

subsection \<open>A measure\<close>

definition quiet_step :: "service \<Rightarrow> move \<Rightarrow> service \<Rightarrow> bool" where
  \<comment> \<open>a step of anyone but a new client\<close>
  "quiet_step s l s' \<longleftrightarrow> service_step s l s' \<and> called l = []"

fun idling :: "move \<Rightarrow> bool" where
  \<comment> \<open>a worker wakes for no reason, or goes to sleep\<close>
  "idling (Pool Thread_Pool.Wake) = True"
| "idling (Pool Thread_Pool.Sleep) = True"
| "idling _ = False"

text \<open>The steps a call still needs, by the place it is in.\<close>

definition cq_fuel :: "(tag \<rightharpoonup> handler_context) \<Rightarrow> (tag \<times> bool) list \<Rightarrow> nat" where
  "cq_fuel cs es = sum_list (map (\<lambda>(x, _). if has cs 1 x then 9 else 1) es)"

definition service_fuel :: "service \<Rightarrow> nat" where
  "service_fuel s = cq_fuel (contexts s) (cq s) + 7 * length (tasks (thread_pool s))
     + 5 * length (owing s) + 2 * length (sending s)
     + notifies (thread_pool s) + size (in_work (workers (thread_pool s)))"

definition in_order :: "service \<Rightarrow> bool" where
  "in_order s \<longleftrightarrow> owned_once s \<and> statuses s"

lemma cq_fuel_simps [simp]:
  "cq_fuel cs [] = 0"
  "cq_fuel cs ((x, ok) # es) = (if has cs 1 x then 9 else 1) + cq_fuel cs es"
  "cq_fuel cs (es @ es') = cq_fuel cs es + cq_fuel cs es'"
  by (simp_all add: cq_fuel_def)

lemma cq_fuel_other [simp]: "x \<notin> fst ` set es \<Longrightarrow> cq_fuel (cs(x := v)) es = cq_fuel cs es"
  by (induction es) auto

lemma pool_uses:
  assumes "pool_step p l p'" and "own_move ow l"
  shows "7 * length (tasks p') + 5 * length (taken l) + notifies p' + size (in_work (workers p'))
      + of_bool (\<not> idling (Pool l)) \<le> 7 * length (tasks p) + notifies p + size (in_work (workers p))"
  using assms by (auto elim!: pool_stepE)

lemma quiet_uses:
  assumes "in_order s" and "quiet_step s l s'"
  shows "if idling l then service_fuel s' \<le> service_fuel s else service_fuel s' < service_fuel s"
proof -
  from assms have own: "owned_once s" and status: "statuses s"
    and step: "service_step s l s'" and quiet: "called l = []"
    by (simp_all add: in_order_def quiet_step_def)
  note d = owned_set [OF own] and new = tag_fresh [OF own]
  from step show ?thesis
  proof (cases rule: service_step.cases)
    case (call us x vs)
    with quiet show ?thesis by simp
  next
    case (sent us x vs ok)
    with status have "\<not> has (contexts s) 1 x"
      by (auto simp: statuses_def has_def split: option.splits)
    with sent show ?thesis by (simp add: service_fuel_def)
  next
    case (accept us x vs c p')
    with status have "has (contexts s) 1 x" and "htype c \<in> set types"
      by (auto simp: statuses_def live_def has_def)
    with accept(1-6) new show ?thesis
      unfolding push_effect [OF accept(7)]
      by (simp add: service_fuel_def arm_again_def image_Un)
  next
    case (free us x vs c)
    with d have "x \<notin> fst ` set us" "x \<notin> fst ` set vs" by (auto simp: hands_def)
    with free show ?thesis by (simp add: service_fuel_def free_context_def)
  next
    case (answer us x vs c)
    with d have "x \<notin> fst ` set (cq s)" by (auto simp: hands_def)
    with answer show ?thesis by (simp add: service_fuel_def Service.answer_def)
  next
    case (pool l' p')
    with pool_uses [OF pool(4,3)] show ?thesis by (auto simp: service_fuel_def split: if_splits)
  qed (simp_all add: service_fuel_def)
qed

lemma quiet_stays: "in_order s \<Longrightarrow> quiet_step s l s' \<Longrightarrow> in_order s'"
  by (auto simp: in_order_def quiet_step_def intro: owned_step statuses_step)

interpretation quiet: bounded_system quiet_step in_order idling service_fuel
  by unfold_locales (rule quiet_stays quiet_uses; assumption)+

subsection \<open>The workers\<close>

text \<open>
  Until the service is aborted, no two workers are with the same call, and a worker is with a
  call that it owes or that has ended. The loop never stops the pool.
\<close>

definition at_work :: "service \<Rightarrow> tag multiset" where
  "at_work s = image_mset snd (in_work (workers (thread_pool s)))"

definition occupied :: "move list \<Rightarrow> service \<Rightarrow> bool" where
  "occupied ls s \<longleftrightarrow> \<not> stop (thread_pool s) \<and>
     (aborted s \<or> (\<forall>x. count (at_work s) x \<le> 1)
        \<and> set_mset (at_work s) \<subseteq> set (owing s) \<union> set (happened ended ls))"

lemma pool_at_work:
  assumes "pool_step p m p'" and "own_move ow m"
  shows "stop p' = stop p"
    and "in_work (workers p') + mset (finished m) = in_work (workers p) + mset (taken m)"
  using assms by (auto elim!: pool_stepE)

lemma waiting_fresh:
  assumes "service_inv ls s" and "t \<in> set (tasks (thread_pool s))" and "\<not> aborted s"
  shows "snd t \<notin> set (owing s) \<union> set (happened ended ls)"
proof -
  let ?t = "map snd (tasks (thread_pool s))"
  have "distinct (happened called ls)" "mset (happened called ls) =
      mset (filter (has (contexts s) 1) (map fst (cq s))) + mset ?t + mset (owing s @ happened ended ls)"
    using assms by (auto simp: service_inv_def accounted_def)
  then have "distinct (filter (has (contexts s) 1) (map fst (cq s)) @ ?t @ owing s @ happened ended ls)"
    by (metis mset_append mset_eq_imp_distinct_iff add.assoc)
  with assms(2) show ?thesis by auto
qed

lemma occupied_step:
  assumes inv: "service_inv ls s" and occ: "occupied ls s" and step: "service_step s l s'"
  shows "occupied (ls @ [l]) s'"
  using step
proof (cases rule: service_step.cases)
  case (accept us x vs c p')
  with occ show ?thesis
    unfolding push_effect [OF accept(7)] by (auto simp: occupied_def at_work_def arm_again_def)
next
  case (pool m p')
  note w = pool_at_work [OF pool(4,3)]
  show ?thesis
  proof (cases "aborted s")
    case False
    with occ have one: "count (at_work s) x \<le> 1" and
      sub: "set_mset (at_work s) \<subseteq> set (owing s) \<union> set (happened ended ls)" for x
      by (auto simp: occupied_def)
    have eq: "at_work s' + mset (map snd (finished m)) = at_work s + mset (map snd (taken m))"
      using w(2) unfolding at_work_def pool(2) mset_map
      by (simp flip: image_mset_union)
    have new: "count (at_work s) x = 0" "taken m = [t]" if "t \<in> set (taken m)" "x = snd t" for t x
    proof -
      from that(1) show "taken m = [t]" by (cases m) auto
      with own_move_effect [OF pool(3,4)] waiting_fresh [OF inv, of t] False sub that(2)
      show "count (at_work s) x = 0" by (auto simp: count_eq_zero_iff)
    qed
    have le: "count (at_work s') x \<le> count (at_work s) x + count (mset (map snd (taken m))) x" for x
      using arg_cong [OF eq, of "\<lambda>M. count M x"] by simp
    have "count (at_work s') x \<le> 1" for x
    proof (cases "x \<in> snd ` set (taken m)")
      case True
      then obtain t where t: "t \<in> set (taken m)" "x = snd t" by auto
      from le [of x] new [OF t] t(2) show ?thesis by simp
    next
      case nt: False
      then have "count (mset (map snd (taken m))) x = 0" by (auto simp: count_eq_zero_iff)
      with le [of x] one [of x] show ?thesis by simp
    qed
    moreover have "set_mset (at_work s') \<subseteq> set (owing s) \<union> set (happened ended ls) \<union> snd ` set (taken m)"
    proof
      fix x
      assume "x \<in># at_work s'"
      with le [of x] have "0 < count (at_work s) x \<or> 0 < count (mset (map snd (taken m))) x"
        by (metis add_is_0 count_greater_zero_iff le_zero_eq neq0_conv)
      with sub show "x \<in> set (owing s) \<union> set (happened ended ls) \<union> snd ` set (taken m)"
        by (auto simp del: mset_map simp: mset_map [symmetric])
    qed
    ultimately show ?thesis
      using occ w(1) pool(1,2) by (auto simp: occupied_def)
  qed (use occ w(1) pool(1,2) in \<open>auto simp: occupied_def\<close>)
qed (use occ in \<open>auto simp: occupied_def at_work_def free_context_def Service.answer_def\<close>)

subsection \<open>The server at rest\<close>

definition server_quiet :: "'w vbox \<Rightarrow> 'p python \<Rightarrow> server \<Rightarrow> move \<Rightarrow> server \<Rightarrow> bool" where
  "server_quiet E P s l s' \<longleftrightarrow> server_step E P s l s' \<and> called l = []"

definition server_rest :: "'w vbox \<Rightarrow> 'p python \<Rightarrow> server \<Rightarrow> bool" where
  "server_rest E P s \<longleftrightarrow> (\<forall>l s'. server_quiet E P s l s' \<longrightarrow> idling l)"

definition stuck_calls :: "'w vbox \<Rightarrow> 'p python \<Rightarrow> server \<Rightarrow> tag set" where
  "stuck_calls E P s = {x. \<exists>q. requests s x = Some q \<and> stuck E P q}"

lemma restD:
  assumes "server_rest E P s" and "service_step (svc s) l s1" and "called l = []" and "ended l = []"
  shows "idling l"
  using assms server_step.silent [OF assms(2-4), of E P] unfolding server_rest_def server_quiet_def by blast

lemma rest_loop:
  assumes "server_rest E P s" and "statuses (svc s)" and "occupied ls (svc s)" and "\<not> aborted (svc s)"
  shows "cq (svc s) = []" and "sending (svc s) = []"
proof -
  let ?s = "svc s"
  show "cq ?s = []"
  proof (cases "cq ?s")
    case (Cons e es)
    obtain x ok where e: "cq ?s = [] @ (x, ok) # es" using Cons by (cases e) auto
    with assms(2) obtain c where c: "contexts ?s x = Some c"
      by (auto simp: statuses_def live_def has_def split: option.splits)
    from assms(3) have push: "\<exists>p'. pool_step (thread_pool ?s) (Push (htype c, x)) p'"
      by (auto simp: occupied_def intro: pool_step.push)
    have "\<exists>l s1. service_step ?s l s1 \<and> called l = [] \<and> ended l = [] \<and> \<not> idling l"
    proof (cases ok)
      case False
      with service_step.abort [OF assms(4)] e show ?thesis by fastforce
    next
      case True
      show ?thesis
      proof (cases "hstatus c = 2")
        case s2: True
        with service_step.free [OF assms(4) _ c] e True show ?thesis by fastforce
      next
        case False
        with service_step.accept [OF assms(4) _ c] push e True show ?thesis by fastforce
      qed
    qed
    with restD [OF assms(1)] show ?thesis by blast
  qed simp
  show "sending ?s = []"
  proof (cases "sending ?s")
    case (Cons x xs)
    with restD [OF assms(1) service_step.sent [of ?s "[]" x xs True]] show ?thesis by simp
  qed simp
qed

lemma in_running [simp]: "t \<in> set (running w) \<longleftrightarrow> w = Working t"
  by (cases w) auto

lemma size_running: "running w \<noteq> [] \<Longrightarrow> length (running w) = Suc 0"
  by (cases w) auto

lemma rest_owing:
  assumes rest: "server_rest E P s" and inv: "server_inv E P ls s"
  shows "set (owing (svc s)) \<subseteq> stuck_calls E P s"
proof
  fix x
  assume x: "x \<in> set (owing (svc s))"
  then obtain us vs where ow: "owing (svc s) = us @ x # vs" by (auto dest: split_list)
  from inv x obtain q where q: "requests s x = Some q"
    by (auto simp: server_inv_def known_def in_hand_def)
  from inv x have "has (contexts (svc s)) 1 x"
    by (auto simp: server_inv_def service_inv_def statuses_def list_all_iff)
  then obtain c where c: "contexts (svc s) x = Some c" by (auto simp: has_def split: option.splits)
  from inv x obtain i where i: "Working (i, x) \<in> set (workers (thread_pool (svc s)))"
    by (auto simp: server_inv_def busy_def)
  then have "(i, x) \<in> jobs (svc s)" by (simp add: jobs_def)
  moreover from inv have "cast_right s" by (simp add: server_inv_def)
  ultimately have "request_type q = i" using q by (auto simp: cast_right_def)
  with i have w: "Working (request_type q, x) \<in> set (workers (thread_pool (svc s)))" by simp
  have "\<not> may_reply E P (request_type q) q rep" for rep
    using rest server_step.replies [OF service_step.answer [OF ow c] w q, of E P rep]
    by (fastforce simp: server_rest_def server_quiet_def)
  moreover have "\<not> may_throw E (request_type q) q"
    using rest server_step.throws [OF service_step.fail [OF ow] w q, of E P]
    by (fastforce simp: server_rest_def server_quiet_def)
  ultimately show "x \<in> stuck_calls E P s"
    using q by (auto simp: stuck_calls_def stuck_def)
qed

lemma rest_working:
  assumes "server_rest E P s"
  shows "set_mset (at_work (svc s)) \<subseteq> set (owing (svc s))"
proof
  fix x
  assume "x \<in># at_work (svc s)"
  then obtain t where t: "t \<in># in_work (workers (thread_pool (svc s)))" "x = snd t" by (auto simp: at_work_def)
  from t(1) have "Working t \<in> set (workers (thread_pool (svc s)))"
    by (auto simp: in_work_def)
  then obtain us vs where "workers (thread_pool (svc s)) = us @ Working t # vs" by (auto dest: split_list)
  from service_step.pool [OF _ pool_step.finish [OF this]] restD [OF assms] t(2)
  show "x \<in> set (owing (svc s))" by fastforce
qed

lemma size_distinct:
  assumes "\<forall>x. count M x \<le> 1"
  shows "size M = card (set_mset M)"
proof -
  have "count M x = 1" if "x \<in># M" for x
    using assms that by (metis count_greater_eq_one_iff le_antisym)
  then show ?thesis by (simp add: size_multiset_overloaded_eq)
qed

lemma rest_queue:
  assumes rest: "server_rest E P s" and inv: "server_inv E P ls s" and occ: "occupied ls (svc s)"
    and live: "\<not> aborted (svc s)" and few: "card (stuck_calls E P s) < 17"
  shows "tasks (thread_pool (svc s)) = []"
proof (rule ccontr)
  let ?p = "thread_pool (svc s)"
  assume some: "tasks ?p \<noteq> []"
  then obtain t ts where ts: "tasks ?p = t # ts" by (cases "tasks ?p") auto
  from inv have alert: "alert ?p" and seventeen: "length (workers ?p) = 17"
    by (auto simp: server_inv_def service_inv_def)
  have "Checking \<notin> set (workers ?p)"
    using service_step.pool [OF _ pool_step.take [OF _ ts]] restD [OF rest]
    by (fastforce dest: split_list)
  moreover have "\<not> (Sleeping \<in> set (workers ?p) \<and> 0 < notifies ?p)"
    using service_step.pool [OF _ pool_step.notify_one] restD [OF rest]
    by (fastforce dest: split_list simp: gr0_conv_Suc)
  ultimately have "saturated ?p"
    using alert_attended [OF alert] some by (auto simp: attended_def)
  then have "list_all (\<lambda>w. running w \<noteq> []) ws \<Longrightarrow> size (in_work ws) = length ws" for ws :: "(int \<times> tag) worker list"
    by (induction ws) (auto simp: size_running)
  with \<open>saturated ?p\<close> seventeen have "size (at_work (svc s)) = 17" by (simp add: at_work_def saturated_def)
  moreover have "size (at_work (svc s)) = card (set_mset (at_work (svc s)))"
    using occ live by (intro size_distinct) (simp add: occupied_def)
  moreover have "card (set_mset (at_work (svc s))) \<le> card (stuck_calls E P s)"
  proof (rule card_mono)
    have "stuck_calls E P s \<subseteq> dom (requests s)" by (auto simp: stuck_calls_def)
    with inv show "finite (stuck_calls E P s)" by (auto simp: server_inv_def intro: finite_subset)
  qed (use rest_working [OF rest] rest_owing [OF rest inv] in blast)
  ultimately show False using few by simp
qed

subsection \<open>What becomes of a call\<close>

definition closed_calls :: "move list \<Rightarrow> server \<Rightarrow> bool" where
  "closed_calls ls s \<longleftrightarrow>
     (\<forall>x \<in> set (happened ended ls). Fail x \<in> set ls \<or> x \<in> fst ` set (replies s))"

lemma closed_step: "closed_calls ls s \<Longrightarrow> server_step E P s l s' \<Longrightarrow> closed_calls (ls @ [l]) s'"
  by (erule server_stepE) (auto simp: closed_calls_def elim: service_stepE)

interpretation progress: invariant_system "server_step E P" Server
    "\<lambda>ls s. server_inv E P ls s \<and> occupied ls (svc s) \<and> closed_calls ls s"
proof (unfold_locales, goal_cases)
  case 1
  then show ?case
    using server.initial
    by (simp add: occupied_def closed_calls_def at_work_def Server_def Service_def ThreadPool_def)
next
  case (2 ls s l s')
  then show ?case
    by (auto intro: server.preserved closed_step occupied_step server_service simp: server_inv_def [of _ _ ls])
qed

lemma quiet_server:
  "server_quiet E P s l s' \<Longrightarrow> server_step E P s l s' \<and> quiet_step (svc s) l (svc s')"
  unfolding server_quiet_def quiet_step_def using server_service by blast

lemma quiet_run:
  assumes "exec (server_quiet E P) s ls s'"
  shows "exec (server_step E P) s ls s'" and "exec quiet_step (svc s) ls (svc s')"
  using assms by (induction rule: exec.induct) (auto intro: exec_none exec_more dest: quiet_server)

definition settled :: "'w vbox \<Rightarrow> 'p python \<Rightarrow> move list \<Rightarrow> server \<Rightarrow> bool" where
  \<comment> \<open>every call whose handler can end has its reply, or its task threw\<close>
  "settled E P ls s \<longleftrightarrow> (\<forall>x \<in> set (happened called ls) - stuck_calls E P s.
     Fail x \<in> set ls \<or> x \<in> fst ` set (replies s))"

lemma rest_settled:
  assumes run: "exec (server_step E P) Server ls s" and rest: "server_rest E P s"
    and live: "\<not> aborted (svc s)" and few: "card (stuck_calls E P s) < 17"
  shows "settled E P ls s"
proof -
  from progress.reachable [OF run] have inv: "server_inv E P ls s" and occ: "occupied ls (svc s)"
    and closed: "closed_calls ls s" by auto
  then have "mset (happened called ls) = mset (owing (svc s)) + mset (happened ended ls)"
    using rest_loop(1) [OF rest _ occ live] rest_queue [OF rest inv occ live few] live
    by (simp add: server_inv_def service_inv_def accounted_def)
  then have "set (happened called ls) = set (owing (svc s)) \<union> set (happened ended ls)"
    by (metis mset_append set_append mset_eq_setD)
  with rest_owing [OF rest inv] closed show ?thesis by (auto simp: settled_def closed_calls_def)
qed

definition settles :: "'w vbox \<Rightarrow> 'p python \<Rightarrow> move list \<Rightarrow> server \<Rightarrow> bool" where
  "settles E P ls s \<longleftrightarrow> always (server_quiet E P) s (\<lambda>ls' s'.
     length (filter (\<lambda>l. \<not> idling l) ls') \<le> service_fuel (svc s)
     \<and> (server_rest E P s' \<and> \<not> aborted (svc s') \<and> card (stuck_calls E P s') < 17
         \<longrightarrow> settled E P (ls @ ls') s'))"

text \<open>C4. The server answers: at any moment, if no further calls come, its threads, its loop and
  the runtime can take only finitely many more steps (at most \<open>service_fuel\<close>, workers waking
  up and going back to sleep not counted). When none is left, and the service was not
  aborted by a vanished client, every call whose handler can end has been answered, or its
  task threw, even if the handlers of up to sixteen other requests never end. With seventeen
  this fails (\<open>stuck_requests_stall\<close>).\<close>

theorem server_settles: "always (server_step E P) Server (settles E P)"
  unfolding always_def [of "server_step E P" Server] settles_def always_def
proof (intro allI impI conjI)
  fix ls s ls' s'
  assume run: "exec (server_step E P) Server ls s" and more: "exec (server_quiet E P) s ls' s'"
  from progress.reachable [OF run] have "in_order (svc s)"
    by (simp add: server_inv_def service_inv_def in_order_def)
  from quiet.bound [OF quiet_run(2) [OF more] this]
  show "length (filter (\<lambda>l. \<not> idling l) ls') \<le> service_fuel (svc s)" by simp
  assume "server_rest E P s' \<and> \<not> aborted (svc s') \<and> card (stuck_calls E P s') < 17"
  with rest_settled [OF exec_append [OF quiet_run(1) [OF more] run]]
  show "settled E P (ls @ ls') s'" by blast
qed

end
