(* ===== verification/Com_Ptr.thy ===== *)
theory Com_Ptr
  imports Main
begin

text \<open>
  \<open>VBox::COMPtr\<close> (libvbox_wrap.h), the smart pointer through which the code holds every COM
  interface, with \<open>AddRef\<close> and \<open>Release\<close> of lib/vboxwrap.cpp. An object is alive while its
  count is positive; calling it later is the fault \<open>Dead_object\<close>. A state is the counts of
  the objects and the pointer variables, a variable a position in \<open>vars\<close>. The member
  functions keep the count and the holders in step, but for move assignment, which forgets
  what the target held, and for an explicit \<open>p->Release()\<close>, after which the destructor
  releases once more.
\<close>

type_synonym obj = nat
type_synonym var = nat

record ptrs =
  count :: "obj \<Rightarrow> nat"
  vars :: "obj option list"

datatype fault =
    Null_object | Dead_object
  | No_variable   \<comment> \<open>a name that is not in scope: no compiled program has one\<close>

datatype ptr_op =
    Construct             \<comment> \<open>\<open>COMPtr()\<close>, a new variable\<close>
  | Wrap obj              \<comment> \<open>\<open>COMPtr::wrap\<close> around a pointer a call has returned, with its reference\<close>
  | Copy var              \<comment> \<open>copy constructor\<close>
  | Move var              \<comment> \<open>move constructor\<close>
  | Assign_null var
  | Assign var var        \<comment> \<open>copy assignment to the first\<close>
  | Move_assign var var   \<comment> \<open>move assignment to the first\<close>
  | Destroy var           \<comment> \<open>the end of its life\<close>
  | Call var              \<comment> \<open>\<open>p->f()\<close>\<close>
  | Call_Release var      \<comment> \<open>\<open>p->Release()\<close>\<close>

subsection \<open>The member functions\<close>

definition set_var :: "var \<Rightarrow> obj option \<Rightarrow> ptrs \<Rightarrow> ptrs" where
  "set_var v p s = s\<lparr>vars := (vars s)[v := p]\<rparr>"

definition new_var :: "obj option \<Rightarrow> ptrs \<Rightarrow> ptrs" where
  "new_var p s = s\<lparr>vars := vars s @ [p]\<rparr>"

definition AddRef :: "obj \<Rightarrow> ptrs \<Rightarrow> fault + ptrs" where
  "AddRef ob s = (if count s ob = 0 then Inl Dead_object
     else Inr (s\<lparr>count := (count s)(ob := count s ob + 1)\<rparr>))"

definition Release :: "obj \<Rightarrow> ptrs \<Rightarrow> fault + ptrs" where
  "Release ob s = (if count s ob = 0 then Inl Dead_object
     else Inr (s\<lparr>count := (count s)(ob := count s ob - 1)\<rparr>))"

definition if_held :: "(obj \<Rightarrow> ptrs \<Rightarrow> fault + ptrs) \<Rightarrow> obj option \<Rightarrow> ptrs \<Rightarrow> fault + ptrs" where
  \<comment> \<open>\<open>if (m_wrap.have_IFC()) m_wrap.f();\<close>\<close>
  "if_held f p s = (case p of None \<Rightarrow> Inr s | Some ob \<Rightarrow> f ob s)"

definition next_step :: "fault + 'a \<Rightarrow> ('a \<Rightarrow> fault + 'b) \<Rightarrow> fault + 'b" where
  "next_step r f = (case r of Inl e \<Rightarrow> Inl e | Inr x \<Rightarrow> f x)"

definition val :: "var \<Rightarrow> ptrs \<Rightarrow> fault + obj option" where
  "val v s = (if v < length (vars s) then Inr (vars s ! v) else Inl No_variable)"

fun ptr_step :: "ptr_op \<Rightarrow> ptrs \<Rightarrow> fault + ptrs" where
  "ptr_step Construct s = Inr (new_var None s)"
| "ptr_step (Wrap ob) s = Inr (new_var (Some ob) (s\<lparr>count := (count s)(ob := count s ob + 1)\<rparr>))"
| "ptr_step (Copy w) s =
     next_step (val w s) (\<lambda>q. next_step (if_held AddRef q s) (\<lambda>s'. Inr (new_var q s')))"
| "ptr_step (Move w) s = next_step (val w s) (\<lambda>q. Inr (new_var q (set_var w None s)))"
| "ptr_step (Assign_null v) s =
     next_step (val v s) (\<lambda>p. next_step (if_held Release p s) (\<lambda>s'. Inr (set_var v None s')))"
| "ptr_step (Assign v w) s =
     next_step (val w s) (\<lambda>q. next_step (if_held AddRef q s) (\<lambda>s1.
     next_step (val v s1) (\<lambda>p. next_step (if_held Release p s1) (\<lambda>s2. Inr (set_var v q s2)))))"
| "ptr_step (Move_assign v w) s =
     next_step (val w s) (\<lambda>q. next_step (val v s) (\<lambda>_. Inr (set_var w None (set_var v q s))))"
| "ptr_step (Destroy v) s =
     next_step (val v s) (\<lambda>p. next_step (if_held Release p s) (\<lambda>s'. Inr (set_var v None s')))"
| "ptr_step (Call v) s = next_step (val v s) (\<lambda>p. case p of None \<Rightarrow> Inl Null_object
     | Some ob \<Rightarrow> if count s ob = 0 then Inl Dead_object else Inr s)"
| "ptr_step (Call_Release v) s =
     next_step (val v s) (\<lambda>p. case p of None \<Rightarrow> Inl Null_object | Some ob \<Rightarrow> Release ob s)"

fun ptr_run :: "ptr_op list \<Rightarrow> ptrs \<Rightarrow> fault + ptrs" where
  "ptr_run [] s = Inr s"
| "ptr_run (x # xs) s = next_step (ptr_step x s) (ptr_run xs)"

lemma ptr_run_append: "ptr_run (xs @ ys) s = next_step (ptr_run xs s) (ptr_run ys)"
  by (induction xs arbitrary: s) (simp_all add: next_step_def split: sum.split)

subsection \<open>Accounts\<close>

definition holders :: "ptrs \<Rightarrow> obj \<Rightarrow> nat" where
  "holders s ob = count_list (vars s) (Some ob)"

text \<open>What a step forgets of an object, and what it gives back beyond what its variable owns.\<close>

fun lost :: "ptr_op \<Rightarrow> ptrs \<Rightarrow> obj \<Rightarrow> nat" where
  "lost (Move_assign v w) s ob = of_bool (val v s = Inr (Some ob))"
| "lost _ s ob = 0"

fun given :: "ptr_op \<Rightarrow> ptrs \<Rightarrow> obj \<Rightarrow> nat" where
  "given (Call_Release v) s ob = of_bool (val v s = Inr (Some ob))"
| "given _ s ob = 0"

fun total :: "(ptr_op \<Rightarrow> ptrs \<Rightarrow> obj \<Rightarrow> nat) \<Rightarrow> ptr_op list \<Rightarrow> ptrs \<Rightarrow> obj \<Rightarrow> nat" where
  "total f [] s ob = 0"
| "total f (x # xs) s ob = f x s ob + (case ptr_step x s of Inl _ \<Rightarrow> 0 | Inr s' \<Rightarrow> total f xs s' ob)"

lemma count_list_update:
  "v < length xs \<Longrightarrow> count_list (xs[v := x]) y + of_bool (xs ! v = y) = count_list xs y + of_bool (x = y)"
proof (induction xs arbitrary: v)
  case (Cons a xs)
  then show ?case by (cases v) auto
qed simp

lemma holders_simps [simp]:
  "holders (s\<lparr>count := f\<rparr>) ob = holders s ob"
  "holders (new_var p s) ob = holders s ob + of_bool (p = Some ob)"
  "count (new_var p s) = count s" "count (set_var v p s) = count s"
  "vars (set_var v p s) = (vars s)[v := p]"
  by (simp_all add: holders_def new_var_def set_var_def)

lemma holders_set:
  "v < length (vars s) \<Longrightarrow>
     int (holders (set_var v p s) ob) = int (holders s ob) + of_bool (p = Some ob) - of_bool (vars s ! v = Some ob)"
  using count_list_update [of v "vars s" p "Some ob"] by (simp add: holders_def of_bool_def split: if_splits)

lemma held_holders: "v < length (vars s) \<Longrightarrow> vars s ! v = Some ob \<Longrightarrow> 0 < holders s ob"
  by (metis bot_nat_0.not_eq_extremum count_list_0_iff holders_def nth_mem)

definition spare :: "ptrs \<Rightarrow> obj \<Rightarrow> int" where
  \<comment> \<open>the references counted that no pointer variable owns\<close>
  "spare s ob = int (count s ob) - int (holders s ob)"

lemmas ptr_simps = next_step_def val_def if_held_def AddRef_def Release_def spare_def holders_set

lemma ptr_step_account:
  "ptr_step x s = Inr s' \<Longrightarrow> spare s' ob = spare s ob + int (lost x s ob) - int (given x s ob)"
  by (cases x)
    (auto simp: ptr_simps nth_list_update of_nat_diff split: sum.splits option.splits if_splits)

lemma ptr_run_account:
  "ptr_run xs s = Inr s' \<Longrightarrow> spare s' ob = spare s ob + int (total lost xs s ob) - int (total given xs s ob)"
  by (induction xs arbitrary: s) (auto simp: next_step_def dest: ptr_step_account [where ob = ob] split: sum.splits)

subsection \<open>Pointers alone are safe\<close>

definition covered :: "ptrs \<Rightarrow> bool" where
  \<comment> \<open>every pointer's reference is among those counted\<close>
  "covered s \<longleftrightarrow> (\<forall>ob. holders s ob \<le> count s ob)"

fun explicit :: "ptr_op \<Rightarrow> bool" where
  "explicit (Call_Release v) \<longleftrightarrow> True"
| "explicit _ \<longleftrightarrow> False"

lemma covered_spare: "covered s \<longleftrightarrow> (\<forall>ob. 0 \<le> spare s ob)"
  by (simp add: covered_def spare_def)

lemma held_alive:
  assumes "covered s" and "v < length (vars s)" and "vars s ! v = Some ob"
  shows "count s ob \<noteq> 0"
proof -
  have "holders s ob \<le> count s ob" using assms(1) by (simp add: covered_def)
  with held_holders [OF assms(2,3)] show ?thesis by simp
qed

definition still_sound :: "fault + ptrs \<Rightarrow> bool" where
  "still_sound r \<longleftrightarrow> (case r of Inl e \<Rightarrow> e \<noteq> Dead_object | Inr s \<Rightarrow> covered s)"

lemma ptr_step_safe:
  assumes "covered s" and "\<not> explicit x"
  shows "still_sound (ptr_step x s)"
proof (cases "ptr_step x s")
  case (Inl e)
  have "e \<noteq> Dead_object"
    using Inl assms
    by (cases x)
      (auto simp: next_step_def if_held_def AddRef_def Release_def val_def
        split: sum.splits option.splits if_splits dest: held_alive)
  with Inl show ?thesis by (simp add: still_sound_def)
next
  case (Inr s')
  moreover have "given x s ob = 0" for ob using assms(2) by (cases x) simp_all
  ultimately have "covered s'"
    using ptr_step_account [OF Inr] assms(1) by (simp add: covered_spare)
  with Inr show ?thesis by (simp add: still_sound_def)
qed

lemma ptr_run_safe:
  "covered s \<Longrightarrow> list_all (\<lambda>x. \<not> explicit x) xs \<Longrightarrow> still_sound (ptr_run xs s)"
proof (induction xs arbitrary: s)
  case (Cons x xs)
  then have x: "still_sound (ptr_step x s)" by (simp add: ptr_step_safe)
  show ?case
  proof (cases "ptr_step x s")
    case (Inl e)
    with x show ?thesis by (simp add: still_sound_def next_step_def)
  next
    case (Inr s')
    with x have "covered s'" by (simp add: still_sound_def)
    from Cons.IH [OF this] Cons.prems Inr show ?thesis by (simp add: next_step_def)
  qed
qed (simp add: still_sound_def)

subsection \<open>An explicit release\<close>

text \<open>
  The life of a local pointer that is assigned the result of a call and on which \<open>Release()\<close>
  is called \<open>k\<close> times: \<open>COMPtr<I> p; p = f(); ... p->Release(); ... }\<close>.
\<close>

definition local_pointer :: "ptrs \<Rightarrow> obj \<Rightarrow> nat \<Rightarrow> ptr_op list" where
  "local_pointer s ob k = (let p = length (vars s) in
     [Construct, Wrap ob, Move_assign p (p + 1), Destroy (p + 1)]
     @ replicate k (Call_Release p) @ [Destroy p])"

lemma release_run:
  assumes "val p s = Inr (Some ob)"
  shows "ptr_run (replicate k (Call_Release p) @ xs) s =
     (if k \<le> count s ob then ptr_run xs (s\<lparr>count := (count s)(ob := count s ob - k)\<rparr>) else Inl Dead_object)"
  using assms
proof (induction k arbitrary: s)
  case (Suc k)
  let ?s = "s\<lparr>count := (count s)(ob := count s ob - 1)\<rparr>"
  from Suc.prems have "val p ?s = Inr (Some ob)" by (simp add: val_def split: if_splits)
  from Suc.IH [OF this] Suc.prems show ?case
    by (auto simp: next_step_def Release_def cong: if_cong)
qed simp

lemma local_pointer_run:
  "ptr_run (local_pointer s ob k) s =
     (if k \<le> count s ob
      then Inr (s\<lparr>count := (count s)(ob := count s ob - k), vars := vars s @ [None, None]\<rparr>)
      else Inl Dead_object)"
proof -
  let ?p = "length (vars s)"
  let ?s = "s\<lparr>count := (count s)(ob := count s ob + 1), vars := vars s @ [Some ob, None]\<rparr>"
  have "ptr_run [Construct, Wrap ob, Move_assign ?p (?p + 1), Destroy (?p + 1)] s = Inr ?s"
    by (simp add: next_step_def new_var_def set_var_def val_def if_held_def nth_append list_update_append)
  then have "ptr_run (local_pointer s ob k) s = ptr_run (replicate k (Call_Release ?p) @ [Destroy ?p]) ?s"
    unfolding local_pointer_def Let_def by (subst ptr_run_append) (simp only: next_step_def sum.case)
  also have "\<dots> = (if k \<le> count s ob
      then Inr (s\<lparr>count := (count s)(ob := count s ob - k), vars := vars s @ [None, None]\<rparr>)
      else Inl Dead_object)"
    by (subst release_run [where ob = ob])
      (auto simp: val_def nth_append next_step_def if_held_def Release_def set_var_def
        list_update_append Suc_diff_le)
  finally show ?thesis .
qed

subsection \<open>Properties\<close>

definition no_ptrs :: ptrs where
  "no_ptrs = \<lparr>count = \<lambda>_. 0, vars = []\<rparr>"

text \<open>C30. Whatever a program does with \<open>COMPtr\<close> variables alone (construct, wrap, copy, move,
  assign, destroy, call through them), in whatever order, no member function ever reaches an
  object that was freed: every pointer's reference stays among those counted. An explicit
  \<open>Release()\<close> through the pointer is the only operation that can break this.\<close>

theorem pointers_safe:
  assumes "covered s" and "list_all (\<lambda>x. \<not> explicit x) xs"
  shows "still_sound (ptr_run xs s)"
  by (rule ptr_run_safe [OF assms])

theorem pointers_safe_witness:
  "still_sound (ptr_run [Construct, Wrap 7, Move_assign 0 1, Destroy 1, Copy 0, Call 0, Destroy 0, Call 2] no_ptrs)"
  by (rule pointers_safe) (simp_all add: no_ptrs_def covered_def holders_def)

text \<open>
  The price of move assignment: it forgets the reference its target held. The references
  counted beyond those of the variables are exactly the ones forgotten, less the ones an
  explicit \<open>Release()\<close> gave back.
\<close>

theorem reference_account:
  "case ptr_run xs s of Inl _ \<Rightarrow> True
   | Inr s' \<Rightarrow> spare s' ob = spare s ob + int (total lost xs s ob) - int (total given xs s ob)"
  by (auto split: sum.split dest: ptr_run_account)

lemma move_assign_leaks:
  "ptr_run [Construct, Wrap 7, Move_assign 0 1, Wrap 8, Move_assign 0 2, Destroy 0, Destroy 1, Destroy 2] no_ptrs
   = Inr \<lparr>count = (\<lambda>_. 0)(7 := 1), vars = [None, None, None]\<rparr>"
  by (simp add: no_ptrs_def next_step_def new_var_def set_var_def val_def if_held_def Release_def
      fun_eq_iff)

end
