(* ===== verification/Release_Accounts.thy ===== *)
theory Release_Accounts
  imports Com_Ptr Core_Power Config_Base
begin

text \<open>
  What the explicit \<open>machine->Release()\<close> at the end of an operation does to the machine's
  reference count. The traces of the operations say how often \<open>Release\<close> was called on an
  object (\<open>ERelease\<close>); \<open>Com_Ptr\<close> says what becomes of a local \<open>COMPtr\<close> on which it was called
  so often. An operation of \<open>QiVCA\<close> receives one reference from \<open>findMachine\<close>, gives it back
  explicitly and once more in the destructor of \<open>machine\<close>: it takes a reference of somebody
  else, here that of the \<open>machines\<close> vector of a \<open>QiVCA\<close> that is never deleted.
\<close>

definition released :: "event list \<Rightarrow> ref \<Rightarrow> nat" where
  "released tr m = count_list tr (ERelease m)"

definition found_machine :: "event list \<Rightarrow> ref option" where
  \<comment> \<open>the machine of the first answered \<open>findMachine\<close>\<close>
  "found_machine tr = (case tr of
     ERef (FindMachine _) (Inr p) # _ \<Rightarrow> p | _ \<Rightarrow> None)"

definition machine_pointer :: "event list \<Rightarrow> ptrs \<Rightarrow> fault + ptrs" where
  \<comment> \<open>the life of the local variable \<open>machine\<close> in a run\<close>
  "machine_pointer tr s = (case found_machine tr of
     None \<Rightarrow> Inr s | Some m \<Rightarrow> ptr_run (local_pointer s m (released tr m)) s)"

definition takes_one :: "ref \<Rightarrow> ptrs \<Rightarrow> fault + ptrs" where
  "takes_one m s = (if count s m = 0 then Inl Dead_object
     else Inr (s\<lparr>count := (count s)(m := count s m - 1), vars := vars s @ [None, None]\<rparr>))"

lemma machine_pointer_once:
  assumes "found_machine tr = Some m" and "released tr m = 1"
  shows "machine_pointer tr s = takes_one m s"
  using assms by (simp add: machine_pointer_def takes_one_def local_pointer_run)

lemma released_script:
  "found_machine (power_script q name m i s x g) = Some m"
  "released (power_script q name m i s x g) m = 1"
  "found_machine (refusal_script name m i) = Some m"
  "released (refusal_script name m i) m = 1"
  "found_machine (start_script name u m i s r) = Some m"
  "released (start_script name u m i s r) m = 1"
  by (cases q; simp add: power_script_def refusal_script_def start_script_def released_def
      found_machine_def split: option.split)+

definition overspends :: "bool \<Rightarrow> event list \<Rightarrow> bool" where
  "overspends returned tr \<longleftrightarrow> (returned \<longrightarrow>
     (\<exists>m. found_machine tr = Some m \<and> (\<forall>s. machine_pointer tr s = takes_one m s)))"

lemma overspendsI:
  "found_machine tr = Some m \<Longrightarrow> released tr m = 1 \<Longrightarrow> overspends b tr"
  by (simp add: overspends_def machine_pointer_once)

lemma power_overspends:
  assumes "power_contract q n d r tr"
  shows "overspends (\<exists>a. r = Ret a) tr"
proof (cases "\<exists>a. r = Ret a")
  case True
  then obtain b d' where "r = Ret (b, d')" by auto
  with assms have "power_returns q n d b d' tr" by (simp add: power_contract_def)
  then obtain name m i where "if b then \<exists>s x g. tr = power_script q name m i s x g
      else tr = refusal_script name m i"
    unfolding power_returns_def by (metis (full_types))
  then show ?thesis
    by (auto simp: released_script intro: overspendsI split: if_splits)
qed (simp add: overspends_def)

lemma start_overspends:
  assumes "start_contract n ui data msg r tr"
  shows "overspends ((\<exists>a. r = Ret a) \<and> \<not> list_ex failed tr) tr"
proof (cases "(\<exists>a. r = Ret a) \<and> \<not> list_ex failed tr")
  case True
  then obtain data' msg' where "r = Ret (data', msg')" by auto
  with assms True obtain k where "start_returns n ui msg k msg' tr" by (auto simp: start_contract_def)
  then show ?thesis
    by (auto simp: start_returns_def released_script intro: overspendsI split: if_splits)
next
  case False
  then show ?thesis unfolding overspends_def by blast
qed

text \<open>C23. Every power operation that returns gives the machine's reference back twice: once
  with \<open>machine->Release()\<close> and once in the destructor of \<open>machine\<close>. If no other reference was
  counted when it started, the destructor reaches a freed object; otherwise the operation
  leaves the machine with one reference less than it found.\<close>

theorem power_releases_twice:
  "post E (power_op q n d) (\<lambda>r tr. overspends (\<exists>a. r = Ret a) tr)"
  by (rule post_mono [OF power_post]) (rule power_overspends)

text \<open>So does \<open>startUp\<close>, unless it swallowed a COM error.\<close>

theorem startUp_releases_twice:
  "post E (startUp n ui data msg) (\<lambda>r tr. overspends ((\<exists>a. r = Ret a) \<and> \<not> list_ex failed tr) tr)"
  by (rule post_mono [OF start_post]) (rule start_overspends)

text \<open>
  Why the service survives it: each request builds a \<open>QiVCA\<close>, whose \<open>machines\<close> vector takes one
  reference of every machine and is never destroyed. The operation then spends exactly that
  one, and the count of the machine is what it was before the request.
\<close>

definition request_pointers :: "ref \<Rightarrow> event list \<Rightarrow> ptrs \<Rightarrow> fault + ptrs" where
  "request_pointers m tr s = next_step (ptr_step (Wrap m) s) (machine_pointer tr)"

theorem leak_pays:
  assumes "found_machine tr = Some m" and "released tr m = 1"
  shows "\<exists>s'. request_pointers m tr s = Inr s' \<and> count s' = count s"
  using assms
  by (simp add: request_pointers_def next_step_def machine_pointer_once takes_one_def new_var_def
      fun_eq_iff)

end
