(* ===== verification/Spec2Isabelle.thy ===== *)
theory Spec2Isabelle
  imports Core_Power Core_Snapshot Core_Clone Core_Info Core_Disk Core_Install Core_Appliance Config_Network Config_Machine Config_Devices Config_Display Config_Screen Controller Controller_Answers Service Monitor File_Sharing Event_Listener Server Progress Release_Accounts
begin

text \<open>
  VirtualizationCoreApi: a verification of its models.

  \<^bold>\<open>The program.\<close> A gRPC server (src/protocol) through which a cloud platform operates the
  VirtualBox machines of one host. A request arrives at \<open>vcaService\<close> (vca_service.cpp), which
  hands it to a pool of 17 threads (\<open>ThreadPool\<close>, vca_threadpool.h). The thread runs a handler of
  \<open>vca_controller\<close> (vca_controller.cpp): it reads the method id of the message, calls one
  operation of \<open>QiVCA\<close> (src/source/vca_core.cpp: power, disks, snapshots, clones, creation,
  appliances, queries) or of \<open>vcaVmConfigure\<close> (vca_vmConfigure.cpp: network, CPU and memory,
  devices, remote display, recording), of \<open>Monitor\<close> (src/monitor: load figures of the host,
  through Python) or of \<open>vca_murderHook\<close> (src/murder: BitTorrent distribution of files, through
  Python), and builds a reply of the method's name, a code and a text. The operations reach
  VirtualBox through libvbox, a C++ wrapper of its COM interface.

  \<^bold>\<open>Ways of modelling.\<close> Three, by what the code does.

  (1) Sequential code that calls the hypervisor is a computation of type \<open>prog\<close> (Prelude): a
  function of an environment and a world to an outcome and the next world. The outcomes are
  all the ways a C++ function ends: \<open>Ret\<close>, \<open>Throw\<close> (a COM error or \<open>std::range_error\<close>),
  \<open>Undef\<close> (null dereference, missing \<open>return\<close>, unset variable) and \<open>Hang\<close>. The environment is
  the record \<open>vbox\<close> of Vbox_Api, one handler per kind of request, each free to answer with an
  error or any value and to change a state of its own: a theorem \<open>post E m Q\<close> holds for every
  such hypervisor and every start. The world records the requests with their replies, so \<open>Q\<close>
  speaks of the calls made as well as of the result. A loop is \<open>while_option\<close>: one that never
  ends is the outcome \<open>Hang\<close>, and there is no fuel anywhere in these models. The event listener
  uses the same computations over its own environment.

  (2) Calls of Python scripts (Python_Hook) are functions from the interpreter's state to a
  value or a crash; the record \<open>python\<close> holds the interpreter and the scripts.

  (3) The thread pool and the service are step relations (\<open>pool_step\<close>, \<open>service_step\<close>), one step
  for each section of code that runs under the lock, or between two visits of the completion
  queue; the scheduler and the gRPC runtime choose the order. Properties hold of every
  execution (\<open>always\<close>, Transitions).

  Machine integers stay at their width where they reach an interface (32-bit words in
  \<open>setting\<close>, 16-bit units in strings); enumerations are datatypes; \<open>std::map\<close> is a list
  strictly ordered by its keys; the conversions between \<open>std::string\<close> and \<open>u16string\<close> are
  modelled to the byte, with the code points they refuse.

  \<^bold>\<open>The abstract specification.\<close> Session_Protocol states what VirtualBox asks of a client as an
  automaton \<open>run\<close> over the requests: a machine is locked before its mutable copy, console or
  settings are reached, changed settings are saved, the session is unlocked. An operation
  \<open>conforms\<close> when every run of it is accepted and one that returns leaves nothing locked or
  unsaved; \<open>honest_end\<close> asks that only of a run that returns true. The operations are proved
  to refine it, and the ones that do not are listed by name or by the path on which they
  differ.

  \<^bold>\<open>Theories.\<close>

  Prelude: outcomes, computations, the calculus \<open>post\<close> with the rule collection
  \<open>post_intros\<close>, total runs \<open>sure\<close> with \<open>sure_intros\<close>. Transitions: executions, and the locales
  \<open>invariant_system\<close> and \<open>bounded_system\<close>.

  Text_Code (vca_toCode.cpp, comstring.cpp): the six conversions, their round trips as
  interpretations of the locale \<open>text_codec\<close>, and the equivalence of the two routes to UTF-8.
  Json_Text (\<open>mapTojsonstr\<close>, its three overloads): ordered maps as an interpretation of
  \<open>first_wins_map\<close>, JSON objects filled by assignment. Com_Error (libvbox_errors.h, errorwrap.cpp):
  which result codes throw, and the text of the exception. Com_Ptr (libvbox_wrap.h): the smart
  pointers with their reference counts as a store of their own; the member functions never
  reach a freed object, an explicit \<open>Release()\<close> may.

  Vbox_Api, Vbox_Calls: requests, replies and calls, one rule in \<open>post_intros\<close> each; the
  machine states as a finite linear order. Sample_Host: a concrete hypervisor for witnesses.
  Session_Protocol: the automaton, and the locale \<open>tidy_operation\<close> for operations that always
  clean up: any sequence of them keeps the discipline.

  Core_Power, Core_Disk, Core_Info, Core_Snapshot, Core_Clone, Core_Install, Core_Appliance
  (\<open>QiVCA\<close>) and Config_Base, Config_Network, Config_Machine, Config_Devices, Config_Display,
  Config_Screen (\<open>vcaVmConfigure\<close>): every operation of the two classes under its own name, each
  with a contract that says which requests a returning run made, in which order, with which
  arguments, and when it refuses. Config_Base also holds the locale \<open>honest_operation\<close>, for
  batches that stop at the first refusal. The operations on one interface are interpreted
  together: \<open>power\<close>, \<open>net\<close>, \<open>machine\<close>, \<open>device\<close>, \<open>rdp\<close>, \<open>screen_switch\<close>.
  Release_Accounts joins the power operations to Com_Ptr: from the \<open>Release\<close> calls in a trace it
  computes what the operation does to the count of the machine it found.

  Controller (vca_controller.cpp, qigrpc.proto, vca_enummethod.h): the messages as records, the
  method ids, the fourteen handlers on virtual machines and \<open>Test\<close>. Controller_Answers: the
  operations' contracts composed through the handlers; every request is \<open>served\<close>, and a
  client's batch of requests is an interpretation of \<open>honest_operation\<close>.

  Thread_Pool: workers, queue, lock and condition variable; order, wake-ups and shutdown, as
  interpretations of the locales of Transitions. The bound on the steps of the shutdown is
  \<open>pool_fuel\<close>, a sum over the queue and the workers. Service: the contexts by their tags, the
  event loop and the pool together; ownership and status of the contexts, one object of each
  type listening, calls accounted for, and the
  assertion that stops the service when an answer cannot be sent.

  Python_Hook, Monitor, File_Sharing: the bridge to Python, where a string knows whether it outlives
  the dictionary it came from, the eleven queries with the report, the six file-sharing calls with
  their handler; a query of fixed size reports exactly what its script gave. Server: all of it
  together, a request with each call of the service, and in each task the handler that the
  type it captured chooses, which is the one for its request; replies fit their requests, and requests that never end (an import of
  an appliance with a warning is one) stop the server when there are 17 of them. Progress: with
  fewer, and no vanished client, it comes to rest in boundedly many steps (\<open>service_fuel\<close>, a sum
  over the places a call can be in) with every other call answered. Event_Listener (vca_event.cpp):
  registration and the thread that waits for a running machine.

  \<^bold>\<open>Bounds.\<close> Where the code checks a range before it casts to an unsigned 32-bit value (CPU
  count, memory, video memory, frame sizes and rates, adapter and serial slots) the contract
  states that only numbers inside it reach the hypervisor. A code that the monitor prints into
  ten characters fits exactly when it is between -99999999 and 999999999; a dictionary with
  another is a crash of the model, where the program overruns its buffer.

  \<^bold>\<open>Not modelled.\<close> VirtualBox, its SDK and libvbox (vendored under src/lib; their interface is
  the environment, except for the string conversions, the exceptions and the smart pointers
  of libvbox, which the code relies on). The operations pass object names, not counted pointers: reference
  counts are computed from their traces (Release_Accounts), and an object that \<open>Release\<close> freed
  still answers in the traces themselves. Also left out are the gRPC runtime and
  the code generated from qigrpc.proto (the steps of \<open>service_step\<close> are what it may do); the
  Python interpreter and the scripts (the environment of the hooks); jsoncpp's serialisers (two
  functions of the environment). Output to the console is left out, but not the calls made to
  compute it. \<open>vca_main.cpp\<close> is commented out altogether; \<open>Global.h\<close>, \<open>vca_type.h\<close> and
  \<open>vca_intType.h\<close> hold comments and declarations that no operation uses; \<open>get_tid\<close> has no caller. The
  handlers that run at the same time meet in the hypervisor only: since an environment may
  change its state as it likes between two requests, what is proved of a handler holds of it
  beside others, but the interleaved requests of several handlers are not put into one trace,
  and that two threads may be inside the one Python interpreter is not modelled. The destructors that finalise Python are not reached
  before the process ends.
\<close>

end
